(* ===== verification/Prelude.thy ===== *)
theory Prelude
  imports Main "HOL-Library.Finite_Map" "HOL-Library.Word" "HOL-Library.Char_ord"
    "HOL-Library.List_Lexorder"
begin

text \<open>
  The shared vocabulary of the development: Go's value types as HOL types, Go maps with the
  difference between a nil map and an empty one, the ways a Go call can end (a value or a panic),
  and a small program logic (\<open>wp\<close>) over programs that pass a state explicitly.

  A program of type \<open>('s, 'a) prog\<close> takes a state and gives an outcome and the next state.  A Go
  \<open>error\<close> is an ordinary value of the model, as it is in Go; only a panic ends a program early.
\<close>

named_theorems wp_simps "weakest preconditions of the program combinators"
named_theorems go_defs "unfolding rules of small helper definitions"

section \<open>Go values\<close>

type_synonym int32 = "32 word"
type_synonym int64 = "64 word"

text \<open>An instant, in nanoseconds since 1 January of year 1 (UTC), Go's zero time.\<close>

type_synonym instant = int

definition time_IsZero :: "instant \<Rightarrow> bool" where
  "time_IsZero t \<longleftrightarrow> t = 0"

definition Second :: int where "Second = 1000000000"

definition Minute :: int where "Minute = 60 * Second"

text \<open>A payload that the program copies but never looks into (a volume, an affinity, a codec's
  value): only its identity matters.\<close>

datatype opaque = Opaque string

subsection \<open>Maps\<close>

text \<open>A Go map with string keys: \<open>None\<close> is the nil map, which reads like an empty map and panics
  when it is written to.\<close>

type_synonym 'v gomap = "(string, 'v) fmap option"

definition map_lookup :: "'v gomap \<Rightarrow> string \<Rightarrow> 'v option" where
  "map_lookup m k = (case m of None \<Rightarrow> None | Some f \<Rightarrow> fmlookup f k)"

text \<open>\<open>m[k]\<close> of a map of strings: the empty string where the key is missing.\<close>

definition map_index :: "string gomap \<Rightarrow> string \<Rightarrow> string" where
  "map_index m k = (case map_lookup m k of None \<Rightarrow> [] | Some v \<Rightarrow> v)"

definition make_map :: "'v gomap" where
  "make_map = Some fmempty"

lemma map_lookup_simps [simp]:
  "map_lookup None k = None"
  "map_lookup (Some f) k = fmlookup f k"
  by (simp_all add: map_lookup_def)

lemma map_lookup_make_map [simp]: "map_lookup make_map k = None"
  by (simp add: make_map_def)

lemma make_map_not_nil [simp]: "make_map \<noteq> None" "None \<noteq> make_map"
  by (simp_all add: make_map_def)

text \<open>Go visits a map in an unspecified order: any order that visits every key once.\<close>

definition map_order :: "(string gomap \<Rightarrow> string list) \<Rightarrow> bool" where
  "map_order order \<longleftrightarrow>
     (\<forall>m. distinct (order m) \<and> set (order m) = {k. map_lookup m k \<noteq> None})"

section \<open>Outcomes and programs\<close>

text \<open>The ways a program ends without a value: the panics of the runtime and of the libraries, and, for
  a loop that the code does not bound, that it has not finished with the fuel it was given.\<close>

datatype panic =
  NilDereference | NilMapWrite | SliceBounds | BadTypeAssertion | BadPattern | BadMetric
| FlagRedefined | MustError | Unfinished

datatype 'a outcome = Done 'a | Panicked panic

type_synonym ('s, 'a) prog = "'s \<Rightarrow> 'a outcome \<times> 's"

definition ret :: "'a \<Rightarrow> ('s, 'a) prog" where
  "ret a s = (Done a, s)"

definition panics :: "panic \<Rightarrow> ('s, 'a) prog" where
  "panics p s = (Panicked p, s)"

definition andthen :: "('s, 'a) prog \<Rightarrow> ('a \<Rightarrow> ('s, 'b) prog) \<Rightarrow> ('s, 'b) prog" where
  "andthen m f s = (case m s of (Done a, s') \<Rightarrow> f a s' | (Panicked p, s') \<Rightarrow> (Panicked p, s'))"

text \<open>\<open>defer\<close>: the deferred program runs however the body ends, and sees the body's value when
  there is one.  A panic of the body goes on after it.\<close>

definition deferred :: "('s, 'a) prog \<Rightarrow> ('s, 'b) prog \<Rightarrow> ('a \<Rightarrow> 'b \<Rightarrow> 'c) \<Rightarrow> ('s, 'c) prog" where
  "deferred body d f s = (case body s of (r, s') \<Rightarrow>
     (case d s' of
        (Panicked p, s'') \<Rightarrow> (Panicked p, s'')
      | (Done b, s'') \<Rightarrow> (case r of Done a \<Rightarrow> (Done (f a b), s'') | Panicked p \<Rightarrow> (Panicked p, s''))))"

text \<open>A \<open>for\<close> loop over a slice that carries local variables.\<close>

fun for_each :: "'b list \<Rightarrow> ('b \<Rightarrow> 'a \<Rightarrow> ('s, 'a) prog) \<Rightarrow> 'a \<Rightarrow> ('s, 'a) prog" where
  "for_each [] body a = ret a"
| "for_each (x # xs) body a = andthen (body x a) (for_each xs body)"

definition map_store :: "'v gomap \<Rightarrow> string \<Rightarrow> 'v \<Rightarrow> ('s, 'v gomap) prog" where
  "map_store m k v = (case m of None \<Rightarrow> panics NilMapWrite | Some f \<Rightarrow> ret (Some (fmupd k v f)))"

subsection \<open>Weakest preconditions\<close>

definition wp :: "('s, 'a) prog \<Rightarrow> ('a outcome \<Rightarrow> 's \<Rightarrow> bool) \<Rightarrow> 's \<Rightarrow> bool" where
  "wp m Q s = (case m s of (r, s') \<Rightarrow> Q r s')"

lemma wp_eq: "m s = (r, s') \<Longrightarrow> wp m Q s = Q r s'"
  by (simp add: wp_def)

lemma wpD: "wp m Q s \<Longrightarrow> m s = (r, s') \<Longrightarrow> Q r s'"
  by (simp add: wp_def)

lemma wpI: "(\<And>r s'. m s = (r, s') \<Longrightarrow> Q r s') \<Longrightarrow> wp m Q s"
  by (simp add: wp_def split: prod.split)

lemma wp_mono: "wp m Q s \<Longrightarrow> (\<And>r s'. Q r s' \<Longrightarrow> Q' r s') \<Longrightarrow> wp m Q' s"
  by (simp add: wp_def split: prod.splits)

lemma wp_conj: "wp m Q s \<Longrightarrow> wp m Q' s \<Longrightarrow> wp m (\<lambda>r s'. Q r s' \<and> Q' r s') s"
  by (simp add: wp_def split: prod.splits)

lemma wp_ret [wp_simps]: "wp (ret a) Q s = Q (Done a) s"
  by (simp add: wp_def ret_def)

lemma wp_panics [wp_simps]: "wp (panics p) Q s = Q (Panicked p) s"
  by (simp add: wp_def panics_def)

lemma wp_andthen [wp_simps]:
  "wp (andthen m f) Q s =
     wp m (\<lambda>r s'. case r of Done a \<Rightarrow> wp (f a) Q s' | Panicked p \<Rightarrow> Q (Panicked p) s') s"
  by (simp add: wp_def andthen_def split: prod.splits outcome.splits)

lemma wp_deferred [wp_simps]:
  "wp (deferred body d f) Q s =
     wp body (\<lambda>r s'. wp d (\<lambda>r' s''. case r' of Panicked p \<Rightarrow> Q (Panicked p) s''
        | Done b \<Rightarrow> (case r of Done a \<Rightarrow> Q (Done (f a b)) s'' | Panicked p \<Rightarrow> Q (Panicked p) s'')) s') s"
  by (simp add: wp_def deferred_def split: prod.splits outcome.splits)

lemma wp_map_store [wp_simps]:
  "wp (map_store m k v) Q s =
     (case m of None \<Rightarrow> Q (Panicked NilMapWrite) s | Some f \<Rightarrow> Q (Done (Some (fmupd k v f))) s)"
  by (simp add: map_store_def wp_simps split: option.split)

text \<open>The rule for loops: an invariant over the elements already seen and the local variables.\<close>

lemma wp_for_each:
  assumes step: "\<And>xs x ys a s. bs = xs @ x # ys \<Longrightarrow> I xs a s \<Longrightarrow>
      wp (body x a) (\<lambda>r s'. case r of Done a' \<Rightarrow> I (xs @ [x]) a' s' | Panicked p \<Rightarrow> Q (Panicked p) s') s"
    and init: "I [] a s"
    and fin: "\<And>a s. I bs a s \<Longrightarrow> Q (Done a) s"
  shows "wp (for_each bs body a) Q s"
proof -
  have "I xs a s \<Longrightarrow> bs = xs @ ys \<Longrightarrow> wp (for_each ys body a) Q s" for xs ys a s
  proof (induction ys arbitrary: xs a s)
    case Nil
    then show ?case by (simp add: wp_simps fin)
  next
    case (Cons y ys)
    have "wp (body y a) (\<lambda>r s'. case r of Done a' \<Rightarrow> I (xs @ [y]) a' s'
            | Panicked p \<Rightarrow> Q (Panicked p) s') s"
      using step [OF Cons.prems(2) Cons.prems(1)] .
    then show ?case
      by (auto simp: wp_simps elim!: wp_mono split: outcome.splits intro!: Cons.IH Cons.prems)
  qed
  then show ?thesis using init by simp
qed

text \<open>Running the combinators on a given state.\<close>

lemma run_ret [simp]: "ret a s = (Done a, s)"
  by (simp add: ret_def)

lemma run_panics [simp]: "panics p s = (Panicked p, s)"
  by (simp add: panics_def)

lemma run_andthen:
  "andthen m f s = (case m s of (Done a, s') \<Rightarrow> f a s' | (Panicked p, s') \<Rightarrow> (Panicked p, s'))"
  by (simp add: andthen_def)

lemma run_andthen_Done: "m s = (Done a, s') \<Longrightarrow> andthen m f s = f a s'"
  by (simp add: andthen_def)

lemma run_map_store [simp]:
  "map_store None k v s = (Panicked NilMapWrite, s)"
  "map_store (Some f) k v s = (Done (Some (fmupd k v f)), s)"
  by (simp_all add: map_store_def)

end
