(* ===== verification/Api_Types.thy ===== *)
theory Api_Types
  imports Prelude
begin

text \<open>
  The data of the program: the API types of \<open>api/v1alpha2\<close> (the hub version), the well known
  labels and annotations, and the fields the program uses of the Kubernetes types around them
  (object metadata, pods, secrets, controller revisions, events).  A struct is a record, a pointer
  an \<open>option\<close>, a slice a list, a Go map a \<open>gomap\<close>, an \<open>int32\<close> or \<open>int64\<close> a word of that
  width.  A struct that is copied and never inspected is an \<open>opaque\<close> value.
\<close>

section \<open>Object metadata\<close>

record type_meta =
  APIVersion :: string
  Kind :: string

record owner_reference =
  OwnerKind :: string
  OwnerName :: string
  OwnerUID :: string
  OwnerController :: bool

record object_meta =
  Name :: string
  GenerateName :: string
  Namespace :: string
  UID :: string
  ResourceVersion :: string
  CreationTimestamp :: instant
  DeletionTimestamp :: "instant option"
  Labels :: "string gomap"
  Annotations :: "string gomap"
  OwnerReferences :: "owner_reference list"
  Finalizers :: "string list"

text \<open>\<open>metav1.Time.IsZero\<close> on the pointer that \<open>GetDeletionTimestamp\<close> returns.\<close>

definition GetDeletionTimestamp_IsZero :: "object_meta \<Rightarrow> bool" where
  "GetDeletionTimestamp_IsZero m \<longleftrightarrow>
     (case DeletionTimestamp m of None \<Rightarrow> True | Some t \<Rightarrow> time_IsZero t)"

definition empty_meta :: object_meta where
  "empty_meta = \<lparr>Name = [], GenerateName = [], Namespace = [], UID = [], ResourceVersion = [],
     CreationTimestamp = 0, DeletionTimestamp = None, Labels = None, Annotations = None,
     OwnerReferences = [], Finalizers = []\<rparr>"

text \<open>\<open>metav1.Condition\<close>.\<close>

record condition =
  Cond_Type :: string
  Cond_Status :: string
  Cond_Reason :: string
  Cond_Message :: string
  Cond_LastTransitionTime :: instant

definition ConditionTrue :: string where "ConditionTrue = ''True''"
definition ConditionFalse :: string where "ConditionFalse = ''False''"
definition ConditionUnknown :: string where "ConditionUnknown = ''Unknown''"

section \<open>Runner\<close>

definition RunnerConditionOnline :: string where
  "RunnerConditionOnline = ''runner.octorun.github.io/Online''"

definition RunnerEvictionNever :: string where "RunnerEvictionNever = ''Never''"
definition RunnerEvictionIfNotActive :: string where
  "RunnerEvictionIfNotActive = ''IfNotActive''"

definition RunnerBusyReason :: string where "RunnerBusyReason = ''RunnerBusy''"
definition RunnerOnlineReason :: string where "RunnerOnlineReason = ''RunnerOnline''"
definition RunnerOfflineReason :: string where "RunnerOfflineReason = ''RunnerOffline''"
definition RunnerPodPendingReason :: string where "RunnerPodPendingReason = ''RunnerPodPending''"
definition RunnerPodSucceededReason :: string where
  "RunnerPodSucceededReason = ''RunnerPodSucceeded''"
definition RunnerSecretFailedReason :: string where
  "RunnerSecretFailedReason = ''RunnerSecretFailed''"

text \<open>\<open>RunnerPhase\<close> is a Go string type: the four valid phases are constants, and a new runner has
  the empty string.\<close>

type_synonym runner_phase = string

definition RunnerPendingPhase :: runner_phase where "RunnerPendingPhase = ''Pending''"
definition RunnerIdlePhase :: runner_phase where "RunnerIdlePhase = ''Idle''"
definition RunnerActivePhase :: runner_phase where "RunnerActivePhase = ''Active''"
definition RunnerCompletePhase :: runner_phase where "RunnerCompletePhase = ''Complete''"

lemmas phase_defs =
  RunnerPendingPhase_def RunnerIdlePhase_def RunnerActivePhase_def RunnerCompletePhase_def

lemma phases_distinct [simp]:
  "RunnerPendingPhase \<noteq> RunnerIdlePhase" "RunnerPendingPhase \<noteq> RunnerActivePhase"
  "RunnerPendingPhase \<noteq> RunnerCompletePhase" "RunnerIdlePhase \<noteq> RunnerPendingPhase"
  "RunnerIdlePhase \<noteq> RunnerActivePhase" "RunnerIdlePhase \<noteq> RunnerCompletePhase"
  "RunnerActivePhase \<noteq> RunnerPendingPhase" "RunnerActivePhase \<noteq> RunnerIdlePhase"
  "RunnerActivePhase \<noteq> RunnerCompletePhase" "RunnerCompletePhase \<noteq> RunnerPendingPhase"
  "RunnerCompletePhase \<noteq> RunnerIdlePhase" "RunnerCompletePhase \<noteq> RunnerActivePhase"
  by (simp_all add: phase_defs)

record runner_image =
  ImageName :: string
  PullPolicy :: string
  PullSecrets :: "opaque list"

record runner_placement =
  NodeSelector :: "string gomap"
  Tolerations :: "opaque list"
  Affinity :: "opaque option"

text \<open>A volume and a volume mount: the ones the controller adds, and any other.\<close>

datatype volume = SecretVolume string string | OtherVolume opaque

datatype volume_mount = Mount string bool string | OtherMount opaque

record runner_spec =
  URL :: string
  ID :: "int64 option"
  OS :: string
  Group :: string
  Workdir :: string
  Image :: runner_image
  EvictionPolicy :: string
  Placement :: runner_placement
  Resources :: opaque
  ServiceAccountName :: string
  SecurityContext :: "opaque option"
  RuntimeClassName :: "string option"
  Volumes :: "volume list"
  VolumeMounts :: "volume_mount list"

record runner_status =
  Phase :: runner_phase
  Conditions :: "condition list"

record runner =
  R_Type :: type_meta
  R_Meta :: object_meta
  R_Spec :: runner_spec
  R_Status :: runner_status

record runner_template_spec =
  T_Meta :: object_meta
  T_Spec :: runner_spec

section \<open>RunnerSet\<close>

definition RunnerAdoptedReason :: string where "RunnerAdoptedReason = ''RunnerAdopted''"
definition RunnerCreatedReason :: string where "RunnerCreatedReason = ''RunnerCreated''"
definition RunnerDeletedReason :: string where "RunnerDeletedReason = ''RunnerDeleted''"

definition RollingUpdateRunnerSetStrategyType :: string where
  "RollingUpdateRunnerSetStrategyType = ''RollingUpdate''"
definition OnDeleteRunnerSetStrategyType :: string where
  "OnDeleteRunnerSetStrategyType = ''OnDelete''"

record runnerset_update_strategy =
  StrategyType :: string

text \<open>\<open>metav1.LabelSelector\<close>: equality based requirements, and set based ones.\<close>

record label_selector_requirement =
  Req_Key :: string
  Req_Operator :: string
  Req_Values :: "string list"

record label_selector =
  MatchLabels :: "string gomap"
  MatchExpressions :: "label_selector_requirement list"

record runnerset_spec =
  Runners :: "int32 option"
  Selector :: label_selector
  UpdateStrategy :: runnerset_update_strategy
  RevisionHistoryLimit :: "int32 option"
  Template :: runner_template_spec

record runnerset_status =
  StatusRunners :: int32
  IdleRunners :: int32
  ActiveRunners :: int32
  CurrentRevision :: string
  NextRevision :: string
  CollisionCount :: "int32 option"
  S_Conditions :: "condition list"
  StatusSelector :: string

record runnerset =
  S_Type :: type_meta
  S_Meta :: object_meta
  S_Spec :: runnerset_spec
  S_Status :: runnerset_status

section \<open>Well known labels and annotations\<close>

definition LabelPrefix :: string where "LabelPrefix = ''octorun.github.io/''"
definition LabelRunnerName :: string where "LabelRunnerName = LabelPrefix @ ''runner''"
definition LabelRunnerSetName :: string where "LabelRunnerSetName = LabelPrefix @ ''runnerset''"
definition LabelControllerRevisionHash :: string where
  "LabelControllerRevisionHash = LabelPrefix @ ''revision-hash''"

definition AnnotationRunnerAssignedJobAt :: string where
  "AnnotationRunnerAssignedJobAt = ''runner.octorun.github.io/assigned-job-at''"
definition AnnotationRunnerTokenExpiresAt :: string where
  "AnnotationRunnerTokenExpiresAt = ''runner.octorun.github.io/token-expires-at''"

section \<open>The Kubernetes objects around them\<close>

record pod_condition =
  PodCond_Type :: string
  PodCond_Status :: string

record pod_status =
  PodPhase :: string
  PodConditions :: "pod_condition list"

datatype env_var = EnvValue string string | EnvFieldRef string string

record exec_probe =
  ProbeCommand :: "string list"
  InitialDelaySeconds :: int32
  PeriodSeconds :: int32
  FailureThreshold :: int32

record container =
  ContainerName :: string
  ContainerImage :: string
  ImagePullPolicy :: string
  Env :: "env_var list"
  StartupProbe :: exec_probe
  ContainerVolumeMounts :: "volume_mount list"
  ContainerResources :: opaque
  ContainerSecurityContext :: "opaque option"

record pod_security_context =
  RunAsUser :: int64
  RunAsGroup :: int64
  RunAsNonRoot :: bool

record pod_spec =
  RestartPolicy :: string
  ImagePullSecrets :: "opaque list"
  Containers :: "container list"
  PodVolumes :: "volume list"
  PodServiceAccountName :: string
  PodSecurityContext :: pod_security_context
  PodNodeSelector :: "string gomap"
  PodAffinity :: "opaque option"
  PodTolerations :: "opaque list"
  PodRuntimeClassName :: "string option"

record pod =
  P_Meta :: object_meta
  P_Spec :: pod_spec
  P_Status :: pod_status

record secret =
  Sec_Meta :: object_meta
  Data :: "string gomap"
  Immutable :: "bool option"

text \<open>\<open>appsv1.ControllerRevision\<close>: its data is raw bytes or an object.\<close>

record controller_revision =
  CR_Meta :: object_meta
  Raw :: string
  DataObject :: "opaque option"
  Revision :: int64

section \<open>Keys, object kinds and errors\<close>

record object_key =
  Key_Namespace :: string
  Key_Name :: string

definition ObjectKeyFromObject :: "object_meta \<Rightarrow> object_key" where
  "ObjectKeyFromObject m = \<lparr>Key_Namespace = Namespace m, Key_Name = Name m\<rparr>"

datatype kind = KRunner | KRunnerSet | KPod | KSecret | KRevision

datatype kobject =
  ORunner runner
| ORunnerSet runnerset
| OPod pod
| OSecret secret
| ORevision controller_revision

text \<open>The error values that reach the program: a GitHub API error response (with its HTTP response,
  a pointer that may be nil), a GitHub rate limit error, an error of \<open>strconv\<close>, an error the program
  makes itself, and any other error of a library.\<close>

record http_response =
  StatusCode :: int

datatype go_error =
  GhErrorResponse "http_response option"
| GhRateLimitError
| NumError string
| ErrorString string
| LibError string

text \<open>\<open>ctrl.Result\<close>.\<close>

record result =
  Requeue :: bool
  RequeueAfter :: instant

definition no_requeue :: result where
  "no_requeue = \<lparr>Requeue = False, RequeueAfter = 0\<rparr>"

end
