(* ===== verification/Cluster.thy ===== *)
theory Cluster
  imports Api_Types
begin

text \<open>
  The outside of the program and how the program reaches it.  The API server behind
  controller-runtime's client, the GitHub API, the remote executor and the pure helpers of the
  Kubernetes libraries are code that is not part of this repository: they are parameters, collected
  in the records below, over an arbitrary type \<open>'w\<close> of states of the world.

  A handler runs on a \<open>('w, 'v) st\<close>: the world, the trace of the calls it has issued so far, and the
  object it works on, which Go handlers mutate through a pointer and which their deferred functions
  see.  Every call to the outside goes through \<open>ext\<close>, which records it in the trace.
\<close>

section \<open>Calls and handler state\<close>

text \<open>The ways a list request selects objects.\<close>

datatype list_selection =
  InNamespaceMatchingLabels string "string gomap"
| InNamespaceMatchingSelector string opaque
| MatchingFields string string
| Everything

datatype call =
  GetC kind object_key
| ListC kind list_selection
| CreateC kobject
| UpdateC kobject
| PatchC kobject kobject
| StatusPatchC kobject kobject
| DeleteC kobject
| FetchC kobject
| CommitC kobject kobject
| EventC object_key string string
| GetRunnerC string int64
| CreateRunnerTokenC string
| ExecC object_key string "string list"

record ('w, 'v) st =
  world :: 'w
  trace :: "call list"
  var :: 'v

definition start :: "'w \<Rightarrow> 'v \<Rightarrow> ('w, 'v) st" where
  "start w v = \<lparr>world = w, trace = [], var = v\<rparr>"

definition ext :: "call \<Rightarrow> ('w \<Rightarrow> 'r \<times> 'w) \<Rightarrow> (('w, 'v) st, 'r) prog" where
  "ext c f s = (case f (world s) of (r, w') \<Rightarrow>
     (Done r, s\<lparr>world := w', trace := trace s @ [c]\<rparr>))"

text \<open>Reading the outside without a call: the clock.\<close>

definition quiet :: "('w \<Rightarrow> 'r \<times> 'w) \<Rightarrow> (('w, 'v) st, 'r) prog" where
  "quiet f s = (case f (world s) of (r, w') \<Rightarrow> (Done r, s\<lparr>world := w'\<rparr>))"

text \<open>The event recorder: fire and forget.\<close>

definition event :: "object_meta \<Rightarrow> string \<Rightarrow> string \<Rightarrow> (('w, 'v) st, unit) prog" where
  "event m etype reason s =
     (Done (), s\<lparr>trace := trace s @ [EventC (ObjectKeyFromObject m) etype reason]\<rparr>)"

definition read_var :: "(('w, 'v) st, 'v) prog" where
  "read_var s = (Done (var s), s)"

definition write_var :: "'v \<Rightarrow> (('w, 'v) st, unit) prog" where
  "write_var v s = (Done (), s\<lparr>var := v\<rparr>)"

definition modify_var :: "('v \<Rightarrow> 'v) \<Rightarrow> (('w, 'v) st, unit) prog" where
  "modify_var f s = (Done (), s\<lparr>var := f (var s)\<rparr>)"

lemma wp_ext [wp_simps]:
  "wp (ext c f) Q s =
     (case f (world s) of (r, w') \<Rightarrow> Q (Done r) (s\<lparr>world := w', trace := trace s @ [c]\<rparr>))"
  by (simp add: wp_def ext_def split: prod.split)

text \<open>Whatever the outside answers: the rule for properties that hold in every environment.\<close>

lemma wp_ext_any:
  "(\<And>r w'. f (world s) = (r, w') \<Longrightarrow> Q (Done r) (s\<lparr>world := w', trace := trace s @ [c]\<rparr>)) \<Longrightarrow>
     wp (ext c f) Q s"
  by (simp add: wp_ext split: prod.split)

lemma wp_quiet [wp_simps]:
  "wp (quiet f) Q s = (case f (world s) of (r, w') \<Rightarrow> Q (Done r) (s\<lparr>world := w'\<rparr>))"
  by (simp add: wp_def quiet_def split: prod.split)

lemma wp_event [wp_simps]:
  "wp (event m t r) Q s = Q (Done ()) (s\<lparr>trace := trace s @ [EventC (ObjectKeyFromObject m) t r]\<rparr>)"
  by (simp add: wp_def event_def)

lemma wp_read_var [wp_simps]: "wp read_var Q s = Q (Done (var s)) s"
  by (simp add: wp_def read_var_def)

lemma wp_write_var [wp_simps]: "wp (write_var v) Q s = Q (Done ()) (s\<lparr>var := v\<rparr>)"
  by (simp add: wp_def write_var_def)

lemma wp_modify_var [wp_simps]: "wp (modify_var f) Q s = Q (Done ()) (s\<lparr>var := f (var s)\<rparr>)"
  by (simp add: wp_def modify_var_def)

section \<open>The client of the API server\<close>

text \<open>
  controller-runtime's client, one record of operations per kind of object.  \<open>Create\<close>, \<open>Update\<close>,
  \<open>Patch\<close> and \<open>Status().Patch\<close> write the server's answer into the object they are given, so they
  return it next to the error; a patch is a merge patch from a base object.  \<open>ctrl.CreateOrUpdate\<close>
  is the two halves around the callback it is given: reading the object (or finding that there is
  none) and writing what the callback made of it.
\<close>

record ('w, 'o) resource =
  Get :: "object_key \<Rightarrow> 'w \<Rightarrow> (go_error + 'o) \<times> 'w"
  ListAll :: "list_selection \<Rightarrow> 'w \<Rightarrow> (go_error + 'o list) \<times> 'w"
  Create :: "'o \<Rightarrow> 'w \<Rightarrow> (go_error option \<times> 'o) \<times> 'w"
  Update :: "'o \<Rightarrow> 'w \<Rightarrow> (go_error option \<times> 'o) \<times> 'w"
  Patch :: "'o \<Rightarrow> 'o \<Rightarrow> 'w \<Rightarrow> (go_error option \<times> 'o) \<times> 'w"
  StatusPatch :: "'o \<Rightarrow> 'o \<Rightarrow> 'w \<Rightarrow> (go_error option \<times> 'o) \<times> 'w"
  Delete :: "'o \<Rightarrow> 'w \<Rightarrow> go_error option \<times> 'w"
  Fetch :: "'o \<Rightarrow> 'w \<Rightarrow> (go_error + 'o) \<times> 'w"
  Commit :: "'o \<Rightarrow> 'o \<Rightarrow> 'w \<Rightarrow> (go_error option \<times> 'o) \<times> 'w"

definition client_Get :: "kind \<Rightarrow> ('w, 'o) resource \<Rightarrow> object_key \<Rightarrow>
    (('w, 'v) st, go_error + 'o) prog" where
  "client_Get k c key = ext (GetC k key) (Get c key)"

definition client_List :: "kind \<Rightarrow> ('w, 'o) resource \<Rightarrow> list_selection \<Rightarrow>
    (('w, 'v) st, go_error + 'o list) prog" where
  "client_List k c sel = ext (ListC k sel) (ListAll c sel)"

definition client_Create :: "('o \<Rightarrow> kobject) \<Rightarrow> ('w, 'o) resource \<Rightarrow> 'o \<Rightarrow>
    (('w, 'v) st, go_error option \<times> 'o) prog" where
  "client_Create k c obj = ext (CreateC (k obj)) (Create c obj)"

definition client_Update :: "('o \<Rightarrow> kobject) \<Rightarrow> ('w, 'o) resource \<Rightarrow> 'o \<Rightarrow>
    (('w, 'v) st, go_error option \<times> 'o) prog" where
  "client_Update k c obj = ext (UpdateC (k obj)) (Update c obj)"

definition client_Patch :: "('o \<Rightarrow> kobject) \<Rightarrow> ('w, 'o) resource \<Rightarrow> 'o \<Rightarrow> 'o \<Rightarrow>
    (('w, 'v) st, go_error option \<times> 'o) prog" where
  "client_Patch k c base obj = ext (PatchC (k base) (k obj)) (Patch c base obj)"

definition client_StatusPatch :: "('o \<Rightarrow> kobject) \<Rightarrow> ('w, 'o) resource \<Rightarrow> 'o \<Rightarrow> 'o \<Rightarrow>
    (('w, 'v) st, go_error option \<times> 'o) prog" where
  "client_StatusPatch k c base obj = ext (StatusPatchC (k base) (k obj)) (StatusPatch c base obj)"

definition client_Delete :: "('o \<Rightarrow> kobject) \<Rightarrow> ('w, 'o) resource \<Rightarrow> 'o \<Rightarrow>
    (('w, 'v) st, go_error option) prog" where
  "client_Delete k c obj = ext (DeleteC (k obj)) (Delete c obj)"

text \<open>\<open>ctrl.CreateOrUpdate\<close>: the callback runs once on the object that was read; its error ends the
  call and is returned as it is.\<close>

definition CreateOrUpdate :: "('o \<Rightarrow> kobject) \<Rightarrow> ('w, 'o) resource \<Rightarrow> 'o \<Rightarrow>
    ('o \<Rightarrow> (('w, 'v) st, go_error option \<times> 'o) prog) \<Rightarrow>
    (('w, 'v) st, go_error option \<times> 'o) prog" where
  "CreateOrUpdate k c obj mutate =
     andthen (ext (FetchC (k obj)) (Fetch c obj)) (\<lambda>fetched. case fetched of
       Inl e \<Rightarrow> ret (Some e, obj)
     | Inr existing \<Rightarrow> andthen (mutate existing) (\<lambda>(err, obj'). case err of
         Some e \<Rightarrow> ret (Some e, obj')
       | None \<Rightarrow> ext (CommitC (k existing) (k obj')) (Commit c existing obj')))"

lemmas client_defs =
  client_Get_def client_List_def client_Create_def client_Update_def client_Patch_def
  client_StatusPatch_def client_Delete_def

record 'w cluster =
  RunnersOf :: "('w, runner) resource"
  RunnerSetsOf :: "('w, runnerset) resource"
  PodsOf :: "('w, pod) resource"
  SecretsOf :: "('w, secret) resource"
  RevisionsOf :: "('w, controller_revision) resource"

section \<open>The libraries\<close>

text \<open>
  The functions of the Kubernetes libraries that the program calls, named by their package.
  \<open>meta_SetStatusCondition\<close> and \<open>time_Now\<close> read the clock, the others compute.
\<close>

record 'w library =
  time_Now :: "'w \<Rightarrow> instant \<times> 'w"
  meta_SetStatusCondition :: "condition list \<Rightarrow> condition \<Rightarrow> 'w \<Rightarrow> condition list \<times> 'w"
  apierrors_IsNotFound :: "go_error \<Rightarrow> bool"
  apierrors_IsAlreadyExists :: "go_error \<Rightarrow> bool"
  client_IgnoreNotFound :: "go_error option \<Rightarrow> go_error option"
  kerrors_NewAggregate :: "go_error list \<Rightarrow> go_error option"
  ctrl_SetControllerReference :: "object_meta \<Rightarrow> object_meta \<Rightarrow> go_error + object_meta"
  metav1_GetControllerOf :: "object_meta \<Rightarrow> owner_reference option"
  metav1_IsControlledBy :: "object_meta \<Rightarrow> object_meta \<Rightarrow> bool"
  metav1_NewControllerRef :: "object_meta \<Rightarrow> string \<Rightarrow> owner_reference"
  controllerutil_AddFinalizer :: "object_meta \<Rightarrow> string \<Rightarrow> object_meta"
  controllerutil_RemoveFinalizer :: "object_meta \<Rightarrow> string \<Rightarrow> object_meta"
  metav1_LabelSelectorAsSelector :: "label_selector \<Rightarrow> go_error + opaque"
  metav1_LabelSelectorAsMap :: "label_selector \<Rightarrow> go_error + string gomap"
  selector_String :: "opaque \<Rightarrow> string"
  selector_Matches :: "opaque \<Rightarrow> string gomap \<Rightarrow> bool"
  rand_SafeEncodeString :: "string \<Rightarrow> string"
  spew_Fprintf :: "opaque \<Rightarrow> string"

text \<open>Documented behaviour of the error helpers, stated where a property relies on it.\<close>

definition ignores_not_found :: "'w library \<Rightarrow> bool" where
  "ignores_not_found L \<longleftrightarrow> client_IgnoreNotFound L None = None \<and>
     (\<forall>e. client_IgnoreNotFound L (Some e) = (if apierrors_IsNotFound L e then None else Some e))"

definition aggregates :: "'w library \<Rightarrow> bool" where
  "aggregates L \<longleftrightarrow> (\<forall>es. kerrors_NewAggregate L es = None \<longleftrightarrow> es = [])"

section \<open>What a handler may call\<close>

text \<open>Every call of a program satisfies \<open>P\<close>, whatever the outside answers.\<close>

definition issues :: "(call \<Rightarrow> bool) \<Rightarrow> (('w, 'v) st, 'a) prog \<Rightarrow> bool" where
  "issues P m \<longleftrightarrow> (\<forall>s. wp m (\<lambda>r s'. \<exists>cs. trace s' = trace s @ cs \<and> (\<forall>c\<in>set cs. P c)) s)"

named_theorems issues_intros "the calls of a program, by its structure"

lemma issuesI:
  "(\<And>s. wp m (\<lambda>r s'. \<exists>cs. trace s' = trace s @ cs \<and> (\<forall>c\<in>set cs. P c)) s) \<Longrightarrow> issues P m"
  by (simp add: issues_def)

lemma issuesD:
  assumes "issues P m" and "m s = (r, s')"
  obtains cs where "trace s' = trace s @ cs" and "\<forall>c\<in>set cs. P c"
proof -
  from assms(1) have "wp m (\<lambda>r s'. \<exists>cs. trace s' = trace s @ cs \<and> (\<forall>c\<in>set cs. P c)) s"
    by (simp add: issues_def)
  from wpD [OF this assms(2)] that show thesis by blast
qed

lemma issues_start:
  assumes "issues P m" and "m (start w v) = (r, s')" and "c \<in> set (trace s')"
  shows "P c"
  using assms by (auto simp: start_def elim!: issuesD)

lemma issues_mono: "issues P m \<Longrightarrow> (\<And>c. P c \<Longrightarrow> Q c) \<Longrightarrow> issues Q m"
  unfolding issues_def by (blast intro: wp_mono)

lemma issues_ret [issues_intros]: "issues P (ret a)"
  by (simp add: issues_def wp_simps)

lemma issues_panics [issues_intros]: "issues P (panics p)"
  by (simp add: issues_def wp_simps)

lemma issues_ext: "P c \<Longrightarrow> issues P (ext c f)"
  by (simp add: issues_def wp_simps split: prod.split)

lemma issues_quiet [issues_intros]: "issues P (quiet f)"
  by (simp add: issues_def wp_simps split: prod.split)

lemma issues_event: "P (EventC (ObjectKeyFromObject m) t r) \<Longrightarrow> issues P (event m t r)"
  by (simp add: issues_def wp_simps)

lemma issues_var [issues_intros]:
  "issues P read_var" "issues P (write_var v)" "issues P (modify_var f)"
  by (simp_all add: issues_def wp_simps)

lemma issues_map_store [issues_intros]: "issues P (map_store m k v)"
  by (simp add: issues_def wp_simps split: option.split)

lemma issues_andthen [issues_intros]:
  fixes m :: "(('w, 'v) st, 'a) prog"
  assumes m: "issues P m" and f: "\<And>a. issues P (f a)"
  shows "issues P (andthen m f)"
proof (rule issuesI)
  fix s :: "('w, 'v) st"
  have "wp m (\<lambda>r s'. \<exists>cs. trace s' = trace s @ cs \<and> (\<forall>c\<in>set cs. P c)) s"
    using m by (simp add: issues_def)
  then show "wp (andthen m f) (\<lambda>r s'. \<exists>cs. trace s' = trace s @ cs \<and> (\<forall>c\<in>set cs. P c)) s"
    unfolding wp_andthen
  proof (rule wp_mono)
    fix r and s' :: "('w, 'v) st"
    assume s': "\<exists>cs. trace s' = trace s @ cs \<and> (\<forall>c\<in>set cs. P c)"
    show "case r of
        Done a \<Rightarrow> wp (f a) (\<lambda>r s'. \<exists>cs. trace s' = trace s @ cs \<and> (\<forall>c\<in>set cs. P c)) s'
      | Panicked p \<Rightarrow> \<exists>cs. trace s' = trace s @ cs \<and> (\<forall>c\<in>set cs. P c)"
    proof (cases r)
      case (Done a)
      have "wp (f a) (\<lambda>r s''. \<exists>cs. trace s'' = trace s' @ cs \<and> (\<forall>c\<in>set cs. P c)) s'"
        using f by (simp add: issues_def)
      then have "wp (f a) (\<lambda>r s''. \<exists>cs. trace s'' = trace s @ cs \<and> (\<forall>c\<in>set cs. P c)) s'"
        by (rule wp_mono) (use s' in \<open>force simp: ball_Un\<close>)
      with Done show ?thesis by simp
    next
      case (Panicked p)
      with s' show ?thesis by simp
    qed
  qed
qed

lemma issues_deferred [issues_intros]:
  assumes "issues P m" and "issues P d"
  shows "issues P (deferred m d f)"
proof (rule issuesI)
  fix s
  show "wp (deferred m d f) (\<lambda>r s'. \<exists>cs. trace s' = trace s @ cs \<and> (\<forall>c\<in>set cs. P c)) s"
  proof (rule wpI)
    fix r s'
    assume run: "deferred m d f s = (r, s')"
    obtain r1 s1 where m: "m s = (r1, s1)" by (cases "m s")
    obtain r2 s2 where d: "d s1 = (r2, s2)" by (cases "d s1")
    have "s' = s2" using run m d by (auto simp: deferred_def split: outcome.splits)
    then show "\<exists>cs. trace s' = trace s @ cs \<and> (\<forall>c\<in>set cs. P c)"
      using issuesD [OF assms(1) m] issuesD [OF assms(2) d]
      by (metis Un_iff append.assoc set_append)
  qed
qed

lemma issues_for_each [issues_intros]:
  "(\<And>x a. x \<in> set xs \<Longrightarrow> issues P (body x a)) \<Longrightarrow> issues P (for_each xs body a)"
  by (induction xs arbitrary: a) (auto intro: issues_intros)

lemma issues_CreateOrUpdate:
  assumes "P (FetchC (k obj))" and "\<And>o'. issues P (mutate o')"
    and "\<And>o1 o2. P (CommitC (k o1) (k o2))"
  shows "issues P (CreateOrUpdate k c obj mutate)"
  unfolding CreateOrUpdate_def
  by (rule issues_andthen)
    (use assms in \<open>auto intro!: issues_intros issues_ext split: sum.splits option.splits\<close>)

lemma issues_client:
  "P (GetC kd key) \<Longrightarrow> issues P (client_Get kd c key)"
  "P (ListC kd sel) \<Longrightarrow> issues P (client_List kd c sel)"
  "P (CreateC (k obj)) \<Longrightarrow> issues P (client_Create k c obj)"
  "P (UpdateC (k obj)) \<Longrightarrow> issues P (client_Update k c obj)"
  "P (PatchC (k base) (k obj)) \<Longrightarrow> issues P (client_Patch k c base obj)"
  "P (StatusPatchC (k base) (k obj)) \<Longrightarrow> issues P (client_StatusPatch k c base obj)"
  "P (DeleteC (k obj)) \<Longrightarrow> issues P (client_Delete k c obj)"
  by (simp_all add: client_defs issues_ext)

section \<open>What a handler leaves of its object\<close>

text \<open>A part \<open>f\<close> of the handler's object that a program does not change.\<close>

definition keeps :: "('v \<Rightarrow> 'b) \<Rightarrow> (('w, 'v) st, 'a) prog \<Rightarrow> bool" where
  "keeps f m \<longleftrightarrow> (\<forall>s. f (var (snd (m s))) = f (var s))"

named_theorems keeps_intros "what a program does not change, by its structure"

lemma keepsI: "(\<And>s. wp m (\<lambda>r s'. f (var s') = f (var s)) s) \<Longrightarrow> keeps f m"
  by (simp add: keeps_def wp_def case_prod_beta)

lemma keepsD: "keeps f m \<Longrightarrow> m s = (r, s') \<Longrightarrow> f (var s') = f (var s)"
  by (metis keeps_def snd_conv)

lemma keeps_ret [keeps_intros]: "keeps f (ret a)"
  by (simp add: keeps_def)

lemma keeps_panics [keeps_intros]: "keeps f (panics p)"
  by (simp add: keeps_def)

lemma keeps_ext [keeps_intros]: "keeps f (ext c g)"
  by (simp add: keeps_def ext_def split: prod.split)

lemma keeps_quiet [keeps_intros]: "keeps f (quiet g)"
  by (simp add: keeps_def quiet_def split: prod.split)

lemma keeps_event [keeps_intros]: "keeps f (event m t r)"
  by (simp add: keeps_def event_def)

lemma keeps_read_var [keeps_intros]: "keeps f read_var"
  by (simp add: keeps_def read_var_def)

lemma keeps_modify_var: "(\<And>v. f (g v) = f v) \<Longrightarrow> keeps f (modify_var g)"
  by (simp add: keeps_def modify_var_def)

lemma keeps_map_store [keeps_intros]: "keeps f (map_store m k v)"
  by (cases m) (simp_all add: keeps_def)

lemma keeps_andthen [keeps_intros]:
  assumes "keeps f m" and "\<And>a. keeps f (g a)"
  shows "keeps f (andthen m g)"
  using assms by (auto simp: keeps_def andthen_def split: prod.splits outcome.splits)
    (metis snd_conv)+

lemma keeps_for_each [keeps_intros]:
  "(\<And>x a. x \<in> set xs \<Longrightarrow> keeps f (body x a)) \<Longrightarrow> keeps f (for_each xs body a)"
  by (induction xs arbitrary: a) (auto intro: keeps_intros)

lemma keeps_client [keeps_intros]:
  "keeps f (client_Get kd c key)" "keeps f (client_List kd c sel)" "keeps f (client_Create k c obj)"
  "keeps f (client_Update k c obj)" "keeps f (client_Patch k c base obj)"
  "keeps f (client_StatusPatch k c base obj)" "keeps f (client_Delete k c obj)"
  by (simp_all add: client_defs keeps_ext)

lemma keeps_CreateOrUpdate:
  "(\<And>o'. keeps f (mutate o')) \<Longrightarrow> keeps f (CreateOrUpdate k c obj mutate)"
  unfolding CreateOrUpdate_def
  by (rule keeps_andthen) (auto intro!: keeps_intros split: sum.splits option.splits)

section \<open>What a handler leaves of the world\<close>

text \<open>A part \<open>g\<close> of the world that a program does not change.\<close>

definition leaves :: "('w \<Rightarrow> 'b) \<Rightarrow> (('w, 'v) st, 'a) prog \<Rightarrow> bool" where
  "leaves g p \<longleftrightarrow> (\<forall>s. g (world (snd (p s))) = g (world s))"

named_theorems leaves_intros "what of the world a program leaves alone, by its structure"

lemma leavesD: "leaves g p \<Longrightarrow> g (world (snd (p s))) = g (world s)"
  by (simp add: leaves_def)

lemma leaves_basic [leaves_intros]:
  "leaves g (ret a)" "leaves g (panics e)" "leaves g read_var" "leaves g (write_var v)"
  "leaves g (modify_var f)" "leaves g (event mt t r)"
  by (simp_all add: leaves_def read_var_def write_var_def modify_var_def event_def)

lemma leaves_map_store [leaves_intros]: "leaves g (map_store mp k v)"
  by (cases mp) (simp_all add: leaves_def)

lemma leaves_andthen [leaves_intros]:
  "leaves g p \<Longrightarrow> (\<And>a. leaves g (q a)) \<Longrightarrow> leaves g (andthen p q)"
  unfolding leaves_def andthen_def by (simp split: prod.split outcome.split) (metis snd_conv)

lemma leaves_for_each [leaves_intros]:
  "(\<And>x a. leaves g (body x a)) \<Longrightarrow> leaves g (for_each xs body a)"
  by (induction xs arbitrary: a) (auto intro: leaves_intros)

lemma leaves_ext: "(\<And>w. g (snd (f w)) = g w) \<Longrightarrow> leaves g (ext c f)"
  by (simp add: leaves_def ext_def split: prod.split) (metis snd_conv)

lemma leaves_quiet: "(\<And>w. g (snd (f w)) = g w) \<Longrightarrow> leaves g (quiet f)"
  by (simp add: leaves_def quiet_def split: prod.split) (metis snd_conv)

section \<open>Frames\<close>

text \<open>Weakening by what a program keeps.\<close>

lemma wp_keeps:
  "keeps f m \<Longrightarrow> (\<And>r s'. f (var s') = f (var s) \<Longrightarrow> Q r s') \<Longrightarrow> wp m Q s"
  by (auto simp: wp_def dest: keepsD split: prod.split)

lemma wp_modify_andthen:
  "wp (andthen (modify_var g) f) Q s = wp (f ()) Q (s\<lparr>var := g (var s)\<rparr>)"
  by (simp add: wp_simps)

text \<open>Going on after a program of which only the calls, and that it leaves the object alone, matter.\<close>

lemma wp_andthen_frame:
  assumes "issues P m" and "keeps (\<lambda>v. v) m"
    and "\<And>a s' cs. trace s' = trace s @ cs \<Longrightarrow> \<forall>c\<in>set cs. P c \<Longrightarrow> var s' = var s \<Longrightarrow> wp (f a) Q s'"
    and "\<And>p s' cs. trace s' = trace s @ cs \<Longrightarrow> \<forall>c\<in>set cs. P c \<Longrightarrow> var s' = var s \<Longrightarrow> Q (Panicked p) s'"
  shows "wp (andthen m f) Q s"
proof -
  have "wp m (\<lambda>r s'. (\<exists>cs. trace s' = trace s @ cs \<and> (\<forall>c\<in>set cs. P c)) \<and> var s' = var s) s"
    using assms(1,2)
    by (intro wp_conj wp_keeps [where f = "\<lambda>v. v" and Q = "\<lambda>r s'. var s' = var s"])
      (simp_all add: issues_def)
  then show ?thesis
    unfolding wp_andthen by (rule wp_mono) (use assms(3,4) in \<open>auto split: outcome.split\<close>)
qed

lemma wp_issues_from:
  assumes "issues P m" and "trace s1 = t0 @ cs" and "\<forall>c\<in>set cs. P c"
  shows "wp m (\<lambda>r s'. \<exists>cs. trace s' = t0 @ cs \<and> (\<forall>c\<in>set cs. P c)) s1"
proof -
  have "wp m (\<lambda>r s'. \<exists>cs. trace s' = trace s1 @ cs \<and> (\<forall>c\<in>set cs. P c)) s1"
    using assms(1) by (simp add: issues_def)
  then show ?thesis
    by (rule wp_mono) (use assms(2,3) in \<open>force simp: ball_Un\<close>)
qed

lemma issues_any: "issues (\<lambda>c. True) (m :: (('w, 'v) st, 'a) prog) \<Longrightarrow> m s = (r, s') \<Longrightarrow>
    \<exists>cs. trace s' = trace s @ cs"
  by (auto elim: issuesD)

lemma wp_issues_True: "issues (\<lambda>c. True) m \<Longrightarrow> (\<And>r s' cs. trace s' = trace s @ cs \<Longrightarrow> Q r s') \<Longrightarrow> wp m Q s"
  by (rule wpI) (auto dest: issues_any)

lemma deferred_state: "snd (deferred body d f s) = snd (d (snd (body s)))"
  by (simp add: deferred_def split: prod.split outcome.split)

text \<open>Calls that delete nothing.\<close>

definition no_delete :: "call \<Rightarrow> bool" where
  "no_delete c \<longleftrightarrow> (\<forall>o'. c \<noteq> DeleteC o')"

lemma no_delete_simps [simp]:
  "no_delete (GetC k key)" "no_delete (FetchC o1)" "no_delete (CommitC o1 o2)"
  "no_delete (PatchC o1 o2)" "no_delete (StatusPatchC o1 o2)" "no_delete (EventC key t r)"
  "no_delete (GetRunnerC u i)" "no_delete (CreateRunnerTokenC u)" "no_delete (ExecC key n cmd)"
  "\<not> no_delete (DeleteC o1)"
  by (simp_all add: no_delete_def)

end
