(* ===== verification/Go_Strings.thy ===== *)
theory Go_Strings
  imports Api_Types
begin

text \<open>
  The parts of Go's \<open>strings\<close> and \<open>strconv\<close> packages that the program uses, as they are
  documented and implemented in the standard library: a Go string is a list of bytes.
\<close>

section \<open>Prefixes, splitting and joining\<close>

definition HasPrefix :: "string \<Rightarrow> string \<Rightarrow> bool" where
  "HasPrefix s p \<longleftrightarrow> take (length p) s = p"

definition TrimPrefix :: "string \<Rightarrow> string \<Rightarrow> string" where
  "TrimPrefix s p = (if HasPrefix s p then drop (length p) s else s)"

text \<open>\<open>strings.Split\<close> with a separator of one byte.\<close>

fun Split :: "string \<Rightarrow> char \<Rightarrow> string list" where
  "Split [] c = [[]]"
| "Split (x # xs) c =
     (if x = c then [] # Split xs c
      else (case Split xs c of [] \<Rightarrow> [[x]] | y # ys \<Rightarrow> (x # y) # ys))"

fun Join :: "string list \<Rightarrow> string \<Rightarrow> string" where
  "Join [] sep = []"
| "Join [x] sep = x"
| "Join (x # y # ys) sep = x @ sep @ Join (y # ys) sep"

lemma HasPrefix_append [simp]: "HasPrefix (p @ s) p"
  by (simp add: HasPrefix_def)

lemma HasPrefix_iff: "HasPrefix s p \<longleftrightarrow> (\<exists>r. s = p @ r)"
  by (metis HasPrefix_append HasPrefix_def append_take_drop_id)

lemma TrimPrefix_append [simp]: "TrimPrefix (p @ s) p = s"
  by (simp add: TrimPrefix_def)

lemma Split_not_Nil [simp]: "Split s c \<noteq> []"
  by (induction s) (auto split: list.split)

lemma Join_Split: "Join (Split s c) [c] = s"
proof (induction s)
  case (Cons x xs)
  then show ?case
    by (cases "Split xs c") (auto split: list.splits, (metis Join.simps(2,3) append_Cons neq_Nil_conv)+)
qed simp

lemma Split_parts: "p \<in> set (Split s c) \<Longrightarrow> c \<notin> set p"
  by (induction s arbitrary: p) (auto split: list.splits if_splits)

section \<open>Trimming white space\<close>

text \<open>The encodings in UTF-8 of the runes that \<open>unicode.IsSpace\<close> accepts.\<close>

definition utf8_spaces :: "string list" where
  "utf8_spaces =
     [[CHR 0x09], [CHR 0x0A], [CHR 0x0B], [CHR 0x0C], [CHR 0x0D], [CHR 0x20],
      [CHR 0xC2, CHR 0x85], [CHR 0xC2, CHR 0xA0], [CHR 0xE1, CHR 0x9A, CHR 0x80],
      [CHR 0xE2, CHR 0x80, CHR 0x80], [CHR 0xE2, CHR 0x80, CHR 0x81],
      [CHR 0xE2, CHR 0x80, CHR 0x82], [CHR 0xE2, CHR 0x80, CHR 0x83],
      [CHR 0xE2, CHR 0x80, CHR 0x84], [CHR 0xE2, CHR 0x80, CHR 0x85],
      [CHR 0xE2, CHR 0x80, CHR 0x86], [CHR 0xE2, CHR 0x80, CHR 0x87],
      [CHR 0xE2, CHR 0x80, CHR 0x88], [CHR 0xE2, CHR 0x80, CHR 0x89],
      [CHR 0xE2, CHR 0x80, CHR 0x8A], [CHR 0xE2, CHR 0x80, CHR 0xA8],
      [CHR 0xE2, CHR 0x80, CHR 0xA9], [CHR 0xE2, CHR 0x80, CHR 0xAF],
      [CHR 0xE2, CHR 0x81, CHR 0x9F], [CHR 0xE3, CHR 0x80, CHR 0x80]]"

fun drop_first :: "string list \<Rightarrow> string \<Rightarrow> string option" where
  "drop_first [] s = None"
| "drop_first (p # ps) s = (if HasPrefix s p then Some (drop (length p) s) else drop_first ps s)"

lemma drop_first_shorter:
  "drop_first ps s = Some s' \<Longrightarrow> [] \<notin> set ps \<Longrightarrow> length s' < length s"
  by (induction ps) (auto split: if_splits simp: HasPrefix_iff)

lemma utf8_spaces_nonempty: "[] \<notin> set utf8_spaces"
  by (auto simp: utf8_spaces_def)

function trim_left :: "string list \<Rightarrow> string \<Rightarrow> string" where
  "trim_left ps s =
     (if [] \<in> set ps then s
      else case drop_first ps s of None \<Rightarrow> s | Some s' \<Rightarrow> trim_left ps s')"
  by pat_completeness auto
termination
  by (relation "measure (\<lambda>(ps, s). length s)") (auto dest: drop_first_shorter)

declare trim_left.simps [simp del]

definition TrimSpace :: "string \<Rightarrow> string" where
  "TrimSpace s =
     (let l = trim_left utf8_spaces s
      in rev (trim_left (map rev utf8_spaces) (rev l)))"

section \<open>Decimal numbers\<close>

definition digit :: "nat \<Rightarrow> char" where
  "digit d = char_of (48 + d)"

definition digit_value :: "char \<Rightarrow> nat option" where
  "digit_value c = (if 48 \<le> (of_char c :: nat) \<and> (of_char c :: nat) \<le> 57
     then Some (of_char c - 48) else None)"

fun utoa :: "nat \<Rightarrow> string" where
  "utoa n = (if n < 10 then [digit n] else utoa (n div 10) @ [digit (n mod 10)])"

declare utoa.simps [simp del]

text \<open>\<open>strconv.Itoa\<close> and \<open>strconv.FormatInt(_, 10)\<close>.\<close>

definition itoa :: "int \<Rightarrow> string" where
  "itoa i = (if i < 0 then CHR ''-'' # utoa (nat (- i)) else utoa (nat i))"

text \<open>\<open>strconv.ParseUint(s, 10, _)\<close> from the digits read so far; a value over \<open>maxVal\<close> is a range
  error at once.\<close>

fun parse_digits :: "int \<Rightarrow> int \<Rightarrow> string \<Rightarrow> go_error + int" where
  "parse_digits maxVal n [] = Inr n"
| "parse_digits maxVal n (c # cs) =
     (case digit_value c of
        None \<Rightarrow> Inl (NumError ''invalid syntax'')
      | Some d \<Rightarrow> if maxVal < 10 * n + int d then Inl (NumError ''value out of range'')
                  else parse_digits maxVal (10 * n + int d) cs)"

definition ParseUint10 :: "nat \<Rightarrow> string \<Rightarrow> go_error + int" where
  "ParseUint10 bits s =
     (if s = [] then Inl (NumError ''invalid syntax'') else parse_digits (2 ^ bits - 1) 0 s)"

text \<open>\<open>strconv.ParseInt(s, 10, bits)\<close>; bit size 0 is the 64 bits of \<open>int\<close>.\<close>

definition ParseInt10 :: "nat \<Rightarrow> string \<Rightarrow> go_error + int" where
  "ParseInt10 bitSize s =
     (let bits = (if bitSize = 0 then 64 else bitSize);
          neg = (case s of c # _ \<Rightarrow> c = CHR ''-'' | [] \<Rightarrow> False);
          t = (case s of c # cs \<Rightarrow> if c = CHR ''+'' \<or> c = CHR ''-'' then cs else s | [] \<Rightarrow> [])
      in case ParseUint10 bits t of
           Inl e \<Rightarrow> Inl e
         | Inr un \<Rightarrow>
             if \<not> neg \<and> 2 ^ (bits - 1) \<le> un then Inl (NumError ''value out of range'')
             else if neg \<and> 2 ^ (bits - 1) < un then Inl (NumError ''value out of range'')
             else Inr (if neg then - un else un))"

lemma digit_value_digit [simp]: "d < 10 \<Longrightarrow> digit_value (digit d) = Some d"
  by (simp add: digit_value_def digit_def)

lemma digit_value_signs: "digit_value CHR ''-'' = None" "digit_value CHR ''+'' = None"
  by (simp_all add: digit_value_def)

lemma digit_not_sign:
  assumes "d < 10"
  shows "digit d \<noteq> CHR ''-''" "digit d \<noteq> CHR ''+''"
  using digit_value_digit [OF assms] digit_value_signs by fastforce+

lemma utoa_not_Nil [simp]: "utoa n \<noteq> []"
  by (subst utoa.simps) simp

lemma utoa_digits: "c \<in> set (utoa n) \<Longrightarrow> \<exists>d<10. c = digit d"
proof (induction n rule: utoa.induct)
  case (1 n)
  show ?case
  proof (cases "n < 10")
    case True
    with "1.prems" show ?thesis by (auto simp: utoa.simps [of n])
  next
    case False
    from "1.prems" False have "c \<in> set (utoa (n div 10)) \<or> c = digit (n mod 10)"
      by (auto simp: utoa.simps [of n])
    moreover have "n mod 10 < 10" by simp
    ultimately show ?thesis using "1.IH" [OF False] by blast
  qed
qed

lemma parse_digits_append:
  "parse_digits m n (xs @ ys) =
     (case parse_digits m n xs of Inl e \<Rightarrow> Inl e | Inr k \<Rightarrow> parse_digits m k ys)"
  by (induction xs arbitrary: n) (auto split: option.split)

lemma parse_digits_utoa: "int n \<le> m \<Longrightarrow> parse_digits m 0 (utoa n) = Inr (int n)"
proof (induction n rule: utoa.induct)
  case (1 n)
  show ?case
  proof (cases "n < 10")
    case True
    with "1.prems" show ?thesis by (simp add: utoa.simps [of n])
  next
    case False
    have "10 * int (n div 10) + int (n mod 10) = int (10 * (n div 10) + n mod 10)"
      by (simp only: of_nat_add of_nat_mult of_nat_numeral)
    then have n: "10 * int (n div 10) + int (n mod 10) = int n" by (simp only: mult_div_mod_eq)
    from "1.prems" have "int (n div 10) \<le> m" by (meson div_le_dividend of_nat_le_iff order_trans)
    with False "1.IH" have "parse_digits m 0 (utoa (n div 10)) = Inr (int (n div 10))" by simp
    with False "1.prems" n show ?thesis
      by (simp add: utoa.simps [of n] parse_digits_append del: of_nat_mod of_nat_div)
  qed
qed

lemma ParseInt10_itoa:
  assumes "- (2 ^ 63) \<le> i" and "i < 2 ^ 63"
  shows "ParseInt10 0 (itoa i) = Inr i"
proof -
  have hd: "hd (utoa n) \<noteq> CHR ''-''" "hd (utoa n) \<noteq> CHR ''+''" for n
    using utoa_digits [of "hd (utoa n)" n] digit_not_sign by (metis hd_in_set utoa_not_Nil)+
  have bnd: "int (nat \<bar>i\<bar>) \<le> 2 ^ 64 - 1"
    using assms by simp
  note p = parse_digits_utoa [OF bnd]
  show ?thesis
  proof (cases "i < 0")
    case True
    with p assms show ?thesis
      by (simp add: ParseInt10_def itoa_def ParseUint10_def Let_def)
  next
    case False
    obtain c cs where cs: "utoa (nat i) = c # cs"
      by (cases "utoa (nat i)") auto
    with hd [of "nat i"] have "c \<noteq> CHR ''-''" "c \<noteq> CHR ''+''" by auto
    with cs p assms False show ?thesis
      by (simp add: ParseInt10_def itoa_def ParseUint10_def Let_def not_le del: parse_digits.simps)
  qed
qed

end
