(* ===== verification/Go_Time.thy ===== *)
theory Go_Time
  imports Go_Strings
begin

text \<open>
  The part of Go's \<open>time\<close> package that the program uses (Go 1.19): the civil date of an instant,
  \<open>Format(time.RFC3339)\<close> of a UTC time, and \<open>time.Parse(time.RFC3339, _)\<close> with what the generic
  parser accepts beyond the layout (an hour of one digit, a fraction of a second).
\<close>

section \<open>The calendar\<close>

definition isLeap :: "int \<Rightarrow> bool" where
  "isLeap y \<longleftrightarrow> y mod 4 = 0 \<and> (y mod 100 \<noteq> 0 \<or> y mod 400 = 0)"

text \<open>Days before a month (counted from 0) of a common year.\<close>

definition daysBefore :: "int list" where
  "daysBefore = [0, 31, 59, 90, 120, 151, 181, 212, 243, 273, 304, 334, 365]"

definition daysIn :: "int \<Rightarrow> int \<Rightarrow> int" where
  "daysIn m y = (if m = 2 \<and> isLeap y then 29
     else daysBefore ! nat m - daysBefore ! nat (m - 1))"

text \<open>Days from 1 January of year 1 to 1 January of year \<open>y\<close>.\<close>

definition daysBeforeYear :: "int \<Rightarrow> int" where
  "daysBeforeYear y = (let n = y - 1 in 365 * n + n div 4 - n div 100 + n div 400)"

definition date_days :: "int \<Rightarrow> int \<Rightarrow> int \<Rightarrow> int" where
  "date_days y m d = daysBeforeYear y + daysBefore ! nat (m - 1)
     + (if isLeap y \<and> 3 \<le> m then 1 else 0) + d - 1"

text \<open>The year of a day and the day in the year (\<open>absDate\<close>): cycles of 400, 100, 4 and 1 years, where
  the last century and the last year of a cycle are a day longer.\<close>

definition year_yday :: "int \<Rightarrow> int \<times> int" where
  "year_yday days =
     (let n400 = days div 146097; d = days - 146097 * n400;
          n = d div 36524; n100 = n - n div 4; d = d - 36524 * n100;
          n4 = d div 1461; d = d - 1461 * n4;
          n = d div 365; n1 = n - n div 4; d = d - 365 * n1
      in (400 * n400 + 100 * n100 + 4 * n4 + n1 + 1, d))"

definition month_day :: "int \<Rightarrow> int \<Rightarrow> int \<times> int" where
  "month_day year yday =
     (if isLeap year \<and> yday = 59 then (2, 29)
      else
        (let day = (if isLeap year \<and> 59 < yday then yday - 1 else yday);
             m = day div 31;
             stop = daysBefore ! nat (m + 1)
         in if stop \<le> day then (m + 2, day - stop + 1)
            else (m + 1, day - daysBefore ! nat m + 1)))"

definition civil :: "int \<Rightarrow> int \<times> int \<times> int" where
  "civil days = (case year_yday days of (y, yday) \<Rightarrow>
     (case month_day y yday of (m, d) \<Rightarrow> (y, m, d)))"

section \<open>Formatting\<close>

text \<open>\<open>appendInt\<close>: at least \<open>w\<close> digits, the sign before the padding.\<close>

definition appendInt :: "int \<Rightarrow> nat \<Rightarrow> string" where
  "appendInt i w =
     (let u = utoa (nat \<bar>i\<bar>)
      in (if i < 0 then [CHR ''-''] else []) @ replicate (w - length u) (CHR ''0'') @ u)"

definition FormatRFC3339 :: "instant \<Rightarrow> string" where
  "FormatRFC3339 t =
     (let secs = t div Second; days = secs div 86400; rest = secs mod 86400
      in case civil days of (y, m, d) \<Rightarrow>
           appendInt y 4 @ ''-'' @ appendInt m 2 @ ''-'' @ appendInt d 2 @ ''T''
           @ appendInt (rest div 3600) 2 @ '':'' @ appendInt (rest mod 3600 div 60) 2 @ '':''
           @ appendInt (rest mod 60) 2 @ ''Z'')"

section \<open>Parsing\<close>

definition time_error :: go_error where
  "time_error = LibError ''parsing time''"

definition isDigit :: "string \<Rightarrow> nat \<Rightarrow> bool" where
  "isDigit s i \<longleftrightarrow> i < length s \<and> digit_value (s ! i) \<noteq> None"

definition dval :: "char \<Rightarrow> int" where
  "dval c = (case digit_value c of None \<Rightarrow> 0 | Some d \<Rightarrow> int d)"

text \<open>\<open>getnum\<close>: two digits, or one when the field may be short.\<close>

definition getnum :: "string \<Rightarrow> bool \<Rightarrow> (int \<times> string) option" where
  "getnum s fixed =
     (if \<not> isDigit s 0 then None
      else if \<not> isDigit s 1 then (if fixed then None else Some (dval (s ! 0), drop 1 s))
      else Some (10 * dval (s ! 0) + dval (s ! 1), drop 2 s))"

text \<open>The four digits of the year: the first is checked to be a digit, \<open>atoi\<close> the others.\<close>

definition getyear :: "string \<Rightarrow> (int \<times> string) option" where
  "getyear s =
     (if isDigit s 0 \<and> isDigit s 1 \<and> isDigit s 2 \<and> isDigit s 3
      then Some (1000 * dval (s ! 0) + 100 * dval (s ! 1) + 10 * dval (s ! 2) + dval (s ! 3), drop 4 s)
      else None)"

definition skip :: "string \<Rightarrow> char \<Rightarrow> string option" where
  "skip s c = (case s of [] \<Rightarrow> None | x # xs \<Rightarrow> if x = c then Some xs else None)"

text \<open>A fraction of a second: a comma or period and digits, of which nine count.\<close>

definition fraction :: "string \<Rightarrow> int \<times> string" where
  "fraction s =
     (if 2 \<le> length s \<and> (s ! 0 = CHR ''.'' \<or> s ! 0 = CHR '','') \<and> isDigit s 1
      then (let ds = takeWhile (\<lambda>c. digit_value c \<noteq> None) (drop 1 s);
                used = take 9 ds
            in (fold (\<lambda>c n. 10 * n + dval c) used 0 * 10 ^ (9 - length used),
                drop (1 + length ds) s))
      else (0, s))"

text \<open>\<open>atoi\<close> on the two bytes of an offset's hours or minutes: a sign may take the place of the first
  digit.\<close>

definition atoi2 :: "char \<Rightarrow> char \<Rightarrow> int option" where
  "atoi2 a b =
     (case digit_value b of
        None \<Rightarrow> None
      | Some y \<Rightarrow>
          if a = CHR ''-'' then Some (- int y)
          else if a = CHR ''+'' then Some (int y)
          else map_option (\<lambda>x. 10 * int x + int y) (digit_value a))"

text \<open>The zone: \<open>Z\<close>, or a sign, hours, a colon and minutes; the offset in seconds.\<close>

definition zone :: "string \<Rightarrow> (int \<times> string) option" where
  "zone s =
     (case s of
        [] \<Rightarrow> None
      | x # xs \<Rightarrow>
          if x = CHR ''Z'' then Some (0, xs)
          else if length s < 6 \<or> s ! 3 \<noteq> CHR '':'' then None
          else (case atoi2 (s ! 1) (s ! 2) of None \<Rightarrow> None
                | Some hr \<Rightarrow> (case atoi2 (s ! 4) (s ! 5) of None \<Rightarrow> None
                | Some mm \<Rightarrow>
                    let off = (hr * 60 + mm) * 60
                    in if x = CHR ''+'' then Some (off, drop 6 s)
                       else if x = CHR ''-'' then Some (- off, drop 6 s)
                       else None)))"

text \<open>The fields in the order of the layout \<open>2006-01-02T15:04:05Z07:00\<close>.  A field out of its range is
  an error like a malformed one, so the model does not tell them apart.\<close>

definition parse_fields :: "string \<Rightarrow> (int \<times> int \<times> int \<times> int \<times> int \<times> int \<times> int \<times> int) option" where
  "parse_fields s =
     Option.bind (getyear s) (\<lambda>(year, s).
     Option.bind (skip s (CHR ''-'')) (\<lambda>s.
     Option.bind (getnum s True) (\<lambda>(month, s).
     Option.bind (skip s (CHR ''-'')) (\<lambda>s.
     Option.bind (getnum s True) (\<lambda>(day, s).
     Option.bind (skip s (CHR ''T'')) (\<lambda>s.
     Option.bind (getnum s False) (\<lambda>(hour, s).
     Option.bind (skip s (CHR '':'')) (\<lambda>s.
     Option.bind (getnum s True) (\<lambda>(minute, s).
     Option.bind (skip s (CHR '':'')) (\<lambda>s.
     Option.bind (getnum s True) (\<lambda>(sec, s).
     case fraction s of (nsec, s) \<Rightarrow>
     Option.bind (zone s) (\<lambda>(off, s).
       if s \<noteq> [] \<or> month \<le> 0 \<or> 12 < month \<or> 24 \<le> hour \<or> 60 \<le> minute \<or> 60 \<le> sec
          \<or> day < 1 \<or> daysIn month year < day
       then None
       else Some (year, month, day, hour, minute, sec, nsec, off)))))))))))))"

definition ParseRFC3339 :: "string \<Rightarrow> go_error + instant" where
  "ParseRFC3339 s =
     (case parse_fields s of
        None \<Rightarrow> Inl time_error
      | Some (year, month, day, hour, minute, sec, nsec, off) \<Rightarrow>
          Inr ((86400 * date_days year month day + 3600 * hour + 60 * minute + sec - off) * Second
               + nsec))"


section \<open>The calendar is right\<close>

lemma div_pos_unique: "k * q \<le> x \<Longrightarrow> x < k * q + k \<Longrightarrow> x div k = q" for x k q :: int
  by (rule int_div_pos_eq [of x k q "x - k * q"]) auto

lemma mod_small_iff:
  "0 < r \<Longrightarrow> r \<le> k \<Longrightarrow> (k * q + r) mod k = 0 \<longleftrightarrow> r = k" for k q r :: int
  by (cases "r = k") auto

lemma div_between:
  fixes x k :: int
  assumes "0 < k"
  shows "k * (x div k) \<le> x" and "x < k * (x div k) + k"
  using assms mult_div_mod_eq [of k x] pos_mod_bound [of k x] pos_mod_sign [of k x] by linarith+

lemma year_yday_eq:
  assumes "year_yday days = (y, yday)"
  shows "daysBeforeYear y + yday = days \<and> 0 \<le> yday \<and> yday < (if isLeap y then 366 else 365)"
proof -
  define a where "a = days div 146097"
  define r where "r = days - 146097 * a"
  define b0 where "b0 = r div 36524"
  define b where "b = b0 - b0 div 4"
  define r2 where "r2 = r - 36524 * b"
  define c where "c = r2 div 1461"
  define r3 where "r3 = r2 - 1461 * c"
  define e0 where "e0 = r3 div 365"
  define e where "e = e0 - e0 div 4"
  have "year_yday days = (400 * a + 100 * b + 4 * c + e + 1, r3 - 365 * e)"
    unfolding year_yday_def Let_def
    unfolding a_def [symmetric] unfolding r_def [symmetric] unfolding b0_def [symmetric]
    unfolding b_def [symmetric] unfolding r2_def [symmetric] unfolding c_def [symmetric]
    unfolding r3_def [symmetric] unfolding e0_def [symmetric] unfolding e_def [symmetric]
    by (rule refl)
  with assms have y: "y = 400 * a + 100 * b + 4 * c + e + 1" and yday: "yday = r3 - 365 * e"
    by auto
  have r: "0 \<le> r" "r < 146097"
    using div_between [of 146097 days] unfolding r_def a_def by auto
  have b0: "36524 * b0 \<le> r" "r < 36524 * b0 + 36524"
    using div_between [of 36524 r] unfolding b0_def by auto
  with r have b04: "0 \<le> b0" "b0 \<le> 4" by linarith+
  have b: "0 \<le> b" "b \<le> 3" "b0 = b \<or> b0 = 4 \<and> b = 3"
    using b04 unfolding b_def by presburger+
  have r2: "0 \<le> r2" "r2 \<le> 36524" "b < 3 \<Longrightarrow> r2 < 36524"
    using b0 b(3) r unfolding r2_def by linarith+
  have c0: "1461 * c \<le> r2" "r2 < 1461 * c + 1461"
    using div_between [of 1461 r2] unfolding c_def by auto
  with r2 have c: "0 \<le> c" "c \<le> 24" by linarith+
  have r3: "0 \<le> r3" "r3 \<le> 1460" "c = 24 \<and> b < 3 \<Longrightarrow> r3 < 1460"
    using c0 r2 unfolding r3_def by linarith+
  have e0: "365 * e0 \<le> r3" "r3 < 365 * e0 + 365"
    using div_between [of 365 r3] unfolding e0_def by auto
  with r3 have e04: "0 \<le> e0" "e0 \<le> 4" by linarith+
  have e: "0 \<le> e" "e \<le> 3" "e0 = e \<or> e0 = 4 \<and> e = 3"
    using e04 unfolding e_def by presburger+
  let ?n = "400 * a + 100 * b + 4 * c + e"
  have d4: "?n div 4 = 100 * a + 25 * b + c"
    by (rule div_pos_unique) (use e(1,2) in simp_all)
  have d100: "?n div 100 = 4 * a + b"
    by (rule div_pos_unique) (use e(1,2) c in simp_all)
  have d400: "?n div 400 = a"
    by (rule div_pos_unique) (use e(1,2) c b(1,2) in simp_all)
  have sum: "daysBeforeYear y + yday = days"
    by (simp add: daysBeforeYear_def y yday Let_def d4 d100 d400 r3_def r2_def r_def)
  have m4: "(?n + 1) mod 4 = 0 \<longleftrightarrow> e = 3"
    using mod_small_iff [where k = 4 and q = "100 * a + 25 * b + c" and r = "e + 1"] e(1,2) by (simp add: algebra_simps)
  have m100: "(?n + 1) mod 100 = 0 \<longleftrightarrow> 4 * c + e + 1 = 100"
    using mod_small_iff [where k = 100 and q = "4 * a + b" and r = "4 * c + e + 1"] e(1,2) c by (simp add: algebra_simps)
  have m400: "(?n + 1) mod 400 = 0 \<longleftrightarrow> 100 * b + 4 * c + e + 1 = 400"
    using mod_small_iff [where k = 400 and q = a and r = "100 * b + 4 * c + e + 1"] e(1,2) c b(1,2) by (simp add: algebra_simps)
  have leap: "isLeap y \<longleftrightarrow> e = 3 \<and> (c \<noteq> 24 \<or> b = 3)"
    unfolding isLeap_def y using m4 m100 m400 e(1,2) c b(1,2) by linarith
  have "0 \<le> yday" "yday < (if isLeap y then 366 else 365)"
    unfolding yday leap using e e0 r3 b c by auto
  with sum show ?thesis by blast
qed


lemma daysBefore_nth:
  "daysBefore ! 0 = 0" "daysBefore ! Suc 0 = 31" "daysBefore ! 2 = 59" "daysBefore ! 3 = 90"
  "daysBefore ! 4 = 120" "daysBefore ! 5 = 151" "daysBefore ! 6 = 181" "daysBefore ! 7 = 212"
  "daysBefore ! 8 = 243" "daysBefore ! 9 = 273" "daysBefore ! 10 = 304" "daysBefore ! 11 = 334"
  "daysBefore ! 12 = 365"
  by (simp_all add: daysBefore_def)

text \<open>The month of a day of a common year: twelve cases.\<close>

lemma common_month:
  assumes "0 \<le> day" and "day < 365"
  shows "case (if daysBefore ! nat (day div 31 + 1) \<le> day
               then (day div 31 + 2, day - daysBefore ! nat (day div 31 + 1) + 1)
               else (day div 31 + 1, day - daysBefore ! nat (day div 31) + 1)) of
     (m, d) \<Rightarrow> 1 \<le> m \<and> m \<le> 12 \<and> 1 \<le> d
       \<and> d \<le> daysBefore ! nat m - daysBefore ! nat (m - 1)
       \<and> daysBefore ! nat (m - 1) + d - 1 = day
       \<and> (3 \<le> m \<longleftrightarrow> 59 \<le> day)"
proof -
  define m where "m = day div 31"
  have lo: "31 * m \<le> day" and hi: "day < 31 * m + 31" unfolding m_def by presburger+
  from lo hi assms have "0 \<le> m" "m < 12" by linarith+
  then have "m \<in> {0, 1, 2, 3, 4, 5, 6, 7, 8, 9, 10, 11}" by (simp only: insert_iff empty_iff) presburger
  then show ?thesis
    unfolding m_def [symmetric] using lo hi assms
    by (elim insertE emptyE) (simp_all add: daysBefore_nth split: if_split)
qed

lemma month_day_eq:
  assumes "0 \<le> yday" and "yday < (if isLeap y then 366 else 365)" and "month_day y yday = (m, d)"
  shows "1 \<le> m \<and> m \<le> 12 \<and> 1 \<le> d \<and> d \<le> daysIn m y
    \<and> daysBefore ! nat (m - 1) + (if isLeap y \<and> 3 \<le> m then 1 else 0) + d - 1 = yday"
proof (cases "isLeap y \<and> yday = 59")
  case True
  with assms(3) have "m = 2" "d = 29" by (auto simp: month_day_def)
  with True show ?thesis by (simp add: daysIn_def daysBefore_nth)
next
  case False
  define day where "day = (if isLeap y \<and> 59 < yday then yday - 1 else yday)"
  have day: "0 \<le> day" "day < 365" using assms(1,2) False by (auto simp: day_def split: if_splits)
  have "(m, d) = (if daysBefore ! nat (day div 31 + 1) \<le> day
               then (day div 31 + 2, day - daysBefore ! nat (day div 31 + 1) + 1)
               else (day div 31 + 1, day - daysBefore ! nat (day div 31) + 1))"
    using assms(3) False by (auto simp: month_day_def day_def Let_def)
  then have eq: "(if daysBefore ! nat (day div 31 + 1) \<le> day
               then (day div 31 + 2, day - daysBefore ! nat (day div 31 + 1) + 1)
               else (day div 31 + 1, day - daysBefore ! nat (day div 31) + 1)) = (m, d)" ..
  have cm: "1 \<le> m" "m \<le> 12" "1 \<le> d" "d \<le> daysBefore ! nat m - daysBefore ! nat (m - 1)"
    "daysBefore ! nat (m - 1) + d - 1 = day" "3 \<le> m \<longleftrightarrow> 59 \<le> day"
    using common_month [OF day] unfolding eq by simp_all
  have "d \<le> daysIn m y"
  proof (cases "m = 2 \<and> isLeap y")
    case True
    with cm(4) show ?thesis by (simp add: daysIn_def daysBefore_nth)
  next
    case False
    with cm(4) show ?thesis by (auto simp: daysIn_def)
  qed
  moreover have "day + (if isLeap y \<and> 3 \<le> m then 1 else 0) = yday"
    using False cm(6) by (auto simp: day_def split: if_splits)
  ultimately show ?thesis using cm by simp
qed

lemma civil_valid:
  assumes "civil days = (y, m, d)"
  shows "1 \<le> m \<and> m \<le> 12 \<and> 1 \<le> d \<and> d \<le> daysIn m y \<and> date_days y m d = days"
proof -
  obtain yday where y: "year_yday days = (y, yday)" and m: "month_day y yday = (m, d)"
    using assms by (auto simp: civil_def split: prod.splits)
  from year_yday_eq [OF y] month_day_eq [OF _ _ m] show ?thesis
    by (auto simp: date_days_def)
qed

section \<open>Formatting and parsing are inverse\<close>

lemma civil_year_range:
  assumes "civil days = (y, m, d)" and "0 \<le> days" and "days < 3652059"
  shows "1 \<le> y \<and> y \<le> 9999"
proof -
  obtain yday where "year_yday days = (y, yday)"
    using assms(1) by (auto simp: civil_def split: prod.splits)
  from year_yday_eq [OF this] have eq: "daysBeforeYear y + yday = days"
    and yd: "0 \<le> yday" "yday \<le> 365" by (auto split: if_splits)
  define q where "q = (y - 1) div 4"
  define h where "h = (y - 1) div 100"
  define k where "k = (y - 1) div 400"
  have v: "daysBeforeYear y = 365 * (y - 1) + q - h + k"
    by (simp add: daysBeforeYear_def Let_def q_def h_def k_def)
  have q: "4 * q \<le> y - 1" "y - 1 < 4 * q + 4"
    unfolding q_def by (rule div_between, simp)+
  have h: "100 * h \<le> y - 1" "y - 1 < 100 * h + 100"
    unfolding h_def by (rule div_between, simp)+
  have k: "400 * k \<le> y - 1" "y - 1 < 400 * k + 400"
    unfolding k_def by (rule div_between, simp)+
  have "y \<le> 9999"
  proof (rule ccontr)
    assume "\<not> y \<le> 9999"
    then have "400 * daysBeforeYear y \<ge> 146097 * (y - 1) - 699"
    proof -
      have "4 * q \<ge> y - 4" "400 * k \<ge> y - 400" "100 * h \<le> y - 1" using q h k by simp_all
      then show ?thesis unfolding v by simp
    qed
    moreover have "days \<le> 3652058" "10000 \<le> y" using assms(3) \<open>\<not> y \<le> 9999\<close> by simp_all
    ultimately show False using eq yd by simp
  qed
  moreover have "1 \<le> y"
  proof (rule ccontr)
    assume "\<not> 1 \<le> y"
    then consider "y = 0" | "y \<le> -1" by linarith
    then show False
    proof cases
      case 1
      then have "q = -1" "h = -1" "k = -1" by (simp_all add: q_def h_def k_def)
      with 1 v eq yd assms(2) show False by simp
    next
      case 2
      have "4 * q \<le> y - 1" "400 * k \<le> y - 1" "100 * h \<ge> y - 100" using q h k by simp_all
      then have "400 * daysBeforeYear y \<le> 146097 * (y - 1) + 396" unfolding v by simp
      with 2 eq yd assms(2) show False by simp
    qed
  qed
  ultimately show ?thesis by simp
qed

lemma utoa_1: "n < 10 \<Longrightarrow> utoa n = [digit n]"
  by (simp add: utoa.simps [of n])

lemma utoa_rec: "10 \<le> n \<Longrightarrow> utoa n = utoa (n div 10) @ [digit (n mod 10)]"
  by (simp add: utoa.simps [of n])

lemma digit_0: "digit 0 = CHR ''0''"
  by code_simp

lemma replicate_2_3: "replicate 2 x = [x, x]" "replicate 3 x = [x, x, x]"
  by (simp_all add: numeral_eq_Suc)

lemma appendInt_2:
  assumes "0 \<le> i" and "i < 100"
  shows "appendInt i 2 = [digit (nat i div 10), digit (nat i mod 10)]"
proof (cases "nat i < 10")
  case True
  with assms show ?thesis by (simp add: appendInt_def utoa_1 Let_def digit_0 replicate_2_3)
next
  case False
  from assms have "nat i div 10 < 10" by linarith
  with False assms show ?thesis by (simp add: appendInt_def utoa_1 utoa_rec Let_def)
qed

lemma appendInt_4:
  assumes "0 \<le> i" and "i < 10000"
  shows "appendInt i 4 = [digit (nat i div 1000), digit (nat i div 100 mod 10),
    digit (nat i div 10 mod 10), digit (nat i mod 10)]"
proof -
  let ?n = "nat i"
  have n: "?n < 10000" using assms by linarith
  have dd: "?n div 10 div 10 = ?n div 100" "?n div 100 div 10 = ?n div 1000"
    by (simp_all add: div_mult2_eq [symmetric])
  consider "?n < 10" | "10 \<le> ?n" "?n < 100" | "100 \<le> ?n" "?n < 1000" | "1000 \<le> ?n"
    by linarith
  then show ?thesis
  proof cases
    case 1
    with assms show ?thesis by (simp add: appendInt_def utoa_1 Let_def digit_0 replicate_2_3)
  next
    case 2
    then have "?n div 10 < 10" by linarith
    with 2 assms show ?thesis by (simp add: appendInt_def utoa_1 utoa_rec Let_def digit_0 replicate_2_3)
  next
    case 3
    then have "?n div 100 < 10" "10 \<le> ?n div 10" by linarith+
    with 3 assms dd show ?thesis by (simp add: appendInt_def utoa_1 utoa_rec Let_def digit_0 replicate_2_3)
  next
    case 4
    with n have "?n div 1000 < 10" "10 \<le> ?n div 100" "10 \<le> ?n div 10" by linarith+
    with 4 assms dd show ?thesis by (simp add: appendInt_def utoa_1 utoa_rec Let_def)
  qed
qed

lemma getnum_digits:
  "a < 10 \<Longrightarrow> b < 10 \<Longrightarrow> getnum (digit a # digit b # s) fixed = Some (int (10 * a + b), s)"
  by (simp add: getnum_def isDigit_def dval_def)

lemma getyear_digits:
  "a < 10 \<Longrightarrow> b < 10 \<Longrightarrow> c < 10 \<Longrightarrow> d < 10 \<Longrightarrow>
     getyear (digit a # digit b # digit c # digit d # s)
       = Some (1000 * int a + 100 * int b + 10 * int c + int d, s)"
  by (simp add: getyear_def isDigit_def dval_def)

lemma getnum_appendInt:
  assumes "0 \<le> i" and "i < 100"
  shows "getnum (appendInt i 2 @ s) fixed = Some (i, s)"
proof -
  from assms have "nat i div 10 < 10" "nat i mod 10 < 10" by linarith+
  then have "getnum (appendInt i 2 @ s) fixed
      = Some (int (10 * (nat i div 10) + nat i mod 10), s)"
    unfolding appendInt_2 [OF assms] append_Cons append_Nil by (rule getnum_digits)
  moreover have "int (10 * (nat i div 10) + nat i mod 10) = i"
    using assms(1) by (simp only: mult_div_mod_eq int_nat_eq if_True)
  ultimately show ?thesis by simp
qed

lemma four_digits:
  fixes n :: nat
  assumes "10 * x + b = y" and "10 * y + c = z" and "10 * z + d = n"
  shows "1000 * x + 100 * b + 10 * c + d = n"
  using assms by linarith

lemma getyear_appendInt:
  assumes "0 \<le> i" and "i < 10000"
  shows "getyear (appendInt i 4 @ s) = Some (i, s)"
proof -
  let ?n = "nat i"
  from assms have "?n div 1000 < 10" by linarith
  then have "getyear (appendInt i 4 @ s) = Some (1000 * int (?n div 1000) + 100 * int (?n div 100 mod 10)
      + 10 * int (?n div 10 mod 10) + int (?n mod 10), s)"
    unfolding appendInt_4 [OF assms] append_Cons append_Nil by (rule getyear_digits) simp_all
  moreover have "1000 * (?n div 1000) + 100 * (?n div 100 mod 10) + 10 * (?n div 10 mod 10)
      + ?n mod 10 = ?n"
  proof (rule four_digits)
    show "10 * (?n div 1000) + ?n div 100 mod 10 = ?n div 100"
      using mult_div_mod_eq [of 10 "?n div 100"] by (simp only: div_mult2_eq [symmetric]) simp
    show "10 * (?n div 100) + ?n div 10 mod 10 = ?n div 10"
      using mult_div_mod_eq [of 10 "?n div 10"] by (simp only: div_mult2_eq [symmetric]) simp
    show "10 * (?n div 10) + ?n mod 10 = ?n" by (rule mult_div_mod_eq)
  qed
  then have "int (1000 * (?n div 1000) + 100 * (?n div 100 mod 10) + 10 * (?n div 10 mod 10)
      + ?n mod 10) = int ?n"
    by (rule arg_cong)
  then have "1000 * int (?n div 1000) + 100 * int (?n div 100 mod 10)
      + 10 * int (?n div 10 mod 10) + int (?n mod 10) = int ?n"
    by (simp only: of_nat_add of_nat_mult of_nat_numeral)
  ultimately show ?thesis using assms(1) by (simp only: int_nat_eq if_True)
qed

lemma skip_Cons [simp]: "skip (c # s) c = Some s"
  by (simp add: skip_def)

lemma parse_fields_format:
  assumes "1 \<le> y" "y \<le> 9999" "1 \<le> m" "m \<le> 12" "1 \<le> d" "d \<le> daysIn m y" "d \<le> 31"
    and "0 \<le> hh" "hh < 24" "0 \<le> mi" "mi < 60" "0 \<le> ss" "ss < 60"
  shows "parse_fields (appendInt y 4 @ ''-'' @ appendInt m 2 @ ''-'' @ appendInt d 2 @ ''T''
      @ appendInt hh 2 @ '':'' @ appendInt mi 2 @ '':'' @ appendInt ss 2 @ ''Z'')
    = Some (y, m, d, hh, mi, ss, 0, 0)"
  using assms
  by (simp add: parse_fields_def getyear_appendInt getnum_appendInt fraction_def zone_def)

lemma daysIn_le_31: "1 \<le> m \<Longrightarrow> m \<le> 12 \<Longrightarrow> daysIn m y \<le> 31"
proof -
  assume "1 \<le> m" "m \<le> 12"
  then have "m \<in> {1, 2, 3, 4, 5, 6, 7, 8, 9, 10, 11, 12}" by (simp only: insert_iff empty_iff) presburger
  then show ?thesis by (elim insertE emptyE) (simp_all add: daysIn_def daysBefore_nth)
qed

text \<open>Parsing what was formatted gives the instant back, to the second.\<close>

lemma ParseRFC3339_FormatRFC3339:
  assumes "0 \<le> t" and "t < 3652059 * 86400 * Second"
  shows "ParseRFC3339 (FormatRFC3339 t) = Inr (t div Second * Second)"
proof -
  define secs where "secs = t div Second"
  define days where "days = secs div 86400"
  define rest where "rest = secs mod 86400"
  obtain y m d where c: "civil days = (y, m, d)" by (cases "civil days") auto
  have secs: "0 \<le> secs" "secs < 3652059 * 86400"
    using assms by (auto simp: secs_def Second_def)
  then have days: "0 \<le> days" "days < 3652059" by (auto simp: days_def)
  have rest: "0 \<le> rest" "rest < 86400" by (simp_all add: rest_def)
  have hms: "0 \<le> rest div 3600" "rest div 3600 < 24" "0 \<le> rest mod 3600 div 60"
    "rest mod 3600 div 60 < 60" "0 \<le> rest mod 60" "rest mod 60 < 60"
    using rest by auto
  have fields: "parse_fields (FormatRFC3339 t)
      = Some (y, m, d, rest div 3600, rest mod 3600 div 60, rest mod 60, 0, 0)"
    unfolding FormatRFC3339_def Let_def
    unfolding secs_def [symmetric] days_def [symmetric] rest_def [symmetric] c prod.case
    by (rule parse_fields_format)
      (use civil_valid [OF c] civil_year_range [OF c days] daysIn_le_31 [of m y] hms in auto)
  have split: "3600 * (rest div 3600) + 60 * (rest mod 3600 div 60) + rest mod 60 = rest"
  proof -
    have "3600 * (rest div 3600) + (60 * (rest mod 3600 div 60) + rest mod 3600 mod 60) = rest"
      by (simp only: mult_div_mod_eq)
    moreover have "rest mod 3600 mod 60 = rest mod 60" by (rule mod_mod_cancel) simp
    ultimately show ?thesis by (simp only: add.assoc)
  qed
  have "86400 * date_days y m d + rest = secs"
    using civil_valid [OF c] mult_div_mod_eq [of 86400 secs] by (simp add: days_def rest_def)
  with split show ?thesis
    by (simp add: ParseRFC3339_def fields secs_def add.assoc)
qed

end
