(* ===== verification/Go_Sort.thy ===== *)
theory Go_Sort
  imports Prelude "HOL-Library.Multiset"
begin

text \<open>
  Go's \<open>sort\<close> package.  A type that is sorted provides \<open>Less\<close>; the interface \<open>sort_interface\<close>
  states what the package requires of it (a strict weak order).  \<open>sort.Stable\<close> has one possible
  result and is a function here; \<open>sort.Sort\<close> may give any ordered permutation, so it is a parameter
  with the specification \<open>sorts\<close>.
\<close>

section \<open>The order of a sorted slice\<close>

definition ordered :: "('a \<Rightarrow> 'a \<Rightarrow> bool) \<Rightarrow> 'a list \<Rightarrow> bool" where
  "ordered lt xs \<longleftrightarrow> sorted_wrt (\<lambda>a b. \<not> lt b a) xs"

definition sorts :: "('a \<Rightarrow> 'a \<Rightarrow> bool) \<Rightarrow> ('a list \<Rightarrow> 'a list) \<Rightarrow> bool" where
  "sorts lt srt \<longleftrightarrow> (\<forall>xs. mset (srt xs) = mset xs \<and> ordered lt (srt xs))"

fun stable_insert :: "('a \<Rightarrow> 'a \<Rightarrow> bool) \<Rightarrow> 'a \<Rightarrow> 'a list \<Rightarrow> 'a list" where
  "stable_insert lt x [] = [x]"
| "stable_insert lt x (y # ys) =
     (if lt y x then y # stable_insert lt x ys else x # y # ys)"

definition sort_Stable :: "('a \<Rightarrow> 'a \<Rightarrow> bool) \<Rightarrow> 'a list \<Rightarrow> 'a list" where
  "sort_Stable lt xs = foldr (stable_insert lt) xs []"

lemma mset_stable_insert [simp]: "mset (stable_insert lt x ys) = add_mset x (mset ys)"
  by (induction ys) auto

lemma mset_sort_Stable [simp]: "mset (sort_Stable lt xs) = mset xs"
  by (induction xs) (auto simp: sort_Stable_def)

lemma set_sort_Stable [simp]: "set (sort_Stable lt xs) = set xs"
  by (metis mset_sort_Stable set_mset_mset)

lemma length_sort_Stable [simp]: "length (sort_Stable lt xs) = length xs"
  by (metis mset_sort_Stable size_mset)

lemma sort_Stable_Nil [simp]: "sort_Stable lt xs = [] \<longleftrightarrow> xs = []"
  by (metis length_0_conv length_sort_Stable)

lemma sorts_mset: "sorts lt srt \<Longrightarrow> mset (srt xs) = mset xs"
  by (simp add: sorts_def)

lemma sorts_set: "sorts lt srt \<Longrightarrow> set (srt xs) = set xs"
  by (metis sorts_mset set_mset_mset)

lemma sorts_length: "sorts lt srt \<Longrightarrow> length (srt xs) = length xs"
  by (metis sorts_mset size_mset)

lemma sorts_ordered: "sorts lt srt \<Longrightarrow> ordered lt (srt xs)"
  by (simp add: sorts_def)

section \<open>The interface\<close>

locale sort_interface =
  fixes lt :: "'a \<Rightarrow> 'a \<Rightarrow> bool"
  assumes lt_irrefl: "\<not> lt a a"
    and lt_trans: "lt a b \<Longrightarrow> lt b c \<Longrightarrow> lt a c"
    and incomp_trans: "\<not> lt a b \<Longrightarrow> \<not> lt b c \<Longrightarrow> \<not> lt a c"
begin

lemma lt_asym: "lt a b \<Longrightarrow> \<not> lt b a"
  using lt_irrefl lt_trans by blast

lemma ordered_stable_insert:
  "ordered lt ys \<Longrightarrow> ordered lt (stable_insert lt x ys)"
proof (induction ys)
  case Nil
  then show ?case by (simp add: ordered_def)
next
  case (Cons y ys)
  then have tail: "ordered lt ys" and hd: "\<forall>z\<in>set ys. \<not> lt z y" by (auto simp: ordered_def)
  show ?case
  proof (cases "lt y x")
    case True
    have "set (stable_insert lt x ys) = insert x (set ys)"
      by (metis mset_stable_insert set_mset_add_mset_insert set_mset_mset)
    with True hd Cons.IH [OF tail] lt_asym [OF True] show ?thesis
      by (auto simp: ordered_def)
  next
    case False
    with hd have "\<forall>z\<in>set ys. \<not> lt z x" using incomp_trans by blast
    with False Cons.prems show ?thesis by (auto simp: ordered_def)
  qed
qed

lemma ordered_sort_Stable: "ordered lt (sort_Stable lt xs)"
proof (induction xs)
  case Nil
  then show ?case by (simp add: sort_Stable_def ordered_def)
next
  case (Cons x xs)
  then show ?case using ordered_stable_insert by (simp add: sort_Stable_def)
qed

text \<open>\<open>sort.Stable\<close> is one of the results that \<open>sort.Sort\<close> may give.\<close>

lemma sorts_sort_Stable: "sorts lt (sort_Stable lt)"
  by (simp add: sorts_def ordered_sort_Stable)

text \<open>Stability: the elements that are equal to a given one keep their order.\<close>

lemma stable_insert_filter:
  "ordered lt ys \<Longrightarrow>
     filter (\<lambda>y. \<not> lt y k \<and> \<not> lt k y) (stable_insert lt x ys)
     = filter (\<lambda>y. \<not> lt y k \<and> \<not> lt k y) (x # ys)"
proof (induction ys)
  case (Cons y ys)
  then have tail: "ordered lt ys" by (simp add: ordered_def)
  show ?case
  proof (cases "lt y x")
    case True
    then have "\<not> (\<not> lt y k \<and> \<not> lt k y \<and> \<not> lt x k \<and> \<not> lt k x)"
      using incomp_trans by blast
    with True Cons.IH [OF tail] show ?thesis by auto
  qed simp
qed simp

lemma sort_Stable_stable:
  "filter (\<lambda>y. \<not> lt y k \<and> \<not> lt k y) (sort_Stable lt xs)
   = filter (\<lambda>y. \<not> lt y k \<and> \<not> lt k y) xs"
proof (induction xs)
  case Nil
  then show ?case by (simp add: sort_Stable_def)
next
  case (Cons x xs)
  have "sort_Stable lt (x # xs) = stable_insert lt x (sort_Stable lt xs)"
    by (simp add: sort_Stable_def)
  with Cons stable_insert_filter [OF ordered_sort_Stable, of k x xs] show ?case by simp
qed

text \<open>The last element of a sorted slice is a greatest one.\<close>

lemma ordered_last:
  assumes "ordered lt xs" and "x \<in> set xs"
  shows "\<not> lt (last xs) x"
proof -
  have "xs \<noteq> []" using assms(2) by auto
  then obtain ys y where "xs = ys @ [y]" by (metis append_butlast_last_id)
  with assms lt_irrefl show ?thesis by (auto simp: ordered_def sorted_wrt_append)
qed

text \<open>What is in front of a cut of a sorted slice does not come after what is behind it.\<close>

lemma ordered_cut:
  assumes "ordered lt xs" and "a \<in> set (take n xs)" and "b \<in> set (drop n xs)"
  shows "\<not> lt b a"
  using assms by (metis append_take_drop_id ordered_def sorted_wrt_append)

end

text \<open>A \<open>Less\<close> that compares the values of a key in a linear order satisfies the interface.\<close>

lemma sort_interface_key: "sort_interface (\<lambda>a b. (f a :: 'k :: linorder) < f b)"
  by unfold_locales auto

end
