(* ===== verification/Util.thy ===== *)
theory Util
  imports Cluster Go_Time Go_Sort
begin

text \<open>
  The helpers of the controllers: \<open>util/annotations\<close> (the registration token's expiry),
  \<open>util/pod\<close> (conditions of a pod), \<open>util/remoteexec\<close> and \<open>util.FindRunnerIDFromPod\<close> (the runner's
  id, read inside its pod), \<open>util/sortable\<close> (which runners to delete first) and
  \<open>pkg/github/errors\<close>.
\<close>

section \<open>Annotations\<close>

text \<open>An annotation map that is made when it is nil, and the entry that is stored.\<close>

definition AnnotateTokenExpires :: "object_meta \<Rightarrow> string \<Rightarrow> ('s, object_meta) prog" where
  "AnnotateTokenExpires obj tokenExpiresAt =
     (let annotations = (if Annotations obj = None then make_map else Annotations obj)
      in andthen (map_store annotations AnnotationRunnerTokenExpiresAt tokenExpiresAt)
           (\<lambda>annotations. ret (obj\<lparr>Annotations := annotations\<rparr>)))"

definition IsTokenExpired :: "object_meta \<Rightarrow> instant \<Rightarrow> bool" where
  "IsTokenExpired obj n =
     (case map_lookup (Annotations obj) AnnotationRunnerTokenExpiresAt of
        None \<Rightarrow> True
      | Some tokenExpire \<Rightarrow>
          (case ParseRFC3339 tokenExpire of
             Inl err \<Rightarrow> True
           | Inr exp \<Rightarrow> exp < n + 5 * Minute))"

definition token_annotated :: "object_meta \<Rightarrow> string \<Rightarrow> object_meta" where
  "token_annotated obj s =
     obj\<lparr>Annotations := Some (fmupd AnnotationRunnerTokenExpiresAt s
       (case Annotations obj of None \<Rightarrow> fmempty | Some f \<Rightarrow> f))\<rparr>"

lemma run_AnnotateTokenExpires [simp]:
  "AnnotateTokenExpires obj s st = (Done (token_annotated obj s), st)"
  by (cases "Annotations obj")
    (simp_all add: AnnotateTokenExpires_def run_andthen make_map_def token_annotated_def)

lemma wp_AnnotateTokenExpires [wp_simps]:
  "wp (AnnotateTokenExpires obj s) Q st = Q (Done (token_annotated obj s)) st"
  by (simp add: wp_def)

lemma issues_AnnotateTokenExpires [issues_intros]: "issues P (AnnotateTokenExpires obj s)"
  by (simp add: issues_def wp_simps)

section \<open>Pods\<close>

definition PodReady :: string where "PodReady = ''Ready''"

text \<open>The first condition of the given type.\<close>

fun find_condition :: "pod_condition list \<Rightarrow> string \<Rightarrow> pod_condition option" where
  "find_condition [] t = None"
| "find_condition (c # cs) t = (if PodCond_Type c = t then Some c else find_condition cs t)"

definition PodCondition :: "pod_status option \<Rightarrow> string \<Rightarrow> pod_condition option" where
  "PodCondition status conditionType =
     (case status of None \<Rightarrow> None | Some s \<Rightarrow> find_condition (PodConditions s) conditionType)"

definition PodConditionIsReady :: "pod \<Rightarrow> bool" where
  "PodConditionIsReady p =
     (case PodCondition (Some (P_Status p)) PodReady of
        None \<Rightarrow> False
      | Some c \<Rightarrow> PodCond_Status c = ConditionTrue)"

section \<open>Remote execution\<close>

text \<open>The \<open>RemoteExecutor\<close> interface: what a command writes to its two outputs, and the error.\<close>

record 'w remote_executor =
  Exec :: "pod \<Rightarrow> string \<Rightarrow> string list \<Rightarrow> 'w \<Rightarrow> (string \<times> string \<times> go_error option) \<times> 'w"

text \<open>\<open>FakeRemoteExecutor\<close>: two buffers that are copied out (and emptied) and a fixed error.\<close>

record fake_executor =
  Out :: string
  Errout :: string
  Execerr :: "go_error option"

definition FakeRemoteExecutor :: "fake_executor remote_executor" where
  "FakeRemoteExecutor =
     \<lparr>Exec = (\<lambda>obj containerName command re.
        ((Out re, Errout re, Execerr re), re\<lparr>Out := [], Errout := []\<rparr>))\<rparr>"

definition runner_id_command :: "string list" where
  "runner_id_command =
     [''bash'', ''-c'',
      ''cat .runner | jq .agentId | tr -d '' @ [CHR 0x27, CHR 0x0A, CHR 0x27]]"

definition FindRunnerIDFromPod :: "'w remote_executor \<Rightarrow> pod \<Rightarrow>
    (('w, 'v) st, int64 \<times> go_error option) prog" where
  "FindRunnerIDFromPod re p =
     andthen (ext (ExecC (ObjectKeyFromObject (P_Meta p)) ''runner'' runner_id_command)
                  (Exec re p ''runner'' runner_id_command)) (\<lambda>(stdout, stderr, err).
       case err of
         Some e \<Rightarrow> ret (- 1, Some e)
       | None \<Rightarrow>
           if TrimSpace stderr \<noteq> []
           then ret (- 1, Some (ErrorString (''error executing command: '' @ TrimSpace stderr)))
           else (case ParseInt10 0 (TrimSpace stdout) of
                   Inl e \<Rightarrow> ret (- 1, Some e)
                 | Inr runnerID \<Rightarrow> ret (word_of_int runnerID, None)))"

lemma issues_FindRunnerIDFromPod:
  assumes "P (ExecC (ObjectKeyFromObject (P_Meta p)) ''runner'' runner_id_command)"
  shows "issues P (FindRunnerIDFromPod re p)"
  unfolding FindRunnerIDFromPod_def
  by (rule issues_andthen)
    (auto intro!: issues_intros issues_ext assms split: option.splits sum.splits)

section \<open>Which runners to delete first\<close>

text \<open>The priorities are the float constants 100, 50 and 0; they are only compared.\<close>

datatype delete_priority = mustNotDelete | couldDelete | mustDelete

fun priority_value :: "delete_priority \<Rightarrow> int" where
  "priority_value mustDelete = 100"
| "priority_value couldDelete = 50"
| "priority_value mustNotDelete = 0"

instantiation delete_priority :: linorder
begin

definition less_eq_delete_priority :: "delete_priority \<Rightarrow> delete_priority \<Rightarrow> bool" where
  "p \<le> q \<longleftrightarrow> priority_value p \<le> priority_value q"

definition less_delete_priority :: "delete_priority \<Rightarrow> delete_priority \<Rightarrow> bool" where
  "p < q \<longleftrightarrow> priority_value p < priority_value q"

instance
proof
  fix p q :: delete_priority
  show "p \<le> q \<Longrightarrow> q \<le> p \<Longrightarrow> p = q"
    by (cases p; cases q) (auto simp: less_eq_delete_priority_def)
qed (auto simp: less_eq_delete_priority_def less_delete_priority_def)

end

definition delete_priority_of :: "runner \<Rightarrow> delete_priority" where
  "delete_priority_of r =
     (if \<not> GetDeletionTimestamp_IsZero (R_Meta r) then mustDelete
      else if Phase (R_Status r) = RunnerActivePhase then mustNotDelete
      else couldDelete)"

definition RunnersToDelete_Less :: "runner \<Rightarrow> runner \<Rightarrow> bool" where
  "RunnersToDelete_Less a b \<longleftrightarrow> delete_priority_of b < delete_priority_of a"

interpretation to_delete: sort_interface RunnersToDelete_Less
  by unfold_locales (auto simp: RunnersToDelete_Less_def)

section \<open>GitHub errors\<close>

definition parseErrorResponse :: "go_error option \<Rightarrow> http_response option" where
  "parseErrorResponse err = (case err of Some (GhErrorResponse r) \<Rightarrow> r | _ \<Rightarrow> None)"

definition IsReteLimit :: "go_error option \<Rightarrow> bool" where
  "IsReteLimit err \<longleftrightarrow> (case err of Some GhRateLimitError \<Rightarrow> True | _ \<Rightarrow> False)"

definition has_status :: "int \<Rightarrow> go_error option \<Rightarrow> bool" where
  "has_status code err \<longleftrightarrow>
     (case parseErrorResponse err of Some r \<Rightarrow> StatusCode r = code | None \<Rightarrow> False)"

definition IsBadRequest :: "go_error option \<Rightarrow> bool" where "IsBadRequest = has_status 400"
definition IsUnauthorized :: "go_error option \<Rightarrow> bool" where "IsUnauthorized = has_status 401"
definition IsNotFound :: "go_error option \<Rightarrow> bool" where "IsNotFound = has_status 404"
definition IsRequestTimeout :: "go_error option \<Rightarrow> bool" where "IsRequestTimeout = has_status 408"
definition IsConflict :: "go_error option \<Rightarrow> bool" where "IsConflict = has_status 409"
definition IsGone :: "go_error option \<Rightarrow> bool" where "IsGone = has_status 410"

text \<open>\<open>IsForbidden\<close> does not go through \<open>parseErrorResponse\<close>: it reads the status of the response
  without looking whether there is one.\<close>

definition IsForbidden :: "go_error option \<Rightarrow> bool outcome" where
  "IsForbidden err =
     (case err of
        Some (GhErrorResponse r) \<Rightarrow>
          (case r of None \<Rightarrow> Panicked NilDereference | Some resp \<Rightarrow> Done (StatusCode resp = 403))
      | _ \<Rightarrow> Done False)"

text \<open>\<open>IsForbidden(err) || IsNotFound(err)\<close>, the test of the runner controller.\<close>

definition forbidden_or_not_found :: "go_error option \<Rightarrow> ('s, bool) prog" where
  "forbidden_or_not_found err s =
     (case IsForbidden err of
        Panicked p \<Rightarrow> (Panicked p, s)
      | Done b \<Rightarrow> (Done (b \<or> IsNotFound err), s))"

lemma wp_forbidden_or_not_found [wp_simps]:
  "wp (forbidden_or_not_found err) Q s =
     (case IsForbidden err of Panicked p \<Rightarrow> Q (Panicked p) s
      | Done b \<Rightarrow> Q (Done (b \<or> IsNotFound err)) s)"
  by (simp add: wp_def forbidden_or_not_found_def split: outcome.split)

lemma issues_forbidden_or_not_found [issues_intros]: "issues P (forbidden_or_not_found err)"
  by (simp add: issues_def wp_simps split: outcome.split)

section \<open>The GitHub client as the controllers see it\<close>

text \<open>The interfaces \<open>Runner\<close> and \<open>RunnerToken\<close> of \<open>pkg/github/client\<close>: a value is what its methods
  return.  go-github's accessors give zero values for a nil pointer.\<close>

record gh_runner =
  GetName :: string
  GetBusy :: bool
  GetOS :: string
  GetStatus :: string

record runner_token =
  GetToken :: string
  GetExpiresAt :: instant

record 'w action_client =
  GetRunner :: "string \<Rightarrow> int64 \<Rightarrow> 'w \<Rightarrow> (gh_runner \<times> go_error option) \<times> 'w"
  CreateRunnerToken :: "string \<Rightarrow> 'w \<Rightarrow> (runner_token \<times> go_error option) \<times> 'w"

definition gh_GetRunner :: "'w action_client \<Rightarrow> string \<Rightarrow> int64 \<Rightarrow>
    (('w, 'v) st, gh_runner \<times> go_error option) prog" where
  "gh_GetRunner c url runnerID = ext (GetRunnerC url runnerID) (GetRunner c url runnerID)"

definition gh_CreateRunnerToken :: "'w action_client \<Rightarrow> string \<Rightarrow>
    (('w, 'v) st, runner_token \<times> go_error option) prog" where
  "gh_CreateRunnerToken c url = ext (CreateRunnerTokenC url) (CreateRunnerToken c url)"

end
