(* ===== verification/Patch_Helper.thy ===== *)
theory Patch_Helper
  imports Cluster
begin

text \<open>
  \<open>util/patch\<close>: the patch helper that both controllers defer.  It keeps the object as it was read,
  and at the end of a reconciliation issues a patch of the object, a patch of its status
  subresource, both or neither.  The unstructured form of an object (\<open>map[string]interface{}\<close>) is a
  JSON object; the conversion to it and the accessors of nested fields belong to apimachinery and
  are parameters.
\<close>

section \<open>Unstructured content\<close>

datatype json =
  JNull
| JBool bool
| JInt int
| JString string
| JArray "json list"
| JObject "(string, json) fmap"

type_synonym json_map = "(string, json) fmap"

record unstructured_lib =
  NestedFieldCopy :: "json_map \<Rightarrow> string list \<Rightarrow> json option \<times> bool \<times> go_error option"
  RemoveNestedField :: "json_map \<Rightarrow> string list \<Rightarrow> json_map"
  NestedInt64 :: "json_map \<Rightarrow> string list \<Rightarrow> int64 \<times> bool \<times> go_error option"
  NestedString :: "json_map \<Rightarrow> string list \<Rightarrow> string \<times> bool \<times> go_error option"
  SetNestedField :: "json_map \<Rightarrow> json \<Rightarrow> string list \<Rightarrow> json_map"

record 'o converter =
  ToUnstructured :: "'o \<Rightarrow> go_error + json_map"
  FromUnstructured :: "json_map \<Rightarrow> 'o \<Rightarrow> go_error + 'o"

section \<open>The patcher\<close>

record 'o patcher =
  before :: json_map
  beforeStatus :: "json option"
  beforeHasStatus :: bool
  patch :: 'o
  statusPatch :: 'o

definition NewPatcher :: "unstructured_lib \<Rightarrow> 'o converter \<Rightarrow> 'o \<Rightarrow> go_error + 'o patcher" where
  "NewPatcher U cv obj =
     (case ToUnstructured cv obj of
        Inl err \<Rightarrow> Inl err
      | Inr bef \<Rightarrow>
          (case NestedFieldCopy U bef [''status''] of (bstatus, bhas, err) \<Rightarrow>
             (case err of
                Some e \<Rightarrow> Inl e
              | None \<Rightarrow>
                  Inr \<lparr>before = (if bhas then RemoveNestedField U bef [''status''] else bef),
                       beforeStatus = bstatus, beforeHasStatus = bhas,
                       patch = obj, statusPatch = obj\<rparr>)))"

definition collect :: "go_error list \<Rightarrow> go_error option \<Rightarrow> go_error list" where
  "collect errs err = (case err of None \<Rightarrow> errs | Some e \<Rightarrow> errs @ [e])"

text \<open>\<open>Patch\<close> works on the handler's object: the client writes the server's answer into it, so the
  status patch is computed from what the first patch left there.\<close>

definition Patcher_Patch :: "unstructured_lib \<Rightarrow> 'o converter \<Rightarrow> 'w library \<Rightarrow>
    ('o \<Rightarrow> kobject) \<Rightarrow> ('w, 'o) resource \<Rightarrow> 'o patcher \<Rightarrow> (('w, 'o) st, go_error option) prog" where
  "Patcher_Patch U cv L k c p =
     andthen read_var (\<lambda>obj.
       case ToUnstructured cv obj of
         Inl err \<Rightarrow> ret (Some err)
       | Inr aft \<Rightarrow>
           (case NestedFieldCopy U aft [''status''] of (afterStatus, afterHasStatus, err) \<Rightarrow>
              (case err of
                 Some e \<Rightarrow> ret (Some e)
               | None \<Rightarrow>
                   let aft = (if afterHasStatus then RemoveNestedField U aft [''status''] else aft)
                   in andthen
                     (if before p \<noteq> aft
                      then andthen (client_Patch k c (patch p) obj) (\<lambda>(err, obj').
                             andthen (write_var obj') (\<lambda>_. ret (collect [] err)))
                      else ret []) (\<lambda>errs.
                   andthen read_var (\<lambda>obj.
                   andthen
                     (if (beforeHasStatus p \<or> afterHasStatus) \<and> beforeStatus p \<noteq> afterStatus
                      then andthen (client_StatusPatch k c (statusPatch p) obj) (\<lambda>(err, obj').
                             andthen (write_var obj') (\<lambda>_. ret (collect errs err)))
                      else ret errs) (\<lambda>errs.
                   ret (kerrors_NewAggregate L errs)))))))"

text \<open>The deferred function of both reconcilers: the error of the patch, if there is one, replaces the
  error of the body.\<close>

definition patch_result :: "result \<times> go_error option \<Rightarrow> go_error option \<Rightarrow> result \<times> go_error option" where
  "patch_result r perr = (case perr of None \<Rightarrow> r | Some e \<Rightarrow> (fst r, Some e))"

section \<open>What it sends\<close>

text \<open>An object in two parts: its status, if it has one, and the rest.\<close>

definition split_status :: "unstructured_lib \<Rightarrow> 'o converter \<Rightarrow> 'o \<Rightarrow>
    (json_map \<times> json option \<times> bool) option" where
  "split_status U cv obj =
     (case ToUnstructured cv obj of
        Inl _ \<Rightarrow> None
      | Inr m \<Rightarrow>
          (case NestedFieldCopy U m [''status''] of (status, has, err) \<Rightarrow>
             if err = None
             then Some (if has then RemoveNestedField U m [''status''] else m, status, has)
             else None))"

lemma NewPatcher_split:
  assumes "NewPatcher U cv obj = Inr p"
  shows "split_status U cv obj = Some (before p, beforeStatus p, beforeHasStatus p)"
    and "patch p = obj" and "statusPatch p = obj"
  using assms
  by (auto simp: NewPatcher_def split_status_def split: sum.splits prod.splits option.splits)

lemma NewPatcher_exists:
  "split_status U cv obj = Some x \<Longrightarrow> \<exists>p. NewPatcher U cv obj = Inr p"
  by (auto simp: NewPatcher_def split_status_def split: sum.splits prod.splits option.splits if_splits)

definition main_calls :: "('o \<Rightarrow> kobject) \<Rightarrow> bool \<Rightarrow> 'o \<Rightarrow> 'o \<Rightarrow> call list" where
  "main_calls k changed base obj = (if changed then [PatchC (k base) (k obj)] else [])"

definition status_calls :: "('o \<Rightarrow> kobject) \<Rightarrow> bool \<Rightarrow> 'o \<Rightarrow> 'o \<Rightarrow> call list" where
  "status_calls k changed base obj = (if changed then [StatusPatchC (k base) (k obj)] else [])"

text \<open>The calls of \<open>Patch\<close>, in terms of what changed: the two decisions are taken on the object as the
  handler left it, but the object that the status patch sends is the answer to the first patch.\<close>

lemma Patcher_Patch_calls:
  assumes split: "split_status U cv (var s) = Some (rest, status, has)"
    and sent: "main \<longleftrightarrow> before p \<noteq> rest"
    and stat: "st_changed \<longleftrightarrow> (beforeHasStatus p \<or> has) \<and> beforeStatus p \<noteq> status"
    and obj': "obj' = (if main then snd (fst (Patch c (patch p) (var s) (world s))) else var s)"
  shows "wp (Patcher_Patch U cv L k c p) (\<lambda>r s'.
      trace s' = trace s @ main_calls k main (patch p) (var s)
                         @ status_calls k st_changed (statusPatch p) obj') s"
  using split obj'
  by (auto simp: Patcher_Patch_def wp_simps split_status_def main_calls_def status_calls_def sent stat
      Let_def client_defs split: sum.splits prod.splits option.splits if_splits)

lemma Patcher_Patch_conversion_error:
  assumes "split_status U cv (var s) = None"
  shows "wp (Patcher_Patch U cv L k c p) (\<lambda>r s'. s' = s \<and> (\<exists>e. r = Done (Some e))) s"
  using assms
  by (auto simp: Patcher_Patch_def wp_simps split_status_def split: sum.splits prod.splits option.splits)

lemma issues_Patcher_Patch:
  assumes "\<And>b o'. P (PatchC (k b) (k o'))" and "\<And>b o'. P (StatusPatchC (k b) (k o'))"
  shows "issues P (Patcher_Patch U cv L k c p)"
  unfolding Patcher_Patch_def
  by (rule issues_andthen)
    (auto intro!: issues_intros issues_client assms simp: Let_def
      split: sum.splits prod.splits option.splits)

text \<open>A patcher never panics and never keeps an error for itself: it gives the aggregate of the errors
  of its patches.\<close>

lemma Patcher_Patch_never_panics:
  "wp (Patcher_Patch U cv L k c p) (\<lambda>r s'. \<exists>e. r = Done e) s"
  by (auto simp: Patcher_Patch_def wp_simps Let_def client_defs split: sum.splits prod.splits option.splits)

end
