(* ===== verification/Runner_Controller.thy ===== *)
theory Runner_Controller
  imports Util Patch_Helper
begin

text \<open>
  \<open>controllers/runner_controller.go\<close>: one reconciliation of a Runner.  The handler's object is the
  runner (\<open>var\<close>), which the code mutates in place and a deferred patch writes back however the
  reconciliation ends.
\<close>

section \<open>The reconciler and the objects it makes\<close>

definition RunnerController :: string where
  "RunnerController = ''runner.octorun.github.io/controller''"

record 'w runner_reconciler =
  RR_Client :: "'w cluster"
  RR_Github :: "'w action_client"
  RR_Executor :: "'w remote_executor"
  RR_Library :: "'w library"
  RR_Unstructured :: unstructured_lib
  RR_Converter :: "runner converter"
  RR_MapOrder :: "string gomap \<Rightarrow> string list"

definition safe_to_evict :: string where
  "safe_to_evict = ''cluster-autoscaler.kubernetes.io/safe-to-evict''"

definition secretForRunner :: "runner \<Rightarrow> secret" where
  "secretForRunner r =
     \<lparr>Sec_Meta = empty_meta\<lparr>Name := Name (R_Meta r) @ ''-registration-token'',
        Namespace := Namespace (R_Meta r)\<rparr>,
      Data = make_map,
      Immutable = Some False\<rparr>"

text \<open>The labels handed to the GitHub runner: those under the well known prefix, as \<open>key=value\<close>.\<close>

definition runnerLabels :: "(string gomap \<Rightarrow> string list) \<Rightarrow> string gomap \<Rightarrow> string list" where
  "runnerLabels order labels =
     map (\<lambda>k. TrimPrefix k LabelPrefix @ ''='' @ map_index labels k)
       (filter (\<lambda>k. HasPrefix k LabelPrefix) (order labels))"

definition token_dir :: string where
  "token_dir = ''/var/run/secrets/runner.octorun.github.io/registration-token''"

definition podForRunner :: "(string gomap \<Rightarrow> string list) \<Rightarrow> runner \<Rightarrow> pod" where
  "podForRunner order r =
     (let spec = R_Spec r;
          annotation = (if EvictionPolicy spec = RunnerEvictionIfNotActive
                        then Some (fmupd safe_to_evict ''true'' fmempty) else make_map);
          labels = runnerLabels order (Labels (R_Meta r))
      in \<lparr>P_Meta = empty_meta\<lparr>Name := Name (R_Meta r), Namespace := Namespace (R_Meta r),
            Labels := Labels (R_Meta r), Annotations := annotation\<rparr>,
          P_Spec =
            \<lparr>RestartPolicy = ''OnFailure'',
             ImagePullSecrets = PullSecrets (Image spec),
             Containers =
               [\<lparr>ContainerName = ''runner'',
                 ContainerImage = ImageName (Image spec),
                 ImagePullPolicy = PullPolicy (Image spec),
                 Env =
                   [EnvValue ''URL'' (URL spec),
                    EnvFieldRef ''RUNNER_NAME'' ''metadata.name'',
                    EnvValue ''RUNNER_LABELS'' (Join labels '',''),
                    EnvValue ''RUNNER_GROUP'' (Group spec),
                    EnvValue ''RUNNER_WORKDIR'' (Workdir spec),
                    EnvValue ''RUNNER_TOKEN_FILE'' (token_dir @ ''/token'')],
                 StartupProbe =
                   \<lparr>ProbeCommand = [''cat'', ''.runner''], InitialDelaySeconds = 5,
                    PeriodSeconds = 10, FailureThreshold = 30\<rparr>,
                 ContainerVolumeMounts =
                   Mount ''registration-token'' True token_dir # VolumeMounts spec,
                 ContainerResources = Resources spec,
                 ContainerSecurityContext = SecurityContext spec\<rparr>],
             PodVolumes =
               SecretVolume ''registration-token'' (Name (R_Meta r) @ ''-registration-token'')
               # Volumes spec,
             PodServiceAccountName = ServiceAccountName spec,
             PodSecurityContext = \<lparr>RunAsUser = 1000, RunAsGroup = 1000, RunAsNonRoot = True\<rparr>,
             PodNodeSelector = NodeSelector (Placement spec),
             PodAffinity = Affinity (Placement spec),
             PodTolerations = Tolerations (Placement spec),
             PodRuntimeClassName = RuntimeClassName spec\<rparr>,
          P_Status = \<lparr>PodPhase = [], PodConditions = []\<rparr>\<rparr>)"

section \<open>Field updates\<close>

definition set_Phase :: "runner_phase \<Rightarrow> runner \<Rightarrow> runner" where
  "set_Phase p r = r\<lparr>R_Status := (R_Status r)\<lparr>Phase := p\<rparr>\<rparr>"

definition set_Conditions :: "condition list \<Rightarrow> runner \<Rightarrow> runner" where
  "set_Conditions cs r = r\<lparr>R_Status := (R_Status r)\<lparr>Conditions := cs\<rparr>\<rparr>"

definition set_ID :: "int64 \<Rightarrow> runner \<Rightarrow> runner" where
  "set_ID i r = r\<lparr>R_Spec := (R_Spec r)\<lparr>ID := Some i\<rparr>\<rparr>"

definition set_OS :: "string \<Rightarrow> runner \<Rightarrow> runner" where
  "set_OS os r = r\<lparr>R_Spec := (R_Spec r)\<lparr>OS := os\<rparr>\<rparr>"

definition Int64Deref :: "int64 option \<Rightarrow> int64 \<Rightarrow> int64" where
  "Int64Deref p d = (case p of None \<Rightarrow> d | Some i \<Rightarrow> i)"

lemma set_fields [simp]:
  "Phase (R_Status (set_Phase p r)) = p"
  "Conditions (R_Status (set_Phase p r)) = Conditions (R_Status r)"
  "R_Meta (set_Phase p r) = R_Meta r" "R_Spec (set_Phase p r) = R_Spec r"
  "R_Type (set_Phase p r) = R_Type r"
  "Phase (R_Status (set_Conditions cs r)) = Phase (R_Status r)"
  "R_Meta (set_Conditions cs r) = R_Meta r" "R_Spec (set_Conditions cs r) = R_Spec r"
  "R_Status (set_ID i r) = R_Status r" "R_Meta (set_ID i r) = R_Meta r"
  "ID (R_Spec (set_ID i r)) = Some i" "URL (R_Spec (set_ID i r)) = URL (R_Spec r)"
  "EvictionPolicy (R_Spec (set_ID i r)) = EvictionPolicy (R_Spec r)"
  "R_Status (set_OS os r) = R_Status r" "R_Meta (set_OS os r) = R_Meta r"
  "ID (R_Spec (set_OS os r)) = ID (R_Spec r)" "URL (R_Spec (set_OS os r)) = URL (R_Spec r)"
  "EvictionPolicy (R_Spec (set_OS os r)) = EvictionPolicy (R_Spec r)"
  by (simp_all add: set_Phase_def set_Conditions_def set_ID_def set_OS_def)

section \<open>The registration token secret\<close>

text \<open>\<open>err != nil && !(IsForbidden(err) || IsNotFound(err))\<close>\<close>

definition unexpected_github_error :: "go_error option \<Rightarrow> ('s, bool) prog" where
  "unexpected_github_error err =
     (case err of None \<Rightarrow> ret False
      | Some e \<Rightarrow> andthen (forbidden_or_not_found err) (\<lambda>b. ret (\<not> b)))"

text \<open>The last statement of the callbacks: \<open>return ctrl.SetControllerReference(runner, secret, scheme)\<close>.\<close>

definition own_secret :: "'w runner_reconciler \<Rightarrow> secret \<Rightarrow>
    (('w, runner) st, go_error option \<times> secret) prog" where
  "own_secret R sec =
     andthen read_var (\<lambda>runner.
       case ctrl_SetControllerReference (RR_Library R) (R_Meta runner) (Sec_Meta sec) of
         Inl e \<Rightarrow> ret (Some e, sec)
       | Inr m \<Rightarrow> ret (None, sec\<lparr>Sec_Meta := m\<rparr>))"

text \<open>\<open>annotations.IsTokenExpired(runnerSecret)\<close> at the time the clock shows.\<close>

definition token_expired :: "'w runner_reconciler \<Rightarrow> secret \<Rightarrow> (('w, 'v) st, bool) prog" where
  "token_expired R sec =
     andthen (quiet (time_Now (RR_Library R))) (\<lambda>n. ret (IsTokenExpired (Sec_Meta sec) n))"

text \<open>The callback of the deletion branch: an expired token is refreshed, a forbidden or missing
  GitHub owner is tolerated, and a secret without data gets a map.\<close>

definition mutate_secret_deleting :: "'w runner_reconciler \<Rightarrow> secret \<Rightarrow>
    (('w, runner) st, go_error option \<times> secret) prog" where
  "mutate_secret_deleting R sec =
     andthen (token_expired R sec) (\<lambda>expired.
       if expired
       then andthen read_var (\<lambda>runner.
            andthen (gh_CreateRunnerToken (RR_Github R) (URL (R_Spec runner))) (\<lambda>(rt, err).
            andthen (unexpected_github_error err) (\<lambda>bad.
              if bad then ret (err, sec)
              else andthen (AnnotateTokenExpires (Sec_Meta sec) (FormatRFC3339 (GetExpiresAt rt))) (\<lambda>m.
                   let dat = (if Data sec = None then make_map else Data sec)
                   in andthen (map_store dat ''token'' (GetToken rt)) (\<lambda>dat.
                      own_secret R (sec\<lparr>Sec_Meta := m, Data := dat\<rparr>))))))
       else own_secret R sec)"

text \<open>The callback of the normal branch: the token is created with the secret and refreshed when it
  has expired.\<close>

definition mutate_secret :: "'w runner_reconciler \<Rightarrow> secret \<Rightarrow>
    (('w, runner) st, go_error option \<times> secret) prog" where
  "mutate_secret R sec =
     andthen (if time_IsZero (CreationTimestamp (Sec_Meta sec)) then ret True
              else token_expired R sec) (\<lambda>refresh.
       if refresh
       then andthen read_var (\<lambda>runner.
            andthen (gh_CreateRunnerToken (RR_Github R) (URL (R_Spec runner))) (\<lambda>(rt, err).
              case err of
                Some e \<Rightarrow> ret (Some e, sec)
              | None \<Rightarrow>
                  andthen (AnnotateTokenExpires (Sec_Meta sec) (FormatRFC3339 (GetExpiresAt rt))) (\<lambda>m.
                  andthen (map_store (Data sec) ''token'' (GetToken rt)) (\<lambda>dat.
                  own_secret R (sec\<lparr>Sec_Meta := m, Data := dat\<rparr>)))))
       else own_secret R sec)"

definition mutate_pod :: "'w runner_reconciler \<Rightarrow> pod \<Rightarrow>
    (('w, runner) st, go_error option \<times> pod) prog" where
  "mutate_pod R p =
     andthen read_var (\<lambda>runner.
       case ctrl_SetControllerReference (RR_Library R) (R_Meta runner) (P_Meta p) of
         Inl e \<Rightarrow> ret (Some e, p)
       | Inr m \<Rightarrow> ret (None, p\<lparr>P_Meta := m\<rparr>))"

section \<open>The status of the runner\<close>

definition EventTypeNormal :: string where "EventTypeNormal = ''Normal''"
definition EventTypeWarning :: string where "EventTypeWarning = ''Warning''"

definition PodPending :: string where "PodPending = ''Pending''"
definition PodRunning :: string where "PodRunning = ''Running''"
definition PodSucceeded :: string where "PodSucceeded = ''Succeeded''"

lemmas pod_phase_defs = PodPending_def PodRunning_def PodSucceeded_def

definition set_status_condition :: "'w runner_reconciler \<Rightarrow> string \<Rightarrow> string \<Rightarrow> string \<Rightarrow>
    (('w, runner) st, unit) prog" where
  "set_status_condition R status reason message =
     andthen read_var (\<lambda>runner.
     andthen (quiet (meta_SetStatusCondition (RR_Library R) (Conditions (R_Status runner))
        \<lparr>Cond_Type = RunnerConditionOnline, Cond_Status = status, Cond_Reason = reason,
         Cond_Message = message, Cond_LastTransitionTime = 0\<rparr>)) (\<lambda>cs.
     modify_var (set_Conditions cs)))"

definition runner_event :: "string \<Rightarrow> string \<Rightarrow> (('w, runner) st, unit) prog" where
  "runner_event etype reason =
     andthen read_var (\<lambda>runner. event (R_Meta runner) etype reason)"

text \<open>The annotation that keeps the cluster autoscaler away from an active runner's pod.\<close>

definition protect_pod :: "'w runner_reconciler \<Rightarrow> pod \<Rightarrow>
    (('w, runner) st, result \<times> go_error option) prog" where
  "protect_pod R runnerPod =
     (let annotation = (if Annotations (P_Meta runnerPod) = None then make_map
                        else Annotations (P_Meta runnerPod))
      in andthen (map_store annotation safe_to_evict ''false'') (\<lambda>annotation.
         andthen (client_Patch OPod (PodsOf (RR_Client R)) runnerPod
             (runnerPod\<lparr>P_Meta := (P_Meta runnerPod)\<lparr>Annotations := annotation\<rparr>\<rparr>)) (\<lambda>(err, _).
         ret (no_requeue, err))))"

definition reconcileStatus :: "'w runner_reconciler \<Rightarrow> pod \<Rightarrow>
    (('w, runner) st, result \<times> go_error option) prog" where
  "reconcileStatus R runnerPod =
     (let phase = PodPhase (P_Status runnerPod)
      in if phase = PodPending
         then andthen (runner_event EventTypeNormal RunnerPodPendingReason) (\<lambda>_.
              ret (no_requeue, None))
         else if phase = PodRunning
         then (if \<not> PodConditionIsReady runnerPod then ret (no_requeue, None)
               else
                 andthen (FindRunnerIDFromPod (RR_Executor R) runnerPod) (\<lambda>(runnerid, err).
                   if err \<noteq> None then ret (no_requeue, err)
                   else
                     andthen (modify_var (set_ID runnerid)) (\<lambda>_.
                     andthen read_var (\<lambda>runner.
                     andthen (gh_GetRunner (RR_Github R) (URL (R_Spec runner)) runnerid) (\<lambda>(ghrunner, err).
                       if err \<noteq> None then ret (no_requeue, err)
                       else
                         andthen (modify_var (set_OS (GetOS ghrunner))) (\<lambda>_.
                         if GetStatus ghrunner = ''offline''
                         then
                           andthen (set_status_condition R ConditionFalse RunnerOfflineReason
                                      ''Github Runner has Offline status'') (\<lambda>_.
                           ret (\<lparr>Requeue = False, RequeueAfter = 5 * Second\<rparr>, None))
                         else
                           andthen (modify_var (set_Phase RunnerIdlePhase)) (\<lambda>_.
                           andthen (runner_event EventTypeNormal RunnerOnlineReason) (\<lambda>_.
                           andthen (set_status_condition R ConditionTrue RunnerOnlineReason
                                      ''Github Runner has Online status'') (\<lambda>_.
                           if GetBusy ghrunner
                           then
                             andthen (runner_event EventTypeNormal RunnerBusyReason) (\<lambda>_.
                             andthen (modify_var (set_Phase RunnerActivePhase)) (\<lambda>_.
                             if EvictionPolicy (R_Spec runner) = RunnerEvictionIfNotActive
                             then protect_pod R runnerPod
                             else ret (no_requeue, None)))
                           else ret (no_requeue, None))))))))))
         else if phase = PodSucceeded
         then andthen (runner_event EventTypeNormal RunnerPodSucceededReason) (\<lambda>_.
              andthen (modify_var (set_Phase RunnerCompletePhase)) (\<lambda>_.
              andthen (set_status_condition R ConditionFalse RunnerPodSucceededReason
                         ''Runner Pod has Succeeded phase'') (\<lambda>_.
              ret (no_requeue, None))))
         else ret (no_requeue, None))"

section \<open>Reconcile\<close>

text \<open>The branch of a runner with a deletion timestamp.\<close>

definition reconcile_deletion :: "'w runner_reconciler \<Rightarrow> pod \<Rightarrow> secret \<Rightarrow>
    (('w, runner) st, result \<times> go_error option) prog" where
  "reconcile_deletion R runnerPod runnerSecret =
     andthen read_var (\<lambda>runner.
       if Phase (R_Status runner) = RunnerActivePhase
       then
         (let runnerid = Int64Deref (ID (R_Spec runner)) (- 1)
          in if runnerid = - 1
             then andthen (modify_var (set_Phase RunnerCompletePhase)) (\<lambda>_.
                  ret (\<lparr>Requeue = True, RequeueAfter = 0\<rparr>, None))
             else
               andthen (gh_GetRunner (RR_Github R) (URL (R_Spec runner)) runnerid) (\<lambda>(ghrunner, err).
               andthen (unexpected_github_error err) (\<lambda>bad.
                 if bad then ret (no_requeue, err)
                 else if \<not> GetBusy ghrunner
                 then andthen (modify_var (set_Phase RunnerCompletePhase)) (\<lambda>_.
                      ret (\<lparr>Requeue = True, RequeueAfter = 0\<rparr>, None))
                 else ret (\<lparr>Requeue = False, RequeueAfter = 60 * Second\<rparr>, None))))
       else
         andthen (CreateOrUpdate OSecret (SecretsOf (RR_Client R)) runnerSecret
                    (mutate_secret_deleting R)) (\<lambda>(err, runnerSecret).
           if err \<noteq> None then ret (no_requeue, err)
           else
             andthen (client_Delete OPod (PodsOf (RR_Client R)) runnerPod) (\<lambda>err.
               if client_IgnoreNotFound (RR_Library R) err \<noteq> None then ret (no_requeue, err)
               else
                 andthen (client_Delete OSecret (SecretsOf (RR_Client R)) runnerSecret) (\<lambda>err.
                   if client_IgnoreNotFound (RR_Library R) err \<noteq> None then ret (no_requeue, err)
                   else
                     andthen (modify_var (\<lambda>r. r\<lparr>R_Meta :=
                        controllerutil_RemoveFinalizer (RR_Library R) (R_Meta r) RunnerController\<rparr>)) (\<lambda>_.
                     ret (no_requeue, None))))))"

text \<open>The branch of a live runner: finalizer, secret, pod, status.\<close>

definition reconcile_normal :: "'w runner_reconciler \<Rightarrow> pod \<Rightarrow> secret \<Rightarrow>
    (('w, runner) st, result \<times> go_error option) prog" where
  "reconcile_normal R runnerPod runnerSecret =
     andthen (modify_var (\<lambda>r. r\<lparr>R_Meta :=
        controllerutil_AddFinalizer (RR_Library R) (R_Meta r) RunnerController\<rparr>)) (\<lambda>_.
     andthen (CreateOrUpdate OSecret (SecretsOf (RR_Client R)) runnerSecret (mutate_secret R)) (\<lambda>(err, _).
       if err \<noteq> None
       then andthen (forbidden_or_not_found err) (\<lambda>terminal.
            if terminal
            then andthen (runner_event EventTypeWarning RunnerSecretFailedReason) (\<lambda>_.
                 ret (no_requeue, None))
            else ret (no_requeue, err))
       else
         andthen (CreateOrUpdate OPod (PodsOf (RR_Client R)) runnerPod (mutate_pod R)) (\<lambda>(err, runnerPod).
           if err \<noteq> None then ret (no_requeue, err)
           else
             andthen (modify_var (set_Phase RunnerPendingPhase)) (\<lambda>_.
             reconcileStatus R runnerPod))))"

definition reconcile_runner :: "'w runner_reconciler \<Rightarrow>
    (('w, runner) st, result \<times> go_error option) prog" where
  "reconcile_runner R =
     andthen read_var (\<lambda>runner.
       let runnerPod = podForRunner (RR_MapOrder R) runner;
           runnerSecret = secretForRunner runner
       in if \<not> GetDeletionTimestamp_IsZero (R_Meta runner)
          then reconcile_deletion R runnerPod runnerSecret
          else reconcile_normal R runnerPod runnerSecret)"

text \<open>\<open>Reconcile\<close>: the runner is read, and patched however the rest ends.\<close>

definition Reconcile :: "'w runner_reconciler \<Rightarrow> object_key \<Rightarrow>
    (('w, runner) st, result \<times> go_error option) prog" where
  "Reconcile R key =
     andthen (client_Get KRunner (RunnersOf (RR_Client R)) key) (\<lambda>got.
       case got of
         Inl err \<Rightarrow>
           if apierrors_IsNotFound (RR_Library R) err then ret (no_requeue, None)
           else ret (no_requeue, Some err)
       | Inr runner \<Rightarrow>
           andthen (write_var runner) (\<lambda>_.
             case NewPatcher (RR_Unstructured R) (RR_Converter R) runner of
               Inl err \<Rightarrow> ret (no_requeue, Some err)
             | Inr patcher \<Rightarrow>
                 deferred (reconcile_runner R)
                   (Patcher_Patch (RR_Unstructured R) (RR_Converter R) (RR_Library R) ORunner
                      (RunnersOf (RR_Client R)) patcher)
                   patch_result))"

end
