(* ===== verification/Samples.thy ===== *)
theory Samples
  imports Util Patch_Helper
begin

text \<open>
  A concrete environment, in which the properties' witnesses run: library functions that behave as
  the Kubernetes documentation says, an API server and a GitHub that give fixed answers, and small
  objects.  No property rests on these definitions; they only show that the hypotheses of the
  properties can hold.
\<close>

section \<open>The libraries\<close>

definition sample_not_found :: go_error where
  "sample_not_found = LibError ''NotFound''"

definition sample_already_exists :: go_error where
  "sample_already_exists = LibError ''AlreadyExists''"

text \<open>A condition replaces the one of its type, or is added at the end.\<close>

fun sample_SetStatusCondition :: "condition list \<Rightarrow> condition \<Rightarrow> condition list" where
  "sample_SetStatusCondition [] c = [c]"
| "sample_SetStatusCondition (d # ds) c =
     (if Cond_Type d = Cond_Type c then c # ds else d # sample_SetStatusCondition ds c)"

definition sample_controller_ref :: "object_meta \<Rightarrow> owner_reference" where
  "sample_controller_ref m =
     \<lparr>OwnerKind = ''Owner'', OwnerName = Name m, OwnerUID = UID m, OwnerController = True\<rparr>"

fun sample_controller_of :: "owner_reference list \<Rightarrow> owner_reference option" where
  "sample_controller_of [] = None"
| "sample_controller_of (r # rs) = (if OwnerController r then Some r else sample_controller_of rs)"

definition sample_matches :: "string gomap \<Rightarrow> string gomap \<Rightarrow> bool" where
  "sample_matches sel labels =
     (case sel of None \<Rightarrow> True
      | Some f \<Rightarrow> (\<forall>k\<in>fset (fmdom f). map_lookup labels k = fmlookup f k))"

definition sample_library :: "instant \<Rightarrow> 'w library" where
  "sample_library now =
     \<lparr>time_Now = (\<lambda>w. (now, w)),
      meta_SetStatusCondition = (\<lambda>cs c w. (sample_SetStatusCondition cs c, w)),
      apierrors_IsNotFound = (\<lambda>e. e = sample_not_found),
      apierrors_IsAlreadyExists = (\<lambda>e. e = sample_already_exists),
      client_IgnoreNotFound = (\<lambda>e. if e = Some sample_not_found then None else e),
      kerrors_NewAggregate = (\<lambda>es. case es of [] \<Rightarrow> None | e # _ \<Rightarrow> Some e),
      ctrl_SetControllerReference = (\<lambda>owner m.
        case sample_controller_of (OwnerReferences m) of
          None \<Rightarrow> Inr (m\<lparr>OwnerReferences := OwnerReferences m @ [sample_controller_ref owner]\<rparr>)
        | Some r \<Rightarrow> if OwnerUID r = UID owner then Inr m else Inl (LibError ''AlreadyOwned'')),
      metav1_GetControllerOf = (\<lambda>m. sample_controller_of (OwnerReferences m)),
      metav1_IsControlledBy = (\<lambda>m owner.
        case sample_controller_of (OwnerReferences m) of
          None \<Rightarrow> False | Some r \<Rightarrow> OwnerUID r = UID owner),
      metav1_NewControllerRef = (\<lambda>m k. (sample_controller_ref m)\<lparr>OwnerKind := k\<rparr>),
      controllerutil_AddFinalizer = (\<lambda>m f.
        if f \<in> set (Finalizers m) then m else m\<lparr>Finalizers := Finalizers m @ [f]\<rparr>),
      controllerutil_RemoveFinalizer = (\<lambda>m f. m\<lparr>Finalizers := removeAll f (Finalizers m)\<rparr>),
      metav1_LabelSelectorAsSelector = (\<lambda>sel. Inr (Opaque [])),
      metav1_LabelSelectorAsMap = (\<lambda>sel. Inr (MatchLabels sel)),
      selector_String = (\<lambda>x. case x of Opaque s \<Rightarrow> s),
      selector_Matches = (\<lambda>x labels. True),
      rand_SafeEncodeString = (\<lambda>s. s),
      spew_Fprintf = (\<lambda>x. case x of Opaque s \<Rightarrow> s)\<rparr>"

text \<open>Nested fields: the top level by its name, and the fields of spec and status flat beside it.\<close>

definition sample_unstructured :: unstructured_lib where
  "sample_unstructured =
     \<lparr>NestedFieldCopy = (\<lambda>m path. (fmlookup m (hd path), fmlookup m (hd path) \<noteq> None, None)),
      RemoveNestedField = (\<lambda>m path. fmdrop (hd path) m),
      NestedInt64 = (\<lambda>m path. case fmlookup m (last path) of
        Some (JInt i) \<Rightarrow> (word_of_int i, True, None) | _ \<Rightarrow> (0, False, None)),
      NestedString = (\<lambda>m path. case fmlookup m (last path) of
        Some (JString x) \<Rightarrow> (x, True, None) | _ \<Rightarrow> ([], False, None)),
      SetNestedField = (\<lambda>m v path. fmupd (last path) v m)\<rparr>"

definition sample_runner_json :: "runner converter" where
  "sample_runner_json =
     \<lparr>ToUnstructured = (\<lambda>r. Inr (fmupd ''status'' (JString (Phase (R_Status r)))
        (fmupd ''finalizers'' (JArray (map JString (Finalizers (R_Meta r))))
        (fmupd ''id'' (case ID (R_Spec r) of None \<Rightarrow> JNull | Some i \<Rightarrow> JInt (sint i)) fmempty)))),
      FromUnstructured = (\<lambda>m r. Inr r)\<rparr>"

definition sample_runnerset_json :: "runnerset converter" where
  "sample_runnerset_json =
     \<lparr>ToUnstructured = (\<lambda>s. Inr
        (fmupd ''currentRevision'' (JString (CurrentRevision (S_Status s)))
        (fmupd ''nextRevision'' (JString (NextRevision (S_Status s))) fmempty))),
      FromUnstructured = (\<lambda>m s. Inr s)\<rparr>"

section \<open>A server with fixed answers\<close>

text \<open>Every object exists as given, every write succeeds and answers what was written.\<close>

definition sample_resource :: "'o \<Rightarrow> 'o list \<Rightarrow> ('w, 'o) resource" where
  "sample_resource x xs =
     \<lparr>Get = (\<lambda>key w. (Inr x, w)),
      ListAll = (\<lambda>sel w. (Inr xs, w)),
      Create = (\<lambda>obj w. ((None, obj), w)),
      Update = (\<lambda>obj w. ((None, obj), w)),
      Patch = (\<lambda>base obj w. ((None, obj), w)),
      StatusPatch = (\<lambda>base obj w. ((None, obj), w)),
      Delete = (\<lambda>obj w. (None, w)),
      Fetch = (\<lambda>obj w. (Inr x, w)),
      Commit = (\<lambda>old obj w. ((None, obj), w))\<rparr>"

section \<open>Objects\<close>

definition sample_meta :: object_meta where
  "sample_meta = empty_meta\<lparr>Name := ''r1'', Namespace := ''ns'', UID := ''u1''\<rparr>"

definition sample_spec :: runner_spec where
  "sample_spec =
     \<lparr>URL = ''https://github.com/octo/repo'', ID = Some 7, OS = ''linux'', Group = [], Workdir = ''_work'',
      Image = \<lparr>ImageName = ''img'', PullPolicy = ''IfNotPresent'', PullSecrets = []\<rparr>,
      EvictionPolicy = RunnerEvictionNever,
      Placement = \<lparr>NodeSelector = None, Tolerations = [], Affinity = None\<rparr>,
      Resources = Opaque [], ServiceAccountName = [], SecurityContext = None,
      RuntimeClassName = None, Volumes = [], VolumeMounts = []\<rparr>"

definition sample_runner :: "instant option \<Rightarrow> string list \<Rightarrow> runner_phase \<Rightarrow> runner" where
  "sample_runner deleted finalizers phase =
     \<lparr>R_Type = \<lparr>APIVersion = ''octorun.github.io/v1alpha2'', Kind = ''Runner''\<rparr>,
      R_Meta = sample_meta\<lparr>DeletionTimestamp := deleted, Finalizers := finalizers\<rparr>,
      R_Spec = sample_spec,
      R_Status = \<lparr>Phase = phase, Conditions = []\<rparr>\<rparr>"

definition sample_secret :: "string gomap \<Rightarrow> string gomap \<Rightarrow> secret" where
  "sample_secret annotations dat =
     \<lparr>Sec_Meta = sample_meta\<lparr>Name := ''r1-registration-token'', CreationTimestamp := 1,
        Annotations := annotations\<rparr>,
      Data = dat, Immutable = Some False\<rparr>"

definition sample_pod :: "string \<Rightarrow> pod_condition list \<Rightarrow> pod" where
  "sample_pod phase conds =
     \<lparr>P_Meta = sample_meta,
      P_Spec = \<lparr>RestartPolicy = ''OnFailure'', ImagePullSecrets = [], Containers = [], PodVolumes = [],
        PodServiceAccountName = [],
        PodSecurityContext = \<lparr>RunAsUser = 1000, RunAsGroup = 1000, RunAsNonRoot = True\<rparr>,
        PodNodeSelector = None, PodAffinity = None, PodTolerations = [], PodRuntimeClassName = None\<rparr>,
      P_Status = \<lparr>PodPhase = phase, PodConditions = conds\<rparr>\<rparr>"

definition sample_ready_pod :: pod where
  "sample_ready_pod =
     sample_pod ''Running'' [\<lparr>PodCond_Type = PodReady, PodCond_Status = ConditionTrue\<rparr>]"

definition sample_runnerset :: "int32 \<Rightarrow> runnerset" where
  "sample_runnerset n =
     \<lparr>S_Type = \<lparr>APIVersion = ''octorun.github.io/v1alpha2'', Kind = ''RunnerSet''\<rparr>,
      S_Meta = sample_meta\<lparr>Name := ''s1'', UID := ''u2''\<rparr>,
      S_Spec = \<lparr>Runners = Some n, Selector = \<lparr>MatchLabels = None, MatchExpressions = []\<rparr>,
        UpdateStrategy = \<lparr>StrategyType = RollingUpdateRunnerSetStrategyType\<rparr>,
        RevisionHistoryLimit = Some 10,
        Template = \<lparr>T_Meta = empty_meta, T_Spec = sample_spec\<rparr>\<rparr>,
      S_Status = \<lparr>StatusRunners = 0, IdleRunners = 0, ActiveRunners = 0, CurrentRevision = [],
        NextRevision = [], CollisionCount = None, S_Conditions = [], StatusSelector = []\<rparr>\<rparr>"

definition sample_revision :: "string \<Rightarrow> int64 \<Rightarrow> controller_revision" where
  "sample_revision name n =
     \<lparr>CR_Meta = sample_meta\<lparr>Name := name\<rparr>, Raw = ''{}'', DataObject = None, Revision = n\<rparr>"

text \<open>One object of each kind.\<close>

definition sample_cluster :: "runner \<Rightarrow> secret \<Rightarrow> pod \<Rightarrow> 'w cluster" where
  "sample_cluster r sec p =
     \<lparr>RunnersOf = sample_resource r [r],
      RunnerSetsOf = sample_resource (sample_runnerset 1) [sample_runnerset 1],
      PodsOf = sample_resource p [p],
      SecretsOf = sample_resource sec [sec],
      RevisionsOf = sample_resource (sample_revision ''s1-1'' 1) [sample_revision ''s1-1'' 1]\<rparr>"

text \<open>The order of a finite map's keys.\<close>

definition sample_order :: "string gomap \<Rightarrow> string list" where
  "sample_order m =
     (case m of None \<Rightarrow> [] | Some f \<Rightarrow> sorted_list_of_fset (fmdom f))"

definition sample_key :: object_key where
  "sample_key = \<lparr>Key_Namespace = ''ns'', Key_Name = ''r1''\<rparr>"

definition sample_github :: "gh_runner \<times> go_error option \<Rightarrow> runner_token \<times> go_error option \<Rightarrow>
    'w action_client" where
  "sample_github g t = \<lparr>GetRunner = (\<lambda>url i w. (g, w)), CreateRunnerToken = (\<lambda>url w. (t, w))\<rparr>"

definition sample_gh_runner :: "bool \<Rightarrow> gh_runner" where
  "sample_gh_runner busy =
     \<lparr>GetName = ''r1'', GetBusy = busy, GetOS = ''linux'', GetStatus = ''online''\<rparr>"

definition sample_token :: runner_token where
  "sample_token = \<lparr>GetToken = ''tok'', GetExpiresAt = 63808000000 * Second\<rparr>"

definition sample_executor :: "string \<Rightarrow> 'w remote_executor" where
  "sample_executor out = \<lparr>Exec = (\<lambda>p c cmd w. ((out, [], None), w))\<rparr>"

lemmas sample_defs =
  sample_library_def sample_unstructured_def sample_runner_json_def sample_runnerset_json_def
  sample_resource_def
  sample_meta_def sample_spec_def sample_runner_def sample_secret_def sample_pod_def
  sample_ready_pod_def sample_runnerset_def sample_revision_def sample_cluster_def sample_key_def sample_github_def sample_gh_runner_def sample_token_def
  sample_executor_def sample_not_found_def sample_already_exists_def empty_meta_def


end
