(* ===== verification/Runner_Lemmas.thy ===== *)
theory Runner_Lemmas
  imports Runner_Controller Samples
begin

text \<open>
  What a reconciliation of a Runner may call, branch by branch, and the ways it ends: the lemmas that
  the properties of the runner controller rest on.
\<close>

section \<open>The calls of each branch\<close>

lemma issues_unexpected [issues_intros]: "issues P (unexpected_github_error err)"
  by (auto simp: unexpected_github_error_def intro!: issues_intros split: option.splits)

lemma issues_own_secret [issues_intros]: "issues P (own_secret R sec)"
  by (auto simp: own_secret_def intro!: issues_intros split: sum.splits)

lemma issues_token_expired [issues_intros]: "issues P (token_expired R sec)"
  by (auto simp: token_expired_def intro!: issues_intros)

lemma issues_mutate_secret:
  assumes "\<And>u. P (CreateRunnerTokenC u)"
  shows "issues P (mutate_secret R sec)" and "issues P (mutate_secret_deleting R sec)"
  unfolding mutate_secret_def mutate_secret_deleting_def gh_CreateRunnerToken_def
  by (auto intro!: issues_intros issues_ext assms simp: Let_def split: option.splits prod.splits)

lemma issues_mutate_pod [issues_intros]: "issues P (mutate_pod R p)"
  by (auto simp: mutate_pod_def intro!: issues_intros split: sum.splits)

lemma issues_runner_event:
  "(\<And>k. P (EventC k t r)) \<Longrightarrow> issues P (runner_event t r)"
  by (auto simp: runner_event_def intro!: issues_intros issues_event)

lemma issues_set_status_condition [issues_intros]: "issues P (set_status_condition R st re me)"
  by (auto simp: set_status_condition_def intro!: issues_intros)

lemma issues_reconcileStatus:
  assumes "\<And>k t r. P (EventC k t r)" and "\<And>u i. P (GetRunnerC u i)"
    and "P (ExecC (ObjectKeyFromObject (P_Meta p)) ''runner'' runner_id_command)"
    and "\<And>p'. P (PatchC (OPod p) (OPod p'))"
  shows "issues P (reconcileStatus R p)"
  unfolding reconcileStatus_def protect_pod_def gh_GetRunner_def Let_def
  by (auto intro!: issues_intros issues_ext issues_runner_event issues_client
      issues_FindRunnerIDFromPod assms split: prod.splits)

lemma issues_reconcile_normal:
  assumes "\<And>k t r. P (EventC k t r)" and "\<And>u i. P (GetRunnerC u i)"
    and "\<And>k. P (ExecC k ''runner'' runner_id_command)"
    and "\<And>p p'. P (PatchC (OPod p) (OPod p'))" and "\<And>u. P (CreateRunnerTokenC u)"
    and "P (FetchC (OSecret sec))" and "\<And>o1 o2. P (CommitC (OSecret o1) (OSecret o2))"
    and "P (FetchC (OPod p))" and "\<And>o1 o2. P (CommitC (OPod o1) (OPod o2))"
  shows "issues P (reconcile_normal R p sec)"
  unfolding reconcile_normal_def
  by (auto intro!: issues_intros issues_runner_event issues_CreateOrUpdate issues_mutate_secret
      issues_reconcileStatus assms split: prod.splits)

lemma issues_reconcile_deletion:
  assumes "\<And>u i. P (GetRunnerC u i)" and "\<And>u. P (CreateRunnerTokenC u)"
    and "P (FetchC (OSecret sec))" and "\<And>o1 o2. P (CommitC (OSecret o1) (OSecret o2))"
    and "P (DeleteC (OPod p))" and "\<And>o1. P (DeleteC (OSecret o1))"
  shows "issues P (reconcile_deletion R p sec)"
  unfolding reconcile_deletion_def gh_GetRunner_def
  by (auto intro!: issues_intros issues_ext issues_client issues_CreateOrUpdate issues_mutate_secret
      assms simp: Let_def split: prod.splits)

text \<open>With an active phase the deletion branch only asks GitHub.\<close>

lemma reconcile_deletion_active_calls:
  assumes "Phase (R_Status (var s)) = RunnerActivePhase"
  shows "wp (reconcile_deletion R p sec) (\<lambda>r s'. \<exists>cs. trace s' = trace s @ cs \<and>
     (\<forall>c\<in>set cs. \<exists>u i. c = GetRunnerC u i)) s"
  using assms
  by (auto simp: reconcile_deletion_def wp_simps Let_def gh_GetRunner_def unexpected_github_error_def
      split: prod.splits option.splits outcome.splits)

section \<open>What each branch leaves alone\<close>

lemma keeps_token_expired [keeps_intros]: "keeps f (token_expired R sec)"
  by (auto simp: token_expired_def intro!: keeps_intros)

lemma keeps_forbidden_or_not_found [keeps_intros]: "keeps f (forbidden_or_not_found e)"
  by (simp add: keeps_def forbidden_or_not_found_def split: outcome.split)

lemma keeps_unexpected [keeps_intros]: "keeps f (unexpected_github_error e)"
  by (auto simp: unexpected_github_error_def intro!: keeps_intros split: option.splits)

lemma keeps_own_secret [keeps_intros]: "keeps f (own_secret R sec)"
  by (auto simp: own_secret_def intro!: keeps_intros split: sum.splits)

lemma keeps_AnnotateTokenExpires [keeps_intros]: "keeps f (AnnotateTokenExpires m t)"
  by (simp add: keeps_def)

lemma keeps_mutate_secret [keeps_intros]:
  "keeps f (mutate_secret R sec)" "keeps f (mutate_secret_deleting R sec)"
  unfolding mutate_secret_def mutate_secret_deleting_def gh_CreateRunnerToken_def
  by (auto intro!: keeps_intros simp: Let_def split: option.splits prod.splits)

lemma keeps_mutate_pod [keeps_intros]: "keeps f (mutate_pod R p)"
  by (auto simp: mutate_pod_def intro!: keeps_intros split: sum.splits)

lemma keeps_runner_event [keeps_intros]: "keeps f (runner_event t r)"
  by (auto simp: runner_event_def intro!: keeps_intros)

lemma keeps_FindRunnerIDFromPod [keeps_intros]: "keeps f (FindRunnerIDFromPod re p)"
  unfolding FindRunnerIDFromPod_def
  by (auto intro!: keeps_intros split: option.splits sum.splits)

lemma keeps_protect_pod [keeps_intros]: "keeps f (protect_pod R p)"
  by (auto simp: protect_pod_def Let_def intro!: keeps_intros)

lemma keeps_set_status_condition: "keeps R_Meta (set_status_condition R st re me)"
  by (auto simp: set_status_condition_def intro!: keeps_intros keeps_modify_var)

lemma keeps_meta_reconcileStatus: "keeps R_Meta (reconcileStatus R p)"
  unfolding reconcileStatus_def gh_GetRunner_def Let_def
  by (auto intro!: keeps_intros keeps_modify_var keeps_set_status_condition split: prod.splits)

section \<open>The structure of a reconciliation\<close>

text \<open>The three ways a reconciliation ends: the runner could not be read, the patcher could not be
  made, or the body ran on the runner that was read and was followed by the patch.\<close>

lemma Reconcile_not_read:
  "Get (RunnersOf (RR_Client R)) key w = (Inl err, w1) \<Longrightarrow>
     Reconcile R key (start w v) =
       (Done (no_requeue, if apierrors_IsNotFound (RR_Library R) err then None else Some err),
        \<lparr>world = w1, trace = [GetC KRunner key], var = v\<rparr>)"
  by (simp add: Reconcile_def run_andthen client_Get_def ext_def start_def)

lemma Reconcile_no_patcher:
  "Get (RunnersOf (RR_Client R)) key w = (Inr runner, w1) \<Longrightarrow>
   NewPatcher (RR_Unstructured R) (RR_Converter R) runner = Inl err \<Longrightarrow>
     Reconcile R key (start w v) =
       (Done (no_requeue, Some err), \<lparr>world = w1, trace = [GetC KRunner key], var = runner\<rparr>)"
  by (simp add: Reconcile_def run_andthen client_Get_def ext_def start_def write_var_def)

lemma Reconcile_patched:
  "Get (RunnersOf (RR_Client R)) key w = (Inr runner, w1) \<Longrightarrow>
   NewPatcher (RR_Unstructured R) (RR_Converter R) runner = Inr p \<Longrightarrow>
     Reconcile R key (start w v) =
       deferred (reconcile_runner R)
         (Patcher_Patch (RR_Unstructured R) (RR_Converter R) (RR_Library R) ORunner
            (RunnersOf (RR_Client R)) p)
         patch_result \<lparr>world = w1, trace = [GetC KRunner key], var = runner\<rparr>"
  by (simp add: Reconcile_def run_andthen client_Get_def ext_def start_def write_var_def)

lemma deferred_Done:
  assumes "body s = (r1, s1)" and "d s1 = (Done b, s2)"
  shows "deferred body d f s =
    (case r1 of Done a \<Rightarrow> Done (f a b) | Panicked p \<Rightarrow> Panicked p, s2)"
  using assms by (simp add: deferred_def split: outcome.split)

lemma Patcher_Patch_Done:
  obtains e s' where "Patcher_Patch U cv L k c p s = (Done e, s')"
  using Patcher_Patch_never_panics [of U cv L k c p s]
  by (cases "Patcher_Patch U cv L k c p s") (auto simp: wp_def)

lemma Reconcile_cases:
  assumes "Reconcile R key (start w v) = (r, s')"
  obtains (not_read) err w1 where "Get (RunnersOf (RR_Client R)) key w = (Inl err, w1)"
      "s' = \<lparr>world = w1, trace = [GetC KRunner key], var = v\<rparr>"
      "r = Done (no_requeue, if apierrors_IsNotFound (RR_Library R) err then None else Some err)"
  | (no_patcher) runner err w1 where "Get (RunnersOf (RR_Client R)) key w = (Inr runner, w1)"
      "NewPatcher (RR_Unstructured R) (RR_Converter R) runner = Inl err"
      "s' = \<lparr>world = w1, trace = [GetC KRunner key], var = runner\<rparr>"
      "r = Done (no_requeue, Some err)"
  | (patched) runner p w1 r1 s1 perr where "Get (RunnersOf (RR_Client R)) key w = (Inr runner, w1)"
      "NewPatcher (RR_Unstructured R) (RR_Converter R) runner = Inr p"
      "reconcile_runner R \<lparr>world = w1, trace = [GetC KRunner key], var = runner\<rparr> = (r1, s1)"
      "Patcher_Patch (RR_Unstructured R) (RR_Converter R) (RR_Library R) ORunner
         (RunnersOf (RR_Client R)) p s1 = (Done perr, s')"
      "r = (case r1 of Done x \<Rightarrow> Done (patch_result x perr) | Panicked pa \<Rightarrow> Panicked pa)"
proof -
  obtain got w1 where got: "Get (RunnersOf (RR_Client R)) key w = (got, w1)"
    by (cases "Get (RunnersOf (RR_Client R)) key w") auto
  show thesis
  proof (cases got)
    case (Inl err)
    from Reconcile_not_read [OF got [unfolded Inl]] assms not_read [OF got [unfolded Inl]]
    show thesis by (metis prod.inject)
  next
    case (Inr runner)
    note got = got [unfolded Inr]
    show thesis
    proof (cases "NewPatcher (RR_Unstructured R) (RR_Converter R) runner")
      case (Inl err)
      from Reconcile_no_patcher [OF got Inl] assms no_patcher [OF got Inl]
      show thesis by (metis prod.inject)
    next
      fix p
      assume p: "NewPatcher (RR_Unstructured R) (RR_Converter R) runner = Inr p"
      let ?s = "\<lparr>world = w1, trace = [GetC KRunner key], var = runner\<rparr>"
      obtain r1 s1 where body: "reconcile_runner R ?s = (r1, s1)"
        by (cases "reconcile_runner R ?s") auto
      obtain perr s2 where pp: "Patcher_Patch (RR_Unstructured R) (RR_Converter R) (RR_Library R)
          ORunner (RunnersOf (RR_Client R)) p s1 = (Done perr, s2)"
        by (rule Patcher_Patch_Done)
      note run = deferred_Done [where d = "Patcher_Patch (RR_Unstructured R) (RR_Converter R)
          (RR_Library R) ORunner (RunnersOf (RR_Client R)) p" and f = patch_result
          and body = "reconcile_runner R" and s = ?s and ?s1.0 = s1, OF body pp]
      show thesis
      proof (rule patched [OF got p body])
        show "Patcher_Patch (RR_Unstructured R) (RR_Converter R) (RR_Library R) ORunner
            (RunnersOf (RR_Client R)) p s1 = (Done perr, s')"
          using pp run assms Reconcile_patched [OF got p, of v] by simp
        show "r = (case r1 of Done x \<Rightarrow> Done (patch_result x perr) | Panicked pa \<Rightarrow> Panicked pa)"
          using run assms Reconcile_patched [OF got p, of v] by simp
      qed
    qed
  qed
qed

end
