(* ===== verification/Runner_Deletion.thy ===== *)
theory Runner_Deletion
  imports Runner_Lemmas
begin

text \<open>
  The deletion of a runner: what a reconciliation deletes and when, when the finalizer goes, and how
  an active runner that is being deleted waits for its job and then drains.
\<close>

section \<open>The environment of the witnesses\<close>

definition sample_reconciler :: "runner \<Rightarrow> secret \<Rightarrow> pod \<Rightarrow> gh_runner \<times> go_error option \<Rightarrow>
    runner_token \<times> go_error option \<Rightarrow> 'w runner_reconciler" where
  "sample_reconciler r sec p g t =
     \<lparr>RR_Client = sample_cluster r sec p,
      RR_Github = sample_github g t,
      RR_Executor = sample_executor ''7'',
      RR_Library = sample_library (63808000000 * Second),
      RR_Unstructured = sample_unstructured,
      RR_Converter = sample_runner_json,
      RR_MapOrder = sample_order\<rparr>"

definition fresh_secret :: secret where
  "fresh_secret = sample_secret
     (Some (fmupd AnnotationRunnerTokenExpiresAt ''2099-01-01T00:00:00Z'' fmempty))
     (Some (fmupd ''token'' ''tok'' fmempty))"

lemma fresh_secret_not_expired:
  "\<not> IsTokenExpired (Sec_Meta fresh_secret) (63808000000 * Second)"
  by code_simp

definition expired_secret :: "string gomap \<Rightarrow> secret" where
  "expired_secret dat = sample_secret None dat"

lemma expired_secret_expired: "IsTokenExpired (Sec_Meta (expired_secret d)) t"
  by (simp add: IsTokenExpired_def expired_secret_def sample_defs)



definition sample_run :: "unit runner_reconciler \<Rightarrow>
    (result \<times> go_error option) outcome \<times> (unit, runner) st" where
  "sample_run R = Reconcile R sample_key (start () (sample_runner None [] []))"

section \<open>Deletion\<close>

lemma not_no_delete: "\<not> no_delete (DeleteC obj)"
  by simp

lemma run_not_deleting:
  assumes "GetDeletionTimestamp_IsZero (R_Meta (var s))"
  shows "wp (reconcile_runner R) (\<lambda>r s'. \<exists>cs. trace s' = trace s @ cs \<and> (\<forall>c\<in>set cs. no_delete c)) s"
proof -
  have "issues no_delete (reconcile_normal R (podForRunner (RR_MapOrder R) (var s)) (secretForRunner (var s)))"
    by (rule issues_reconcile_normal) simp_all
  with assms show ?thesis
    by (simp add: reconcile_runner_def wp_simps issues_def Let_def)
qed

lemma run_deleting:
  assumes "\<not> GetDeletionTimestamp_IsZero (R_Meta (var s))"
    and "Phase (R_Status (var s)) \<noteq> RunnerActivePhase"
  shows "wp (reconcile_runner R) (\<lambda>r s'. \<exists>cs. trace s' = trace s @ cs \<and>
     (\<forall>c\<in>set cs. no_delete c \<or> c = DeleteC (OPod (podForRunner (RR_MapOrder R) (var s)))
        \<or> (\<exists>sec. c = DeleteC (OSecret sec)))) s"
proof -
  have "issues (\<lambda>c. no_delete c \<or> c = DeleteC (OPod (podForRunner (RR_MapOrder R) (var s)))
        \<or> (\<exists>sec. c = DeleteC (OSecret sec)))
      (reconcile_deletion R (podForRunner (RR_MapOrder R) (var s)) (secretForRunner (var s)))"
    by (rule issues_reconcile_deletion) auto
  with assms show ?thesis
    by (simp add: reconcile_runner_def wp_simps issues_def Let_def)
qed

lemma run_deleting_active:
  assumes "\<not> GetDeletionTimestamp_IsZero (R_Meta (var s))"
    and "Phase (R_Status (var s)) = RunnerActivePhase"
  shows "wp (reconcile_runner R) (\<lambda>r s'. \<exists>cs. trace s' = trace s @ cs \<and> (\<forall>c\<in>set cs. no_delete c)) s"
  using assms
  by (auto simp: reconcile_runner_def wp_simps Let_def
      intro!: wp_mono [OF reconcile_deletion_active_calls] split: outcome.splits)
    (metis no_delete_simps(7))

lemma patch_calls_no_delete:
  assumes "Patcher_Patch U cv L k c p s = (r, s')"
  obtains cs where "trace s' = trace s @ cs" and "\<forall>c\<in>set cs. no_delete c"
proof -
  have "issues no_delete (Patcher_Patch U cv L k c p :: (('a, 'b) st, go_error option) prog)"
    by (rule issues_Patcher_Patch) simp_all
  from issuesD [OF this assms] that show thesis by blast
qed

text \<open>C1. A reconciliation deletes something only when the runner it read carries a deletion
  timestamp and is not in the active phase; and then it deletes the pod made for that runner, or a
  secret, and nothing else.\<close>

theorem deletes_only_deleting_inactive_runner:
  assumes "DeleteC obj \<in> set (trace (snd (Reconcile R key (start w v))))"
  shows "\<exists>runner w1. Get (RunnersOf (RR_Client R)) key w = (Inr runner, w1)
    \<and> \<not> GetDeletionTimestamp_IsZero (R_Meta runner)
    \<and> Phase (R_Status runner) \<noteq> RunnerActivePhase
    \<and> (obj = OPod (podForRunner (RR_MapOrder R) runner) \<or> (\<exists>sec. obj = OSecret sec))"
proof -
  obtain r s' where run: "Reconcile R key (start w v) = (r, s')" by fastforce
  with assms have del: "DeleteC obj \<in> set (trace s')" by simp
  from run show ?thesis
  proof (cases rule: Reconcile_cases)
    case (patched runner p w1 r1 s1 perr)
    let ?s = "\<lparr>world = w1, trace = [GetC KRunner key], var = runner\<rparr>"
    obtain ds where "trace s' = trace s1 @ ds" "\<forall>c\<in>set ds. no_delete c"
      using patch_calls_no_delete [OF patched(4)] .
    with del have d1: "DeleteC obj \<in> set (trace s1)" by (auto dest!: bspec [where x = "DeleteC obj"])
    have dl: "\<not> GetDeletionTimestamp_IsZero (R_Meta runner)"
      using wpD [OF run_not_deleting [of ?s] patched(3)] d1 
      by (auto dest!: bspec [where x = "DeleteC obj"])
    have act: "Phase (R_Status runner) \<noteq> RunnerActivePhase"
      using wpD [OF run_deleting_active [of ?s] patched(3)] d1 dl 
      by (auto dest!: bspec [where x = "DeleteC obj"])
    have "obj = OPod (podForRunner (RR_MapOrder R) runner) \<or> (\<exists>sec. obj = OSecret sec)"
      using wpD [OF run_deleting [of ?s] patched(3)] d1 dl act 
      by (auto dest!: bspec [where x = "DeleteC obj"])
    with patched(1) dl act show ?thesis by blast
  qed (use del in auto)
qed

lemma deletes_only_deleting_inactive_runner_witness:
  "\<exists>obj r. let R = sample_reconciler r fresh_secret sample_ready_pod
       (sample_gh_runner True, None) (sample_token, None)
     in DeleteC obj \<in> set (trace (snd (Reconcile R sample_key (start () r)))) \<and>
        (\<exists>runner w1. Get (RunnersOf (RR_Client R)) sample_key () = (Inr runner, w1) \<and>
           \<not> GetDeletionTimestamp_IsZero (R_Meta runner))"
proof -
  let ?r = "sample_runner (Some 1) [RunnerController] RunnerIdlePhase"
  let ?R = "sample_reconciler ?r fresh_secret sample_ready_pod
       (sample_gh_runner True, None) (sample_token, None)"
  have d: "DeleteC (OPod (podForRunner sample_order ?r)) \<in> set (trace (snd (Reconcile ?R sample_key (start () ?r))))"
    by code_simp
  from deletes_only_deleting_inactive_runner [OF d] d show ?thesis
    unfolding Let_def by blast
qed

subsection \<open>The finalizer\<close>

text \<open>Documented behaviour of the API server and of \<open>SetControllerReference\<close>: an object that is read
  or written keeps its namespace and name.\<close>

definition resource_keeps_key :: "('o \<Rightarrow> object_meta) \<Rightarrow> ('w, 'o) resource \<Rightarrow> bool" where
  "resource_keeps_key meta c \<longleftrightarrow>
     (\<forall>obj w got w'. Fetch c obj w = (Inr got, w') \<longrightarrow>
        ObjectKeyFromObject (meta got) = ObjectKeyFromObject (meta obj)) \<and>
     (\<forall>old obj w err got w'. Commit c old obj w = ((err, got), w') \<longrightarrow>
        ObjectKeyFromObject (meta got) = ObjectKeyFromObject (meta obj))"

definition owner_keeps_key :: "'w library \<Rightarrow> bool" where
  "owner_keeps_key L \<longleftrightarrow>
     (\<forall>owner m m'. ctrl_SetControllerReference L owner m = Inr m' \<longrightarrow>
        ObjectKeyFromObject m' = ObjectKeyFromObject m)"

lemma key_token_annotated [simp]:
  "ObjectKeyFromObject (token_annotated m t) = ObjectKeyFromObject m"
  by (simp add: token_annotated_def ObjectKeyFromObject_def)

lemma mutate_secret_deleting_key:
  assumes "owner_keeps_key (RR_Library R)"
  shows "wp (mutate_secret_deleting R sec) (\<lambda>r s'. \<forall>e sec'. r = Done (e, sec') \<longrightarrow>
     ObjectKeyFromObject (Sec_Meta sec') = ObjectKeyFromObject (Sec_Meta sec)) s"
  using assms
  by (auto simp: mutate_secret_deleting_def wp_simps gh_CreateRunnerToken_def own_secret_def
      token_expired_def unexpected_github_error_def owner_keeps_key_def Let_def
      split: prod.splits option.splits outcome.splits sum.splits)

lemma CreateOrUpdate_key:
  assumes "resource_keeps_key meta c"
    and mutate: "\<And>o' s. wp (mutate o') (\<lambda>r s'. \<forall>e o''. r = Done (e, o'') \<longrightarrow>
           ObjectKeyFromObject (meta o'') = ObjectKeyFromObject (meta o')) s"
  shows "wp (CreateOrUpdate k c obj mutate) (\<lambda>r s'. \<forall>e o'. r = Done (e, o') \<longrightarrow>
           ObjectKeyFromObject (meta o') = ObjectKeyFromObject (meta obj)) s"
  using assms(1) unfolding CreateOrUpdate_def resource_keeps_key_def
  by (auto simp: wp_simps split: prod.splits sum.splits intro!: wp_mono [OF mutate]
      split: outcome.splits option.splits) blast+

lemma secret_deleting_step:
  assumes "resource_keeps_key Sec_Meta c" and "owner_keeps_key (RR_Library R)"
    and "\<And>r s' cs. \<lbrakk>var s' = var s; trace s' = trace s @ cs; \<And>e sec'. r = Done (e, sec') \<Longrightarrow>
        ObjectKeyFromObject (Sec_Meta sec') = ObjectKeyFromObject (Sec_Meta sec)\<rbrakk> \<Longrightarrow> Q r s'"
  shows "wp (CreateOrUpdate OSecret c sec (mutate_secret_deleting R)) Q s"
proof (rule wpI)
  fix r s'
  assume run: "CreateOrUpdate OSecret c sec (mutate_secret_deleting R) s = (r, s')"
  have "keeps (\<lambda>v. v) (CreateOrUpdate OSecret c sec (mutate_secret_deleting R))"
    by (intro keeps_CreateOrUpdate keeps_intros)
  from keepsD [OF this run] have v: "var s' = var s" .
  have "issues (\<lambda>c. True) (CreateOrUpdate OSecret c sec (mutate_secret_deleting R))"
    by (rule issues_CreateOrUpdate) (simp_all add: issues_mutate_secret)
  from issuesD [OF this run] obtain cs where "trace s' = trace s @ cs" by blast
  with v show "Q r s'"
    using wpD [OF CreateOrUpdate_key [OF assms(1) mutate_secret_deleting_key [OF assms(2)]] run]
    by (intro assms(3)) auto
qed

lemma reconcile_normal_meta:
  "wp (reconcile_normal R p sec) (\<lambda>r s'. R_Meta (var s') =
     controllerutil_AddFinalizer (RR_Library R) (R_Meta (var s)) RunnerController) s"
  unfolding reconcile_normal_def wp_modify_andthen
  by (rule wp_keeps [where f = R_Meta])
    (auto intro!: keeps_intros keeps_CreateOrUpdate keeps_modify_var keeps_meta_reconcileStatus
       split: prod.splits)

text \<open>The two deletions of a clean-up: the last requests of a reconciliation, first the pod made for the runner
  and then the secret \<open><name>-registration-token\<close> of its namespace, each of them accepted by the server or
  answered with not found.  An accepted pod may go on terminating for its grace period.\<close>

definition token_secret_key :: "runner \<Rightarrow> object_key" where
  "token_secret_key r = \<lparr>Key_Namespace = Namespace (R_Meta r), Key_Name = Name (R_Meta r) @ ''-registration-token''\<rparr>"

definition cleaned_up :: "'w runner_reconciler \<Rightarrow> runner \<Rightarrow> ('w, runner) st \<Rightarrow> ('w, runner) st \<Rightarrow> bool" where
  "cleaned_up R runner s s' \<longleftrightarrow> (\<exists>cs p sec w0 w1 e1 e2.
     trace s' = trace s @ cs @ [DeleteC (OPod p), DeleteC (OSecret sec)] \<and>
     p = podForRunner (RR_MapOrder R) runner \<and> ObjectKeyFromObject (P_Meta p) = ObjectKeyFromObject (R_Meta runner) \<and>
     ObjectKeyFromObject (Sec_Meta sec) = token_secret_key runner \<and>
     Delete (PodsOf (RR_Client R)) p w0 = (e1, w1) \<and> client_IgnoreNotFound (RR_Library R) e1 = None \<and>
     Delete (SecretsOf (RR_Client R)) sec w1 = (e2, world s') \<and> client_IgnoreNotFound (RR_Library R) e2 = None)"

lemma cleaned_upI:
  assumes "trace s' = trace s @ cs @ [DeleteC (OPod (podForRunner (RR_MapOrder R) runner)), DeleteC (OSecret sec)]"
    and "ObjectKeyFromObject (Sec_Meta sec) = ObjectKeyFromObject (Sec_Meta (secretForRunner runner))"
    and "Delete (PodsOf (RR_Client R)) (podForRunner (RR_MapOrder R) runner) w0 = (e1, w1)"
    and "client_IgnoreNotFound (RR_Library R) e1 = None"
    and "Delete (SecretsOf (RR_Client R)) sec w1 = (e2, world s')" and "client_IgnoreNotFound (RR_Library R) e2 = None"
  shows "cleaned_up R runner s s'"
proof -
  have "ObjectKeyFromObject (P_Meta (podForRunner (RR_MapOrder R) runner)) = ObjectKeyFromObject (R_Meta runner)"
    by (simp add: podForRunner_def ObjectKeyFromObject_def empty_meta_def Let_def)
  moreover have "ObjectKeyFromObject (Sec_Meta sec) = token_secret_key runner"
    using assms(2) by (simp add: secretForRunner_def token_secret_key_def ObjectKeyFromObject_def empty_meta_def)
  ultimately show ?thesis using assms unfolding cleaned_up_def by blast
qed

definition accepts_deletions :: "'w runner_reconciler \<Rightarrow> bool" where
  "accepts_deletions R \<longleftrightarrow>
     (\<forall>sec w. client_IgnoreNotFound (RR_Library R) (fst (Delete (SecretsOf (RR_Client R)) sec w)) = None) \<and>
     (\<forall>p w. client_IgnoreNotFound (RR_Library R) (fst (Delete (PodsOf (RR_Client R)) p w)) = None)"

lemma accepts_deletionsD:
  assumes "accepts_deletions R"
  shows "Delete (SecretsOf (RR_Client R)) sec w = (e, w') \<Longrightarrow> client_IgnoreNotFound (RR_Library R) e = None"
    and "Delete (PodsOf (RR_Client R)) p w = (e, w') \<Longrightarrow> client_IgnoreNotFound (RR_Library R) e = None"
  using assms unfolding accepts_deletions_def by (metis fst_conv)+

lemma inactive_deletion:
  assumes keys: "resource_keeps_key Sec_Meta (SecretsOf (RR_Client R))" "owner_keeps_key (RR_Library R)"
    and "Phase (R_Status (var s)) \<noteq> RunnerActivePhase"
  shows "wp (reconcile_deletion R (podForRunner (RR_MapOrder R) (var s)) (secretForRunner (var s)))
    (\<lambda>r s'. R_Meta (var s') = R_Meta (var s) \<and> (accepts_deletions R \<longrightarrow> (\<forall>res. r \<noteq> Done (res, None))) \<or>
       cleaned_up R (var s) s s') s"
  using assms(3) unfolding reconcile_deletion_def
  by (auto simp: wp_simps client_defs split: prod.split outcome.split dest: accepts_deletionsD
      intro!: secret_deleting_step [OF keys] intro: cleaned_upI)

text \<open>C2. The finalizer goes only after the clean-up: a reconciliation that takes the finalizer off the runner is
  one of a runner that is being deleted and is not active, and its last two requests were the deletions
  of the runner's pod and of its token secret, both accepted or answered with not found.\<close>

theorem finalizer_removed_after_cleanup:
  assumes run: "reconcile_runner R s = (r, s')"
    and had: "RunnerController \<in> set (Finalizers (R_Meta (var s)))"
    and lost: "RunnerController \<notin> set (Finalizers (R_Meta (var s')))"
    and add: "\<And>m. RunnerController \<in> set (Finalizers
          (controllerutil_AddFinalizer (RR_Library R) m RunnerController))"
    and keys: "resource_keeps_key Sec_Meta (SecretsOf (RR_Client R))" "owner_keeps_key (RR_Library R)"
  shows "\<not> GetDeletionTimestamp_IsZero (R_Meta (var s)) \<and> Phase (R_Status (var s)) \<noteq> RunnerActivePhase \<and>
    cleaned_up R (var s) s s'"
proof (cases "GetDeletionTimestamp_IsZero (R_Meta (var s))")
  case True
  have "wp (reconcile_runner R) (\<lambda>r s'. R_Meta (var s') =
     controllerutil_AddFinalizer (RR_Library R) (R_Meta (var s)) RunnerController) s"
    using True by (simp add: reconcile_runner_def wp_simps Let_def reconcile_normal_meta)
  from wpD [OF this run] lost add show ?thesis by simp
next
  case False
  show ?thesis
  proof (cases "Phase (R_Status (var s)) = RunnerActivePhase")
    case True
    then have "wp (reconcile_runner R) (\<lambda>r s'. R_Meta (var s') = R_Meta (var s)) s"
      using False
      by (auto simp: reconcile_runner_def reconcile_deletion_def wp_simps Let_def gh_GetRunner_def
          unexpected_github_error_def split: prod.splits option.splits outcome.splits)
    from wpD [OF this run] had lost show ?thesis by simp
  next
    case inactive: False
    have "wp (reconcile_runner R) (\<lambda>r s'. R_Meta (var s') = R_Meta (var s) \<or> cleaned_up R (var s) s s') s"
      using False by (simp add: reconcile_runner_def wp_simps Let_def)
        (rule wp_mono [OF inactive_deletion [OF keys inactive]], blast)
    from wpD [OF this run] False inactive had lost show ?thesis by auto
  qed
qed

text \<open>A server that records which pods and secrets were deleted.\<close>

definition recording_reconciler :: "runner \<Rightarrow> (object_key list \<times> object_key list) runner_reconciler" where
  "recording_reconciler r =
     (let R = sample_reconciler r fresh_secret sample_ready_pod (sample_gh_runner False, None)
                (sample_token, None)
      in R\<lparr>RR_Client := (RR_Client R)
           \<lparr>PodsOf := (PodsOf (RR_Client R))
              \<lparr>Delete := (\<lambda>p w. (None, (ObjectKeyFromObject (P_Meta p) # fst w, snd w)))\<rparr>,
            SecretsOf := (SecretsOf (RR_Client R))
              \<lparr>Fetch := (\<lambda>sec w. (Inr (fresh_secret\<lparr>Sec_Meta := Sec_Meta sec\<rparr>), w)),
               Delete := (\<lambda>sec w. (None, (fst w, ObjectKeyFromObject (Sec_Meta sec) # snd w)))\<rparr>\<rparr>\<rparr>)"

lemma recording_reconciler_keeps_keys:
  "resource_keeps_key Sec_Meta (SecretsOf (RR_Client (recording_reconciler r)))"
  "owner_keeps_key (RR_Library (recording_reconciler r))"
  by (auto simp: recording_reconciler_def sample_reconciler_def sample_defs Let_def
      resource_keeps_key_def owner_keeps_key_def ObjectKeyFromObject_def split: option.splits if_splits)

lemma finalizer_removed_after_cleanup_witness:
  "let r = sample_runner (Some 1) [RunnerController] RunnerIdlePhase;
       s = start ([], []) r;
       s' = snd (reconcile_runner (recording_reconciler r) s)
   in RunnerController \<notin> set (Finalizers (R_Meta (var s'))) \<and> cleaned_up (recording_reconciler r) r s s' \<and>
      \<lparr>Key_Namespace = ''ns'', Key_Name = ''r1''\<rparr> \<in> set (fst (world s')) \<and>
      \<lparr>Key_Namespace = ''ns'', Key_Name = ''r1-registration-token''\<rparr> \<in> set (snd (world s'))"
proof -
  let ?r = "sample_runner (Some 1) [RunnerController] RunnerIdlePhase"
  let ?R = "recording_reconciler ?r" and ?s = "start ([], []) ?r :: (object_key list \<times> object_key list, runner) st"
  let ?s' = "snd (reconcile_runner ?R ?s)"
  have lost: "RunnerController \<notin> set (Finalizers (R_Meta (var ?s')))" by code_simp
  have recorded: "\<lparr>Key_Namespace = ''ns'', Key_Name = ''r1''\<rparr> \<in> set (fst (world ?s'))"
    "\<lparr>Key_Namespace = ''ns'', Key_Name = ''r1-registration-token''\<rparr> \<in> set (snd (world ?s'))"
    by code_simp+
  have "\<not> GetDeletionTimestamp_IsZero (R_Meta (var ?s)) \<and> Phase (R_Status (var ?s)) \<noteq> RunnerActivePhase \<and>
      cleaned_up ?R (var ?s) ?s ?s'"
    by (rule finalizer_removed_after_cleanup [OF prod.collapse [symmetric] _ lost _ recording_reconciler_keeps_keys])
      (auto simp: start_def recording_reconciler_def sample_reconciler_def sample_defs Let_def)
  with lost recorded show ?thesis by (simp add: Let_def start_def)
qed

subsection \<open>An active runner\<close>

lemma Patcher_Patch_unchanged:
  assumes "NewPatcher U cv (var s) = Inr p" and "kerrors_NewAggregate L [] = None"
  shows "Patcher_Patch U cv L k c p s = (Done None, s)"
  using assms
  by (auto simp: NewPatcher_def Patcher_Patch_def run_andthen read_var_def Let_def
      split: sum.splits prod.splits option.splits)

text \<open>C3. A runner that is being deleted while GitHub says it is busy is left exactly as it is: the
  reconciliation reads the runner, asks GitHub once, sends no write of any kind (no patch either),
  and comes back after a minute.\<close>

theorem busy_runner_is_left_alone:
  assumes got: "Get (RunnersOf (RR_Client R)) key w = (Inr runner, w1)"
    and patcher: "NewPatcher (RR_Unstructured R) (RR_Converter R) runner = Inr p"
    and deleting: "\<not> GetDeletionTimestamp_IsZero (R_Meta runner)"
    and active: "Phase (R_Status runner) = RunnerActivePhase"
    and runner_id: "ID (R_Spec runner) = Some i" "i \<noteq> - 1"
    and github: "GetRunner (RR_Github R) (URL (R_Spec runner)) i w1 = ((g, None), w2)" "GetBusy g"
    and agg: "kerrors_NewAggregate (RR_Library R) [] = None"
  shows "Reconcile R key (start w v) =
    (Done (\<lparr>Requeue = False, RequeueAfter = 60 * Second\<rparr>, None),
     \<lparr>world = w2, trace = [GetC KRunner key, GetRunnerC (URL (R_Spec runner)) i], var = runner\<rparr>)"
proof -
  let ?s = "\<lparr>world = w1, trace = [GetC KRunner key], var = runner\<rparr>"
  let ?s' = "\<lparr>world = w2, trace = [GetC KRunner key, GetRunnerC (URL (R_Spec runner)) i], var = runner\<rparr>"
  have body: "reconcile_runner R ?s =
      (Done (\<lparr>Requeue = False, RequeueAfter = 60 * Second\<rparr>, None), ?s')"
    using assms by (simp add: reconcile_runner_def reconcile_deletion_def run_andthen read_var_def
        Let_def Int64Deref_def gh_GetRunner_def ext_def unexpected_github_error_def)
  have "Patcher_Patch (RR_Unstructured R) (RR_Converter R) (RR_Library R) ORunner
      (RunnersOf (RR_Client R)) p ?s' = (Done None, ?s')"
    using patcher agg by (simp add: Patcher_Patch_unchanged)
  with body show ?thesis
    by (simp add: Reconcile_patched [OF got patcher] deferred_def patch_result_def)
qed

lemma busy_runner_is_left_alone_witness:
  "let r = sample_runner (Some 1) [RunnerController] RunnerActivePhase;
       R = sample_reconciler r fresh_secret sample_ready_pod (sample_gh_runner True, None)
             (sample_token, None) :: unit runner_reconciler
   in trace (snd (Reconcile R sample_key (start () r))) =
        [GetC KRunner sample_key, GetRunnerC ''https://github.com/octo/repo'' 7]"
proof -
  let ?r = "sample_runner (Some 1) [RunnerController] RunnerActivePhase"
  let ?R = "sample_reconciler ?r fresh_secret sample_ready_pod (sample_gh_runner True, None)
             (sample_token, None) :: unit runner_reconciler"
  obtain p where p: "NewPatcher (RR_Unstructured ?R) (RR_Converter ?R) ?r = Inr p"
    by (simp add: NewPatcher_def sample_reconciler_def sample_defs)
  show ?thesis
    by (subst Let_def, subst Let_def, subst busy_runner_is_left_alone
          [OF _ p, where g = "sample_gh_runner True" and i = 7 and ?w1.0 = "()" and ?w2.0 = "()"])
      (simp_all add: sample_reconciler_def sample_defs GetDeletionTimestamp_IsZero_def time_IsZero_def)
qed

text \<open>The errors of GitHub that a deletion tolerates: it refuses, or it no longer knows the runner.\<close>

definition tolerated :: "go_error option \<Rightarrow> bool" where
  "tolerated err \<longleftrightarrow> (case err of None \<Rightarrow> True
     | Some e \<Rightarrow> (\<exists>resp. e = GhErrorResponse (Some resp) \<and> StatusCode resp \<in> {403, 404}))"

lemma tolerated_unexpected [simp]:
  "tolerated err \<Longrightarrow> unexpected_github_error err s = (Done False, s)"
  by (auto simp: tolerated_def unexpected_github_error_def run_andthen forbidden_or_not_found_def
      IsForbidden_def IsNotFound_def has_status_def parseErrorResponse_def split: option.splits)

lemma wp_unexpected_tolerated:
  "tolerated err \<Longrightarrow> wp (unexpected_github_error err) Q s = Q (Done False) s"
  by (simp add: wp_def)

lemma active_runner_let_go:
  assumes "\<not> GetDeletionTimestamp_IsZero (R_Meta (var s))"
    and "Phase (R_Status (var s)) = RunnerActivePhase"
    and "\<And>i g err. ID (R_Spec (var s)) = Some i \<Longrightarrow>
      fst (GetRunner (RR_Github R) (URL (R_Spec (var s))) i (world s)) = (g, err) \<Longrightarrow>
      tolerated err \<and> \<not> GetBusy g"
  shows "wp (reconcile_runner R) (\<lambda>r s'. r = Done (\<lparr>Requeue = True, RequeueAfter = 0\<rparr>, None) \<and>
     var s' = set_Phase RunnerCompletePhase (var s)) s"
  using assms
  by (cases "ID (R_Spec (var s))")
    (auto simp: reconcile_runner_def reconcile_deletion_def wp_simps Let_def Int64Deref_def
      gh_GetRunner_def wp_unexpected_tolerated split: prod.split)

text \<open>A server that takes every write, and a GitHub that gives tokens or refuses them.\<close>

definition cooperates :: "'w runner_reconciler \<Rightarrow> bool" where
  "cooperates R \<longleftrightarrow>
     (\<forall>sec w. \<exists>got w'. Fetch (SecretsOf (RR_Client R)) sec w = (Inr got, w')) \<and>
     (\<forall>old sec w. fst (fst (Commit (SecretsOf (RR_Client R)) old sec w)) = None) \<and>
     accepts_deletions R \<and>
     (\<forall>owner m. \<exists>m'. ctrl_SetControllerReference (RR_Library R) owner m = Inr m') \<and>
     (\<forall>url w. tolerated (snd (fst (CreateRunnerToken (RR_Github R) url w))))"

lemma cooperatesD:
  assumes "cooperates R"
  shows "Fetch (SecretsOf (RR_Client R)) sec w = (x, w') \<Longrightarrow> \<exists>got. x = Inr got"
    and "Commit (SecretsOf (RR_Client R)) old sec w = ((e, o'), w') \<Longrightarrow> e = None"
    and "Delete (SecretsOf (RR_Client R)) sec w = (e, w') \<Longrightarrow> client_IgnoreNotFound (RR_Library R) e = None"
    and "Delete (PodsOf (RR_Client R)) p w = (e, w') \<Longrightarrow> client_IgnoreNotFound (RR_Library R) e = None"
    and "\<exists>m'. ctrl_SetControllerReference (RR_Library R) owner m = Inr m'"
    and "CreateRunnerToken (RR_Github R) url w = ((t, e), w') \<Longrightarrow> tolerated e"
  using assms unfolding cooperates_def accepts_deletions_def by (metis fst_conv snd_conv)+

lemma mutate_secret_deleting_cooperates:
  assumes "cooperates R"
  shows "wp (mutate_secret_deleting R sec) (\<lambda>r s'. \<exists>sec'. r = Done (None, sec')) s"
proof -
  have own: "wp (own_secret R x) (\<lambda>r s'. \<exists>sec'. r = Done (None, sec')) s" for x s
    using cooperatesD(5) [OF assms, of "R_Meta (var s)" "Sec_Meta x"]
    by (auto simp: own_secret_def wp_simps)
  then show ?thesis
    using cooperatesD(6) [OF assms]
    by (auto simp: mutate_secret_deleting_def token_expired_def wp_simps gh_CreateRunnerToken_def
        wp_unexpected_tolerated Let_def make_map_def split: prod.split option.split)
qed

lemma issues_secret_deleting:
  "issues (\<lambda>c. \<forall>u i. c \<noteq> GetRunnerC u i)
     (CreateOrUpdate OSecret (SecretsOf (RR_Client R)) sec (mutate_secret_deleting R))"
  by (rule issues_CreateOrUpdate) (simp_all add: issues_mutate_secret)

lemma clean_up:
  assumes coop: "cooperates R"
    and "\<not> GetDeletionTimestamp_IsZero (R_Meta (var s))"
    and "Phase (R_Status (var s)) \<noteq> RunnerActivePhase"
  shows "wp (reconcile_runner R) (\<lambda>r s'. r = Done (no_requeue, None) \<and>
     R_Meta (var s') = controllerutil_RemoveFinalizer (RR_Library R) (R_Meta (var s)) RunnerController \<and>
     (\<exists>cs. trace s' = trace s @ cs \<and> DeleteC (OPod (podForRunner (RR_MapOrder R) (var s))) \<in> set cs \<and>
        (\<forall>u i. GetRunnerC u i \<notin> set cs))) s"
proof -
  have "wp (CreateOrUpdate OSecret (SecretsOf (RR_Client R)) sec (mutate_secret_deleting R))
      (\<lambda>r s'. \<exists>sec'. r = Done (None, sec')) s" for sec s
    unfolding CreateOrUpdate_def
    by (auto simp: wp_simps dest: cooperatesD(1,2) [OF coop] split: prod.split sum.split
        intro!: wp_mono [OF mutate_secret_deleting_cooperates [OF coop]])
  then have co: "wp (CreateOrUpdate OSecret (SecretsOf (RR_Client R)) sec (mutate_secret_deleting R))
      (\<lambda>r s'. (\<exists>sec'. r = Done (None, sec')) \<and> var s' = var s \<and>
         (\<exists>cs. trace s' = trace s @ cs \<and> (\<forall>c\<in>set cs. \<forall>u i. c \<noteq> GetRunnerC u i))) s" for sec s
    using issues_secret_deleting [of R sec]
    by (intro wp_conj wp_keeps [where f = "\<lambda>v. v" and Q = "\<lambda>r s'. var s' = var s"]
        keeps_CreateOrUpdate keeps_intros) (simp_all add: issues_def)
  show ?thesis
    using assms(2,3)
    by (auto simp: reconcile_runner_def reconcile_deletion_def wp_simps Let_def client_defs
        cooperatesD(3,4) [OF coop] split: prod.split intro!: wp_mono [OF co]) blast
qed

text \<open>C7. A runner that is being deleted does not linger: once GitHub says that it is idle, or refuses,
  or does not know it, one reconciliation marks it complete and asks to be called again, and with a
  server that takes the writes the next one deletes its pod and then its token secret and takes the
  finalizer off.\<close>

theorem deleted_runner_drains:
  assumes "\<not> GetDeletionTimestamp_IsZero (R_Meta (var s))"
    and "Phase (R_Status (var s)) = RunnerActivePhase"
    and "\<And>i g err. ID (R_Spec (var s)) = Some i \<Longrightarrow>
      fst (GetRunner (RR_Github R) (URL (R_Spec (var s))) i (world s)) = (g, err) \<Longrightarrow>
      tolerated err \<and> \<not> GetBusy g"
    and coop: "cooperates R"
    and keys: "resource_keeps_key Sec_Meta (SecretsOf (RR_Client R))" "owner_keeps_key (RR_Library R)"
  shows "\<exists>s1. reconcile_runner R s = (Done (\<lparr>Requeue = True, RequeueAfter = 0\<rparr>, None), s1) \<and>
     var s1 = set_Phase RunnerCompletePhase (var s) \<and>
     (\<forall>s2. var s2 = var s1 \<longrightarrow> (\<exists>s3. reconcile_runner R s2 = (Done (no_requeue, None), s3) \<and>
        cleaned_up R (var s1) s2 s3 \<and>
        R_Meta (var s3) =
          controllerutil_RemoveFinalizer (RR_Library R) (R_Meta (var s)) RunnerController))"
proof -
  obtain r1 s1 where run: "reconcile_runner R s = (r1, s1)" by fastforce
  from wpD [OF active_runner_let_go [OF assms(1-3)] run]
  have r1: "r1 = Done (\<lparr>Requeue = True, RequeueAfter = 0\<rparr>, None)"
    and v1: "var s1 = set_Phase RunnerCompletePhase (var s)" by auto
  have "\<exists>s3. reconcile_runner R s2 = (Done (no_requeue, None), s3) \<and> cleaned_up R (var s1) s2 s3 \<and> R_Meta (var s3) =
      controllerutil_RemoveFinalizer (RR_Library R) (R_Meta (var s)) RunnerController"
    if v2: "var s2 = var s1" for s2
  proof -
    obtain r3 s3 where run3: "reconcile_runner R s2 = (r3, s3)" by fastforce
    have deleting: "\<not> GetDeletionTimestamp_IsZero (R_Meta (var s2))" and inactive: "Phase (R_Status (var s2)) \<noteq> RunnerActivePhase"
      using v2 v1 assms(1) by simp_all
    from wpD [OF clean_up [OF coop deleting inactive] run3]
    have r3: "r3 = Done (no_requeue, None)" "R_Meta (var s3) =
        controllerutil_RemoveFinalizer (RR_Library R) (R_Meta (var s)) RunnerController"
      using v2 v1 by auto
    have "accepts_deletions R" using coop by (simp add: cooperates_def)
    then have "wp (reconcile_runner R) (\<lambda>r s'. (\<forall>res. r \<noteq> Done (res, None)) \<or> cleaned_up R (var s2) s2 s') s2"
      using deleting by (simp add: reconcile_runner_def wp_simps Let_def)
        (rule wp_mono [OF inactive_deletion [OF keys inactive]], blast)
    from wpD [OF this run3] r3 run3 v2 show ?thesis by simp
  qed
  with run r1 v1 show ?thesis by blast
qed

definition accepting_reconciler :: "runner \<Rightarrow> secret \<Rightarrow> gh_runner \<times> go_error option \<Rightarrow>
    unit runner_reconciler" where
  "accepting_reconciler r sec g =
     (sample_reconciler r sec sample_ready_pod g (sample_token, None))
       \<lparr>RR_Library := (sample_library (63808000000 * Second))
          \<lparr>ctrl_SetControllerReference := (\<lambda>owner m. Inr m)\<rparr>\<rparr>"

text \<open>A secret of the name that is asked for, whose token has expired.\<close>

definition draining_reconciler :: "runner \<Rightarrow> unit runner_reconciler" where
  "draining_reconciler r =
     (let R = accepting_reconciler r (expired_secret None)
            (sample_gh_runner False, Some (GhErrorResponse (Some \<lparr>StatusCode = 404\<rparr>)))
      in R\<lparr>RR_Client := (RR_Client R)\<lparr>SecretsOf := (SecretsOf (RR_Client R))
           \<lparr>Fetch := (\<lambda>sec w. (Inr sec, w))\<rparr>\<rparr>\<rparr>)"

lemma deleted_runner_drains_witness:
  "let r = sample_runner (Some 1) [RunnerController] RunnerActivePhase; R = draining_reconciler r
   in \<exists>s1. reconcile_runner R (start () r) =
        (Done (\<lparr>Requeue = True, RequeueAfter = 0\<rparr>, None), s1) \<and>
        (\<exists>s3. reconcile_runner R s1 = (Done (no_requeue, None), s3) \<and> cleaned_up R (var s1) s1 s3 \<and>
           Finalizers (R_Meta (var s3)) = [])"
proof -
  let ?r = "sample_runner (Some 1) [RunnerController] RunnerActivePhase"
  let ?R = "draining_reconciler ?r"
  have "\<exists>s1. reconcile_runner ?R (start () ?r) = (Done (\<lparr>Requeue = True, RequeueAfter = 0\<rparr>, None), s1) \<and>
     var s1 = set_Phase RunnerCompletePhase (var (start () ?r)) \<and>
     (\<forall>s2. var s2 = var s1 \<longrightarrow> (\<exists>s3. reconcile_runner ?R s2 = (Done (no_requeue, None), s3) \<and>
        cleaned_up ?R (var s1) s2 s3 \<and>
        R_Meta (var s3) = controllerutil_RemoveFinalizer (RR_Library ?R) (R_Meta (var (start () ?r)))
          RunnerController))"
    by (rule deleted_runner_drains)
      (auto simp: start_def draining_reconciler_def accepting_reconciler_def sample_reconciler_def sample_defs cooperates_def accepts_deletions_def
        Let_def tolerated_def GetDeletionTimestamp_IsZero_def time_IsZero_def resource_keeps_key_def owner_keeps_key_def
        split: if_splits)
  then show ?thesis
    by (fastforce simp: start_def draining_reconciler_def accepting_reconciler_def sample_defs RunnerController_def Let_def)
qed

end
