(* ===== verification/Runner_Status.thy ===== *)
theory Runner_Status
  imports Runner_Deletion
begin

text \<open>
  The status of a runner: which phase a reconciliation reports, and what a failed look-up does to a
  runner that was active.
\<close>

section \<open>The phase of a runner\<close>

text \<open>
  The specification of the status half: what a reconciliation can observe of a runner, and the
  phase, the result and the reported condition that go with each observation.
\<close>

datatype observation =
  PodNotStarted | PodNotReady | NoRunnerInfo go_error | RunnerIsOffline | RunnerIsIdle | RunnerIsBusy
| PodDone | PodUnknown

definition observe_github :: "'w runner_reconciler \<Rightarrow> string \<Rightarrow> (int64 \<times> go_error option) \<Rightarrow> 'w \<Rightarrow>
    observation" where
  "observe_github R url found w =
     (case found of
        (i, Some e) \<Rightarrow> NoRunnerInfo e
      | (i, None) \<Rightarrow>
          (case GetRunner (RR_Github R) url i w of
             ((g, Some e), _) \<Rightarrow> NoRunnerInfo e
           | ((g, None), _) \<Rightarrow>
               if GetStatus g = ''offline'' then RunnerIsOffline
               else if GetBusy g then RunnerIsBusy else RunnerIsIdle))"

text \<open>What the command in the pod printed: an id, or an error.\<close>

definition runner_id_of :: "string \<times> string \<times> go_error option \<Rightarrow> int64 \<times> go_error option" where
  "runner_id_of out =
     (case out of
        (stdout, stderr, Some e) \<Rightarrow> (- 1, Some e)
      | (stdout, stderr, None) \<Rightarrow>
          if TrimSpace stderr = []
          then (case ParseInt10 0 (TrimSpace stdout) of
                  Inl e \<Rightarrow> (- 1, Some e) | Inr i \<Rightarrow> (word_of_int i, None))
          else (- 1, Some (ErrorString (''error executing command: '' @ TrimSpace stderr))))"

definition observe :: "'w runner_reconciler \<Rightarrow> string \<Rightarrow> pod \<Rightarrow> 'w \<Rightarrow> observation" where
  "observe R url p w =
     (let phase = PodPhase (P_Status p)
      in if phase = PodPending then PodNotStarted
         else if phase = PodRunning
         then if PodConditionIsReady p
              then (case Exec (RR_Executor R) p ''runner'' runner_id_command w of
                      (out, w') \<Rightarrow> observe_github R url (runner_id_of out) w')
              else PodNotReady
         else if phase = PodSucceeded then PodDone
         else PodUnknown)"

fun spec_phase :: "observation \<Rightarrow> runner_phase" where
  "spec_phase RunnerIsIdle = RunnerIdlePhase"
| "spec_phase RunnerIsBusy = RunnerActivePhase"
| "spec_phase PodDone = RunnerCompletePhase"
| "spec_phase _ = RunnerPendingPhase"

fun spec_result :: "observation \<Rightarrow> result \<times> go_error option" where
  "spec_result (NoRunnerInfo e) = (no_requeue, Some e)"
| "spec_result RunnerIsOffline = (\<lparr>Requeue = False, RequeueAfter = 5 * Second\<rparr>, None)"
| "spec_result _ = (no_requeue, None)"

lemma FindRunnerIDFromPod_spec:
  "wp (FindRunnerIDFromPod re p) Q s =
     (case Exec re p ''runner'' runner_id_command (world s) of (out, w') \<Rightarrow>
        Q (Done (runner_id_of out)) (s\<lparr>world := w', trace := trace s @
          [ExecC (ObjectKeyFromObject (P_Meta p)) ''runner'' runner_id_command]\<rparr>))"
  by (auto simp: FindRunnerIDFromPod_def wp_simps runner_id_of_def
      split: prod.split option.split sum.split)

lemma protect_pod_outcome:
  "wp (protect_pod R p) (\<lambda>r s'. var s' = var s \<and> (\<exists>e. r = Done (no_requeue, e))) s"
  by (auto simp: protect_pod_def wp_simps Let_def client_defs make_map_def split: prod.split option.split)

text \<open>C6. The status half implements the specification: starting from the pending phase, in which the
  callers leave the runner, the phase afterwards is the one of what was observed, and so are the
  result and the error, with one exception: for a busy runner whose pod is to be protected from
  eviction, the error is that of the annotation patch.  A pod that is pending or not ready does not ask for
  another reconciliation, and an offline runner asks for one in five seconds; the flow chart of
  \<open>docs/concepts/runner.md\<close> has it the other way round.\<close>

theorem reconcileStatus_refines_observation:
  assumes "Phase (R_Status (var s)) = RunnerPendingPhase"
    and "obs = observe R (URL (R_Spec (var s))) p (world s)"
  shows "wp (reconcileStatus R p) (\<lambda>r s'. Phase (R_Status (var s')) = spec_phase obs \<and>
    (if obs = RunnerIsBusy \<and> EvictionPolicy (R_Spec (var s)) = RunnerEvictionIfNotActive
     then (\<exists>e. r = Done (no_requeue, e)) else r = Done (spec_result obs))) s"
  using assms
  by (auto simp: reconcileStatus_def wp_simps Let_def observe_def observe_github_def
      FindRunnerIDFromPod_spec gh_GetRunner_def runner_event_def set_status_condition_def pod_phase_defs
      split: prod.split option.split intro!: wp_mono [OF protect_pod_outcome])

lemma reconcileStatus_refines_observation_witness:
  "let r = sample_runner None [RunnerController] RunnerPendingPhase;
       R = sample_reconciler r fresh_secret sample_ready_pod (sample_gh_runner True, None)
             (sample_token, None) :: unit runner_reconciler
   in observe R (URL (R_Spec r)) sample_ready_pod () = RunnerIsBusy \<and>
      Phase (R_Status (var (snd (reconcileStatus R sample_ready_pod (start () r))))) = RunnerActivePhase"
proof -
  let ?r = "sample_runner None [RunnerController] RunnerPendingPhase"
  let ?R = "sample_reconciler ?r fresh_secret sample_ready_pod (sample_gh_runner True, None)
             (sample_token, None) :: unit runner_reconciler"
  let ?s = "start () ?r"
  have obs: "RunnerIsBusy = observe ?R (URL (R_Spec (var ?s))) sample_ready_pod (world ?s)"
    by code_simp
  have "Phase (R_Status (var ?s)) = RunnerPendingPhase"
    by (simp add: start_def sample_defs)
  from reconcileStatus_refines_observation [OF this obs]
  have "wp (reconcileStatus ?R sample_ready_pod)
      (\<lambda>r s'. Phase (R_Status (var s')) = RunnerActivePhase) ?s"
    by (rule wp_mono) simp
  moreover have "observe ?R (URL (R_Spec ?r)) sample_ready_pod () = RunnerIsBusy"
    using obs by (simp only: start_def st.simps)
  ultimately show ?thesis
    unfolding wp_def case_prod_beta Let_def by blast
qed

subsection \<open>A failed look-up ends the protection of an active runner\<close>

definition not_exec :: "call \<Rightarrow> bool" where
  "not_exec c \<longleftrightarrow> (\<forall>k n cmd. c \<noteq> ExecC k n cmd)"

lemma issues_create_not_exec:
  "issues not_exec (CreateOrUpdate OSecret c sec (mutate_secret R))"
  "issues not_exec (CreateOrUpdate OPod c' p (mutate_pod R))"
  by (rule issues_CreateOrUpdate; simp add: not_exec_def issues_mutate_secret issues_mutate_pod)+

lemma not_exec_event:
  "issues not_exec (runner_event t r)"
  by (rule issues_runner_event) (simp add: not_exec_def)

definition exec_in :: "call list \<Rightarrow> ('w, 'v) st \<Rightarrow> bool" where
  "exec_in t0 s \<longleftrightarrow> (\<exists>cs k n cmd. trace s = t0 @ cs \<and> ExecC k n cmd \<in> set cs)"

lemma no_exec_in: "trace s = t0 @ cs \<Longrightarrow> \<forall>c\<in>set cs. not_exec c \<Longrightarrow> \<not> exec_in t0 s"
  by (auto simp: exec_in_def not_exec_def)

text \<open>The annotation patch that protects a pod from eviction, among the calls since \<open>t0\<close>.\<close>

definition patches_in :: "call list \<Rightarrow> ('w, 'v) st \<Rightarrow> bool" where
  "patches_in t0 s \<longleftrightarrow> (\<exists>cs b n. trace s = t0 @ cs \<and> PatchC (OPod b) (OPod n) \<in> set cs)"

lemma patches_in_append: "trace s1 = t0 @ cs \<Longrightarrow> patches_in (trace s1) s \<Longrightarrow> patches_in t0 s"
  unfolding patches_in_def by fastforce

lemma protect_pod_patches:
  assumes "\<exists>cs. trace s = t0 @ cs"
  shows "wp (protect_pod R p) (\<lambda>r s'. patches_in t0 s') s"
  using assms
  by (fastforce simp: protect_pod_def wp_simps Let_def client_defs make_map_def patches_in_def
      split: prod.split option.split)

lemma reconcileStatus_error:
  assumes "Phase (R_Status (var s)) = RunnerPendingPhase"
  shows "wp (reconcileStatus R p) (\<lambda>r s'. (\<exists>res e. r = Done (res, Some e)) \<longrightarrow>
     Phase (R_Status (var s')) = RunnerPendingPhase \<or> patches_in (trace s) s') s"
  using assms
  by (auto simp: reconcileStatus_def wp_simps Let_def FindRunnerIDFromPod_spec gh_GetRunner_def runner_event_def
      set_status_condition_def pod_phase_defs split: prod.split option.split
      intro!: wp_mono [OF protect_pod_patches [of _ "trace s"]])

lemma pod_error_after_exec:
  assumes "trace s = t0 @ cs0" "\<forall>c\<in>set cs0. not_exec c"
  shows "wp (andthen (CreateOrUpdate OPod c p (mutate_pod R))
      (\<lambda>(err, runnerPod). if err \<noteq> None then ret (no_requeue, err)
         else andthen (modify_var (set_Phase RunnerPendingPhase)) (\<lambda>_. reconcileStatus R runnerPod)))
     (\<lambda>r s'. \<forall>res e. r = Done (res, Some e) \<longrightarrow> exec_in t0 s' \<longrightarrow>
        Phase (R_Status (var s')) = RunnerPendingPhase \<or> patches_in t0 s') s"
proof -
  have no: "\<not> exec_in t0 s'" if "trace s' = trace s @ cs" "\<forall>c\<in>set cs. not_exec c" for s' cs
    using no_exec_in [of s' t0 "cs0 @ cs"] that assms by auto
  have later: "patches_in t0 s2" if "trace s' = trace s @ cs" "patches_in (trace s') s2" for s' s2 cs
    using patches_in_append [of s' t0 "cs0 @ cs" s2] that assms(1) by simp
  show ?thesis
    by (rule wp_andthen_frame [OF issues_create_not_exec(2)])
      (auto simp: wp_ret wp_modify_andthen no keeps_CreateOrUpdate keeps_mutate_pod
         dest: later split: prod.split if_splits intro!: wp_mono [OF reconcileStatus_error])
qed

lemma normal_error_after_exec:
  "wp (reconcile_normal R p sec) (\<lambda>r s'. \<forall>res e. r = Done (res, Some e) \<longrightarrow>
     exec_in (trace s) s' \<longrightarrow> Phase (R_Status (var s')) = RunnerPendingPhase \<or> patches_in (trace s) s') s"
  unfolding reconcile_normal_def wp_modify_andthen
  by (rule wp_andthen_frame [OF issues_create_not_exec(1)])
    (auto simp: keeps_CreateOrUpdate keeps_mutate_secret no_exec_in wp_ret
       wp_andthen [of "forbidden_or_not_found e" for e] wp_forbidden_or_not_found
       runner_event_def wp_read_var wp_event wp_andthen [of read_var]
       wp_andthen [of "event m t r" for m t r] wp_andthen [of "andthen read_var f" for f]
       split: prod.split outcome.split intro!: pod_error_after_exec [simplified])

lemma error_after_exec:
  assumes "GetDeletionTimestamp_IsZero (R_Meta (var s))"
  shows "wp (reconcile_runner R) (\<lambda>r s'. \<forall>res e. r = Done (res, Some e) \<longrightarrow>
     exec_in (trace s) s' \<longrightarrow> Phase (R_Status (var s')) = RunnerPendingPhase \<or> patches_in (trace s) s') s"
  using assms normal_error_after_exec by (simp add: reconcile_runner_def wp_simps Let_def)

text \<open>C21. When the look-up of a live runner fails after its pod was asked for the runner's id - the
  command, its output, or GitHub's answer, that is any error but one of the annotation patch that protects
  the pod of a busy runner from eviction - the runner is left in the pending phase, whatever its
  phase and its eviction policy were.  So an active runner loses the protection of
  \<open>deletes_only_deleting_inactive_runner\<close>: if it is deleted while it has that status, the reconciliation
  does not ask GitHub whether it is busy, and deletes its pod.\<close>

theorem failed_lookup_ends_protection:
  assumes live: "GetDeletionTimestamp_IsZero (R_Meta (var s))"
    and run: "reconcile_runner R s = (Done (res, Some e), s')"
    and asked: "trace s' = trace s @ cs" "ExecC k n cmd \<in> set cs"
    and lookup: "\<And>b p. PatchC (OPod b) (OPod p) \<notin> set cs"
  shows "Phase (R_Status (var s')) = RunnerPendingPhase \<and>
    (\<forall>R2 s2 r3 s3. R_Status (var s2) = R_Status (var s') \<longrightarrow>
       \<not> GetDeletionTimestamp_IsZero (R_Meta (var s2)) \<longrightarrow> cooperates R2 \<longrightarrow>
       reconcile_runner R2 s2 = (r3, s3) \<longrightarrow>
       (\<exists>ds. trace s3 = trace s2 @ ds \<and> (\<forall>u i. GetRunnerC u i \<notin> set ds) \<and>
          DeleteC (OPod (podForRunner (RR_MapOrder R2) (var s2))) \<in> set ds))"
proof -
  have "\<not> patches_in (trace s) s'" using asked(1) lookup by (auto simp: patches_in_def)
  then have ph: "Phase (R_Status (var s')) = RunnerPendingPhase"
    using wpD [OF error_after_exec [OF live] run] asked by (auto simp: exec_in_def)
  then show ?thesis
    using wpD [OF clean_up] by fastforce
qed

text \<open>An active runner, a GitHub that answers 502, and the deletion that follows.\<close>

lemmas run_simps =
  run_andthen read_var_def write_var_def modify_var_def ext_def quiet_def event_def client_defs
  CreateOrUpdate_def start_def

lemma sample_id: "TrimSpace ''7'' = ''7''" "TrimSpace [] = []" "ParseInt10 0 ''7'' = Inr 7"
  by code_simp+

lemma sample_ready: "PodConditionIsReady sample_ready_pod" "PodPhase (P_Status sample_ready_pod) = PodRunning"
  by code_simp+

lemma sample_ready_owned [simp]:
  "PodConditionIsReady (sample_ready_pod\<lparr>P_Meta := m\<rparr>) = PodConditionIsReady sample_ready_pod"
  by (simp add: PodConditionIsReady_def)

text \<open>A run of a live runner whose pod is ready, while GitHub answers 502.\<close>

lemma sample_live_run:
  assumes "DeletionTimestamp (R_Meta r) = None" and "RunnerController \<in> set (Finalizers (R_Meta r))"
    and "R = accepting_reconciler r fresh_secret (g, Some (GhErrorResponse (Some \<lparr>StatusCode = 502\<rparr>)))"
  shows "reconcile_runner R \<lparr>world = (), trace = t, var = r\<rparr> =
    (Done (no_requeue, Some (GhErrorResponse (Some \<lparr>StatusCode = 502\<rparr>))),
     \<lparr>world = (), trace = t @
        [FetchC (OSecret (secretForRunner r)), CommitC (OSecret fresh_secret) (OSecret fresh_secret),
         FetchC (OPod (podForRunner sample_order r)), CommitC (OPod sample_ready_pod) (OPod sample_ready_pod),
         ExecC (ObjectKeyFromObject (P_Meta sample_ready_pod)) ''runner'' runner_id_command,
         GetRunnerC (URL (R_Spec r)) 7],
       var = set_ID 7 (set_Phase RunnerPendingPhase r)\<rparr>)"
proof -
  have created: "\<not> time_IsZero (CreationTimestamp (Sec_Meta fresh_secret))"
    by (simp add: fresh_secret_def sample_secret_def time_IsZero_def)
  show ?thesis
    using assms(1,2) created fresh_secret_not_expired
    by (simp add: assms(3) run_simps reconcile_runner_def reconcile_normal_def accepting_reconciler_def
        sample_reconciler_def sample_resource_def sample_cluster_def sample_library_def
        GetDeletionTimestamp_IsZero_def sample_github_def sample_executor_def Let_def
        sample_id sample_ready mutate_secret_def mutate_pod_def token_expired_def own_secret_def
        reconcileStatus_def FindRunnerIDFromPod_def gh_GetRunner_def pod_phase_defs)
qed

definition evictable :: "runner \<Rightarrow> runner" where
  "evictable r = r\<lparr>R_Spec := (R_Spec r)\<lparr>EvictionPolicy := RunnerEvictionIfNotActive\<rparr>\<rparr>"

lemma failed_lookup_ends_protection_witness:
  "let r = evictable (sample_runner None [RunnerController] RunnerActivePhase);
       R = accepting_reconciler r fresh_secret
             (sample_gh_runner True, Some (GhErrorResponse (Some \<lparr>StatusCode = 502\<rparr>)));
       s' = snd (reconcile_runner R (start () r));
       r' = (evictable (sample_runner (Some 1) [RunnerController] []))\<lparr>R_Status := R_Status (var s')\<rparr>
   in \<exists>p. DeleteC (OPod p) \<in> set (trace (snd (reconcile_runner R (start () r'))))"
proof -
  let ?r = "evictable (sample_runner None [RunnerController] RunnerActivePhase)"
  let ?R = "accepting_reconciler ?r fresh_secret
             (sample_gh_runner True, Some (GhErrorResponse (Some \<lparr>StatusCode = 502\<rparr>)))"
  let ?s = "start () ?r"
  let ?s' = "snd (reconcile_runner ?R ?s)"
  let ?r' = "(evictable (sample_runner (Some 1) [RunnerController] []))\<lparr>R_Status := R_Status (var ?s')\<rparr>"
  let ?s2 = "start () ?r'"
  have live: "GetDeletionTimestamp_IsZero (R_Meta (var ?s))"
    by code_simp
  have "DeletionTimestamp (R_Meta ?r) = None" "RunnerController \<in> set (Finalizers (R_Meta ?r))"
    by (simp_all add: sample_runner_def evictable_def)
  note run0 = sample_live_run [OF this refl, of "sample_gh_runner True" "[]", folded start_def]
  have run: "reconcile_runner ?R ?s =
      (Done (no_requeue, Some (GhErrorResponse (Some \<lparr>StatusCode = 502\<rparr>))), ?s')"
    unfolding run0 by simp
  have tr: "trace ?s' = trace ?s @ trace ?s'" by (simp add: start_def)
  have asked: "ExecC (ObjectKeyFromObject (P_Meta sample_ready_pod)) ''runner'' runner_id_command
      \<in> set (trace ?s')"
    unfolding run0 by simp
  have lookup: "PatchC (OPod b) (OPod p) \<notin> set (trace ?s')" for b p
    unfolding run0 by simp
  have coop: "cooperates ?R"
    by (simp add: cooperates_def accepts_deletions_def accepting_reconciler_def sample_reconciler_def sample_defs
        tolerated_def)
  have "\<exists>ds. trace (snd (reconcile_runner ?R ?s2)) = trace ?s2 @ ds \<and> (\<forall>u i. GetRunnerC u i \<notin> set ds) \<and>
      DeleteC (OPod (podForRunner (RR_MapOrder ?R) (var ?s2))) \<in> set ds"
    by (rule failed_lookup_ends_protection [OF live run tr asked lookup, THEN conjunct2, rule_format,
          OF _ _ coop prod.collapse [symmetric]])
      (simp_all add: start_def sample_runner_def evictable_def GetDeletionTimestamp_IsZero_def time_IsZero_def)
  then show ?thesis
    unfolding Let_def by auto
qed

end
