(* ===== verification/Runner_Secrets.thy ===== *)
theory Runner_Secrets
  imports Runner_Status
begin

text \<open>
  The registration token of a runner: when it is refreshed, what happens when GitHub refuses it, the
  order of the secret and the pod, and the panics that the handling of the secret can lead to.
\<close>

section \<open>GitHub refuses the token\<close>

definition refused :: "go_error option \<Rightarrow> bool" where
  "refused err \<longleftrightarrow> (\<exists>resp. err = Some (GhErrorResponse (Some resp)) \<and> StatusCode resp \<in> {403, 404})"

lemma refused_forbidden:
  "refused err \<Longrightarrow> forbidden_or_not_found err s = (Done True, s)"
  by (auto simp: refused_def forbidden_or_not_found_def IsForbidden_def IsNotFound_def
      has_status_def parseErrorResponse_def)

text \<open>C22. A refusal of GitHub to give a registration token (403 or 404) is terminal for a live runner: the
  reconciliation ends without error and without a request to be called again, after one warning
  event; it writes no secret, neither reads nor makes a pod, and leaves the runner's status alone.\<close>

theorem refused_token_is_terminal:
  assumes live: "GetDeletionTimestamp_IsZero (R_Meta (var s))"
    and fetch: "Fetch (SecretsOf (RR_Client R)) (secretForRunner (var s)) (world s) = (Inr sec, w1)"
    and refresh: "time_IsZero (CreationTimestamp (Sec_Meta sec)) \<or>
        IsTokenExpired (Sec_Meta sec) (fst (time_Now (RR_Library R) w1))"
    and token: "\<And>w. refused (snd (fst (CreateRunnerToken (RR_Github R) (URL (R_Spec (var s))) w)))"
    and keys: "\<And>m. ObjectKeyFromObject (controllerutil_AddFinalizer (RR_Library R) m RunnerController) =
        ObjectKeyFromObject m"
  shows "wp (reconcile_runner R) (\<lambda>r s'. r = Done (no_requeue, None) \<and>
     trace s' = trace s @ [FetchC (OSecret (secretForRunner (var s))),
        CreateRunnerTokenC (URL (R_Spec (var s))),
        EventC (ObjectKeyFromObject (R_Meta (var s))) EventTypeWarning RunnerSecretFailedReason] \<and>
     R_Status (var s') = R_Status (var s)) s"
proof -
  have token': "\<exists>e. err = Some e \<and> refused err"
    if "CreateRunnerToken (RR_Github R) (URL (R_Spec (var s))) w = ((t, err), w')" for w t err w'
    using token [of w] that by (auto simp: refused_def)
  show ?thesis
    using live fetch refresh
    by (auto simp: wp_def run_simps reconcile_runner_def reconcile_normal_def Let_def mutate_secret_def
        token_expired_def gh_CreateRunnerToken_def runner_event_def refused_forbidden keys
        split: prod.splits option.splits dest!: token')
qed

lemma refused_token_is_terminal_witness:
  "let r = sample_runner None [RunnerController] RunnerPendingPhase;
       R = sample_reconciler r (expired_secret make_map) sample_ready_pod (sample_gh_runner False, None)
             (sample_token, Some (GhErrorResponse (Some \<lparr>StatusCode = 403\<rparr>))) :: unit runner_reconciler
   in fst (reconcile_runner R (start () r)) = Done (no_requeue, None)"
proof -
  let ?r = "sample_runner None [RunnerController] RunnerPendingPhase"
  let ?R = "sample_reconciler ?r (expired_secret make_map) sample_ready_pod (sample_gh_runner False, None)
             (sample_token, Some (GhErrorResponse (Some \<lparr>StatusCode = 403\<rparr>))) :: unit runner_reconciler"
  have "wp (reconcile_runner ?R) (\<lambda>r s'. r = Done (no_requeue, None) \<and>
     trace s' = trace (start () ?r) @ [FetchC (OSecret (secretForRunner (var (start () ?r)))),
        CreateRunnerTokenC (URL (R_Spec (var (start () ?r)))),
        EventC (ObjectKeyFromObject (R_Meta (var (start () ?r)))) EventTypeWarning RunnerSecretFailedReason] \<and>
     R_Status (var s') = R_Status (var (start () ?r))) (start () ?r)"
    by (rule refused_token_is_terminal [where sec = "expired_secret make_map" and ?w1.0 = "()"])
      (simp_all add: start_def sample_runner_def GetDeletionTimestamp_IsZero_def sample_reconciler_def
        sample_cluster_def sample_resource_def sample_github_def expired_secret_expired refused_def
        sample_library_def ObjectKeyFromObject_def)
  then show ?thesis
    by (simp add: wp_def case_prod_beta)
qed

section \<open>Panics\<close>

text \<open>An error response of GitHub carries the HTTP response it came with.\<close>

definition well_formed_error :: "go_error option \<Rightarrow> bool" where
  "well_formed_error err \<longleftrightarrow> err \<noteq> Some (GhErrorResponse None)"

definition well_formed_answers :: "'w runner_reconciler \<Rightarrow> bool" where
  "well_formed_answers R \<longleftrightarrow>
     (\<forall>url i w. well_formed_error (snd (fst (GetRunner (RR_Github R) url i w)))) \<and>
     (\<forall>url w. well_formed_error (snd (fst (CreateRunnerToken (RR_Github R) url w)))) \<and>
     (\<forall>sec w e w'. Fetch (SecretsOf (RR_Client R)) sec w = (Inl e, w') \<longrightarrow> well_formed_error (Some e)) \<and>
     (\<forall>old sec w. well_formed_error (fst (fst (Commit (SecretsOf (RR_Client R)) old sec w)))) \<and>
     (\<forall>owner m e. ctrl_SetControllerReference (RR_Library R) owner m = Inl e \<longrightarrow> well_formed_error (Some e))"

definition secrets_have_data :: "'w runner_reconciler \<Rightarrow> bool" where
  "secrets_have_data R \<longleftrightarrow>
     (\<forall>sec w got w'. Fetch (SecretsOf (RR_Client R)) sec w = (Inr got, w') \<longrightarrow> Data got \<noteq> None)"

lemma IsForbidden_well_formed: "well_formed_error err \<Longrightarrow> \<exists>b. IsForbidden err = Done b"
  by (auto simp: IsForbidden_def well_formed_error_def split: option.split go_error.split)

lemma wp_forbidden_well_formed:
  "well_formed_error err \<Longrightarrow> (\<And>b. Q (Done b) s) \<Longrightarrow> wp (forbidden_or_not_found err) Q s"
  using IsForbidden_well_formed [of err] by (auto simp: wp_forbidden_or_not_found)

lemma wp_unexpected_well_formed:
  "well_formed_error err \<Longrightarrow> (\<And>b. Q (Done b) s) \<Longrightarrow> wp (unexpected_github_error err) Q s"
  by (cases err) (auto simp: unexpected_github_error_def wp_ret wp_andthen intro!: wp_forbidden_well_formed)

lemma well_formedD:
  assumes "well_formed_answers R"
  shows "GetRunner (RR_Github R) url i w = ((g, e), w') \<Longrightarrow> well_formed_error e"
    and "CreateRunnerToken (RR_Github R) url w = ((t, e), w') \<Longrightarrow> well_formed_error e"
    and "Fetch (SecretsOf (RR_Client R)) sec w = (Inl er, w') \<Longrightarrow> well_formed_error (Some er)"
    and "Commit (SecretsOf (RR_Client R)) old sec w = ((e, o'), w') \<Longrightarrow> well_formed_error e"
    and "ctrl_SetControllerReference (RR_Library R) owner m = Inl er \<Longrightarrow> well_formed_error (Some er)"
  using assms unfolding well_formed_answers_def by (metis fst_conv snd_conv)+

definition fine :: "(go_error option \<times> 'b) outcome \<Rightarrow> bool" where
  "fine r \<longleftrightarrow> (\<exists>e x. r = Done (e, x) \<and> well_formed_error e)"

lemma fine_Done [simp]: "fine (Done (e, x)) = well_formed_error e"
  by (simp add: fine_def)

lemma fineE: "fine r \<Longrightarrow> (\<And>e x. r = Done (e, x) \<Longrightarrow> well_formed_error e \<Longrightarrow> P) \<Longrightarrow> P"
  by (auto simp: fine_def)

lemma well_formed_None [simp]: "well_formed_error None"
  by (simp add: well_formed_error_def)

lemma own_secret_fine:
  assumes "well_formed_answers R"
  shows "wp (own_secret R sec) (\<lambda>r s'. fine r) s"
  using well_formedD(5) [OF assms]
  by (auto simp: own_secret_def wp_simps split: sum.split)

lemma mutate_fine:
  assumes wf: "well_formed_answers R"
  shows "Data sec \<noteq> None \<Longrightarrow> wp (mutate_secret R sec) (\<lambda>r s'. fine r) s"
    and "wp (mutate_secret_deleting R sec) (\<lambda>r s'. fine r) s"
  unfolding mutate_secret_def mutate_secret_deleting_def token_expired_def gh_CreateRunnerToken_def
  by (auto simp: wp_ret wp_andthen wp_quiet wp_ext wp_read_var wp_AnnotateTokenExpires wp_map_store
      Let_def make_map_def
      intro!: own_secret_fine [OF wf] wp_unexpected_well_formed
      split: prod.split option.split dest: well_formedD(2) [OF wf])

lemma CreateOrUpdate_fine:
  assumes wf: "well_formed_answers R"
    and mutate: "\<And>sec w got w' s. Fetch (SecretsOf (RR_Client R)) sec w = (Inr got, w') \<Longrightarrow>
        wp (mutate got) (\<lambda>r s'. fine r) s"
  shows "wp (CreateOrUpdate OSecret (SecretsOf (RR_Client R)) sec mutate) (\<lambda>r s'. fine r) s"
  unfolding CreateOrUpdate_def
  by (auto simp: wp_ret wp_andthen wp_ext split: prod.split sum.split
      dest: well_formedD(3,4) [OF wf] elim!: fineE intro!: wp_mono [OF mutate] split: option.split)

lemma secret_steps_fine:
  assumes "well_formed_answers R"
  shows "secrets_have_data R \<Longrightarrow> wp (CreateOrUpdate OSecret (SecretsOf (RR_Client R)) sec (mutate_secret R))
      (\<lambda>r s'. fine r) s"
    and "wp (CreateOrUpdate OSecret (SecretsOf (RR_Client R)) sec (mutate_secret_deleting R))
      (\<lambda>r s'. fine r) s"
proof -
  show "wp (CreateOrUpdate OSecret (SecretsOf (RR_Client R)) sec (mutate_secret R)) (\<lambda>r s'. fine r) s"
    if "secrets_have_data R"
    by (rule CreateOrUpdate_fine [OF assms], rule mutate_fine [OF assms])
      (use that in \<open>unfold secrets_have_data_def, blast\<close>)
  show "wp (CreateOrUpdate OSecret (SecretsOf (RR_Client R)) sec (mutate_secret_deleting R))
      (\<lambda>r s'. fine r) s"
    by (rule CreateOrUpdate_fine [OF assms], rule mutate_fine [OF assms])
qed

lemma reconcileStatus_no_panic: "wp (reconcileStatus R p) (\<lambda>r s'. \<exists>a. r = Done a) s"
  by (auto simp: reconcileStatus_def wp_simps Let_def FindRunnerIDFromPod_spec gh_GetRunner_def
      runner_event_def set_status_condition_def
      split: prod.split option.split intro!: wp_mono [OF protect_pod_outcome])

lemma pod_step_no_panic:
  "wp (CreateOrUpdate OPod c p (mutate_pod R)) (\<lambda>r s'. \<exists>a. r = Done a) s"
  by (auto simp: CreateOrUpdate_def mutate_pod_def wp_simps split: prod.split sum.split option.split)

lemma reconcile_runner_no_panic:
  assumes "well_formed_answers R" and "secrets_have_data R"
  shows "wp (reconcile_runner R) (\<lambda>r s'. \<exists>a. r = Done a) s"
proof -
  have pod: "wp (andthen (CreateOrUpdate OPod c p (mutate_pod R))
      (\<lambda>(err, runnerPod). if err \<noteq> None then ret (no_requeue, err)
         else andthen (modify_var (set_Phase RunnerPendingPhase)) (\<lambda>_. reconcileStatus R runnerPod)))
      (\<lambda>r s'. \<exists>a. r = Done a) s" for c p s
    by (auto simp: wp_andthen wp_ret wp_modify_var intro!: wp_mono [OF pod_step_no_panic]
        reconcileStatus_no_panic [simplified] split: prod.split)
  have normal: "wp (reconcile_normal R p sec) (\<lambda>r s'. \<exists>a. r = Done a) s" for p sec s
    unfolding reconcile_normal_def wp_modify_andthen
    by (rule wp_andthen [THEN iffD2], rule wp_mono [OF secret_steps_fine(1) [OF assms]])
      (auto elim!: fineE simp: wp_andthen [of "forbidden_or_not_found e" for e] runner_event_def
        wp_ret wp_read_var wp_event wp_andthen [of read_var] wp_andthen [of "event m t r" for m t r]
        wp_andthen [of "andthen read_var f" for f]
        intro!: pod [simplified] wp_forbidden_well_formed)
  have deletion: "wp (reconcile_deletion R p sec) (\<lambda>r s'. \<exists>a. r = Done a) s" for p sec s
    unfolding reconcile_deletion_def
    by (auto simp: wp_andthen wp_ret wp_modify_var wp_ext wp_read_var client_defs gh_GetRunner_def
        Let_def elim!: fineE split: prod.split dest: well_formedD(1) [OF assms(1)]
        intro!: wp_mono [OF secret_steps_fine(2) [OF assms(1)]] wp_unexpected_well_formed)
  show ?thesis
    using normal deletion by (simp add: reconcile_runner_def wp_simps Let_def)
qed

text \<open>C23. With error responses that carry their HTTP response, and secrets that have data, a
  reconciliation never panics, whatever the API server, GitHub and the pod answer.\<close>

theorem Reconcile_never_panics:
  assumes "well_formed_answers R" and "secrets_have_data R"
  shows "\<exists>x. fst (Reconcile R key (start w v)) = Done x"
proof -
  obtain r s' where run: "Reconcile R key (start w v) = (r, s')" by fastforce
  then show ?thesis
  proof (cases rule: Reconcile_cases)
    case (patched runner p w1 r1 s1 perr)
    with wpD [OF reconcile_runner_no_panic [OF assms] patched(3)] run show ?thesis by auto
  qed (use run in auto)
qed

lemma Reconcile_never_panics_witness:
  "let r = sample_runner None [RunnerController] RunnerActivePhase;
       R = accepting_reconciler r fresh_secret
             (sample_gh_runner True, Some (GhErrorResponse (Some \<lparr>StatusCode = 500\<rparr>)))
   in \<exists>x. fst (Reconcile R sample_key (start () r)) = Done x"
proof -
  let ?r = "sample_runner None [RunnerController] RunnerActivePhase"
  let ?R = "accepting_reconciler ?r fresh_secret
             (sample_gh_runner True, Some (GhErrorResponse (Some \<lparr>StatusCode = 500\<rparr>)))"
  have "well_formed_answers ?R" "secrets_have_data ?R"
    by (simp_all add: well_formed_answers_def secrets_have_data_def well_formed_error_def
        accepting_reconciler_def sample_reconciler_def sample_defs fresh_secret_def)
  from Reconcile_never_panics [OF this] show ?thesis by simp
qed

text \<open>Without data the two branches differ.  When the token of a secret that has no data is due, a live
  runner's reconciliation panics on a write to a nil map, while that of a runner that is being deleted makes
  the map and goes on.\<close>

theorem secret_without_data:
  assumes fetch: "\<And>w. \<exists>w'. Fetch (SecretsOf (RR_Client R)) (secretForRunner (var s)) w = (Inr sec, w')"
    and nodata: "Data sec = None" and due: "\<And>t. IsTokenExpired (Sec_Meta sec) t"
    and token: "\<And>url w. snd (fst (CreateRunnerToken (RR_Github R) url w)) = None"
    and coop: "cooperates R"
  shows "if GetDeletionTimestamp_IsZero (R_Meta (var s))
    then fst (reconcile_runner R s) = Panicked NilMapWrite
    else Phase (R_Status (var s)) \<noteq> RunnerActivePhase \<longrightarrow>
      fst (reconcile_runner R s) = Done (no_requeue, None)"
proof -
  have tok: "err = None" if "CreateRunnerToken (RR_Github R) url w = ((t, err), w')" for url w t err w'
    using token [of url w] that by simp
  have fe: "x = Inr sec" if "Fetch (SecretsOf (RR_Client R)) (secretForRunner (var s)) w = (x, w')" for x w w'
    using fetch [of w] that by auto
  show ?thesis
  proof (cases "GetDeletionTimestamp_IsZero (R_Meta (var s))")
    case True
    have "wp (reconcile_runner R) (\<lambda>r s'. r = Panicked NilMapWrite) s"
      using True
      by (auto simp: reconcile_runner_def reconcile_normal_def Let_def wp_modify_andthen
          wp_andthen [of "CreateOrUpdate k c x m" for k c x m] CreateOrUpdate_def wp_andthen [of "ext c f" for c f]
          wp_andthen [of "mutate_secret R' x" for R' x] wp_andthen [of "andthen m f" for m f]
          wp_andthen [of read_var] wp_read_var wp_ext mutate_secret_def token_expired_def due wp_simps
          gh_CreateRunnerToken_def nodata split: prod.split option.split dest!: fe tok)
    with True show ?thesis by (simp add: wp_def case_prod_beta)
  next
    case False
    with clean_up [OF coop, of s] show ?thesis by (auto simp: wp_def split: prod.splits)
  qed
qed

lemma secret_without_data_witness:
  "let r = sample_runner None [RunnerController] RunnerPendingPhase;
       R = accepting_reconciler r (expired_secret None) (sample_gh_runner False, None)
   in fst (reconcile_runner R (start () r)) = Panicked NilMapWrite"
proof -
  let ?r = "sample_runner None [RunnerController] RunnerPendingPhase"
  let ?R = "accepting_reconciler ?r (expired_secret None) (sample_gh_runner False, None)"
  let ?s = "start () ?r"
  have live: "GetDeletionTimestamp_IsZero (R_Meta (var ?s))"
    by (simp add: start_def sample_runner_def GetDeletionTimestamp_IsZero_def)
  have coop: "cooperates ?R"
    by (simp add: cooperates_def accepts_deletions_def accepting_reconciler_def sample_reconciler_def sample_defs tolerated_def)
  have "if GetDeletionTimestamp_IsZero (R_Meta (var ?s))
    then fst (reconcile_runner ?R ?s) = Panicked NilMapWrite
    else Phase (R_Status (var ?s)) \<noteq> RunnerActivePhase \<longrightarrow>
      fst (reconcile_runner ?R ?s) = Done (no_requeue, None)"
    by (rule secret_without_data [where sec = "expired_secret None", OF _ _ _ _ coop])
      (simp_all add: accepting_reconciler_def sample_reconciler_def sample_cluster_def sample_resource_def
        sample_github_def expired_secret_expired, simp add: expired_secret_def sample_secret_def)
  with live show ?thesis by simp
qed

section \<open>The secret comes before the pod\<close>

definition pod_call :: "call \<Rightarrow> bool" where
  "pod_call c \<longleftrightarrow> (\<exists>o1 o2. c = CommitC (OPod o1) (OPod o2))"

lemma pod_call_simps [simp]:
  "\<not> pod_call (CommitC (OSecret o1) o')" "\<not> pod_call (EventC k t r)" "\<not> pod_call (FetchC o')"
  "pod_call (CommitC (OPod p0) (OPod p1))"
  by (simp_all add: pod_call_def)

text \<open>What a secret is written with: a token that GitHub has just created, next to its expiry, or the data
  it had, with a token that had not expired when the clock was read.\<close>

definition good_token :: "'w runner_reconciler \<Rightarrow> call list \<Rightarrow> secret \<Rightarrow> secret \<Rightarrow> bool" where
  "good_token R cs old new \<longleftrightarrow>
     (\<exists>url w rt w'. CreateRunnerTokenC url \<in> set cs \<and>
        CreateRunnerToken (RR_Github R) url w = ((rt, None), w') \<and>
        map_lookup (Data new) ''token'' = Some (GetToken rt) \<and>
        map_lookup (Annotations (Sec_Meta new)) AnnotationRunnerTokenExpiresAt =
          Some (FormatRFC3339 (GetExpiresAt rt))) \<or>
     (\<exists>w. \<not> IsTokenExpired (Sec_Meta old) (fst (time_Now (RR_Library R) w)) \<and> Data new = Data old)"

lemma good_token_mono: "good_token R cs old new \<Longrightarrow> good_token R (ds @ cs) old new"
  unfolding good_token_def by (metis Un_iff set_append)

lemma good_token_new:
  "CreateRunnerToken (RR_Github R) url w = ((rt, None), w') \<Longrightarrow> CreateRunnerTokenC url \<in> set cs \<Longrightarrow>
   map_lookup (Data new) ''token'' = Some (GetToken rt) \<Longrightarrow>
   map_lookup (Annotations (Sec_Meta new)) AnnotationRunnerTokenExpiresAt =
     Some (FormatRFC3339 (GetExpiresAt rt)) \<Longrightarrow> good_token R cs old new"
  unfolding good_token_def by blast

lemma good_token_old:
  "time_Now (RR_Library R) w = (t, w') \<Longrightarrow> \<not> IsTokenExpired (Sec_Meta old) t \<Longrightarrow> Data new = Data old \<Longrightarrow>
     good_token R cs old new"
  unfolding good_token_def by (metis fst_conv)

lemma annotations_token_annotated [simp]:
  "map_lookup (Annotations (token_annotated m t)) AnnotationRunnerTokenExpiresAt = Some t"
  by (simp add: token_annotated_def)

definition owner_keeps_annotations :: "'w library \<Rightarrow> bool" where
  "owner_keeps_annotations L \<longleftrightarrow>
     (\<forall>owner m m'. ctrl_SetControllerReference L owner m = Inr m' \<longrightarrow> Annotations m' = Annotations m)"

lemma own_secret_token:
  assumes "owner_keeps_annotations (RR_Library R)"
  shows "wp (own_secret R sec) (\<lambda>r s'. trace s' = trace s \<and> (\<forall>sec'. r = Done (None, sec') \<longrightarrow>
     Data sec' = Data sec \<and> Annotations (Sec_Meta sec') = Annotations (Sec_Meta sec))) s"
  using assms by (auto simp: own_secret_def wp_simps owner_keeps_annotations_def split: sum.splits)

lemma mutate_secret_token:
  assumes own: "owner_keeps_annotations (RR_Library R)"
  shows "wp (mutate_secret R sec) (\<lambda>r s'. \<exists>cs. trace s' = trace s @ cs \<and> (\<forall>c\<in>set cs. \<not> pod_call c) \<and>
     (\<forall>sec'. r = Done (None, sec') \<longrightarrow> good_token R cs sec sec')) s"
  by (auto simp: mutate_secret_def token_expired_def wp_ret wp_andthen wp_quiet wp_ext wp_read_var
      wp_AnnotateTokenExpires wp_map_store gh_CreateRunnerToken_def pod_call_def
      split: prod.split option.split intro!: wp_mono [OF own_secret_token [OF own]])
    (fastforce intro: good_token_new good_token_old)+

lemma secret_step_token:
  assumes "owner_keeps_annotations (RR_Library R)"
  shows "wp (CreateOrUpdate OSecret c sec (mutate_secret R)) (\<lambda>r s'. \<exists>cs. trace s' = trace s @ cs \<and>
     (\<forall>c\<in>set cs. \<not> pod_call c) \<and> (\<forall>sec'. r = Done (None, sec') \<longrightarrow>
        (\<exists>pre old new. cs = pre @ [CommitC (OSecret old) (OSecret new)] \<and> good_token R pre old new))) s"
  unfolding CreateOrUpdate_def
  by (auto simp: wp_simps pod_call_def split: prod.splits sum.splits outcome.splits option.splits
      intro!: wp_mono [OF mutate_secret_token [OF assms]])
    (metis append_Cons good_token_mono append_Nil)+

definition after_token :: "'w runner_reconciler \<Rightarrow> call list \<Rightarrow> call \<Rightarrow> bool" where
  "after_token R cs c \<longleftrightarrow> (\<exists>pre old new post. cs = pre @ CommitC (OSecret old) (OSecret new) # post \<and>
     c \<in> set post \<and> good_token R pre old new)"

lemma after_tokenI:
  "cs = ds @ pre @ [CommitC (OSecret old) (OSecret new)] @ post \<Longrightarrow> good_token R pre old new \<Longrightarrow>
     c \<in> set post \<Longrightarrow> after_token R cs c"
  unfolding after_token_def
  by (intro exI [of _ "ds @ pre"] exI [of _ old] exI [of _ new] exI [of _ post])
    (simp add: good_token_mono)

lemma after_token_append: "after_token R cs c \<Longrightarrow> after_token R (cs @ ds) c"
  unfolding after_token_def by (metis Un_iff append.assoc append_Cons set_append)

lemma normal_token_first:
  assumes own: "owner_keeps_annotations (RR_Library R)"
  shows "wp (reconcile_normal R p sec) (\<lambda>r s'. \<exists>cs. trace s' = trace s @ cs \<and>
     (\<forall>c\<in>set cs. pod_call c \<longrightarrow> after_token R cs c)) s"
proof -
  have rest: "wp (andthen (CreateOrUpdate OPod c p (mutate_pod R))
      (\<lambda>(err, runnerPod). if err \<noteq> None then ret (no_requeue, err)
         else andthen (modify_var (set_Phase RunnerPendingPhase)) (\<lambda>_. reconcileStatus R runnerPod)))
      (\<lambda>r s'. \<exists>cs. trace s' = t0 @ cs \<and> (\<forall>c\<in>set cs. pod_call c \<longrightarrow> after_token R cs c)) s1"
    if s1: "trace s1 = t0 @ pre @ [CommitC (OSecret old) (OSecret new)]"
      "\<forall>c\<in>set pre. \<not> pod_call c" "good_token R pre old new" for c p and s1 :: "('a, runner) st" and t0 pre old new
  proof (rule wp_issues_True)
    show "issues (\<lambda>c. True) (andthen (CreateOrUpdate OPod c p (mutate_pod R))
      (\<lambda>(err, runnerPod). if err \<noteq> None then ret (no_requeue, err)
         else andthen (modify_var (set_Phase RunnerPendingPhase)) (\<lambda>_. reconcileStatus R runnerPod)))"
      by (auto intro!: issues_intros issues_CreateOrUpdate issues_reconcileStatus split: prod.split)
  next
    fix r and s' :: "('a, runner) st" and cs
    assume "trace s' = trace s1 @ cs"
    then show "\<exists>cs. trace s' = t0 @ cs \<and> (\<forall>c\<in>set cs. pod_call c \<longrightarrow> after_token R cs c)"
      using s1 by (intro exI [of _ "pre @ [CommitC (OSecret old) (OSecret new)] @ cs"])
        (auto intro: after_tokenI [where ds = "[]"])
  qed
  show ?thesis
    unfolding reconcile_normal_def wp_modify_andthen
    by (rule wp_andthen [THEN iffD2], rule wp_mono [OF secret_step_token [OF own]])
      (auto simp: wp_andthen [of "forbidden_or_not_found e" for e] runner_event_def
        wp_ret wp_read_var wp_event wp_andthen [of read_var] wp_andthen [of "event m t r" for m t r]
        wp_andthen [of "andthen read_var f" for f] wp_forbidden_or_not_found
        intro!: rest [simplified] split: outcome.split)
qed

lemma deletion_no_pod_call: "issues (\<lambda>c. \<not> pod_call c) (reconcile_deletion R p sec)"
  by (rule issues_reconcile_deletion) (simp_all add: pod_call_def)

lemma run_token_first:
  assumes "owner_keeps_annotations (RR_Library R)"
  shows "wp (reconcile_runner R) (\<lambda>r s'. \<exists>cs. trace s' = trace s @ cs \<and>
     (\<forall>c\<in>set cs. pod_call c \<longrightarrow> after_token R cs c)) s"
proof -
  have "wp (reconcile_deletion R p sec) (\<lambda>r s'. \<exists>cs. trace s' = trace s @ cs \<and>
     (\<forall>c\<in>set cs. pod_call c \<longrightarrow> after_token R cs c)) s" for p sec
    using deletion_no_pod_call [of R p sec] unfolding issues_def by (blast intro: wp_mono)
  then show ?thesis
    using normal_token_first [OF assms] by (simp add: reconcile_runner_def wp_simps Let_def)
qed

text \<open>C4. A pod is created or updated only after its token secret was written in the same
  reconciliation, with a token that GitHub has just created (and its expiry in the annotation), or
  with one that had not expired when the clock was read.\<close>

theorem pod_comes_after_good_token:
  assumes "owner_keeps_annotations (RR_Library R)"
    and "CommitC (OPod p0) (OPod p1) \<in> set (trace (snd (Reconcile R key (start w v))))"
  shows "after_token R (trace (snd (Reconcile R key (start w v)))) (CommitC (OPod p0) (OPod p1))"
proof -
  let ?c = "CommitC (OPod p0) (OPod p1)"
  obtain r s' where run: "Reconcile R key (start w v) = (r, s')" by fastforce
  with assms have in_tr: "?c \<in> set (trace s')" by simp
  from run have "after_token R (trace s') ?c"
  proof (cases rule: Reconcile_cases)
    case (patched runner p w1 r1 s1 perr)
    have "issues (\<lambda>c. \<not> pod_call c) (Patcher_Patch (RR_Unstructured R) (RR_Converter R) (RR_Library R)
        ORunner (RunnersOf (RR_Client R)) p)"
      by (rule issues_Patcher_Patch) (simp_all add: pod_call_def)
    from issuesD [OF this patched(4)] obtain ds
      where ds: "trace s' = trace s1 @ ds" "\<forall>c\<in>set ds. \<not> pod_call c" by blast
    from wpD [OF run_token_first [OF assms(1)] patched(3)] obtain cs
      where cs: "trace s1 = GetC KRunner key # cs" "\<forall>c\<in>set cs. pod_call c \<longrightarrow> after_token R cs c" by auto
    have "?c \<in> set cs" using in_tr ds cs(1) by (auto simp: pod_call_def)
    with cs(2) have "after_token R cs ?c" by (simp add: pod_call_def)
    then have "after_token R (GetC KRunner key # cs) ?c"
      unfolding after_token_def by (metis append_Cons append_Nil good_token_mono)
    from after_token_append [OF this, of ds] ds cs(1) show ?thesis by simp
  qed (use in_tr in auto)
  with run show ?thesis by simp
qed

lemma pod_comes_after_good_token_witness:
  "\<exists>R :: unit runner_reconciler. \<exists>r old new. let cs = trace (snd (Reconcile R sample_key (start () r)))
     in CommitC (OPod old) (OPod new) \<in> set cs \<and> after_token R cs (CommitC (OPod old) (OPod new))"
proof -
  let ?r = "sample_runner None [RunnerController] RunnerActivePhase"
  let ?R = "accepting_reconciler ?r fresh_secret
             (sample_gh_runner True, Some (GhErrorResponse (Some \<lparr>StatusCode = 502\<rparr>)))"
  let ?s = "\<lparr>world = (), trace = [GetC KRunner sample_key], var = ?r\<rparr>"
  let ?c = "CommitC (OPod sample_ready_pod) (OPod sample_ready_pod)"
  have "DeletionTimestamp (R_Meta ?r) = None" "RunnerController \<in> set (Finalizers (R_Meta ?r))"
    by (simp_all add: sample_runner_def)
  note run0 = sample_live_run [OF this refl]
  have own: "owner_keeps_annotations (RR_Library ?R)"
    by (simp add: owner_keeps_annotations_def accepting_reconciler_def sample_defs)
  obtain p where p: "NewPatcher (RR_Unstructured ?R) (RR_Converter ?R) ?r = Inr p"
    by (simp add: NewPatcher_def accepting_reconciler_def sample_reconciler_def sample_defs)
  have got: "Get (RunnersOf (RR_Client ?R)) sample_key () = (Inr ?r, ())"
    by (simp add: accepting_reconciler_def sample_reconciler_def sample_cluster_def sample_resource_def)
  let ?d = "Patcher_Patch (RR_Unstructured ?R) (RR_Converter ?R) (RR_Library ?R) ORunner
      (RunnersOf (RR_Client ?R)) p"
  obtain s1 where s1: "snd (reconcile_runner ?R ?s) = s1" "?c \<in> set (trace s1)"
    unfolding run0 by simp
  obtain r2 s2 where d: "?d s1 = (r2, s2)" by fastforce
  obtain ds where "trace s2 = trace s1 @ ds"
    using patch_calls_no_delete [OF d] .
  moreover have "snd (Reconcile ?R sample_key (start () ?r)) = s2"
    unfolding Reconcile_patched [OF got p] deferred_state s1(1) d by simp
  ultimately have c: "?c \<in> set (trace (snd (Reconcile ?R sample_key (start () ?r))))"
    using s1(2) by simp
  from c pod_comes_after_good_token [OF own c] show ?thesis
    unfolding Let_def by blast
qed

section \<open>The expiry of the token\<close>

text \<open>C32. The expiry that is written into a secret's annotation is the one that is read back: a secret
  annotated for an instant in the years 1 to 9999 counts as expired exactly when that instant, cut
  to whole seconds, is less than five minutes away.\<close>

theorem token_expiry_roundtrip:
  assumes "0 \<le> t" and "t < 3652059 * 86400 * Second"
    and "fst (AnnotateTokenExpires obj (FormatRFC3339 t) s) = Done obj'"
  shows "IsTokenExpired obj' n \<longleftrightarrow> (t div Second) * Second < n + 5 * Minute"
proof -
  have "obj' = token_annotated obj (FormatRFC3339 t)"
    using assms(3) by simp
  then show ?thesis
    using ParseRFC3339_FormatRFC3339 [OF assms(1,2)] by (simp add: IsTokenExpired_def)
qed

lemma token_expiry_roundtrip_witness:
  "let m = token_annotated empty_meta (FormatRFC3339 (63808000000 * Second))
   in \<not> IsTokenExpired m (63807999000 * Second) \<and> IsTokenExpired m (63807999800 * Second)"
proof -
  let ?t = "63808000000 * Second"
  have t: "0 \<le> ?t" "?t < 3652059 * 86400 * Second" by (simp_all add: Second_def)
  have "fst (AnnotateTokenExpires empty_meta (FormatRFC3339 ?t) ()) =
      Done (token_annotated empty_meta (FormatRFC3339 ?t))"
    by simp
  from token_expiry_roundtrip [OF t this] show ?thesis
    by (simp add: Second_def Minute_def)
qed

section \<open>The pod and its secret\<close>

text \<open>C38. The pod reads the token of the secret made for the same runner: both are in the runner's
  namespace, the pod mounts that secret, read only, and tells the runner the file of the token inside
  the mount.  The GitHub labels it passes on are exactly the runner's labels under the octorun prefix
  (in the map order of that run), and any two orders give the same labels.\<close>

theorem pod_reads_its_secret:
  assumes "map_order order" and "map_order order'"
  shows "let p = podForRunner order r; sec = secretForRunner r; labels = runnerLabels order (Labels (R_Meta r))
    in Namespace (P_Meta p) = Namespace (Sec_Meta sec) \<and>
       (\<exists>c vol dir. Containers (P_Spec p) = [c] \<and>
          SecretVolume vol (Name (Sec_Meta sec)) \<in> set (PodVolumes (P_Spec p)) \<and>
          Mount vol True dir \<in> set (ContainerVolumeMounts c) \<and>
          EnvValue ''RUNNER_TOKEN_FILE'' (dir @ ''/token'') \<in> set (Env c) \<and>
          EnvValue ''RUNNER_LABELS'' (Join labels '','') \<in> set (Env c)) \<and>
       set labels = {l @ ''='' @ v | l v. map_lookup (Labels (R_Meta r)) (LabelPrefix @ l) = Some v} \<and>
       mset labels = mset (runnerLabels order' (Labels (R_Meta r)))"
proof -
  let ?ls = "Labels (R_Meta r)"
  have "set (order ?ls) = set (order' ?ls)" "distinct (order ?ls)" "distinct (order' ?ls)"
    using assms by (auto simp: map_order_def)
  then have "mset (order ?ls) = mset (order' ?ls)"
    by (simp add: set_eq_iff_mset_eq_distinct)
  then have perm: "mset (runnerLabels order ?ls) = mset (runnerLabels order' ?ls)"
    by (simp add: runnerLabels_def mset_filter)
  have visits: "k \<in> set (order ?ls) \<longleftrightarrow> map_lookup ?ls k \<noteq> None" for k
    using assms(1) by (simp add: map_order_def)
  have "set (runnerLabels order ?ls) = {l @ ''='' @ v | l v. map_lookup ?ls (LabelPrefix @ l) = Some v}"
    (is "?A = ?B")
  proof (intro equalityI subsetI)
    fix x assume "x \<in> ?A"
    then obtain l v where "map_lookup ?ls (LabelPrefix @ l) = Some v" "x = l @ ''='' @ v"
      by (auto simp: runnerLabels_def HasPrefix_iff map_index_def visits split: option.splits)
    then show "x \<in> ?B" by blast
  next
    fix x assume "x \<in> ?B"
    then obtain l v where lv: "map_lookup ?ls (LabelPrefix @ l) = Some v" "x = l @ ''='' @ v" by blast
    then have "LabelPrefix @ l \<in> set (filter (\<lambda>k. HasPrefix k LabelPrefix) (order ?ls))"
      by (simp add: visits)
    with lv show "x \<in> ?A"
      unfolding runnerLabels_def set_map by (intro image_eqI [where x = "LabelPrefix @ l"]) (simp_all add: map_index_def)
  qed
  with perm show ?thesis
    by (simp add: podForRunner_def secretForRunner_def empty_meta_def Let_def token_dir_def) blast
qed

lemma sample_order_visits: "map_order sample_order"
  by (auto simp: map_order_def sample_order_def fmlookup_dom_iff sorted_list_of_fset.rep_eq split: option.split)

lemma pod_reads_its_secret_witness:
  "set (runnerLabels sample_order (Some (fmupd (LabelPrefix @ ''runnerset'') ''s1'' fmempty))) = {''runnerset=s1''}"
proof -
  let ?r = "(sample_runner None [] [])\<lparr>R_Meta :=
      sample_meta\<lparr>Labels := Some (fmupd (LabelPrefix @ ''runnerset'') ''s1'' fmempty)\<rparr>\<rparr>"
  have "{l @ ''='' @ v | l v. map_lookup (Labels (R_Meta ?r)) (LabelPrefix @ l) = Some v} = {''runnerset=s1''}"
    by (auto split: if_splits)
  then show ?thesis
    using pod_reads_its_secret [OF sample_order_visits sample_order_visits, of ?r] by (simp add: Let_def)
qed

end
