(* ===== verification/Runner_Lifecycle.thy ===== *)
theory Runner_Lifecycle
  imports Runner_Secrets
begin

text \<open>
  The life of a runner on the API server over many whole reconciliations: each reads the stored runner,
  runs the body on it and sends the two patches of the patch helper, each of which the server may take,
  refuse, or take without the answer coming through; and in between others may write to the runner too.
\<close>

section \<open>The stored runner\<close>

abbreviation phase_of :: "runner \<Rightarrow> runner_phase" where
  "phase_of r \<equiv> Phase (R_Status r)"

abbreviation deleting :: "runner \<Rightarrow> bool" where
  "deleting r \<equiv> \<not> GetDeletionTimestamp_IsZero (R_Meta r)"

definition runner_phases :: "runner_phase set" where
  "runner_phases = {RunnerPendingPhase, RunnerIdlePhase, RunnerActivePhase, RunnerCompletePhase}"

text \<open>What a reconciliation changes of a runner, and the version that the server gives to a write.\<close>

definition edited :: "runner \<Rightarrow> string list \<Rightarrow> runner_spec \<Rightarrow> runner_status \<Rightarrow> runner" where
  "edited r fs sp st = r\<lparr>R_Meta := (R_Meta r)\<lparr>Finalizers := fs\<rparr>, R_Spec := sp, R_Status := st\<rparr>"

definition versioned :: "string \<Rightarrow> runner \<Rightarrow> runner" where
  "versioned v r = r\<lparr>R_Meta := (R_Meta r)\<lparr>ResourceVersion := v\<rparr>\<rparr>"

lemma edited_simps [simp]:
  "R_Spec (edited r fs sp st) = sp" "R_Status (edited r fs sp st) = st"
  "Finalizers (R_Meta (edited r fs sp st)) = fs" "deleting (edited r fs sp st) = deleting r"
  "R_Spec (versioned v r) = R_Spec r" "R_Status (versioned v r) = R_Status r"
  "Finalizers (R_Meta (versioned v r)) = Finalizers (R_Meta r)" "deleting (versioned v r) = deleting r"
  "versioned u (versioned v r) = versioned u r"
  "(versioned v r)\<lparr>R_Status := t\<rparr> = versioned v (r\<lparr>R_Status := t\<rparr>)"
  "(edited r fs sp st)\<lparr>R_Status := t\<rparr> = edited r fs sp t"
  by (simp_all add: edited_def versioned_def GetDeletionTimestamp_IsZero_def)

text \<open>Documented behaviour of the server for the runner under one key, where \<open>stored\<close> is what it has stored
  of it.  A read answers with that.  A patch leaves the status alone, and the patch of the status
  leaves the rest alone; either gets a new version; taking the last finalizer off a runner that is
  being deleted removes it; and an error may come before or after the write.\<close>

definition answers :: "go_error option \<Rightarrow> runner \<Rightarrow> runner \<Rightarrow> runner option \<Rightarrow> runner option \<Rightarrow> runner option \<Rightarrow>
    runner option \<Rightarrow> bool" where
  "answers err y sent made old now after \<longleftrightarrow>
     (if err = None then Some y = made \<and> now = after else y = sent \<and> (now = old \<or> now = after))"

definition stores_runner :: "('w, runner) resource \<Rightarrow> object_key \<Rightarrow> ('w \<Rightarrow> runner option) \<Rightarrow> bool" where
  "stores_runner c key stored \<longleftrightarrow>
     (\<forall>w got w'. Get c key w = (got, w') \<longrightarrow>
        stored w' = stored w \<and> (\<forall>r. got = Inr r \<longrightarrow> stored w = Some r)) \<and>
     (\<forall>b fs sp st w err y w'. stored w = Some b \<longrightarrow> Patch c b (edited b fs sp st) w = ((err, y), w') \<longrightarrow>
        (\<exists>v. let made = versioned v (edited b fs sp (R_Status b))
         in answers err y (edited b fs sp st) (Some made) (stored w) (stored w')
              (if deleting b \<and> fs = [] \<and> Finalizers (R_Meta b) \<noteq> [] then None else Some made))) \<and>
     (\<forall>b x w err y w'. (\<forall>z. stored w = Some z \<longrightarrow> R_Status z = R_Status b) \<longrightarrow>
        StatusPatch c b x w = ((err, y), w') \<longrightarrow>
        (\<exists>v. let made = map_option (\<lambda>z. versioned v (z\<lparr>R_Status := R_Status x\<rparr>)) (stored w)
         in answers err y x made (stored w) (stored w') made))"

text \<open>What else a reconciliation does, requests for secrets and pods, GitHub, the executor and the clock,
  leaves the stored runners alone.\<close>

definition leaves_writes :: "('w, 'o) resource \<Rightarrow> ('w \<Rightarrow> 'b) \<Rightarrow> bool" where
  "leaves_writes c stored \<longleftrightarrow>
     (\<forall>x w. stored (snd (Fetch c x w)) = stored w) \<and>
     (\<forall>x y w. stored (snd (Commit c x y w)) = stored w) \<and>
     (\<forall>x y w. stored (snd (Patch c x y w)) = stored w) \<and>
     (\<forall>x w. stored (snd (Delete c x w)) = stored w)"

definition apart :: "'w runner_reconciler \<Rightarrow> ('w \<Rightarrow> 'b) \<Rightarrow> bool" where
  "apart R stored \<longleftrightarrow>
     leaves_writes (SecretsOf (RR_Client R)) stored \<and> leaves_writes (PodsOf (RR_Client R)) stored \<and>
     (\<forall>url i w. stored (snd (GetRunner (RR_Github R) url i w)) = stored w) \<and>
     (\<forall>url w. stored (snd (CreateRunnerToken (RR_Github R) url w)) = stored w) \<and>
     (\<forall>p c cmd w. stored (snd (Exec (RR_Executor R) p c cmd w)) = stored w) \<and>
     (\<forall>w. stored (snd (time_Now (RR_Library R) w)) = stored w) \<and>
     (\<forall>cs c w. stored (snd (meta_SetStatusCondition (RR_Library R) cs c w)) = stored w)"

text \<open>The documented effect of the finalizer helpers: they change the list of finalizers only.\<close>

definition only_finalizers :: "'w library \<Rightarrow> bool" where
  "only_finalizers L \<longleftrightarrow>
     (\<forall>m f. \<exists>fs. controllerutil_RemoveFinalizer L m f = m\<lparr>Finalizers := fs\<rparr>) \<and>
     (\<forall>m f. \<exists>fs. controllerutil_AddFinalizer L m f = m\<lparr>Finalizers := fs\<rparr>)"

lemma only_finalizersD:
  assumes "only_finalizers L"
  shows "\<exists>fs. controllerutil_RemoveFinalizer L m f = m\<lparr>Finalizers := fs\<rparr>"
    and "\<exists>fs. controllerutil_AddFinalizer L m f = m\<lparr>Finalizers := fs\<rparr>"
  using assms unfolding only_finalizers_def by blast+

section \<open>Lives\<close>

text \<open>What others may write to a runner: labels, annotations and owners, or its deletion timestamp, which
  stays once it is set; and a runner without finalizers they may remove.\<close>

definition others_write :: "runner option \<Rightarrow> runner option \<Rightarrow> bool" where
  "others_write old new \<longleftrightarrow>
     (case (old, new) of
        (None, None) \<Rightarrow> True
      | (Some r, None) \<Rightarrow> Finalizers (R_Meta r) = []
      | (Some r, Some r') \<Rightarrow> R_Spec r' = R_Spec r \<and> R_Status r' = R_Status r \<and>
          Finalizers (R_Meta r') = Finalizers (R_Meta r) \<and> (deleting r \<longrightarrow> deleting r')
      | (None, Some _) \<Rightarrow> False)"

text \<open>\<open>life R key stored w0 cs w\<close>: the world has come from \<open>w0\<close> to \<open>w\<close>, through reconciliations that have
  issued the calls \<open>cs\<close>, and through anything in between that writes to the runner only as others may.\<close>

inductive life :: "'w runner_reconciler \<Rightarrow> object_key \<Rightarrow> ('w \<Rightarrow> runner option) \<Rightarrow> 'w \<Rightarrow> call list \<Rightarrow> 'w \<Rightarrow> bool"
  for R key stored w0 where
  life_start: "life R key stored w0 [] w0"
| life_reconciled: "life R key stored w0 cs w \<Longrightarrow> Reconcile R key (start w v) = (out, s') \<Longrightarrow>
    life R key stored w0 (cs @ trace s') (world s')"
| life_elsewhere: "life R key stored w0 cs w \<Longrightarrow> others_write (stored w) (stored w') \<Longrightarrow>
    life R key stored w0 cs w'"

section \<open>The surroundings leave the runner alone\<close>

lemma leaves_unexpected [leaves_intros]:
  "leaves g (forbidden_or_not_found e)" "leaves g (unexpected_github_error e)"
  unfolding leaves_def unexpected_github_error_def andthen_def forbidden_or_not_found_def
  by (auto split: option.split outcome.split prod.split)

lemma leaves_Delete: "leaves_writes c stored \<Longrightarrow> leaves stored (client_Delete k c x)"
  by (simp add: leaves_writes_def client_Delete_def leaves_ext)

lemma leaves_CreateOrUpdate:
  assumes "leaves_writes c stored" and "\<And>x. leaves stored (mutate x)"
  shows "leaves stored (CreateOrUpdate k c obj mutate)"
  using assms unfolding CreateOrUpdate_def leaves_writes_def
  by (auto intro!: leaves_intros leaves_ext split: sum.split option.split)

lemma leaves_own_secret [leaves_intros]: "leaves g (own_secret R sec)"
  unfolding own_secret_def by (auto intro!: leaves_intros split: sum.split)

lemma leaves_mutate_pod [leaves_intros]: "leaves g (mutate_pod R p)"
  unfolding mutate_pod_def by (auto intro!: leaves_intros split: sum.split)

lemma leaves_runner_event [leaves_intros]: "leaves g (runner_event t r)"
  unfolding runner_event_def by (auto intro!: leaves_intros)

lemma leaves_AnnotateTokenExpires [leaves_intros]: "leaves g (AnnotateTokenExpires mt t)"
  by (simp add: leaves_def)

lemma leaves_apart:
  assumes "apart R stored"
  shows "leaves stored (gh_GetRunner (RR_Github R) url i)" "leaves stored (gh_CreateRunnerToken (RR_Github R) url)"
    "leaves stored (token_expired R x)" "leaves stored (FindRunnerIDFromPod (RR_Executor R) p)"
    "leaves stored (set_status_condition R st re me)" "leaves stored (protect_pod R p)"
    "leaves_writes (SecretsOf (RR_Client R)) stored" "leaves_writes (PodsOf (RR_Client R)) stored"
  using assms
  by (auto simp: apart_def leaves_writes_def gh_GetRunner_def gh_CreateRunnerToken_def token_expired_def FindRunnerIDFromPod_def
      set_status_condition_def protect_pod_def client_Patch_def Let_def
      intro!: leaves_intros leaves_ext leaves_quiet split: option.split sum.split)

lemma leaves_mutate_secret:
  assumes "apart R stored"
  shows "leaves stored (mutate_secret R x)" "leaves stored (mutate_secret_deleting R x)"
  unfolding mutate_secret_def mutate_secret_deleting_def
  by (auto intro!: leaves_intros leaves_apart [OF assms] simp: Let_def split: prod.split option.split)

lemma leaves_reconcile_deletion:
  assumes "apart R stored"
  shows "leaves stored (reconcile_deletion R p sec)"
  unfolding reconcile_deletion_def
  by (auto intro!: leaves_intros leaves_apart [OF assms] leaves_mutate_secret [OF assms] leaves_CreateOrUpdate leaves_Delete
      simp: Let_def split: prod.split)

lemma leaves_reconcile_runner:
  assumes "apart R stored"
  shows "leaves stored (reconcile_runner R)"
proof -
  have "leaves stored (reconcileStatus R p)" for p
    unfolding reconcileStatus_def Let_def
    by (auto intro!: leaves_intros leaves_apart [OF assms] split: prod.split)
  then have "leaves stored (reconcile_normal R p sec)" for p sec
    unfolding reconcile_normal_def
    by (auto intro!: leaves_intros leaves_apart [OF assms] leaves_mutate_secret [OF assms] leaves_CreateOrUpdate split: prod.split)
  with leaves_reconcile_deletion [OF assms] show ?thesis
    unfolding reconcile_runner_def by (auto intro!: leaves_intros simp: Let_def)
qed

section \<open>The body\<close>

text \<open>It changes finalizers, spec and status of the runner, and nothing else.\<close>

definition unedited :: "runner \<Rightarrow> type_meta \<times> object_meta" where
  "unedited r = (R_Type r, (R_Meta r)\<lparr>Finalizers := []\<rparr>)"

lemma same_finalizers [simp]: "m\<lparr>Finalizers := Finalizers m\<rparr> = (m :: object_meta)"
  by (cases m) simp

lemma unedited_edited:
  assumes "unedited n = unedited b"
  shows "n = edited b (Finalizers (R_Meta n)) (R_Spec n) (R_Status n)"
proof -
  have "(R_Meta n)\<lparr>Finalizers := []\<rparr> = (R_Meta b)\<lparr>Finalizers := []\<rparr>" using assms by (simp add: unedited_def)
  then have "(R_Meta n)\<lparr>Finalizers := []\<rparr>\<lparr>Finalizers := Finalizers (R_Meta n)\<rparr> =
      (R_Meta b)\<lparr>Finalizers := []\<rparr>\<lparr>Finalizers := Finalizers (R_Meta n)\<rparr>" by (simp only:)
  then have "R_Meta n = (R_Meta b)\<lparr>Finalizers := Finalizers (R_Meta n)\<rparr>" by simp
  moreover have "R_Type n = R_Type b" using assms by (simp add: unedited_def)
  ultimately show ?thesis by (intro runner.equality) (simp_all add: edited_def)
qed

lemma keeps_unedited:
  assumes "only_finalizers (RR_Library R)"
  shows "keeps unedited (reconcile_runner R)"
proof -
  have "(controllerutil_RemoveFinalizer (RR_Library R) m f)\<lparr>Finalizers := []\<rparr> = m\<lparr>Finalizers := []\<rparr>"
    "(controllerutil_AddFinalizer (RR_Library R) m f)\<lparr>Finalizers := []\<rparr> = m\<lparr>Finalizers := []\<rparr>" for m f
    using only_finalizersD [OF assms, of m f] by auto
  then have fin: "keeps unedited (modify_var (\<lambda>r. r\<lparr>R_Meta := controllerutil_AddFinalizer (RR_Library R) (R_Meta r) f\<rparr>))"
    "keeps unedited (modify_var (\<lambda>r. r\<lparr>R_Meta := controllerutil_RemoveFinalizer (RR_Library R) (R_Meta r) f\<rparr>))" for f
    by (auto simp: unedited_def intro!: keeps_modify_var)
  have set: "keeps unedited (modify_var (set_Phase ph))" "keeps unedited (modify_var (set_Conditions cs))"
    "keeps unedited (modify_var (set_ID i))" "keeps unedited (modify_var (set_OS os))" for ph cs i os
    by (auto simp: unedited_def set_Phase_def set_Conditions_def set_ID_def set_OS_def intro!: keeps_modify_var)
  have "keeps unedited (set_status_condition R st re me)" for st re me
    by (auto simp: set_status_condition_def intro!: keeps_intros set)
  then have "keeps unedited (reconcileStatus R p)" for p
    unfolding reconcileStatus_def gh_GetRunner_def Let_def
    by (auto intro!: keeps_intros set split: prod.splits)
  then have "keeps unedited (reconcile_normal R p sec)" for p sec
    unfolding reconcile_normal_def
    by (auto intro!: keeps_intros keeps_CreateOrUpdate set fin split: prod.splits)
  moreover have "keeps unedited (reconcile_deletion R p sec)" for p sec
    unfolding reconcile_deletion_def gh_GetRunner_def
    by (auto intro!: keeps_intros keeps_CreateOrUpdate set fin simp: Let_def split: prod.splits)
  ultimately show ?thesis
    unfolding reconcile_runner_def by (auto intro!: keeps_intros simp: Let_def)
qed

lemma spec_phase_known: "spec_phase obs \<in> runner_phases"
  by (cases obs) (auto simp: runner_phases_def)

lemma normal_phase:
  assumes "phase_of (var s) \<in> P" and P: "runner_phases \<subseteq> P"
  shows "wp (reconcile_normal R p sec) (\<lambda>r s'. phase_of (var s') \<in> P) s"
proof -
  have pod: "wp (andthen (CreateOrUpdate OPod c p (mutate_pod R))
      (\<lambda>(err, runnerPod). if err \<noteq> None then ret (no_requeue, err)
         else andthen (modify_var (set_Phase RunnerPendingPhase)) (\<lambda>_. reconcileStatus R runnerPod)))
     (\<lambda>r s'. phase_of (var s') \<in> P) t" if "phase_of (var t) \<in> P" for c t
    by (rule wp_andthen_frame [OF issues_create_not_exec(2)])
      (use that subsetD [OF P spec_phase_known] in \<open>auto simp: wp_ret wp_modify_andthen keeps_CreateOrUpdate keeps_mutate_pod
         split: prod.split if_splits intro!: wp_mono [OF reconcileStatus_refines_observation [OF _ refl]]\<close>)
  show ?thesis
    unfolding reconcile_normal_def wp_modify_andthen
    by (rule wp_andthen_frame [OF issues_create_not_exec(1)])
      (use assms in \<open>auto simp: keeps_CreateOrUpdate keeps_mutate_secret wp_ret
         wp_andthen [of "forbidden_or_not_found e" for e] wp_forbidden_or_not_found
         runner_event_def wp_read_var wp_event wp_andthen [of read_var]
         wp_andthen [of "event m t r" for m t r] wp_andthen [of "andthen read_var f" for f]
         split: prod.split outcome.split intro!: pod [simplified]\<close>)
qed

lemma deletion_inactive:
  assumes "phase_of (var s) \<noteq> RunnerActivePhase"
  shows "wp (reconcile_deletion R p sec) (\<lambda>r s'. var s' = var s \<or>
    var s' = (var s)\<lparr>R_Meta := controllerutil_RemoveFinalizer (RR_Library R) (R_Meta (var s)) RunnerController\<rparr>) s"
proof -
  have frame: "keeps (\<lambda>v. v) (CreateOrUpdate OSecret (SecretsOf (RR_Client R)) sec (mutate_secret_deleting R))"
    by (rule keeps_CreateOrUpdate) (rule keeps_mutate_secret)
  show ?thesis
    unfolding reconcile_deletion_def
    using assms
    by (auto simp: wp_andthen wp_read_var wp_ret wp_modify_var client_Delete_def wp_ext
        intro!: wp_keeps [OF frame] split: outcome.split prod.split)
qed

lemma deletion_active:
  assumes "phase_of (var s) = RunnerActivePhase"
  shows "wp (reconcile_deletion R p sec) (\<lambda>r s'. var s' = var s \<or> var s' = set_Phase RunnerCompletePhase (var s)) s"
  using assms
  by (auto simp: reconcile_deletion_def wp_simps Let_def gh_GetRunner_def unexpected_github_error_def
      split: prod.split option.split outcome.split)

text \<open>What the body makes of a runner that is being deleted.\<close>

definition deletion_edits :: "runner \<Rightarrow> runner \<Rightarrow> bool" where
  "deletion_edits b n \<longleftrightarrow> R_Spec n = R_Spec b \<and>
     (R_Status n = R_Status b \<or> phase_of b = RunnerActivePhase \<and> phase_of n = RunnerCompletePhase) \<and>
     (phase_of b = RunnerActivePhase \<longrightarrow> R_Meta n = R_Meta b)"

lemma deleting_step:
  assumes "deleting (var s)"
  shows "wp (reconcile_runner R) (\<lambda>r s'. deletion_edits (var s) (var s')) s"
proof -
  have "wp (reconcile_deletion R p sec) (\<lambda>r s'. deletion_edits (var s) (var s')) s" for p sec
  proof (cases "phase_of (var s) = RunnerActivePhase")
    case True
    then show ?thesis by (auto simp: deletion_edits_def intro!: wp_mono [OF deletion_active])
  next
    case False
    then show ?thesis by (auto simp: deletion_edits_def intro!: wp_mono [OF deletion_inactive])
  qed
  with assms show ?thesis by (simp add: reconcile_runner_def wp_simps Let_def)
qed

lemma deleting_calls:
  assumes "deleting (var s)"
  shows "wp (reconcile_runner R) (\<lambda>r s'. \<exists>cs. trace s' = trace s @ cs \<and> (\<forall>c\<in>set cs. \<not> pod_call c) \<and>
    (phase_of (var s) = RunnerActivePhase \<longrightarrow> (\<forall>c\<in>set cs. \<exists>u i. c = GetRunnerC u i))) s"
proof (cases "phase_of (var s) = RunnerActivePhase")
  case True
  with assms show ?thesis
    by (auto simp: reconcile_runner_def wp_simps Let_def pod_call_def intro!: wp_mono [OF reconcile_deletion_active_calls])
next
  case False
  with assms deletion_no_pod_call [of R "podForRunner (RR_MapOrder R) (var s)" "secretForRunner (var s)", unfolded issues_def]
  show ?thesis by (simp add: reconcile_runner_def wp_simps Let_def)
qed

lemma body_phase:
  "wp (reconcile_runner R) (\<lambda>r s'. phase_of (var s') \<in> insert (phase_of (var s)) runner_phases) s"
proof (cases "deleting (var s)")
  case True
  show ?thesis
    by (rule wp_mono [OF deleting_step [OF True]]) (auto simp: deletion_edits_def runner_phases_def)
next
  case False
  have "wp (reconcile_normal R p sec) (\<lambda>r s'. phase_of (var s') \<in> insert (phase_of (var s)) runner_phases) s" for p sec
    by (rule normal_phase) auto
  with False show ?thesis by (simp add: reconcile_runner_def wp_simps Let_def del: insert_iff)
qed

section \<open>The two patches\<close>

text \<open>What is stored after a reconciliation that read \<open>b\<close> and whose body made \<open>n\<close> of it: the rest of the one or
  of the other, with the status of the one or of the other; so that either part of the change can be
  lost without the other.\<close>

definition wrote :: "runner \<Rightarrow> runner \<Rightarrow> runner option \<Rightarrow> bool" where
  "wrote b n new \<longleftrightarrow>
     (case new of
        None \<Rightarrow> deleting b \<and> Finalizers (R_Meta n) = []
      | Some r \<Rightarrow> \<exists>m\<in>{b, n}. \<exists>t\<in>{b, n}. \<exists>v. r = versioned v (m\<lparr>R_Status := R_Status t\<rparr>))"

lemma same_status [simp]: "r\<lparr>R_Status := R_Status r\<rparr> = (r :: runner)"
  by (cases r) simp

lemma versioned_self: "\<exists>v. r = versioned v r"
  by (rule exI [of _ "ResourceVersion (R_Meta r)"]) (cases r; cases "R_Meta r"; simp add: versioned_def)

lemma wp_andthen_Done:
  "wp m (\<lambda>r s1. (\<exists>a. r = Done a) \<and> H s1) s \<Longrightarrow> (\<And>a s1. H s1 \<Longrightarrow> wp (f a) Q s1) \<Longrightarrow> wp (andthen m f) Q s"
  unfolding wp_andthen by (erule wp_mono) auto

lemma wrote_nothing: "wrote b n (Some b)"
  using versioned_self [of b] by (auto simp: wrote_def)

lemma main_patch:
  assumes serves: "stores_runner c key stored" and b: "stored (world s) = Some b" and n: "var s = edited b fs sp st"
    and run: "client_Patch k c b (var s) s = (Done (err, y), s')"
  shows "R_Status y \<in> {R_Status b, st} \<and>
    (case stored (world s') of None \<Rightarrow> deleting b \<and> fs = []
     | Some z \<Rightarrow> \<exists>m\<in>{b, edited b fs sp st}. \<exists>v. z = versioned v (m\<lparr>R_Status := R_Status b\<rparr>))"
proof -
  obtain w' where p: "Patch c b (edited b fs sp st) (world s) = ((err, y), w')" and w': "world s' = w'"
    using run n by (auto simp: client_Patch_def ext_def split: prod.splits)
  from serves b p obtain v where "let made = versioned v (edited b fs sp (R_Status b))
         in answers err y (edited b fs sp st) (Some made) (stored (world s)) (stored w')
              (if deleting b \<and> fs = [] \<and> Finalizers (R_Meta b) \<noteq> [] then None else Some made)"
    unfolding stores_runner_def by blast
  then show ?thesis
    using versioned_self [of b] by (auto simp: answers_def w' b Let_def split: if_splits)
qed

lemma patch_wrote:
  assumes serves: "stores_runner c key stored" and b: "stored (world s) = Some b" and n: "var s = edited b fs sp st"
    and p: "patch p = b" "statusPatch p = b"
  shows "wp (Patcher_Patch U cv L k c p) (\<lambda>r s'. wrote b (var s) (stored (world s'))) s"
proof -
  let ?half = "\<lambda>s1. R_Status (var s1) \<in> {R_Status b, st} \<and>
    (case stored (world s1) of None \<Rightarrow> deleting b \<and> fs = []
     | Some z \<Rightarrow> \<exists>m\<in>{b, edited b fs sp st}. \<exists>v. z = versioned v (m\<lparr>R_Status := R_Status b\<rparr>))"
  have main: "wp (if ch then andthen (client_Patch k c b (var s)) (\<lambda>(err, obj').
        andthen (write_var obj') (\<lambda>_. ret (collect [] err))) else ret []) (\<lambda>r s1. (\<exists>e. r = Done e) \<and> ?half s1) s" for ch
  proof (cases ch)
    case True
    obtain err y w' where "Patch c b (var s) (world s) = ((err, y), w')" by (metis prod.collapse)
    then obtain s1 where run: "client_Patch k c b (var s) s = (Done (err, y), s1)"
      by (simp add: client_Patch_def ext_def)
    from main_patch [OF serves b n this] True run show ?thesis
      by (simp add: wp_def run_andthen write_var_def)
  qed (use versioned_self [of b] b n in \<open>auto simp: wp_ret\<close>)
  have status: "wp (if ch then andthen (client_StatusPatch k c b (var s1)) (\<lambda>(err, obj').
        andthen (write_var obj') (\<lambda>_. ret (collect errs err))) else ret errs)
      (\<lambda>r s'. (\<exists>e. r = Done e) \<and> wrote b (var s) (stored (world s'))) s1" if half: "?half s1" for ch errs s1
  proof (cases ch)
    case True
    obtain err y w' where sp: "StatusPatch c b (var s1) (world s1) = ((err, y), w')" by (metis prod.collapse)
    from half have "\<forall>z. stored (world s1) = Some z \<longrightarrow> R_Status z = R_Status b" by auto
    with serves sp obtain v where "let made = map_option (\<lambda>z. versioned v (z\<lparr>R_Status := R_Status (var s1)\<rparr>)) (stored (world s1))
         in answers err y (var s1) made (stored (world s1)) (stored w') made"
      unfolding stores_runner_def by blast
    then have "stored w' = stored (world s1) \<or>
        stored w' = map_option (\<lambda>z. versioned v (z\<lparr>R_Status := R_Status (var s1)\<rparr>)) (stored (world s1))"
      by (auto simp: answers_def Let_def split: if_splits)
    then have "wrote b (var s) (stored w')"
      using half by (auto simp: wrote_def n split: option.splits)
    with True sp show ?thesis
      by (simp add: client_StatusPatch_def wp_simps)
  qed (use half in \<open>auto simp: wp_ret wrote_def n split: option.splits\<close>)
  have both: "wp (andthen (if ch then andthen (client_Patch k c b (var s)) (\<lambda>(err, obj').
        andthen (write_var obj') (\<lambda>_. ret (collect [] err))) else ret []) (\<lambda>errs.
      andthen read_var (\<lambda>obj. andthen (if ch' then andthen (client_StatusPatch k c b obj) (\<lambda>(err, obj').
        andthen (write_var obj') (\<lambda>_. ret (collect errs err))) else ret errs) (\<lambda>errs. ret (agg errs)))))
      (\<lambda>r s'. wrote b (var s) (stored (world s'))) s" for ch ch' and agg :: "go_error list \<Rightarrow> go_error option"
    by (rule wp_andthen_Done [OF main], unfold wp_andthen [of read_var] wp_read_var outcome.case,
        rule wp_andthen_Done [OF status]) (simp_all only: wp_ret)
  have keep: "wrote b (var s) (stored (world s))" using wrote_nothing b by simp
  show ?thesis
    unfolding Patcher_Patch_def p wp_andthen [of read_var] wp_read_var outcome.case
    by (simp add: both wp_ret keep Let_def split: sum.split prod.split option.split split del: if_split)
qed

section \<open>A whole reconciliation\<close>

text \<open>The calls that concern nothing but the runner itself.\<close>

definition own_call :: "call \<Rightarrow> bool" where
  "own_call c \<longleftrightarrow> (\<exists>k. c = GetC KRunner k) \<or> (\<exists>u i. c = GetRunnerC u i) \<or>
     (\<exists>x y. c = PatchC (ORunner x) (ORunner y)) \<or> (\<exists>x y. c = StatusPatchC (ORunner x) (ORunner y))"

lemma own_call_no_pod: "own_call c \<Longrightarrow> \<not> pod_call c"
  by (auto simp: own_call_def pod_call_def)

lemma own_call_simps [simp]: "own_call (GetC KRunner k)" "own_call (GetRunnerC u i)"
  by (auto simp: own_call_def)

lemma Reconcile_step:
  assumes env: "stores_runner (RunnersOf (RR_Client R)) key stored" "apart R stored" "only_finalizers (RR_Library R)"
    and run: "Reconcile R key (start w v) = (out, s')"
  obtains (unread) "stored (world s') = stored w" "trace s' = [GetC KRunner key]"
  | (read) b n cs where "stored w = Some b" "wrote b n (stored (world s'))" "trace s' = GetC KRunner key # cs"
      "phase_of n \<in> insert (phase_of b) runner_phases"
      "deleting b \<Longrightarrow> deleting n \<and> deletion_edits b n \<and>
         (\<forall>c\<in>set cs. \<not> pod_call c \<and> (phase_of b = RunnerActivePhase \<longrightarrow> own_call c))"
  using run
proof (cases rule: Reconcile_cases)
  case (not_read err w1)
  then show thesis using env(1) unread unfolding stores_runner_def by simp
next
  case (no_patcher runner err w1)
  then show thesis using env(1) unread unfolding stores_runner_def by simp
next
  case (patched b p w1 r1 s1 perr)
  let ?s0 = "\<lparr>world = w1, trace = [GetC KRunner key], var = b\<rparr>"
  have w1: "stored w1 = stored w" "stored w = Some b" using env(1) patched(1) unfolding stores_runner_def by blast+
  have s1: "stored (world s1) = Some b"
    using leavesD [OF leaves_reconcile_runner [OF env(2)], of ?s0] patched(3) w1 by simp
  have "unedited (var s1) = unedited b"
    using keepsD [OF keeps_unedited [OF env(3)] patched(3)] by simp
  note n = unedited_edited [OF this]
  have dn: "deleting (var s1) = deleting b" by (subst n) simp
  have wrote: "wrote b (var s1) (stored (world s'))"
    using wpD [OF patch_wrote [OF env(1) s1 n NewPatcher_split(2,3) [OF patched(2)]] patched(4)] .
  have "issues own_call (Patcher_Patch (RR_Unstructured R) (RR_Converter R) (RR_Library R) ORunner
      (RunnersOf (RR_Client R)) p :: (('a, runner) st, go_error option) prog)"
    by (rule issues_Patcher_Patch) (auto simp: own_call_def)
  from issuesD [OF this patched(4)] obtain ds where ds: "trace s' = trace s1 @ ds" "\<forall>c\<in>set ds. own_call c" .
  have phase: "phase_of (var s1) \<in> insert (phase_of b) runner_phases"
    using wpD [OF body_phase patched(3)] by simp
  show thesis
  proof (cases "deleting b")
    case True
    then have del: "deleting (var ?s0)" by simp
    from wpD [OF deleting_calls [OF del] patched(3)] obtain cs where cs: "trace s1 = GetC KRunner key # cs"
      "\<forall>c\<in>set cs. \<not> pod_call c"
      "phase_of b = RunnerActivePhase \<longrightarrow> (\<forall>c\<in>set cs. \<exists>u i. c = GetRunnerC u i)" by auto
    then have own: "own_call c" if "phase_of b = RunnerActivePhase" "c \<in> set cs" for c
      using that by (auto simp: own_call_def)
    show thesis
      by (rule read [OF w1(2) wrote _ phase, of "cs @ ds"])
        (use True dn cs(1,2) own ds own_call_no_pod wpD [OF deleting_step [OF del] patched(3)] in auto)
  next
    case False
    have "issues (\<lambda>c. True) (reconcile_runner R)"
      unfolding reconcile_runner_def
      by (auto intro!: issues_intros issues_reconcile_normal issues_reconcile_deletion simp: Let_def)
    from issuesD [OF this patched(3)] obtain cs where "trace s1 = GetC KRunner key # cs" by auto
    with read [OF w1(2) wrote _ phase, of "cs @ ds"] ds False show thesis by simp
  qed
qed

section \<open>The invariant of a life\<close>

definition drains :: "runner \<Rightarrow> call list \<Rightarrow> runner option \<Rightarrow> bool" where
  "drains r0 cs now \<longleftrightarrow> (\<forall>c\<in>set cs. \<not> pod_call c) \<and>
     (\<forall>r. now = Some r \<longrightarrow> deleting r \<and> R_Spec r = R_Spec r0 \<and>
        (phase_of r = phase_of r0 \<or> phase_of r0 = RunnerActivePhase \<and> phase_of r = RunnerCompletePhase) \<and>
        (phase_of r = RunnerActivePhase \<longrightarrow>
           Finalizers (R_Meta r) = Finalizers (R_Meta r0) \<and> (\<forall>c\<in>set cs. own_call c)))"

lemma drains_elsewhere: "drains r0 cs old \<Longrightarrow> others_write old new \<Longrightarrow> drains r0 cs new"
  by (cases old; cases new) (auto simp: drains_def others_write_def)

lemma drains_unread: "drains r0 cs now \<Longrightarrow> drains r0 (cs @ [GetC KRunner key]) now"
  by (auto simp: drains_def pod_call_def)

lemma drains_read:
  assumes "drains r0 cs (Some b)" and "wrote b n new" and "deleting n" "deletion_edits b n"
    and "\<forall>c\<in>set ds. \<not> pod_call c \<and> (phase_of b = RunnerActivePhase \<longrightarrow> own_call c)"
  shows "drains r0 (cs @ GetC KRunner key # ds) new"
proof -
  have "deleting r \<and> R_Spec r = R_Spec r0 \<and>
      (phase_of r = phase_of b \<or> phase_of b = RunnerActivePhase \<and> phase_of r = RunnerCompletePhase) \<and>
      (phase_of b = RunnerActivePhase \<longrightarrow> Finalizers (R_Meta r) = Finalizers (R_Meta b))"
    if "new = Some r" for r
  proof -
    from assms(2) that have "\<exists>m\<in>{b, n}. \<exists>t\<in>{b, n}. \<exists>v. r = versioned v (m\<lparr>R_Status := R_Status t\<rparr>)"
      by (simp only: wrote_def option.case)
    then obtain m t v where "m \<in> {b, n}" "t \<in> {b, n}" "r = versioned v (m\<lparr>R_Status := R_Status t\<rparr>)" by blast
    with assms(1,3,4) show ?thesis by (auto simp: drains_def deletion_edits_def)
  qed
  note made = this
  show ?thesis
    unfolding drains_def
  proof (intro conjI allI impI)
    show "\<forall>c\<in>set (cs @ GetC KRunner key # ds). \<not> pod_call c"
      using assms(1,5) by (auto simp: drains_def pod_call_def)
  next
    fix r
    assume r: "new = Some r"
    note made [OF r]
    moreover have "phase_of b = phase_of r0 \<or> phase_of r0 = RunnerActivePhase \<and> phase_of b = RunnerCompletePhase"
      using assms(1) by (simp add: drains_def)
    ultimately show "deleting r" "R_Spec r = R_Spec r0"
      "phase_of r = phase_of r0 \<or> phase_of r0 = RunnerActivePhase \<and> phase_of r = RunnerCompletePhase"
      by auto
    assume "phase_of r = RunnerActivePhase"
    with made [OF r] have "phase_of b = RunnerActivePhase" by auto
    with made [OF r] assms(1,5)
    show "Finalizers (R_Meta r) = Finalizers (R_Meta r0)" "\<forall>c\<in>set (cs @ GetC KRunner key # ds). own_call c"
      by (auto simp: drains_def)
  qed
qed

text \<open>C5. Over a whole life the stored phase is the one it had at first or one of the four phases, whichever of
  the patches come through.  And once a runner is being deleted, through any number of reconciliations
  in any state of the surroundings: it stays deleted, its spec does not change, no pod is written for it
  any more, its phase stays or goes from active to complete, and as long as it is active it keeps its
  finalizers, and all that is done is reading and patching the runner and asking GitHub about it.\<close>

theorem runner_life:
  assumes env: "stores_runner (RunnersOf (RR_Client R)) key stored" "apart R stored" "only_finalizers (RR_Library R)"
    and "life R key stored w0 cs w" and "stored w0 = Some r0"
  shows "(\<forall>r. stored w = Some r \<longrightarrow> phase_of r \<in> insert (phase_of r0) runner_phases) \<and>
    (deleting r0 \<longrightarrow> drains r0 cs (stored w))"
  using assms(4)
proof induction
  case life_start
  then show ?case using assms(5) by (simp add: drains_def)
next
  case (life_reconciled cs w v out s')
  from env life_reconciled.hyps(2) show ?case
  proof (cases rule: Reconcile_step)
    case unread
    then show ?thesis using life_reconciled.IH drains_unread by simp
  next
    case (read b n ds)
    have "phase_of r \<in> insert (phase_of r0) runner_phases" if "stored (world s') = Some r" for r
      using read(1,2,4) life_reconciled.IH that by (auto simp: wrote_def)
    moreover have "drains r0 (cs @ trace s') (stored (world s'))" if "deleting r0"
    proof -
      from life_reconciled.IH that read(1) have old: "drains r0 cs (Some b)" by simp
      then have "deleting b" by (simp add: drains_def)
      from drains_read [OF old read(2)] read(5) [OF this] read(3) show ?thesis by simp
    qed
    ultimately show ?thesis by blast
  qed
next
  case (life_elsewhere cs w w')
  have "phase_of r \<in> insert (phase_of r0) runner_phases" if "stored w' = Some r" for r
    using life_elsewhere.IH life_elsewhere.hyps(2) that
    by (cases "stored w") (auto simp: others_write_def)
  then show ?case using life_elsewhere.IH drains_elsewhere [OF _ life_elsewhere.hyps(2)] by blast
qed

section \<open>A server with one runner\<close>

text \<open>The world is the stored runner.  An active runner whose job has just ended is deleted; the first
  reconciliation completes it, and somebody labels it.\<close>

definition single_store :: "(runner option, runner) resource" where
  "single_store = (sample_resource (sample_runner None [] []) [])
     \<lparr>Get := (\<lambda>key w. (case w of None \<Rightarrow> Inl sample_not_found | Some r \<Rightarrow> Inr r, w)),
      Patch := (\<lambda>b x w. case w of
         None \<Rightarrow> ((Some sample_not_found, x), None)
       | Some z \<Rightarrow> (let y = versioned ''2'' (x\<lparr>R_Status := R_Status z\<rparr>)
           in ((None, y), if deleting z \<and> Finalizers (R_Meta x) = [] \<and> Finalizers (R_Meta z) \<noteq> [] then None else Some y))),
      StatusPatch := (\<lambda>b x w. case w of
         None \<Rightarrow> ((Some sample_not_found, x), None)
       | Some z \<Rightarrow> (let y = versioned ''3'' (z\<lparr>R_Status := R_Status x\<rparr>) in ((None, y), Some y)))\<rparr>"

lemma single_store_serves: "stores_runner single_store key (\<lambda>w. w)"
  unfolding stores_runner_def
  by (auto simp: single_store_def sample_resource_def answers_def Let_def split: option.splits if_splits)

definition single_reconciler :: "runner option runner_reconciler" where
  "single_reconciler = (sample_reconciler (sample_runner None [] []) fresh_secret sample_ready_pod
      (sample_gh_runner False, None) (sample_token, None))
     \<lparr>RR_Client := (sample_cluster (sample_runner None [] []) fresh_secret sample_ready_pod)\<lparr>RunnersOf := single_store\<rparr>\<rparr>"

definition life_runner :: runner where
  "life_runner = sample_runner (Some 1) [RunnerController] RunnerActivePhase"

lemma single_reconciler_env:
  "stores_runner (RunnersOf (RR_Client single_reconciler)) key (\<lambda>w. w)" "apart single_reconciler (\<lambda>w. w)"
  "only_finalizers (RR_Library single_reconciler)"
proof -
  have same: "\<exists>fs. m = m\<lparr>Finalizers := fs\<rparr>" for m :: object_meta by (rule exI [of _ "Finalizers m"]) simp
  show "stores_runner (RunnersOf (RR_Client single_reconciler)) key (\<lambda>w. w)"
    by (simp add: single_reconciler_def single_store_serves)
  show "apart single_reconciler (\<lambda>w. w)"
    by (simp add: apart_def leaves_writes_def single_reconciler_def sample_reconciler_def sample_defs)
  show "only_finalizers (RR_Library single_reconciler)"
    by (auto simp: only_finalizers_def single_reconciler_def sample_reconciler_def sample_library_def intro: same)
qed

definition life_end :: "(runner option, runner) st" where
  "life_end = snd (Reconcile single_reconciler sample_key (start (Some life_runner) life_runner))"

definition relabelled :: "runner option \<Rightarrow> runner option" where
  "relabelled = map_option (\<lambda>r. r\<lparr>R_Meta := (R_Meta r)\<lparr>Labels := make_map\<rparr>\<rparr>)"

lemma runner_life_witness:
  "map_option phase_of (relabelled (world life_end)) = Some RunnerCompletePhase \<and>
     drains life_runner (trace life_end @ trace (snd (Reconcile single_reconciler sample_key
        (start (relabelled (world life_end)) life_runner))))
       (world (snd (Reconcile single_reconciler sample_key (start (relabelled (world life_end)) life_runner))))"
proof -
  let ?life = "life single_reconciler sample_key (\<lambda>w. w) (Some life_runner)"
  have del: "deleting life_runner"
    by (simp add: life_runner_def sample_defs GetDeletionTimestamp_IsZero_def time_IsZero_def)
  have "?life ([] @ trace life_end) (world life_end)"
    by (rule life_reconciled [OF life_start]) (simp add: life_end_def prod_eq_iff)
  moreover have "others_write (world life_end) (relabelled (world life_end))"
    by (cases "world life_end") (auto simp: relabelled_def others_write_def GetDeletionTimestamp_IsZero_def)
  ultimately have "?life (trace life_end) (relabelled (world life_end))" by (simp add: life_elsewhere)
  from runner_life [OF single_reconciler_env life_reconciled [OF this surjective_pairing] refl] del
  have "drains life_runner (trace life_end @ trace (snd (Reconcile single_reconciler sample_key
        (start (relabelled (world life_end)) life_runner))))
       (world (snd (Reconcile single_reconciler sample_key (start (relabelled (world life_end)) life_runner))))"
    by blast
  moreover have "map_option phase_of (relabelled (world life_end)) = Some RunnerCompletePhase" by code_simp
  ultimately show ?thesis by blast
qed

end
