(* ===== verification/Revision.thy ===== *)
theory Revision
  imports Util Patch_Helper
begin

text \<open>
  \<open>pkg/revision\<close>: the history of an object as controller revisions.  \<open>util.go\<close> holds the pure part
  (names, hashes, equality, the sort order), \<open>revision.go\<close> the two operations on the cluster:
  \<open>MakeHistory\<close>, which finds, rolls back to, or creates the revision of the object as it is now, and
  \<open>TruncateHistory\<close>, which deletes the revisions that nothing uses.

  The owner is the handler's object (\<open>var\<close>), of any type: the code works on its unstructured form.
\<close>

unbundle bit_operations_syntax

section \<open>Names and hashes\<close>

text \<open>The name suffix the package gives a revision; 223 is the limit for the prefix.\<close>

definition revision_Name :: "string \<Rightarrow> string \<Rightarrow> string" where
  "revision_Name prefix hash =
     (let prefix = (if 223 < length prefix then take 223 prefix else prefix)
      in prefix @ ''-'' @ hash)"

text \<open>\<open>hash/fnv\<close>, \<open>New32\<close>: FNV-1 on 32 bits, multiply and then add the byte in.\<close>

definition fnv_offset32 :: int32 where "fnv_offset32 = 2166136261"
definition fnv_prime32 :: int32 where "fnv_prime32 = 16777619"

definition fnv_step :: "int32 \<Rightarrow> char \<Rightarrow> int32" where
  "fnv_step h c = (h * fnv_prime32) XOR word_of_nat (of_char c)"

definition fnv_Write :: "int32 \<Rightarrow> string \<Rightarrow> int32" where
  "fnv_Write h s = foldl fnv_step h s"

definition Sum32 :: "'w library \<Rightarrow> controller_revision \<Rightarrow> int32 option \<Rightarrow> int32" where
  "Sum32 L cr probe =
     (let hf = fnv_offset32;
          hf = (if 0 < length (Raw cr) then fnv_Write hf (Raw cr) else hf);
          hf = (case DataObject cr of None \<Rightarrow> hf
                | Some obj \<Rightarrow> fnv_Write fnv_offset32 (spew_Fprintf L obj));
          hf = (case probe of None \<Rightarrow> hf | Some p \<Rightarrow> fnv_Write hf (itoa (sint p)))
      in hf)"

definition revision_Hash :: "'w library \<Rightarrow> controller_revision \<Rightarrow> int32 option \<Rightarrow> string" where
  "revision_Hash L cr probe = rand_SafeEncodeString L (utoa (unat (Sum32 L cr probe)))"

section \<open>Equality\<close>

text \<open>The hash in a revision's label: only a label that is a decimal 32 bit number counts.\<close>

definition label_hash :: "object_meta \<Rightarrow> string \<Rightarrow> int32 option" where
  "label_hash m hashLabelKey =
     (case map_lookup (Labels m) hashLabelKey of
        None \<Rightarrow> None
      | Some hs \<Rightarrow> (case ParseInt10 32 hs of Inl err \<Rightarrow> None | Inr hash \<Rightarrow> Some (word_of_int hash)))"

text \<open>\<open>IsEqual\<close> on pointers; \<open>apiequality.Semantic.DeepEqual\<close> of the data objects is a parameter.\<close>

definition IsEqual :: "(opaque option \<Rightarrow> opaque option \<Rightarrow> bool) \<Rightarrow>
    controller_revision option \<Rightarrow> controller_revision option \<Rightarrow> string \<Rightarrow> bool" where
  "IsEqual deq lhs rhs hashLabelKey =
     (case (lhs, rhs) of
        (Some l, Some r) \<Rightarrow>
          (case (label_hash (CR_Meta l) hashLabelKey, label_hash (CR_Meta r) hashLabelKey) of
             (Some lh, Some rh) \<Rightarrow>
               if lh \<noteq> rh then False
               else Raw l = Raw r \<and> deq (DataObject l) (DataObject r)
           | _ \<Rightarrow> Raw l = Raw r \<and> deq (DataObject l) (DataObject r))
      | (None, None) \<Rightarrow> True
      | _ \<Rightarrow> False)"

definition FindEqual :: "(opaque option \<Rightarrow> opaque option \<Rightarrow> bool) \<Rightarrow> controller_revision list \<Rightarrow>
    controller_revision \<Rightarrow> string \<Rightarrow> controller_revision list" where
  "FindEqual deq revisions needle key =
     filter (\<lambda>r. IsEqual deq (Some r) (Some needle) key) revisions"

section \<open>The order of revisions\<close>

text \<open>By revision number, then creation time, then name.\<close>

definition SortableRevisions_Less :: "controller_revision \<Rightarrow> controller_revision \<Rightarrow> bool" where
  "SortableRevisions_Less ri rj =
     (if Revision ri = Revision rj
      then if CreationTimestamp (CR_Meta rj) = CreationTimestamp (CR_Meta ri)
           then Name (CR_Meta ri) < Name (CR_Meta rj)
           else CreationTimestamp (CR_Meta ri) < CreationTimestamp (CR_Meta rj)
      else Revision ri <s Revision rj)"

datatype revision_rank = Rank int instant string

fun rank_less :: "revision_rank \<Rightarrow> revision_rank \<Rightarrow> bool" where
  "rank_less (Rank n t s) (Rank n' t' s') \<longleftrightarrow> n < n' \<or> n = n' \<and> (t < t' \<or> t = t' \<and> s < s')"

instantiation revision_rank :: linorder
begin

definition less_revision_rank :: "revision_rank \<Rightarrow> revision_rank \<Rightarrow> bool" where
  "p < q \<longleftrightarrow> rank_less p q"

definition less_eq_revision_rank :: "revision_rank \<Rightarrow> revision_rank \<Rightarrow> bool" where
  "p \<le> q \<longleftrightarrow> p = q \<or> rank_less p q"

instance
proof
  fix p q r :: revision_rank
  show "p < q \<longleftrightarrow> p \<le> q \<and> \<not> q \<le> p"
    by (cases p; cases q) (auto simp: less_revision_rank_def less_eq_revision_rank_def)
  show "p \<le> p" by (simp add: less_eq_revision_rank_def)
  show "p \<le> q \<Longrightarrow> q \<le> r \<Longrightarrow> p \<le> r"
    by (cases p; cases q; cases r) (auto simp: less_eq_revision_rank_def)
  show "p \<le> q \<Longrightarrow> q \<le> p \<Longrightarrow> p = q"
    by (cases p; cases q) (auto simp: less_eq_revision_rank_def)
  show "p \<le> q \<or> q \<le> p"
    by (cases p; cases q) (auto simp: less_eq_revision_rank_def)
qed

end

definition rank_of :: "controller_revision \<Rightarrow> revision_rank" where
  "rank_of r = Rank (sint (Revision r)) (CreationTimestamp (CR_Meta r)) (Name (CR_Meta r))"

lemma SortableRevisions_Less_rank: "SortableRevisions_Less a b \<longleftrightarrow> rank_of a < rank_of b"
  by (auto simp: SortableRevisions_Less_def rank_of_def less_revision_rank_def word_sless_alt
      dest: signed_word_eqI)

interpretation by_revision: sort_interface SortableRevisions_Less
  by unfold_locales (auto simp: SortableRevisions_Less_rank)

definition nextRevisionNumber :: "controller_revision list \<Rightarrow> int64" where
  "nextRevisionNumber revisions = (if revisions = [] then 1 else Revision (last revisions) + 1)"

section \<open>The unstructured owner\<close>

definition GetRevisionHistoryLimit :: "unstructured_lib \<Rightarrow> json_map \<Rightarrow> int32" where
  "GetRevisionHistoryLimit U ro = ucast (fst (NestedInt64 U ro [''spec'', ''revisionHistoryLimit'']))"

definition GetNextRevision :: "unstructured_lib \<Rightarrow> json_map \<Rightarrow> string" where
  "GetNextRevision U ro = fst (NestedString U ro [''status'', ''nextRevision''])"

definition GetCurrentRevision :: "unstructured_lib \<Rightarrow> json_map \<Rightarrow> string" where
  "GetCurrentRevision U ro = fst (NestedString U ro [''status'', ''currentRevision''])"

definition GetCollisionCount :: "unstructured_lib \<Rightarrow> json_map \<Rightarrow> int32" where
  "GetCollisionCount U ro = ucast (fst (NestedInt64 U ro [''status'', ''collisionCount'']))"

definition SetNextRevision :: "unstructured_lib \<Rightarrow> json_map \<Rightarrow> string \<Rightarrow> json_map" where
  "SetNextRevision U ro name = SetNestedField U ro (JString name) [''status'', ''nextRevision'']"

definition SetCurrentRevision :: "unstructured_lib \<Rightarrow> json_map \<Rightarrow> string \<Rightarrow> json_map" where
  "SetCurrentRevision U ro name = SetNestedField U ro (JString name) [''status'', ''currentRevision'']"

definition SetCollisionCount :: "unstructured_lib \<Rightarrow> json_map \<Rightarrow> int32 \<Rightarrow> json_map" where
  "SetCollisionCount U ro collision =
     SetNestedField U ro (JInt (sint collision)) [''status'', ''collisionCount'']"

section \<open>The interfaces of the package\<close>

text \<open>The \<open>Revisioner\<close> that the caller passes, and the rest of what the two operations use.
  \<open>retry.RetryOnConflict\<close> is a parameter: it takes the function it runs, which works on the revision
  it has captured.\<close>

record ('w, 'o) revisioner =
  HashLabelKey :: string
  Revisioner_NextRevision :: "int64 \<Rightarrow> (('w, 'o) st, go_error + controller_revision) prog"
  Revisioner_ListRevision :: "(('w, 'o) st, go_error + controller_revision list) prog"

record ('w, 'o) history =
  H_Client :: "('w, controller_revision) resource"
  H_Library :: "'w library"
  H_Unstructured :: unstructured_lib
  H_Converter :: "'o converter"
  H_DeepEqual :: "opaque option \<Rightarrow> opaque option \<Rightarrow> bool"
  H_RetryOnConflict :: "(controller_revision \<Rightarrow> (('w, 'o) st, go_error option \<times> controller_revision) prog) \<Rightarrow>
     controller_revision \<Rightarrow> (('w, 'o) st, go_error option \<times> controller_revision) prog"

section \<open>MakeHistory\<close>

text \<open>The function that is retried when the history rolls back: it bumps the number of the revision,
  in memory first, then in the cluster, and reads it back.\<close>

definition bump_revision :: "('w, 'o) history \<Rightarrow> int64 \<Rightarrow> controller_revision \<Rightarrow>
    (('w, 'o) st, go_error option \<times> controller_revision) prog" where
  "bump_revision H number newRevision =
     (if Revision newRevision = number then ret (None, newRevision)
      else
        andthen (client_Update ORevision (H_Client H) (newRevision\<lparr>Revision := number\<rparr>)) (\<lambda>(err, newRevision).
          if err \<noteq> None then ret (err, newRevision)
          else
            andthen (client_Get KRevision (H_Client H) (ObjectKeyFromObject (CR_Meta newRevision))) (\<lambda>got.
              case got of
                Inl e \<Rightarrow> ret (Some e, newRevision)
              | Inr newRevision \<Rightarrow> ret (None, newRevision))))"

text \<open>The loop that creates a revision, with fuel: the code does not bound it.\<close>

fun create_revision :: "('w, 'o) history \<Rightarrow> nat \<Rightarrow> controller_revision \<Rightarrow> int32 \<Rightarrow>
    (('w, 'o) st, go_error + controller_revision \<times> int32) prog" where
  "create_revision H 0 nextRevision collision = panics Unfinished"
| "create_revision H (Suc fuel) nextRevision collision =
     andthen (client_Create ORevision (H_Client H) nextRevision) (\<lambda>(err, nextRevision).
       case err of
         None \<Rightarrow> ret (Inr (nextRevision, collision))
       | Some e \<Rightarrow>
           if apierrors_IsAlreadyExists (H_Library H) e
           then
             andthen (client_Get KRevision (H_Client H) (ObjectKeyFromObject (CR_Meta nextRevision))) (\<lambda>got.
               case got of
                 Inl e \<Rightarrow> ret (Inl e)
               | Inr existsRevision \<Rightarrow>
                   if Raw existsRevision = Raw nextRevision
                   then ret (Inr (existsRevision, collision))
                   else create_revision H fuel nextRevision (collision + 1))
           else ret (Inl e))"

text \<open>The slice holds pointers: a revision that is bumped changes in the slice, too.\<close>

fun update_first :: "('a \<Rightarrow> bool) \<Rightarrow> 'a \<Rightarrow> 'a list \<Rightarrow> 'a list" where
  "update_first P x [] = []"
| "update_first P x (y # ys) = (if P y then x # ys else y # update_first P x ys)"

definition update_last :: "('a \<Rightarrow> bool) \<Rightarrow> 'a \<Rightarrow> 'a list \<Rightarrow> 'a list" where
  "update_last P x xs = rev (update_first P x (rev xs))"

text \<open>The last revision of that name.\<close>

definition revision_named :: "string \<Rightarrow> controller_revision list \<Rightarrow> controller_revision option" where
  "revision_named name revisions = find (\<lambda>r. Name (CR_Meta r) = name) (rev revisions)"

text \<open>The three ways to come to the next revision; the result is the slice, the revision and the
  collision count.\<close>

definition choose_revision :: "('w, 'o) history \<Rightarrow> nat \<Rightarrow> string \<Rightarrow> controller_revision list \<Rightarrow>
    controller_revision \<Rightarrow> int32 \<Rightarrow>
    (('w, 'o) st, go_error + controller_revision list \<times> controller_revision \<times> int32) prog" where
  "choose_revision H fuel key revisions nextRevision collision =
     (let equalRevision = FindEqual (H_DeepEqual H) revisions nextRevision key
      in if equalRevision \<noteq> [] \<and>
            IsEqual (H_DeepEqual H) (Some (last revisions)) (Some (last equalRevision)) key
         then ret (Inr (revisions, last revisions, collision))
         else if equalRevision \<noteq> []
         then
           andthen (H_RetryOnConflict H (bump_revision H (Revision nextRevision)) (last equalRevision))
             (\<lambda>(err, newRevision).
               case err of
                 Some e \<Rightarrow> ret (Inl e)
               | None \<Rightarrow>
                   ret (Inr (update_last (\<lambda>r. IsEqual (H_DeepEqual H) (Some r) (Some nextRevision) key)
                              newRevision revisions, newRevision, collision)))
         else
           andthen (create_revision H fuel nextRevision collision) (\<lambda>made.
             case made of
               Inl e \<Rightarrow> ret (Inl e)
             | Inr (nextRevision, collision) \<Rightarrow> ret (Inr (revisions, nextRevision, collision))))"

definition MakeHistory :: "('w, 'o) history \<Rightarrow> nat \<Rightarrow> ('w, 'o) revisioner \<Rightarrow>
    (('w, 'o) st, go_error + controller_revision) prog" where
  "MakeHistory H fuel r =
     andthen read_var (\<lambda>owner.
       case ToUnstructured (H_Converter H) owner of
         Inl err \<Rightarrow> ret (Inl err)
       | Inr revObj \<Rightarrow>
           andthen (Revisioner_ListRevision r) (\<lambda>listed.
             case listed of
               Inl err \<Rightarrow> ret (Inl err)
             | Inr revisions \<Rightarrow>
                 let collision = GetCollisionCount (H_Unstructured H) revObj;
                     revisions = sort_Stable SortableRevisions_Less revisions
                 in andthen (Revisioner_NextRevision r (nextRevisionNumber revisions)) (\<lambda>made.
                   case made of
                     Inl err \<Rightarrow> ret (Inl err)
                   | Inr nextRevision \<Rightarrow>
                       andthen (choose_revision H fuel (HashLabelKey r) revisions nextRevision collision) (\<lambda>chosen.
                         case chosen of
                           Inl err \<Rightarrow> ret (Inl err)
                         | Inr (revisions, nextRevision, collision) \<Rightarrow>
                             let rev = GetCurrentRevision (H_Unstructured H) revObj;
                                 currentRevision =
                                   (if rev \<noteq> [] then revision_named rev revisions else Some nextRevision)
                             in case currentRevision of
                                  None \<Rightarrow> panics NilDereference
                                | Some currentRevision \<Rightarrow>
                                    let revObj = SetCurrentRevision (H_Unstructured H) revObj
                                                   (Name (CR_Meta currentRevision));
                                        revObj = SetNextRevision (H_Unstructured H) revObj
                                                   (Name (CR_Meta nextRevision));
                                        revObj = SetCollisionCount (H_Unstructured H) revObj collision
                                    in (case FromUnstructured (H_Converter H) revObj owner of
                                          Inl err \<Rightarrow> ret (Inl err)
                                        | Inr owner \<Rightarrow>
                                            andthen (write_var owner) (\<lambda>_. ret (Inr nextRevision)))))))"

section \<open>TruncateHistory\<close>

text \<open>The revisions in use: the current and the next one, and those named by the label of a controlled
  object (an object without labels names none).\<close>

definition in_use :: "('w, 'o) history \<Rightarrow> string \<Rightarrow> json_map \<Rightarrow> string gomap list \<Rightarrow> string list" where
  "in_use H key revObj controlled =
     (let currentRev = GetCurrentRevision (H_Unstructured H) revObj;
          nextRev = GetNextRevision (H_Unstructured H) revObj
      in (if currentRev \<noteq> [] then [currentRev] else []) @ (if nextRev \<noteq> [] then [nextRev] else []) @
         map (\<lambda>labels. map_index labels key) (filter (\<lambda>labels. labels \<noteq> None) controlled))"

definition delete_revision :: "('w, 'o) history \<Rightarrow> controller_revision option \<Rightarrow> go_error option \<Rightarrow>
    (('w, 'o) st, go_error option) prog" where
  "delete_revision H r err =
     (case err of
        Some e \<Rightarrow> ret (Some e)
      | None \<Rightarrow> (case r of None \<Rightarrow> panics NilDereference
                 | Some r \<Rightarrow> client_Delete ORevision (H_Client H) r))"

text \<open>The part of \<open>TruncateHistory\<close> after the revisions in use are known.  The slice \<open>histories\<close> is
  made with the capacity of all revisions, so a cut beyond its length is not out of bounds up to that
  capacity; the elements there are nil pointers.\<close>

definition truncate_revisions :: "('w, 'o) history \<Rightarrow> string list \<Rightarrow> int32 \<Rightarrow>
    controller_revision list \<Rightarrow> (('w, 'o) st, go_error option) prog" where
  "truncate_revisions H excluded limit revisions =
     (let histories = filter (\<lambda>rev. Name (CR_Meta rev) \<notin> set excluded) revisions;
          historyLen = int (length histories);
          historyLimit = sint limit;
          cut = historyLen - historyLimit
      in if historyLen \<le> historyLimit then ret None
         else if int (length revisions) < cut then panics SliceBounds
         else for_each (map Some (take (nat cut) histories) @ replicate (nat (cut - historyLen)) None)
                (delete_revision H) None)"

definition TruncateHistory :: "('w, 'o) history \<Rightarrow> ('w, 'o) revisioner \<Rightarrow> string gomap list \<Rightarrow>
    (('w, 'o) st, go_error option) prog" where
  "TruncateHistory H r controlled =
     andthen (Revisioner_ListRevision r) (\<lambda>listed.
       case listed of
         Inl err \<Rightarrow> ret (Some err)
       | Inr revisions \<Rightarrow>
           andthen read_var (\<lambda>owner.
             case ToUnstructured (H_Converter H) owner of
               Inl err \<Rightarrow> ret (Some err)
             | Inr revObj \<Rightarrow>
                 truncate_revisions H (in_use H (HashLabelKey r) revObj controlled)
                   (GetRevisionHistoryLimit (H_Unstructured H) revObj) revisions))"

end
