(* ===== verification/RunnerSet_Controller.thy ===== *)
theory RunnerSet_Controller
  imports Revision
begin

text \<open>
  \<open>controllers/runnerset_controller.go\<close>: one reconciliation of a RunnerSet, and the revisioner that it
  hands to the revision package.  The handler's object is the runner set (\<open>var\<close>).
\<close>

section \<open>The revisioner of runner sets\<close>

definition RunnerSetController :: string where
  "RunnerSetController = ''runnerset.octorun.github.io/controller''"

text \<open>The codec of the scheme and \<open>encoding/json\<close> on JSON objects.\<close>

record 'w revisioner_env =
  RE_Client :: "'w cluster"
  RE_Library :: "'w library"
  RE_Encode :: "runnerset \<Rightarrow> go_error + string"
  RE_Unmarshal :: "string \<Rightarrow> go_error + json_map"
  RE_Marshal :: "json_map \<Rightarrow> go_error + string"

text \<open>\<open>revision.ObjectPatch\<close>: the patch that restores the template.\<close>

definition ObjectPatch :: "'w revisioner_env \<Rightarrow> runnerset \<Rightarrow> ('s, go_error + string) prog" where
  "ObjectPatch E obj =
     (case RE_Encode E obj of
        Inl err \<Rightarrow> ret (Inl err)
      | Inr dat \<Rightarrow>
          (case RE_Unmarshal E dat of
             Inl err \<Rightarrow> ret (Inl err)
           | Inr raw \<Rightarrow>
               (case fmlookup raw ''spec'' of
                  Some (JObject spec) \<Rightarrow>
                    (case fmlookup spec ''template'' of
                       Some (JObject template) \<Rightarrow>
                         let template = fmupd ''$patch'' (JString ''replace'') template;
                             specCopy = fmupd ''template'' (JObject template) fmempty;
                             objCopy = fmupd ''spec'' (JObject specCopy) fmempty
                         in ret (RE_Marshal E objCopy)
                     | _ \<Rightarrow> panics BadTypeAssertion)
                | _ \<Rightarrow> panics BadTypeAssertion)))"

text \<open>A loop that copies a map into a fresh one.\<close>

definition copy_map :: "string gomap \<Rightarrow> string gomap" where
  "copy_map m = (case m of None \<Rightarrow> make_map | Some f \<Rightarrow> Some f)"

definition RunnerSet_NextRevision :: "'w revisioner_env \<Rightarrow> int64 \<Rightarrow>
    (('w, runnerset) st, go_error + controller_revision) prog" where
  "RunnerSet_NextRevision E number =
     andthen read_var (\<lambda>runnerset.
       let revisionLabels = copy_map (Labels (T_Meta (Template (S_Spec runnerset))));
           revisionAnnotations = copy_map (Annotations (S_Meta runnerset))
       in andthen (ObjectPatch E runnerset) (\<lambda>encoded.
            case encoded of
              Inl err \<Rightarrow> ret (Inl err)
            | Inr rawData \<Rightarrow>
                let controllerRef = metav1_NewControllerRef (RE_Library E) (S_Meta runnerset) (Kind (S_Type runnerset));
                    cr = \<lparr>CR_Meta = empty_meta\<lparr>Labels := revisionLabels, OwnerReferences := [controllerRef]\<rparr>,
                          Raw = rawData, DataObject = None, Revision = number\<rparr>;
                    hash = revision_Hash (RE_Library E) cr (CollisionCount (S_Status runnerset))
                in andthen (map_store (Labels (CR_Meta cr)) LabelControllerRevisionHash hash) (\<lambda>labels.
                   ret (Inr (cr\<lparr>CR_Meta := (CR_Meta cr)
                     \<lparr>Name := revision_Name (Name (S_Meta runnerset)) hash,
                      Namespace := Namespace (S_Meta runnerset),
                      Annotations := revisionAnnotations,
                      Labels := labels\<rparr>\<rparr>)))))"

text \<open>The revisions that the selector matches and the runner set controls; one without a controller is a
  nil pointer.\<close>

definition keep_controlled :: "'w library \<Rightarrow> runnerset \<Rightarrow> controller_revision \<Rightarrow>
    controller_revision list \<Rightarrow> ('s, controller_revision list) prog" where
  "keep_controlled L runnerset cr revisions =
     (case metav1_GetControllerOf L (CR_Meta cr) of
        None \<Rightarrow> panics NilDereference
      | Some ref \<Rightarrow> ret (if OwnerUID ref = UID (S_Meta runnerset) then revisions @ [cr] else revisions))"

definition RunnerSet_ListRevision :: "'w revisioner_env \<Rightarrow>
    (('w, runnerset) st, go_error + controller_revision list) prog" where
  "RunnerSet_ListRevision E =
     andthen read_var (\<lambda>runnerset.
       case metav1_LabelSelectorAsSelector (RE_Library E) (Selector (S_Spec runnerset)) of
         Inl err \<Rightarrow> ret (Inl err)
       | Inr selector \<Rightarrow>
           andthen (client_List KRevision (RevisionsOf (RE_Client E))
               (InNamespaceMatchingSelector (Namespace (S_Meta runnerset)) selector)) (\<lambda>listed.
             case listed of
               Inl err \<Rightarrow> ret (Inl err)
             | Inr items \<Rightarrow>
                 andthen (for_each items (keep_controlled (RE_Library E) runnerset) []) (\<lambda>revisions.
                 ret (Inr revisions))))"

definition RunnerSetRevisioner :: "'w revisioner_env \<Rightarrow> ('w, runnerset) revisioner" where
  "RunnerSetRevisioner E =
     \<lparr>HashLabelKey = LabelControllerRevisionHash,
      Revisioner_NextRevision = RunnerSet_NextRevision E,
      Revisioner_ListRevision = RunnerSet_ListRevision E\<rparr>"

section \<open>The reconciler\<close>

text \<open>\<open>SR_Sort\<close> is \<open>sort.Sort\<close> on \<open>sortable.RunnersToDelete\<close>, \<open>SR_Fuel\<close> the rounds that the creation of
  a revision is given.\<close>

record 'w runnerset_reconciler =
  SR_Client :: "'w cluster"
  SR_Library :: "'w library"
  SR_Unstructured :: unstructured_lib
  SR_Converter :: "runnerset converter"
  SR_Revisioner :: "('w, runnerset) revisioner"
  SR_DeepEqual :: "opaque option \<Rightarrow> opaque option \<Rightarrow> bool"
  SR_RetryOnConflict :: "(controller_revision \<Rightarrow> (('w, runnerset) st, go_error option \<times> controller_revision) prog) \<Rightarrow>
     controller_revision \<Rightarrow> (('w, runnerset) st, go_error option \<times> controller_revision) prog"
  SR_Sort :: "runner list \<Rightarrow> runner list"
  SR_Fuel :: nat

definition history_of :: "'w runnerset_reconciler \<Rightarrow> ('w, runnerset) history" where
  "history_of R =
     \<lparr>H_Client = RevisionsOf (SR_Client R), H_Library = SR_Library R,
      H_Unstructured = SR_Unstructured R, H_Converter = SR_Converter R,
      H_DeepEqual = SR_DeepEqual R, H_RetryOnConflict = SR_RetryOnConflict R\<rparr>"

section \<open>Finding the runners\<close>

text \<open>\<open>adoptRunner\<close> takes the runner by pointer and gives it back with the server's answer.\<close>

definition adoptRunner :: "'w runnerset_reconciler \<Rightarrow> runner \<Rightarrow>
    (('w, runnerset) st, go_error option \<times> runner) prog" where
  "adoptRunner R runner =
     (if metav1_GetControllerOf (SR_Library R) (R_Meta runner) \<noteq> None then ret (None, runner)
      else
        andthen read_var (\<lambda>runnerset.
          case ctrl_SetControllerReference (SR_Library R) (S_Meta runnerset) (R_Meta runner) of
            Inl err \<Rightarrow> ret (Some err, runner)
          | Inr m \<Rightarrow>
              andthen (event (S_Meta runnerset) ''Normal'' RunnerAdoptedReason) (\<lambda>_.
              client_Patch ORunner (RunnersOf (SR_Client R)) runner (runner\<lparr>R_Meta := m\<rparr>))))"

record found =
  F_Runners :: "runner list"
  F_Idle :: int32
  F_Active :: int32

definition keep_runner :: "runner \<Rightarrow> found \<Rightarrow> found" where
  "keep_runner runner f = f\<lparr>F_Runners := F_Runners f @ [runner]\<rparr>"

text \<open>One round of the loop of \<open>findRunners\<close>.\<close>

definition find_runner :: "'w runnerset_reconciler \<Rightarrow> controller_revision \<Rightarrow> runner \<Rightarrow> found \<Rightarrow>
    (('w, runnerset) st, found) prog" where
  "find_runner R cr runner f =
     andthen read_var (\<lambda>runnerset.
       if metav1_GetControllerOf (SR_Library R) (R_Meta runner) \<noteq> None \<and>
          \<not> metav1_IsControlledBy (SR_Library R) (R_Meta runner) (S_Meta runnerset)
       then ret f
       else
         andthen (adoptRunner R runner) (\<lambda>(err, runner).
           if err \<noteq> None then ret f
           else if Phase (R_Status runner) = RunnerIdlePhase
           then (if StrategyType (UpdateStrategy (S_Spec runnerset)) = RollingUpdateRunnerSetStrategyType \<and>
                    map_index (Labels (R_Meta runner)) (HashLabelKey (SR_Revisioner R)) \<noteq> Name (CR_Meta cr)
                 then andthen (client_Delete ORunner (RunnersOf (SR_Client R)) runner) (\<lambda>_. ret f)
                 else ret (keep_runner runner (f\<lparr>F_Idle := F_Idle f + 1\<rparr>)))
           else if Phase (R_Status runner) = RunnerActivePhase
           then ret (keep_runner runner (f\<lparr>F_Active := F_Active f + 1\<rparr>))
           else if Phase (R_Status runner) = RunnerCompletePhase
           then andthen (client_Delete ORunner (RunnersOf (SR_Client R)) runner) (\<lambda>_. ret f)
           else ret (keep_runner runner f)))"

definition set_counts :: "found \<Rightarrow> runnerset \<Rightarrow> runnerset" where
  "set_counts f s = s\<lparr>S_Status := (S_Status s)
     \<lparr>StatusRunners := word_of_nat (length (F_Runners f)), IdleRunners := F_Idle f,
      ActiveRunners := F_Active f\<rparr>\<rparr>"

definition findRunners :: "'w runnerset_reconciler \<Rightarrow> controller_revision \<Rightarrow>
    (('w, runnerset) st, go_error + runner list) prog" where
  "findRunners R cr =
     andthen read_var (\<lambda>runnerset.
       case metav1_LabelSelectorAsMap (SR_Library R) (Selector (S_Spec runnerset)) of
         Inl err \<Rightarrow> ret (Inl err)
       | Inr selectorMap \<Rightarrow>
           andthen (client_List KRunner (RunnersOf (SR_Client R))
               (InNamespaceMatchingLabels (Namespace (S_Meta runnerset)) selectorMap)) (\<lambda>listed.
             case listed of
               Inl err \<Rightarrow> ret (Inl err)
             | Inr items \<Rightarrow>
                 andthen (for_each items (find_runner R cr) \<lparr>F_Runners = [], F_Idle = 0, F_Active = 0\<rparr>) (\<lambda>f.
                 andthen (modify_var (set_counts f)) (\<lambda>_.
                 ret (Inr (F_Runners f))))))"

section \<open>Keeping their number\<close>

text \<open>The runners to delete, and the slice of all runners afterwards: it is sorted in place.\<close>

definition prioritizedRunnersToDelete :: "(runner list \<Rightarrow> runner list) \<Rightarrow> runner list \<Rightarrow> int \<Rightarrow>
    runner list \<times> runner list" where
  "prioritizedRunnersToDelete srt runners diff =
     (if int (length runners) \<le> diff then (runners, runners)
      else if diff \<le> 0 then ([], runners)
      else (let runners = srt runners in (take (nat diff) runners, runners)))"

definition new_runner :: "string \<Rightarrow> runnerset \<Rightarrow> controller_revision \<Rightarrow> string gomap \<Rightarrow> runner" where
  "new_runner key runnerset cr labels =
     \<lparr>R_Type = \<lparr>APIVersion = [], Kind = []\<rparr>,
      R_Meta = empty_meta
        \<lparr>GenerateName := Name (S_Meta runnerset) @ ''-'',
         Namespace := Namespace (S_Meta runnerset),
         Annotations := copy_map (Annotations (T_Meta (Template (S_Spec runnerset)))),
         Labels := labels\<rparr>,
      R_Spec = T_Spec (Template (S_Spec runnerset)),
      R_Status = \<lparr>Phase = [], Conditions = []\<rparr>\<rparr>"

definition mutate_runner :: "'w runnerset_reconciler \<Rightarrow> runner \<Rightarrow>
    (('w, runnerset) st, go_error option \<times> runner) prog" where
  "mutate_runner R runner =
     andthen read_var (\<lambda>runnerset.
       case ctrl_SetControllerReference (SR_Library R) (S_Meta runnerset) (R_Meta runner) of
         Inl e \<Rightarrow> ret (Some e, runner)
       | Inr m \<Rightarrow> ret (None, runner\<lparr>R_Meta := m\<rparr>))"

definition create_runner :: "'w runnerset_reconciler \<Rightarrow> controller_revision \<Rightarrow> nat \<Rightarrow> go_error list \<Rightarrow>
    (('w, runnerset) st, go_error list) prog" where
  "create_runner R cr i errs =
     andthen read_var (\<lambda>runnerset.
     andthen (map_store (copy_map (Labels (T_Meta (Template (S_Spec runnerset)))))
         (HashLabelKey (SR_Revisioner R)) (Name (CR_Meta cr))) (\<lambda>labels.
     andthen (CreateOrUpdate ORunner (RunnersOf (SR_Client R))
         (new_runner (HashLabelKey (SR_Revisioner R)) runnerset cr labels) (mutate_runner R)) (\<lambda>(err, _).
     andthen (event (S_Meta runnerset) ''Normal'' RunnerCreatedReason) (\<lambda>_.
     ret (collect errs err)))))"

definition delete_runner :: "'w runnerset_reconciler \<Rightarrow> runner \<Rightarrow> go_error list \<Rightarrow>
    (('w, runnerset) st, go_error list) prog" where
  "delete_runner R runner errs =
     andthen read_var (\<lambda>runnerset.
     andthen (client_Delete ORunner (RunnersOf (SR_Client R)) runner) (\<lambda>err.
     andthen (event (S_Meta runnerset) ''Normal'' RunnerDeletedReason) (\<lambda>_.
     ret (if client_IgnoreNotFound (SR_Library R) err \<noteq> None then collect errs err else errs))))"

definition syncRunners :: "'w runnerset_reconciler \<Rightarrow> runner list \<Rightarrow> controller_revision \<Rightarrow>
    (('w, runnerset) st, go_error option \<times> runner list) prog" where
  "syncRunners R runners cr =
     andthen read_var (\<lambda>runnerset.
       case Runners (S_Spec runnerset) of
         None \<Rightarrow> panics NilDereference
       | Some n \<Rightarrow>
           let desiredRunners = sint n;
               diff = int (length runners) - desiredRunners
           in if diff < 0
              then andthen (for_each [0..<nat (- diff)] (create_runner R cr) []) (\<lambda>errs.
                   ret (kerrors_NewAggregate (SR_Library R) errs, runners))
              else if 0 < diff
              then (case prioritizedRunnersToDelete (SR_Sort R) runners diff of
                      (to_delete, runners) \<Rightarrow>
                        andthen (for_each to_delete (delete_runner R) []) (\<lambda>errs.
                        ret (kerrors_NewAggregate (SR_Library R) errs, runners)))
              else ret (None, runners))"

section \<open>Reconcile\<close>

definition set_CurrentRevision :: "string \<Rightarrow> runnerset \<Rightarrow> runnerset" where
  "set_CurrentRevision n s = s\<lparr>S_Status := (S_Status s)\<lparr>CurrentRevision := n\<rparr>\<rparr>"

definition set_StatusSelector :: "string \<Rightarrow> runnerset \<Rightarrow> runnerset" where
  "set_StatusSelector x s = s\<lparr>S_Status := (S_Status s)\<lparr>StatusSelector := x\<rparr>\<rparr>"

text \<open>The runners that carry the name of the revision, counted in 32 bits.\<close>

definition count_updated :: "string \<Rightarrow> controller_revision \<Rightarrow> runner list \<Rightarrow> int32" where
  "count_updated key cr runners =
     foldl (\<lambda>n runner. if map_index (Labels (R_Meta runner)) key = Name (CR_Meta cr) then n + 1 else n)
       0 runners"

definition reconcile_runnerset :: "'w runnerset_reconciler \<Rightarrow>
    (('w, runnerset) st, result \<times> go_error option) prog" where
  "reconcile_runnerset R =
     andthen read_var (\<lambda>runnerset.
       if \<not> GetDeletionTimestamp_IsZero (S_Meta runnerset) then ret (no_requeue, None)
       else
         case metav1_LabelSelectorAsSelector (SR_Library R) (Selector (S_Spec runnerset)) of
           Inl err \<Rightarrow> ret (no_requeue, None)
         | Inr selector \<Rightarrow>
             andthen (MakeHistory (history_of R) (SR_Fuel R) (SR_Revisioner R)) (\<lambda>made.
               case made of
                 Inl err \<Rightarrow> ret (no_requeue, Some err)
               | Inr cr \<Rightarrow>
                   andthen (findRunners R cr) (\<lambda>found.
                     case found of
                       Inl err \<Rightarrow> ret (no_requeue, Some err)
                     | Inr runners \<Rightarrow>
                         andthen (syncRunners R runners cr) (\<lambda>(err, runners).
                           if err \<noteq> None then ret (no_requeue, err)
                           else
                             andthen (modify_var (\<lambda>s.
                               if StatusRunners (S_Status s) =
                                  count_updated (HashLabelKey (SR_Revisioner R)) cr runners
                               then set_CurrentRevision (Name (CR_Meta cr)) s else s)) (\<lambda>_.
                             andthen (modify_var (set_StatusSelector (selector_String (SR_Library R) selector))) (\<lambda>_.
                             andthen (TruncateHistory (history_of R) (SR_Revisioner R)
                                 (map (\<lambda>runner. Labels (R_Meta runner)) runners)) (\<lambda>err.
                             ret (no_requeue, err))))))))"

definition RunnerSet_Reconcile :: "'w runnerset_reconciler \<Rightarrow> object_key \<Rightarrow>
    (('w, runnerset) st, result \<times> go_error option) prog" where
  "RunnerSet_Reconcile R key =
     andthen (client_Get KRunnerSet (RunnerSetsOf (SR_Client R)) key) (\<lambda>got.
       case got of
         Inl err \<Rightarrow>
           if apierrors_IsNotFound (SR_Library R) err then ret (no_requeue, None)
           else ret (no_requeue, Some err)
       | Inr runnerset \<Rightarrow>
           andthen (write_var runnerset) (\<lambda>_.
             case NewPatcher (SR_Unstructured R) (SR_Converter R) runnerset of
               Inl err \<Rightarrow> ret (no_requeue, Some err)
             | Inr patcher \<Rightarrow>
                 deferred (reconcile_runnerset R)
                   (Patcher_Patch (SR_Unstructured R) (SR_Converter R) (SR_Library R) ORunnerSet
                      (RunnerSetsOf (SR_Client R)) patcher)
                   patch_result))"

end
