(* ===== verification/Revision_Properties.thy ===== *)
theory Revision_Properties
  imports Revision Samples
begin

text \<open>
  The properties of the revision history: names and hashes, the numbers of revisions, the three ways
  of \<open>MakeHistory\<close>, and which revisions \<open>TruncateHistory\<close> deletes.  What the package relies on of
  its \<open>Revisioner\<close> is the interface \<open>revisioner_interface\<close>.
\<close>

unbundle bit_operations_syntax

section \<open>Hashes\<close>

lemma fnv_prime_odd: "fnv_prime32 * 899433627 = 1"
  by (simp add: fnv_prime32_def)

lemma fnv_step_inj: "fnv_step h c = fnv_step h c' \<longleftrightarrow> c = c'"
proof
  assume "fnv_step h c = fnv_step h c'"
  then have "(h * fnv_prime32) XOR fnv_step h c = (h * fnv_prime32) XOR fnv_step h c'" by simp
  then have "(word_of_nat (of_char c) :: int32) = word_of_nat (of_char c')"
    by (simp add: fnv_step_def xor.assoc [symmetric])
  then have "unat (word_of_nat (of_char c) :: int32) = unat (word_of_nat (of_char c') :: int32)" by simp
  moreover have "unat (word_of_nat (of_char x) :: int32) = of_char x" for x
    using nat_of_char_less_256 [of x] by (simp add: unat_of_nat del: nat_of_char_less_256)
  ultimately have "(of_char c :: nat) = of_char c'" by simp
  then show "c = c'" by simp
qed simp

lemma fnv_step_inj_state: "fnv_step h c = fnv_step h' c \<longleftrightarrow> h = h'"
proof
  assume "fnv_step h c = fnv_step h' c"
  then have "(fnv_step h c XOR word_of_nat (of_char c)) * 899433627 =
      (fnv_step h' c XOR word_of_nat (of_char c)) * 899433627" by simp
  then show "h = h'"
    by (simp add: fnv_step_def xor.assoc mult.assoc fnv_prime_odd)
qed simp

lemma fnv_Write_inj_state: "fnv_Write h s = fnv_Write h' s \<longleftrightarrow> h = h'"
  by (induction s arbitrary: h h') (simp_all add: fnv_Write_def fnv_step_inj_state)

lemma fnv_Write_append: "fnv_Write h (s @ t) = fnv_Write (fnv_Write h s) t"
  by (simp add: fnv_Write_def)

text \<open>The collision count makes a difference: for one revision, two collision counts with the
  same digits but the last give different hash sums, so that a name made with the next count would
  avoid the collision with certainty.\<close>

theorem probe_changes_hash:
  assumes "itoa (sint p) = ds @ [c]" and "itoa (sint q) = ds @ [d]" and "p \<noteq> q"
  shows "Sum32 L cr (Some p) \<noteq> Sum32 L cr (Some q)"
proof -
  have "c \<noteq> d"
  proof
    assume "c = d"
    with assms(1,2) have "ParseInt10 0 (itoa (sint p)) = ParseInt10 0 (itoa (sint q))" by simp
    moreover have "- (2 ^ 63) \<le> sint x" "sint x < 2 ^ 63" for x :: int32
      using sint_ge [of x] sint_lt [of x] by (simp_all)
    ultimately have "sint p = sint q" by (simp add: ParseInt10_itoa)
    then show False using assms(3) signed_word_eqI by blast
  qed
  then show ?thesis
    by (simp add: Sum32_def Let_def assms(1,2) fnv_Write_append) (simp add: fnv_Write_def fnv_step_inj)
qed

lemma probe_changes_hash_witness:
  "Sum32 (sample_library 0 :: unit library) (sample_revision ''s1-1'' 1) (Some 3) \<noteq>
   Sum32 (sample_library 0 :: unit library) (sample_revision ''s1-1'' 1) (Some 4)"
proof -
  have "itoa (sint (3 :: int32)) = [] @ [CHR ''3'']" "itoa (sint (4 :: int32)) = [] @ [CHR ''4'']"
    by code_simp+
  then show ?thesis
    by (rule probe_changes_hash [where p = "3 :: int32" and q = "4 :: int32"]) simp
qed

text \<open>A revision's name is its owner's name, cut to 223 bytes, a dash and the hash: it is at most 224
  bytes longer than the hash, and for owners of up to 223 bytes the hash can be read off it.\<close>

theorem revision_Name_bounds:
  "length (revision_Name prefix hash) \<le> 224 + length hash \<and>
   (length prefix \<le> 223 \<longrightarrow> revision_Name prefix hash = prefix @ ''-'' @ hash) \<and>
   (length prefix \<le> 223 \<longrightarrow> revision_Name prefix hash = revision_Name prefix hash' \<longrightarrow> hash = hash')"
  by (simp add: revision_Name_def Let_def)

lemma revision_Name_bounds_witness:
  "length (revision_Name ''s1'' ''6d8f'') \<le> 228 \<and> revision_Name ''s1'' ''6d8f'' = ''s1-6d8f''"
  using revision_Name_bounds [of "''s1''" "''6d8f''" "[]"] by simp

section \<open>Revision numbers\<close>

text \<open>The number of a next revision is greater than the number of every revision in the sorted
  history, as long as the numbers have not reached the end of their 64 bits.\<close>

theorem nextRevisionNumber_is_new:
  assumes "r \<in> set revs" and "\<And>x. x \<in> set revs \<Longrightarrow> sint (Revision x) < 2 ^ 63 - 1"
  shows "Revision r <s nextRevisionNumber (sort_Stable SortableRevisions_Less revs)"
proof -
  let ?s = "sort_Stable SortableRevisions_Less revs"
  from assms(1) have ne: "?s \<noteq> []" "revs \<noteq> []" by auto
  have "\<not> SortableRevisions_Less (last ?s) r"
    using by_revision.ordered_last [OF by_revision.ordered_sort_Stable] assms(1) by simp
  then have le: "sint (Revision r) \<le> sint (Revision (last ?s))"
    by (auto simp: SortableRevisions_Less_def word_sless_alt split: if_splits)
  have "last ?s \<in> set revs" using ne(1) by (metis last_in_set set_sort_Stable)
  then have "sint (Revision (last ?s)) < 2 ^ 63 - 1" by (rule assms(2))
  moreover have "- (2 ^ 63) \<le> sint (Revision (last ?s))"
    using sint_ge [of "Revision (last ?s)"] by simp
  ultimately have "sint (Revision (last ?s) + 1) = sint (Revision (last ?s)) + 1"
    by (simp add: sint_word_ariths signed_take_bit_int_eq_self)
  with le ne show ?thesis
    by (simp add: nextRevisionNumber_def word_sless_alt)
qed

lemma nextRevisionNumber_is_new_witness:
  "(1 :: int64) <s nextRevisionNumber (sort_Stable SortableRevisions_Less
     [sample_revision ''b'' 7, sample_revision ''a'' 1])"
proof -
  let ?revs = "[sample_revision ''b'' 7, sample_revision ''a'' 1]"
  have "Revision (sample_revision ''a'' 1) <s nextRevisionNumber (sort_Stable SortableRevisions_Less ?revs)"
    by (rule nextRevisionNumber_is_new) (auto simp: sample_revision_def)
  then show ?thesis by (simp add: sample_revision_def)
qed

section \<open>The interface to the revisioner\<close>

text \<open>What the package relies on of its \<open>Revisioner\<close>: listing only reads from the cluster, making a
  revision calls nothing, both leave the owner alone, and the revision has the number asked for.\<close>

definition list_call :: "call \<Rightarrow> bool" where
  "list_call c \<longleftrightarrow> (\<exists>sel. c = ListC KRevision sel)"

locale revisioner_interface =
  fixes r :: "('w, 'o) revisioner"
  assumes list_calls: "issues list_call (Revisioner_ListRevision r)"
    and list_keeps: "keeps (\<lambda>v. v) (Revisioner_ListRevision r)"
    and next_calls: "issues (\<lambda>c. False) (Revisioner_NextRevision r n)"
    and next_keeps: "keeps (\<lambda>v. v) (Revisioner_NextRevision r n)"
    and next_number: "Revisioner_NextRevision r n s = (Done (Inr cr), s') \<Longrightarrow> Revision cr = n"

text \<open>Documented behaviour of \<open>retry.RetryOnConflict\<close>: the function is run again while it ends in a
  conflict, a bounded number of times.\<close>

fun attempts :: "(go_error \<Rightarrow> bool) \<Rightarrow> nat \<Rightarrow> ('x \<Rightarrow> ('s, go_error option \<times> 'x) prog) \<Rightarrow> 'x \<Rightarrow>
    ('s, go_error option \<times> 'x) prog" where
  "attempts conflict 0 f x = f x"
| "attempts conflict (Suc n) f x =
     andthen (f x) (\<lambda>(err, x'). case err of
       None \<Rightarrow> ret (None, x')
     | Some e \<Rightarrow> if conflict e then attempts conflict n f x' else ret (Some e, x'))"

definition retries :: "(go_error \<Rightarrow> bool) \<Rightarrow> ('w, 'o) history \<Rightarrow> bool" where
  "retries conflict H \<longleftrightarrow> (\<exists>n. H_RetryOnConflict H = attempts conflict (Suc n))"

lemma issues_attempts:
  "(\<And>x. issues P (f x)) \<Longrightarrow> issues P (attempts conflict n f x)"
  by (induction n arbitrary: x) (auto intro!: issues_intros split: option.split)

definition history_call :: "call \<Rightarrow> bool" where
  "history_call c \<longleftrightarrow> list_call c \<or> (\<exists>k. c = GetC KRevision k) \<or> (\<exists>cr. c = UpdateC (ORevision cr))
     \<or> (\<exists>cr. c = CreateC (ORevision cr))"

lemma history_call_simps [simp]:
  "history_call (GetC KRevision k)" "history_call (UpdateC (ORevision cr))"
  "history_call (CreateC (ORevision cr))" "list_call c \<Longrightarrow> history_call c" "\<not> history_call (DeleteC x)"
  by (auto simp: history_call_def list_call_def)

lemma issues_create_revision: "issues history_call (create_revision H fuel cr n)"
  by (induction fuel arbitrary: cr n)
    (auto intro!: issues_intros issues_client split: option.split sum.split)

lemma issues_bump: "issues history_call (bump_revision H n cr)"
  unfolding bump_revision_def
  by (auto intro!: issues_intros issues_client split: option.split sum.split prod.split)

lemma issues_choose_revision:
  assumes "retries conflict H"
  shows "issues history_call (choose_revision H fuel key revs cr n)"
proof -
  obtain k where k: "H_RetryOnConflict H = attempts conflict (Suc k)"
    using assms by (auto simp: retries_def)
  have "issues history_call (attempts conflict (Suc k) (bump_revision H m) x)" for m x
    by (rule issues_attempts [OF issues_bump])
  then show ?thesis
    unfolding choose_revision_def k
    by (auto simp: Let_def simp del: attempts.simps
        intro!: issues_intros issues_create_revision split: option.split sum.split)
qed

context revisioner_interface
begin

lemma make_history_calls:
  assumes "retries conflict H"
  shows "issues history_call (MakeHistory H fuel r)"
proof -
  have l: "issues history_call (Revisioner_ListRevision r)"
    by (rule issues_mono [OF list_calls]) simp
  have n: "issues history_call (Revisioner_NextRevision r m)" for m
    by (rule issues_mono [OF next_calls]) simp
  show ?thesis
    unfolding MakeHistory_def Let_def
    by (intro issues_intros) (auto intro!: issues_intros l n issues_choose_revision [OF assms]
        split: sum.split option.split)
qed

end

text \<open>What is deleted when the history is cut: only revisions that are not in use.\<close>

definition truncate_call :: "string list \<Rightarrow> call \<Rightarrow> bool" where
  "truncate_call used c \<longleftrightarrow> list_call c \<or>
     (\<exists>cr. c = DeleteC (ORevision cr) \<and> Name (CR_Meta cr) \<notin> set used)"

lemma delete_revision_calls:
  "(\<And>cr. x = Some cr \<Longrightarrow> P (DeleteC (ORevision cr))) \<Longrightarrow> issues P (delete_revision H x e)"
  by (auto simp: delete_revision_def client_Delete_def intro!: issues_intros issues_ext split: option.split)

lemma truncate_revisions_calls:
  "issues (truncate_call used) (truncate_revisions H used limit revs)"
proof -
  have "issues (truncate_call used) (for_each (map Some (take n (filter
        (\<lambda>cr. Name (CR_Meta cr) \<notin> set used) revs)) @ replicate m None) (delete_revision H) None)" for n m
    by (rule issues_for_each, rule delete_revision_calls)
      (auto simp: truncate_call_def dest: in_set_takeD)
  then show ?thesis
    by (auto simp: truncate_revisions_def Let_def intro!: issues_intros)
qed

context revisioner_interface
begin

lemma truncate_calls:
  assumes "ToUnstructured (H_Converter H) (var s) = Inr u"
  shows "wp (TruncateHistory H r controlled) (\<lambda>res s'. \<exists>cs. trace s' = trace s @ cs \<and>
     (\<forall>c\<in>set cs. truncate_call (in_use H (HashLabelKey r) u controlled) c)) s"
    (is "wp _ (\<lambda>res s'. \<exists>cs. trace s' = _ @ cs \<and> (\<forall>c\<in>set cs. ?P c)) _")
  unfolding TruncateHistory_def
proof (rule wp_andthen_frame [OF issues_mono [OF list_calls, of ?P] list_keeps])
  fix a and s1 :: "('w, 'o) st" and cs
  assume s1: "trace s1 = trace s @ cs" "\<forall>c\<in>set cs. ?P c" "var s1 = var s"
  show "wp (case a of Inl err \<Rightarrow> ret (Some err) | Inr revisions \<Rightarrow>
           andthen read_var (\<lambda>owner. case ToUnstructured (H_Converter H) owner of
               Inl err \<Rightarrow> ret (Some err)
             | Inr revObj \<Rightarrow> truncate_revisions H (in_use H (HashLabelKey r) revObj controlled)
                   (GetRevisionHistoryLimit (H_Unstructured H) revObj) revisions))
     (\<lambda>res s'. \<exists>cs. trace s' = trace s @ cs \<and> (\<forall>c\<in>set cs. ?P c)) s1"
    using s1 assms
    by (auto simp: wp_ret wp_andthen wp_read_var split: sum.split
        intro!: wp_issues_from [OF truncate_revisions_calls])
qed (auto simp: truncate_call_def)

text \<open>A history whose last revision is that of the owner as it is now: nothing is written.\<close>

lemma make_history_unchanged:
  assumes owner: "ToUnstructured (H_Converter H) (var s) = Inr u"
    and list: "Revisioner_ListRevision r s = (Done (Inr revs), s1)" "revs \<noteq> []"
    and made: "Revisioner_NextRevision r (nextRevisionNumber (sort_Stable SortableRevisions_Less revs)) s1 =
        (Done (Inr cr), s2)"
    and same: "IsEqual (H_DeepEqual H) (Some (last (sort_Stable SortableRevisions_Less revs))) (Some cr)
        (HashLabelKey r)"
    and refl: "\<And>x. H_DeepEqual H x x"
  shows "wp (MakeHistory H fuel r) (\<lambda>res s'. trace s' = trace s2 \<and> world s' = world s2 \<and>
     (\<forall>x. res = Done (Inr x) \<longrightarrow> x = last (sort_Stable SortableRevisions_Less revs))) s"
proof -
  let ?revs = "sort_Stable SortableRevisions_Less revs" and ?key = "HashLabelKey r"
  have ne: "?revs \<noteq> []" using list(2) by simp
  have self: "IsEqual (H_DeepEqual H) (Some x) (Some x) ?key" for x
    by (auto simp: IsEqual_def refl split: option.split)
  have eq: "FindEqual (H_DeepEqual H) ?revs cr ?key \<noteq> []"
    "last (FindEqual (H_DeepEqual H) ?revs cr ?key) = last ?revs"
  proof -
    from ne obtain ys y where y: "?revs = ys @ [y]" by (metis append_butlast_last_id)
    with same show "FindEqual (H_DeepEqual H) ?revs cr ?key \<noteq> []"
      "last (FindEqual (H_DeepEqual H) ?revs cr ?key) = last ?revs"
      by (simp_all add: FindEqual_def)
  qed
  have choose: "choose_revision H fuel ?key ?revs cr n s2 = (Done (Inr (?revs, last ?revs, n)), s2)" for n
    using eq self by (simp add: choose_revision_def Let_def)
  show ?thesis
    by (auto simp: MakeHistory_def wp_def run_andthen read_var_def owner list(1) made choose Let_def
        write_var_def split: option.split sum.split)
qed

end

section \<open>Rolling back\<close>

text \<open>A write conflict while the history rolls back is lost: the retried function has already put the
  new number into its revision in memory, so on the second run it takes the write for done.  The
  roll-back reports success and hands out a revision with the new number, after a single update that
  the server has refused.\<close>

theorem conflict_swallowed_by_retry:
  assumes retry: "retries conflict H"
    and eq: "FindEqual (H_DeepEqual H) revs cr key \<noteq> []"
    and older: "\<not> IsEqual (H_DeepEqual H) (Some (last revs))
        (Some (last (FindEqual (H_DeepEqual H) revs cr key))) key"
    and number: "Revision (last (FindEqual (H_DeepEqual H) revs cr key)) \<noteq> Revision cr"
    and refused: "Update (H_Client H) ((last (FindEqual (H_DeepEqual H) revs cr key))\<lparr>Revision := Revision cr\<rparr>)
        (world s) = ((Some e, (last (FindEqual (H_DeepEqual H) revs cr key))\<lparr>Revision := Revision cr\<rparr>), w')"
    and conflict: "conflict e"
  shows "\<exists>revs' cr'. choose_revision H fuel key revs cr n s =
      (Done (Inr (revs', cr', n)), s\<lparr>world := w', trace := trace s @ [UpdateC (ORevision cr')]\<rparr>) \<and>
    Revision cr' = Revision cr"
proof -
  obtain k where k: "H_RetryOnConflict H = attempts conflict (Suc k)"
    using retry by (auto simp: retries_def)
  let ?l = "last (FindEqual (H_DeepEqual H) revs cr key)"
  have again: "attempts conflict k (bump_revision H (Revision cr)) (?l\<lparr>Revision := Revision cr\<rparr>) t =
      (Done (None, ?l\<lparr>Revision := Revision cr\<rparr>), t)" for t
    by (cases k) (simp_all add: bump_revision_def run_andthen)
  show ?thesis
    using assms by (auto simp: choose_revision_def Let_def k run_andthen again bump_revision_def
        client_Update_def ext_def)
qed

definition sample_history :: "(unit, controller_revision) resource \<Rightarrow> (unit, runnerset) history" where
  "sample_history c =
     \<lparr>H_Client = c, H_Library = sample_library 0, H_Unstructured = sample_unstructured,
      H_Converter = \<lparr>ToUnstructured = (\<lambda>x. Inr fmempty), FromUnstructured = (\<lambda>m x. Inr x)\<rparr>,
      H_DeepEqual = (=), H_RetryOnConflict = attempts (\<lambda>e. e = LibError ''Conflict'') (Suc 2)\<rparr>"

definition conflicting_resource :: "(unit, controller_revision) resource" where
  "conflicting_resource = (sample_resource (sample_revision ''a'' 1) [])
     \<lparr>Update := (\<lambda>obj w. ((Some (LibError ''Conflict''), obj), w))\<rparr>"

lemma conflict_swallowed_by_retry_witness:
  "let old = sample_revision ''a'' 1; latest = (sample_revision ''b'' 2)\<lparr>Raw := ''x''\<rparr>;
       next = sample_revision ''c'' 3
   in \<exists>revs' cr'. fst (choose_revision (sample_history conflicting_resource) 9 ''k'' [old, latest] next 0
        (start () (sample_runnerset 1))) = Done (Inr (revs', cr', 0)) \<and> Revision cr' = 3"
proof -
  let ?old = "sample_revision ''a'' 1" and ?latest = "(sample_revision ''b'' 2)\<lparr>Raw := ''x''\<rparr>"
  let ?next = "sample_revision ''c'' 3" and ?H = "sample_history conflicting_resource"
  have f: "FindEqual (H_DeepEqual ?H) [?old, ?latest] ?next ''k'' = [?old]"
    by code_simp
  have older: "\<not> IsEqual (H_DeepEqual ?H) (Some (last [?old, ?latest])) (Some (last [?old])) ''k''"
    by code_simp
  have retry: "retries (\<lambda>e. e = LibError ''Conflict'') ?H"
    unfolding retries_def by (rule exI [of _ 2]) (simp add: sample_history_def)
  let ?s = "start () (sample_runnerset 1)"
  have "\<exists>revs' cr'. choose_revision ?H 9 ''k'' [?old, ?latest] ?next 0 ?s =
      (Done (Inr (revs', cr', 0)), ?s\<lparr>world := (), trace := trace ?s @ [UpdateC (ORevision cr')]\<rparr>) \<and>
    Revision cr' = Revision ?next"
    by (rule conflict_swallowed_by_retry [OF retry, where e = "LibError ''Conflict''"
          and revs = "[?old, ?latest]" and cr = ?next and key = "''k''", unfolded f, OF _ older])
      (simp_all add: sample_history_def conflicting_resource_def, simp add: sample_revision_def)
  moreover have "Revision ?next = 3" by (simp add: sample_revision_def)
  ultimately show ?thesis
    unfolding Let_def by (metis fst_conv)
qed

section \<open>Creating a revision\<close>

text \<open>More fuel does not change what the loop returns.\<close>

lemma create_revision_more_fuel:
  "fst (create_revision H fuel cr n s) \<noteq> Panicked Unfinished \<Longrightarrow>
     create_revision H (fuel + k) cr n s = create_revision H fuel cr n s"
  by (induction fuel arbitrary: cr n s)
    (auto simp: run_andthen split: prod.splits outcome.splits option.splits sum.splits)

text \<open>C40. A collision of names is never resolved: against a server that has a revision of that name with
  other data, the loop asks for the same revision again and again, however much fuel it has.  The
  collision count goes up in every round, but the revision keeps its name.\<close>

theorem name_collision_never_ends:
  assumes taken: "\<And>w. Create (H_Client H) cr w = ((Some e, cr), w)"
    and exists_error: "apierrors_IsAlreadyExists (H_Library H) e"
    and other: "\<And>w. Get (H_Client H) (ObjectKeyFromObject (CR_Meta cr)) w = (Inr cr', w)" "Raw cr' \<noteq> Raw cr"
  shows "create_revision H fuel cr n s = (Panicked Unfinished, s\<lparr>trace := trace s @ concat (replicate fuel
     [CreateC (ORevision cr), GetC KRevision (ObjectKeyFromObject (CR_Meta cr))])\<rparr>)"
proof (induction fuel arbitrary: n s)
  case (Suc fuel)
  have "create_revision H (Suc fuel) cr n s = create_revision H fuel cr (n + 1) (s\<lparr>trace := trace s @
      [CreateC (ORevision cr), GetC KRevision (ObjectKeyFromObject (CR_Meta cr))]\<rparr>)"
    by (simp add: run_andthen client_defs ext_def taken exists_error other)
  then show ?case by (simp add: Suc)
qed simp

definition taken_resource :: "(unit, controller_revision) resource" where
  "taken_resource = (sample_resource ((sample_revision ''a'' 1)\<lparr>Raw := ''x''\<rparr>) [])
     \<lparr>Create := (\<lambda>obj w. ((Some sample_already_exists, obj), w))\<rparr>"

lemma name_collision_never_ends_witness:
  "fst (create_revision (sample_history taken_resource) 1000 (sample_revision ''a'' 2) 0
     (start () (sample_runnerset 1))) = Panicked Unfinished"
  by (subst name_collision_never_ends [where e = sample_already_exists
        and cr' = "(sample_revision ''a'' 1)\<lparr>Raw := ''x''\<rparr>"])
    (simp_all add: sample_history_def taken_resource_def sample_resource_def sample_library_def,
      simp add: sample_revision_def)

section \<open>Cutting the history\<close>

lemma run_delete_revision:
  "Delete (H_Client H) x (world t) = (e, w') \<Longrightarrow> delete_revision H (Some x) None t =
     (Done e, t\<lparr>world := w', trace := trace t @ [DeleteC (ORevision x)]\<rparr>)"
  "delete_revision H y (Some d) t = (Done (Some d), t)"
  "delete_revision H None None t = (Panicked NilDereference, t)"
  by (simp_all add: delete_revision_def client_Delete_def ext_def)

lemma delete_all:
  assumes "\<And>cr w. fst (Delete (H_Client H) cr w) = None"
  shows "\<exists>w'. for_each (map Some crs) (delete_revision H) None s =
     (Done None, s\<lparr>world := w', trace := trace s @ map (\<lambda>cr. DeleteC (ORevision cr)) crs\<rparr>)"
proof (induction crs arbitrary: s)
  case Nil
  show ?case by (rule exI [of _ "world s"]) simp
next
  case (Cons c crs)
  obtain w' where "Delete (H_Client H) c (world s) = (None, w')"
    using assms [of c "world s"] by (cases "Delete (H_Client H) c (world s)") auto
  then have "for_each (map Some (c # crs)) (delete_revision H) None s =
      for_each (map Some crs) (delete_revision H) None
        (s\<lparr>world := w', trace := trace s @ [DeleteC (ORevision c)]\<rparr>)"
    by (simp add: run_andthen run_delete_revision)
  with Cons [of "s\<lparr>world := w', trace := trace s @ [DeleteC (ORevision c)]\<rparr>"] show ?case by auto
qed

text \<open>C33. With a limit that is not negative and a server that takes the deletions, exactly the unused
  revisions over the limit are deleted: as many as there are too many, each of them listed and not in
  use, the first ones in the order of the list.\<close>

theorem truncate_deletes_excess:
  assumes "0 \<le> sint limit" and "\<And>cr w. fst (Delete (H_Client H) cr w) = None"
    and "unused = filter (\<lambda>cr. Name (CR_Meta cr) \<notin> set used) revs"
  shows "\<exists>dels kept w'. truncate_revisions H used limit revs s =
      (Done None, s\<lparr>world := w', trace := trace s @ map (\<lambda>cr. DeleteC (ORevision cr)) dels\<rparr>) \<and>
    unused = dels @ kept \<and> length dels = length unused - nat (sint limit)"
proof (cases "int (length unused) \<le> sint limit")
  case True
  with assms show ?thesis
    by (intro exI [of _ "[]"] exI [of _ unused] exI [of _ "world s"]) (simp add: truncate_revisions_def Let_def)
next
  case False
  define k where "k = nat (int (length unused) - sint limit)"
  have k: "k = length unused - nat (sint limit)" "k \<le> length unused"
    using assms(1) False by (auto simp: k_def)
  have "length unused \<le> length revs" by (simp add: assms(3))
  then have cut: "\<not> int (length revs) < int (length unused) - sint limit"
    "nat (int (length unused) - sint limit - int (length unused)) = 0"
    using assms(1) by auto
  have run: "truncate_revisions H used limit revs s =
      for_each (map Some (take k unused)) (delete_revision H) None s"
    using False cut by (simp add: truncate_revisions_def Let_def assms(3) [symmetric] k_def)
  obtain w' where "for_each (map Some (take k unused)) (delete_revision H) None s =
      (Done None, s\<lparr>world := w', trace := trace s @ map (\<lambda>cr. DeleteC (ORevision cr)) (take k unused)\<rparr>)"
    using delete_all [OF assms(2)] by blast
  with run k show ?thesis
    by (intro exI [of _ "take k unused"] exI [of _ "drop k unused"] exI [of _ w']) simp
qed

lemma truncate_deletes_excess_witness:
  "let a = sample_revision ''a'' 3; b = sample_revision ''b'' 1; c = sample_revision ''c'' 2
   in trace (snd (truncate_revisions (sample_history (sample_resource a [])) [''c''] 1 [a, b, c]
        (start () (sample_runnerset 1)))) = [DeleteC (ORevision a)]"
proof -
  let ?a = "sample_revision ''a'' 3" and ?b = "sample_revision ''b'' 1" and ?c = "sample_revision ''c'' 2"
  let ?H = "sample_history (sample_resource ?a [])"
  have f: "[?a, ?b] = filter (\<lambda>cr. Name (CR_Meta cr) \<notin> set [''c'']) [?a, ?b, ?c]"
    by (simp add: sample_revision_def)
  have "0 \<le> sint (1 :: int32)" "fst (Delete (H_Client ?H) cr w) = None" for cr w
    by (simp_all add: sample_history_def sample_resource_def)
  from truncate_deletes_excess [OF this f, where s = "start () (sample_runnerset 1)"]
  obtain dels kept w' where
    t: "truncate_revisions ?H [''c''] 1 [?a, ?b, ?c] (start () (sample_runnerset 1)) = (Done None,
      start () (sample_runnerset 1)\<lparr>world := w', trace := trace (start () (sample_runnerset 1)) @
        map (\<lambda>cr. DeleteC (ORevision cr)) dels\<rparr>)"
    and d: "[?a, ?b] = dels @ kept" "length dels = length [?a, ?b] - nat (sint (1 :: int32))"
    by blast
  from d have "dels = [?a]" by (auto simp: Cons_eq_append_conv)
  with t show ?thesis by (simp add: start_def)
qed

text \<open>With a negative limit the operation never succeeds: after it has deleted every unused revision
  it panics, on a slice that is cut out of bounds or on the nil pointers behind its end, or it ends
  with the error of a deletion.\<close>

theorem negative_limit_never_succeeds:
  assumes "sint limit < 0"
  shows "fst (truncate_revisions H used limit revs s) \<noteq> Done None"
proof -
  let ?hs = "filter (\<lambda>cr. Name (CR_Meta cr) \<notin> set used) revs"
  let ?k = "nat (int (length ?hs) - sint limit - int (length ?hs))"
  have errors: "fst (for_each xs (delete_revision H) (Some e) t) = Done (Some e)" for xs e and t :: "('a, 'b) st"
    by (induction xs arbitrary: t) (simp_all add: run_andthen run_delete_revision)
  have nils: "0 < k \<Longrightarrow> fst (for_each (map Some xs @ replicate k None) (delete_revision H) None t) \<noteq> Done None"
    for xs k and t :: "('a, 'b) st"
  proof (induction xs arbitrary: t)
    case Nil
    then show ?case by (cases k) (simp_all add: run_andthen run_delete_revision)
  next
    case (Cons x xs)
    obtain e w' where "Delete (H_Client H) x (world t) = (e, w')" by fastforce
    with Cons errors show ?case
      by (cases e) (simp_all add: run_andthen run_delete_revision)
  qed
  have "take (nat (int (length ?hs) - sint limit)) ?hs = ?hs" and "0 < ?k" and "\<not> int (length ?hs) \<le> sint limit"
    using assms by auto
  with nils [of ?k ?hs s] show ?thesis
    by (simp add: truncate_revisions_def Let_def)
qed

lemma negative_limit_never_succeeds_witness:
  "fst (truncate_revisions (sample_history (sample_resource (sample_revision ''a'' 3) [])) [] (- 1) []
     (start () (sample_runnerset 1))) \<noteq> Done None"
  by (rule negative_limit_never_succeeds) simp

end
