(* ===== verification/RunnerSet_Properties.thy ===== *)
theory RunnerSet_Properties
  imports RunnerSet_Controller Revision_Properties
begin

text \<open>
  The properties of the runner set controller: which runners it counts, creates and deletes, and that
  its revisioner provides the interface of the revision package, so that the history it keeps is
  never cut where it is in use.
\<close>

section \<open>The revisioner provides the interface\<close>

lemma issues_ObjectPatch [issues_intros]: "issues P (ObjectPatch E obj)"
  by (auto simp: ObjectPatch_def Let_def intro!: issues_intros split: sum.split option.split json.split)

lemma keeps_ObjectPatch [keeps_intros]: "keeps f (ObjectPatch E obj)"
  by (auto simp: ObjectPatch_def Let_def intro!: keeps_intros split: sum.split option.split json.split)

lemma issues_keep_controlled [issues_intros]: "issues P (keep_controlled L rs cr revs)"
  by (auto simp: keep_controlled_def intro!: issues_intros split: option.split)

lemma keeps_keep_controlled [keeps_intros]: "keeps f (keep_controlled L rs cr revs)"
  by (auto simp: keep_controlled_def intro!: keeps_intros split: option.split)

lemma next_revision_number:
  "wp (RunnerSet_NextRevision E n) (\<lambda>r s'. \<forall>cr. r = Done (Inr cr) \<longrightarrow> Revision cr = n) s"
  by (auto simp: RunnerSet_NextRevision_def wp_simps Let_def ObjectPatch_def copy_map_def
      split: sum.splits option.splits json.splits outcome.splits)

interpretation runnerset_revisions: revisioner_interface "RunnerSetRevisioner E"
  for E :: "'w revisioner_env"
proof
  show "issues list_call (Revisioner_ListRevision (RunnerSetRevisioner E))"
    by (auto simp: RunnerSetRevisioner_def RunnerSet_ListRevision_def list_call_def
        intro!: issues_intros issues_client split: sum.split)
  show "keeps (\<lambda>v. v) (Revisioner_ListRevision (RunnerSetRevisioner E))"
    by (auto simp: RunnerSetRevisioner_def RunnerSet_ListRevision_def
        intro!: keeps_intros split: sum.split)
  show "issues (\<lambda>c. False) (Revisioner_NextRevision (RunnerSetRevisioner E) n)" for n
    by (auto simp: RunnerSetRevisioner_def RunnerSet_NextRevision_def Let_def
        intro!: issues_intros split: sum.split)
  show "keeps (\<lambda>v. v) (Revisioner_NextRevision (RunnerSetRevisioner E) n)" for n
    by (auto simp: RunnerSetRevisioner_def RunnerSet_NextRevision_def Let_def
        intro!: keeps_intros split: sum.split)
  show "Revision cr = n" if "Revisioner_NextRevision (RunnerSetRevisioner E) n s = (Done (Inr cr), s')"
    for n s cr s'
    using wpD [OF next_revision_number, of E n s] that by (simp add: RunnerSetRevisioner_def)
qed

section \<open>Counting the runners\<close>

definition in_phase :: "runner_phase \<Rightarrow> runner \<Rightarrow> bool" where
  "in_phase p r \<longleftrightarrow> Phase (R_Status r) = p"

text \<open>What the loop of \<open>findRunners\<close> keeps of the runners it has collected.\<close>

definition outdated :: "'w runnerset_reconciler \<Rightarrow> runnerset \<Rightarrow> controller_revision \<Rightarrow> runner \<Rightarrow> bool" where
  "outdated R rs cr r \<longleftrightarrow> in_phase RunnerIdlePhase r \<and>
     StrategyType (UpdateStrategy (S_Spec rs)) = RollingUpdateRunnerSetStrategyType \<and>
     map_index (Labels (R_Meta r)) (HashLabelKey (SR_Revisioner R)) \<noteq> Name (CR_Meta cr)"

definition counted :: "'w runnerset_reconciler \<Rightarrow> runnerset \<Rightarrow> controller_revision \<Rightarrow> found \<Rightarrow> bool" where
  "counted R rs cr f \<longleftrightarrow>
     F_Idle f = word_of_nat (length (filter (in_phase RunnerIdlePhase) (F_Runners f))) \<and>
     F_Active f = word_of_nat (length (filter (in_phase RunnerActivePhase) (F_Runners f))) \<and>
     (\<forall>r\<in>set (F_Runners f). \<not> in_phase RunnerCompletePhase r \<and> \<not> outdated R rs cr r)"

lemma adoptRunner_wp:
  "(\<And>e x s'. var s' = var s \<Longrightarrow> Q (Done (e, x)) s') \<Longrightarrow> wp (adoptRunner R r) Q s"
  by (auto simp: adoptRunner_def wp_simps client_defs split: sum.split prod.split)

lemma find_runner_counted:
  assumes "counted R (var s) cr f"
  shows "wp (find_runner R cr r f) (\<lambda>res s'. var s' = var s \<and> (\<exists>f'. res = Done f' \<and> counted R (var s) cr f')) s"
  unfolding find_runner_def
  using assms
  by (auto simp: wp_ret wp_andthen wp_read_var wp_ext client_defs keep_runner_def counted_def
      outdated_def in_phase_def split: prod.split intro!: adoptRunner_wp)

text \<open>C13. What the runner set's status says is what was found: the number of runners that are managed
  and kept, how many of them are idle and how many active (each modulo 32 bits); and among the
  runners that are kept none is complete, and with rolling updates no idle one is outdated.\<close>

theorem findRunners_counts:
  "wp (findRunners R cr) (\<lambda>res s'. \<forall>runners. res = Done (Inr runners) \<longrightarrow>
     StatusRunners (S_Status (var s')) = word_of_nat (length runners) \<and>
     IdleRunners (S_Status (var s')) = word_of_nat (length (filter (in_phase RunnerIdlePhase) runners)) \<and>
     ActiveRunners (S_Status (var s')) = word_of_nat (length (filter (in_phase RunnerActivePhase) runners)) \<and>
     (\<forall>r\<in>set runners. \<not> in_phase RunnerCompletePhase r \<and> \<not> outdated R (var s) cr r)) s"
proof -
  have loop: "wp (for_each items (find_runner R cr) \<lparr>F_Runners = [], F_Idle = 0, F_Active = 0\<rparr>)
      (\<lambda>res s'. \<exists>f. res = Done f \<and> counted R (var s) cr f) s1" if "var s1 = var s" for items s1
    by (rule wp_for_each [where I = "\<lambda>xs f s'. var s' = var s \<and> counted R (var s) cr f"])
      (use that in \<open>auto simp: counted_def [of _ _ _ "\<lparr>F_Runners = [], F_Idle = 0, F_Active = 0\<rparr>"]
         intro!: wp_mono [OF find_runner_counted]\<close>)
  show ?thesis
    unfolding findRunners_def
    by (auto simp: wp_ret wp_andthen wp_read_var wp_modify_var wp_ext client_defs set_counts_def
        split: prod.split sum.split intro!: wp_mono [OF loop]) (auto simp: counted_def)
qed

section \<open>What is deleted when the runners are found\<close>

text \<open>The calls of the loop: an orphan is patched, a complete or an outdated idle runner is deleted, and
  it was managed by this set or an orphan before.\<close>

definition managed :: "'w runnerset_reconciler \<Rightarrow> runnerset \<Rightarrow> runner \<Rightarrow> bool" where
  "managed R rs y \<longleftrightarrow> metav1_GetControllerOf (SR_Library R) (R_Meta y) = None \<or>
     metav1_IsControlledBy (SR_Library R) (R_Meta y) (S_Meta rs)"

text \<open>A runner as listed, or as it is after its adoption.\<close>

definition adopted_from :: "'w runnerset_reconciler \<Rightarrow> runner \<Rightarrow> runner \<Rightarrow> bool" where
  "adopted_from R y x \<longleftrightarrow> x = y \<or> (metav1_GetControllerOf (SR_Library R) (R_Meta y) = None \<and>
     (\<exists>b w w' e. Patch (RunnersOf (SR_Client R)) y b w = ((e, x), w')))"

definition find_call :: "'w runnerset_reconciler \<Rightarrow> runnerset \<Rightarrow> controller_revision \<Rightarrow> runner list \<Rightarrow>
    call \<Rightarrow> bool" where
  "find_call R rs cr items c \<longleftrightarrow> (\<exists>k t x. c = EventC k t x) \<or>
     (\<exists>y z. c = PatchC (ORunner y) (ORunner z) \<and> y \<in> set items \<and>
        metav1_GetControllerOf (SR_Library R) (R_Meta y) = None) \<or>
     (\<exists>x y. c = DeleteC (ORunner x) \<and> y \<in> set items \<and> managed R rs y \<and> adopted_from R y x \<and>
        (in_phase RunnerCompletePhase x \<or> outdated R rs cr x))"

lemma adoptRunner_calls:
  assumes "y \<in> set items"
  shows "wp (adoptRunner R y) (\<lambda>r s'. var s' = var s \<and> (\<exists>cs. trace s' = trace s @ cs \<and>
     (\<forall>c\<in>set cs. find_call R (var s) cr items c)) \<and> (\<exists>e x. r = Done (e, x) \<and> adopted_from R y x)) s"
  using assms
  by (auto simp: adoptRunner_def wp_simps client_defs adopted_from_def find_call_def
      split: sum.split prod.split)

lemma find_runner_calls:
  assumes "y \<in> set items" and "trace s = t0 @ ds" and "\<forall>c\<in>set ds. find_call R (var s) cr items c"
  shows "wp (find_runner R cr y f) (\<lambda>r s'. var s' = var s \<and> (\<exists>f'. r = Done f') \<and>
     (\<exists>cs. trace s' = t0 @ cs \<and> (\<forall>c\<in>set cs. find_call R (var s) cr items c))) s"
proof (cases "managed R (var s) y")
  case False
  then show ?thesis
    using assms by (auto simp: find_runner_def wp_simps managed_def)
next
  case True
  have "\<exists>cs. t0 @ ds @ cs' @ es = t0 @ cs \<and> (\<forall>c\<in>set cs. find_call R (var s) cr items c)"
    if "\<forall>c\<in>set cs'. find_call R (var s) cr items c" "\<forall>c\<in>set es. find_call R (var s) cr items c" for cs' es
    using that assms(3) by (intro exI [of _ "ds @ cs' @ es"]) auto
  note join = this this [where es = "[]", simplified] this [where es = "[DeleteC (ORunner x)]" for x, simplified]
  show ?thesis
    using True assms(1,2) unfolding find_runner_def
    by (auto simp: wp_ret wp_andthen wp_read_var wp_ext client_defs managed_def
        split: prod.split intro!: wp_mono [OF adoptRunner_calls [OF assms(1), of R s cr]] join)
      (auto simp: find_call_def managed_def outdated_def in_phase_def)
qed

text \<open>Finding the runners deletes only runners that are complete, or that are idle and outdated
  under rolling updates: never an active one, and never one that another owner controls.  An orphan,
  and nothing else, is patched.\<close>

theorem findRunners_deletes_finished:
  assumes "c \<in> set cs" and "findRunners R cr s = (res, s')" and "trace s' = trace s @ cs"
  shows "(\<exists>sel. c = ListC KRunner sel) \<or> (\<exists>items. find_call R (var s) cr items c)"
proof -
  have loop: "wp (for_each items (find_runner R cr) f)
      (\<lambda>r s'. (\<exists>f'. r = Done f') \<and> var s' = var s1 \<and> (\<exists>cs. trace s' = trace s1 @ cs \<and>
        (\<forall>c\<in>set cs. find_call R (var s1) cr items c))) s1" for items f and s1 :: "('a, runnerset) st"
    by (rule wp_for_each [where I = "\<lambda>xs f s'. var s' = var s1 \<and> (\<exists>cs. trace s' = trace s1 @ cs \<and>
          (\<forall>c\<in>set cs. find_call R (var s1) cr items c))"])
      (auto intro!: wp_mono [OF find_runner_calls])
  have "wp (findRunners R cr) (\<lambda>res s'. \<exists>cs. trace s' = trace s @ cs \<and>
      (\<forall>c\<in>set cs. (\<exists>sel. c = ListC KRunner sel) \<or> (\<exists>items. find_call R (var s) cr items c))) s"
    unfolding findRunners_def
    by (auto simp: wp_ret wp_andthen wp_read_var wp_modify_var wp_ext client_defs
        split: prod.split sum.split intro!: wp_mono [OF loop]) blast
  from wpD [OF this assms(2)] assms(1,3) show ?thesis by auto
qed

section \<open>Reaching the desired number\<close>

definition is_delete :: "call \<Rightarrow> bool" where
  "is_delete c = (case c of DeleteC o' \<Rightarrow> True | _ \<Rightarrow> False)"

text \<open>A creation starts with the look-up of \<open>CreateOrUpdate\<close>.\<close>

definition is_create :: "call \<Rightarrow> bool" where
  "is_create c = (case c of FetchC (ORunner r) \<Rightarrow> True | _ \<Rightarrow> False)"

lemma call_kinds [simp]:
  "is_delete (DeleteC x)" "\<not> is_delete (FetchC x)" "\<not> is_delete (CommitC x y)" "\<not> is_delete (EventC k t m)"
  "is_create (FetchC (ORunner r))" "\<not> is_create (DeleteC x)" "\<not> is_create (CommitC x y)"
  "\<not> is_create (EventC k t m)"
  by (simp_all add: is_delete_def is_create_def)

lemma create_runner_calls:
  "wp (create_runner R cr i errs) (\<lambda>r s'. var s' = var s \<and> (\<exists>e. r = Done e) \<and> (\<exists>cs. trace s' = trace s @ cs \<and>
     length (filter is_create cs) = 1 \<and> filter is_delete cs = [])) s"
  by (auto simp: create_runner_def CreateOrUpdate_def mutate_runner_def copy_map_def make_map_def wp_simps
      split: prod.split sum.split option.split)

lemma create_runners_calls:
  "wp (for_each xs (create_runner R cr) errs) (\<lambda>r s'. var s' = var s \<and> (\<exists>e. r = Done e) \<and>
     (\<exists>cs. trace s' = trace s @ cs \<and> length (filter is_create cs) = length xs \<and> filter is_delete cs = [])) s"
proof (rule wp_for_each [where I = "\<lambda>ys e s'. var s' = var s \<and> (\<exists>cs. trace s' = trace s @ cs \<and>
    length (filter is_create cs) = length ys \<and> filter is_delete cs = [])"])
  fix ys zs :: "nat list" and x e and s1 :: "('a, runnerset) st"
  assume s1: "var s1 = var s \<and> (\<exists>cs. trace s1 = trace s @ cs \<and>
      length (filter is_create cs) = length ys \<and> filter is_delete cs = [])"
  then obtain cs where "trace s1 = trace s @ cs" "length (filter is_create cs) = length ys"
    "filter is_delete cs = []" "var s1 = var s" by blast
  note cs = this
  show "wp (create_runner R cr x e) (\<lambda>r s'. case r of
      Done a \<Rightarrow> var s' = var s \<and> (\<exists>cs. trace s' = trace s @ cs \<and>
        length (filter is_create cs) = length (ys @ [x]) \<and> filter is_delete cs = [])
    | Panicked p \<Rightarrow> var s' = var s \<and> (\<exists>e. Panicked p = Done e) \<and>
        (\<exists>cs. trace s' = trace s @ cs \<and> length (filter is_create cs) = length xs \<and> filter is_delete cs = [])) s1"
  proof (rule wp_mono [OF create_runner_calls])
    fix r and s' :: "('a, runnerset) st"
    assume "var s' = var s1 \<and> (\<exists>e. r = Done e) \<and> (\<exists>cs. trace s' = trace s1 @ cs \<and>
     length (filter is_create cs) = 1 \<and> filter is_delete cs = [])"
    then obtain es where "trace s' = trace s @ (cs @ es)" "length (filter is_create es) = 1"
      "filter is_delete es = []" "var s' = var s" "\<exists>e. r = Done e" using cs by auto
    with cs show "case r of
      Done a \<Rightarrow> var s' = var s \<and> (\<exists>cs. trace s' = trace s @ cs \<and>
        length (filter is_create cs) = length (ys @ [x]) \<and> filter is_delete cs = [])
    | Panicked p \<Rightarrow> var s' = var s \<and> (\<exists>e. Panicked p = Done e) \<and>
        (\<exists>cs. trace s' = trace s @ cs \<and> length (filter is_create cs) = length xs \<and> filter is_delete cs = [])"
      by (auto intro!: exI [of _ "cs @ es"])
  qed
qed auto

lemma delete_runners_calls:
  "wp (for_each xs (delete_runner R) errs) (\<lambda>r s'. (\<exists>e. r = Done e) \<and> (\<exists>cs. trace s' = trace s @ cs \<and>
     filter is_create cs = [] \<and> filter is_delete cs = map (\<lambda>x. DeleteC (ORunner x)) xs)) s"
  by (rule wp_for_each [where I = "\<lambda>ys e s'. \<exists>cs. trace s' = trace s @ cs \<and>
     filter is_create cs = [] \<and> filter is_delete cs = map (\<lambda>x. DeleteC (ORunner x)) ys"])
    (auto simp: delete_runner_def wp_simps client_defs split: prod.split)

text \<open>The runners to delete and the others.\<close>

lemma prioritized_split:
  assumes "sorts RunnersToDelete_Less srt" and "0 < diff"
    and "prioritizedRunnersToDelete srt runners diff = (dels, runners')"
  shows "\<exists>kept. mset runners = mset dels + mset kept \<and> length dels = min (nat diff) (length runners) \<and>
     (\<forall>d\<in>set dels. \<forall>k\<in>set kept. delete_priority_of k \<le> delete_priority_of d)"
proof (cases "int (length runners) \<le> diff")
  case True
  with assms(2,3) show ?thesis
    by (intro exI [of _ "[]"]) (auto simp: prioritizedRunnersToDelete_def)
next
  case False
  let ?s = "srt runners"
  have dels: "dels = take (nat diff) ?s"
    using False assms(2,3) by (auto simp: prioritizedRunnersToDelete_def Let_def)
  have len: "length ?s = length runners" using assms(1) by (rule sorts_length)
  have "delete_priority_of k \<le> delete_priority_of d"
    if "d \<in> set (take (nat diff) ?s)" "k \<in> set (drop (nat diff) ?s)" for d k
    using to_delete.ordered_cut [OF sorts_ordered [OF assms(1)] that]
    by (simp add: RunnersToDelete_Less_def not_less)
  moreover have "mset runners = mset (take (nat diff) ?s) + mset (drop (nat diff) ?s)"
    by (metis append_take_drop_id assms(1) mset_append sorts_mset)
  ultimately show ?thesis
    using dels len by (intro exI [of _ "drop (nat diff) ?s"]) simp
qed

text \<open>The calls that bring the number of runners to \<open>n\<close>.\<close>

definition synced :: "runner list \<Rightarrow> nat \<Rightarrow> call list \<Rightarrow> bool" where
  "synced runners n cs \<longleftrightarrow> length (filter is_create cs) = n - length runners \<and>
     (\<exists>dels kept. filter is_delete cs = map (\<lambda>x. DeleteC (ORunner x)) dels \<and>
        length dels = length runners - n \<and> mset runners = mset dels + mset kept \<and>
        (\<forall>d\<in>set dels. \<forall>k\<in>set kept. delete_priority_of k \<le> delete_priority_of d))"

lemma synced_creates:
  "length runners \<le> n \<Longrightarrow> length (filter is_create cs) = n - length runners \<Longrightarrow>
     filter is_delete cs = [] \<Longrightarrow> synced runners n cs"
  unfolding synced_def by (intro conjI exI [of _ "[]"] exI [of _ runners]) simp_all

lemma synced_deletes:
  "n \<le> length runners \<Longrightarrow> filter is_create cs = [] \<Longrightarrow>
     filter is_delete cs = map (\<lambda>x. DeleteC (ORunner x)) dels \<Longrightarrow> length dels = length runners - n \<Longrightarrow>
     mset runners = mset dels + mset kept \<Longrightarrow>
     \<forall>d\<in>set dels. \<forall>k\<in>set kept. delete_priority_of k \<le> delete_priority_of d \<Longrightarrow> synced runners n cs"
  unfolding synced_def by (intro conjI exI [of _ dels] exI [of _ kept]) simp_all

text \<open>C12. The sync works towards exactly the desired number: with too few runners it starts as many
  creations as are missing and deletes none, with too many it deletes exactly the surplus and creates
  none; and every runner it deletes has at least the delete priority of every runner that stays, so a
  runner that is active and not being deleted goes only when all that stay are such runners, too.\<close>

theorem syncRunners_reaches_desired:
  assumes "sorts RunnersToDelete_Less (SR_Sort R)"
    and "Runners (S_Spec (var s)) = Some n" and "0 \<le> sint n"
  shows "wp (syncRunners R runners cr) (\<lambda>r s'. \<exists>cs. trace s' = trace s @ cs \<and>
     synced runners (nat (sint n)) cs) s"
proof -
  let ?d = "int (length runners) - sint n"
  consider (few) "?d < 0" | (many) "0 < ?d" | (right) "?d = 0" by linarith
  then show ?thesis
  proof cases
    case few
    have "wp (andthen (for_each [0..<nat (- ?d)] (create_runner R cr) [])
        (\<lambda>errs. ret (kerrors_NewAggregate (SR_Library R) errs, runners)))
        (\<lambda>r s'. \<exists>cs. trace s' = trace s @ cs \<and> synced runners (nat (sint n)) cs) s"
      unfolding wp_andthen
      by (rule wp_mono [OF create_runners_calls]) (use few in \<open>auto simp: wp_ret intro!: synced_creates\<close>)
    with few assms(2) show ?thesis
      by (simp add: syncRunners_def wp_andthen wp_read_var Let_def)
  next
    case many
    obtain dels runners' where p: "prioritizedRunnersToDelete (SR_Sort R) runners ?d = (dels, runners')"
      by fastforce
    from prioritized_split [OF assms(1) many p] obtain kept
      where kept: "mset runners = mset dels + mset kept" "length dels = min (nat ?d) (length runners)"
        "\<forall>d\<in>set dels. \<forall>k\<in>set kept. delete_priority_of k \<le> delete_priority_of d" by blast
    have len: "length dels = length runners - nat (sint n)" "nat (sint n) \<le> length runners"
      using kept(2) many assms(3) by auto
    have "wp (andthen (for_each dels (delete_runner R) [])
        (\<lambda>errs. ret (kerrors_NewAggregate (SR_Library R) errs, runners')))
        (\<lambda>r s'. \<exists>cs. trace s' = trace s @ cs \<and> synced runners (nat (sint n)) cs) s"
      unfolding wp_andthen
      by (rule wp_mono [OF delete_runners_calls])
        (auto simp: wp_ret intro: synced_deletes [OF len(2) _ _ len(1) kept(1,3)])
    with many assms(2) p show ?thesis
      by (simp add: syncRunners_def wp_andthen wp_read_var Let_def)
  next
    case right
    then have "synced runners (nat (sint n)) []" by (intro synced_creates) auto
    with right assms(2,3) show ?thesis
      by (auto simp: syncRunners_def wp_simps Let_def)
  qed
qed

section \<open>The runners it makes\<close>

text \<open>Documented behaviour of the server for an object without a name: there is none to find, so
  \<open>CreateOrUpdate\<close> creates what its callback makes of the object it was given.\<close>

definition finds_no_unnamed :: "('w, runner) resource \<Rightarrow> bool" where
  "finds_no_unnamed c \<longleftrightarrow> (\<forall>r w got w'. Name (R_Meta r) = [] \<longrightarrow> Fetch c r w = (Inr got, w') \<longrightarrow> got = r)"

definition made_for :: "'w runnerset_reconciler \<Rightarrow> runnerset \<Rightarrow> controller_revision \<Rightarrow> runner \<Rightarrow> runner \<Rightarrow> bool" where
  "made_for R rs cr old new \<longleftrightarrow>
     ctrl_SetControllerReference (SR_Library R) (S_Meta rs) (R_Meta old) = Inr (R_Meta new) \<and>
     GenerateName (R_Meta old) = Name (S_Meta rs) @ ''-'' \<and> Namespace (R_Meta old) = Namespace (S_Meta rs) \<and>
     R_Spec new = T_Spec (Template (S_Spec rs)) \<and> Phase (R_Status new) = [] \<and>
     (\<forall>k. map_lookup (Labels (R_Meta old)) k = (if k = HashLabelKey (SR_Revisioner R) then Some (Name (CR_Meta cr))
        else map_lookup (Labels (T_Meta (Template (S_Spec rs)))) k)) \<and>
     (\<forall>k. map_lookup (Annotations (R_Meta old)) k = map_lookup (Annotations (T_Meta (Template (S_Spec rs)))) k)"

lemma new_runner_made_for:
  assumes "ctrl_SetControllerReference (SR_Library R) (S_Meta rs)
      (R_Meta (new_runner key rs cr (Some (fmupd key (Name (CR_Meta cr)) f)))) = Inr m"
    and "copy_map (Labels (T_Meta (Template (S_Spec rs)))) = Some f" and "key = HashLabelKey (SR_Revisioner R)"
  shows "made_for R rs cr (new_runner key rs cr (Some (fmupd key (Name (CR_Meta cr)) f)))
    (new_runner key rs cr (Some (fmupd key (Name (CR_Meta cr)) f))\<lparr>R_Meta := m\<rparr>)"
proof -
  have "fmlookup f k = map_lookup (Labels (T_Meta (Template (S_Spec rs)))) k" for k
    using assms(2) by (auto simp: copy_map_def make_map_def split: option.splits)
  then show ?thesis
    using assms(1,3)
    by (auto simp: made_for_def new_runner_def empty_meta_def copy_map_def make_map_def split: option.split)
qed

lemma create_runner_commits:
  assumes "finds_no_unnamed (RunnersOf (SR_Client R))"
  shows "wp (create_runner R cr i errs) (\<lambda>r s'. var s' = var s \<and> (\<exists>e. r = Done e) \<and>
     (\<exists>cs. trace s' = trace s @ cs \<and>
       (\<forall>old new. CommitC (ORunner old) (ORunner new) \<in> set cs \<longrightarrow> made_for R (var s) cr old new))) s"
proof -
  have found: "got = new_runner key rs cr ls"
    if "Fetch (RunnersOf (SR_Client R)) (new_runner key rs cr ls) w = (Inr got, w')" for key rs ls w got w'
  proof -
    have "Name (R_Meta (new_runner key rs cr ls)) = []" by (simp add: new_runner_def empty_meta_def)
    with assms that show ?thesis unfolding finds_no_unnamed_def by blast
  qed
  obtain f where f: "copy_map (Labels (T_Meta (Template (S_Spec (var s))))) = Some f"
    by (cases "Labels (T_Meta (Template (S_Spec (var s))))") (simp_all add: copy_map_def make_map_def)
  show ?thesis
    by (auto simp: create_runner_def CreateOrUpdate_def mutate_runner_def f wp_simps
        split: prod.split sum.split option.split dest!: found intro!: new_runner_made_for [OF _ f refl])
qed

text \<open>Every runner that the sync writes is one of this runner set: it is made under the set's name
  and in its namespace, has the template's spec, annotations and labels, carries the name of the
  revision under the hash label, and has the set as its controller.\<close>

theorem created_runners_belong_to_set:
  assumes "finds_no_unnamed (RunnersOf (SR_Client R))"
  shows "wp (syncRunners R runners cr) (\<lambda>r s'. \<exists>cs. trace s' = trace s @ cs \<and>
     (\<forall>old new. CommitC (ORunner old) (ORunner new) \<in> set cs \<longrightarrow> made_for R (var s) cr old new)) s"
proof -
  have "wp (for_each xs (create_runner R cr) errs) (\<lambda>r s'. (\<exists>e. r = Done e) \<and> (\<exists>cs. trace s' = trace s @ cs \<and>
     (\<forall>old new. CommitC (ORunner old) (ORunner new) \<in> set cs \<longrightarrow> made_for R (var s) cr old new))) s" for xs errs
  proof (rule wp_for_each [where I = "\<lambda>xs e s'. var s' = var s \<and> (\<exists>cs. trace s' = trace s @ cs \<and>
     (\<forall>old new. CommitC (ORunner old) (ORunner new) \<in> set cs \<longrightarrow> made_for R (var s) cr old new))"])
    fix ys zs :: "nat list" and x e and s1 :: "('a, runnerset) st"
    assume "var s1 = var s \<and> (\<exists>cs. trace s1 = trace s @ cs \<and>
       (\<forall>old new. CommitC (ORunner old) (ORunner new) \<in> set cs \<longrightarrow> made_for R (var s) cr old new))"
    then show "wp (create_runner R cr x e) (\<lambda>r s'. case r of
        Done a' \<Rightarrow> var s' = var s \<and> (\<exists>cs. trace s' = trace s @ cs \<and>
          (\<forall>old new. CommitC (ORunner old) (ORunner new) \<in> set cs \<longrightarrow> made_for R (var s) cr old new))
      | Panicked p \<Rightarrow> (\<exists>e. Panicked p = Done e) \<and> (\<exists>cs. trace s' = trace s @ cs \<and>
          (\<forall>old new. CommitC (ORunner old) (ORunner new) \<in> set cs \<longrightarrow> made_for R (var s) cr old new))) s1"
      by (intro wp_mono [OF create_runner_commits [OF assms(1)]]) fastforce
  qed auto
  then have few: "wp (andthen (for_each xs (create_runner R cr) []) (\<lambda>errs. ret (kerrors_NewAggregate (SR_Library R) errs, runners)))
     (\<lambda>r s'. \<exists>cs. trace s' = trace s @ cs \<and>
       (\<forall>old new. CommitC (ORunner old) (ORunner new) \<in> set cs \<longrightarrow> made_for R (var s) cr old new)) s" for xs
    unfolding wp_andthen by (rule wp_mono) (auto simp: wp_ret)
  have none: "issues (\<lambda>c. \<forall>old new. c \<noteq> CommitC old new)
      (andthen (for_each dels (delete_runner R) []) (\<lambda>errs. ret (kerrors_NewAggregate (SR_Library R) errs, rest)))" for dels rest
    unfolding delete_runner_def by (auto intro!: issues_intros issues_client issues_event)
  have many: "wp (andthen (for_each dels (delete_runner R) []) (\<lambda>errs. ret (kerrors_NewAggregate (SR_Library R) errs, rest)))
     (\<lambda>r s'. \<exists>cs. trace s' = trace s @ cs \<and>
       (\<forall>old new. CommitC (ORunner old) (ORunner new) \<in> set cs \<longrightarrow> made_for R (var s) cr old new)) s" for dels rest
    by (rule wp_mono [OF none [unfolded issues_def, THEN spec]]) blast
  show ?thesis
  proof (cases "Runners (S_Spec (var s))")
    case None
    then show ?thesis by (simp add: syncRunners_def wp_andthen wp_read_var wp_panics)
  next
    case (Some n)
    let ?d = "int (length runners) - sint n"
    obtain dels rest where p: "prioritizedRunnersToDelete (SR_Sort R) runners ?d = (dels, rest)" by fastforce
    consider "?d < 0" | "0 < ?d" | "?d = 0" by linarith
    then show ?thesis
    proof cases
      case 1
      with Some few [of "[0..<nat (- ?d)]"] show ?thesis by (simp add: syncRunners_def wp_andthen wp_read_var Let_def)
    next
      case 2
      with Some p many [of dels rest] show ?thesis by (simp add: syncRunners_def wp_andthen wp_read_var Let_def)
    next
      case 3
      with Some show ?thesis by (simp add: syncRunners_def wp_andthen wp_read_var Let_def wp_ret)
    qed
  qed
qed

section \<open>The history of a runner set\<close>

text \<open>The unstructured form of a runner set holds the fields of its status.\<close>

definition reads_status :: "unstructured_lib \<Rightarrow> runnerset converter \<Rightarrow> bool" where
  "reads_status U cv \<longleftrightarrow> (\<forall>x u. ToUnstructured cv x = Inr u \<longrightarrow>
     GetCurrentRevision U u = CurrentRevision (S_Status x) \<and> GetNextRevision U u = NextRevision (S_Status x))"

text \<open>C14. A revision that is in use is never deleted when the history of a runner set is cut: not the
  current one, not the next one, and not one that the hash label of a runner of the set names.\<close>

theorem history_in_use_is_kept:
  assumes reads: "reads_status (H_Unstructured H) (H_Converter H)"
    and owner: "ToUnstructured (H_Converter H) (var s) = Inr u"
  shows "wp (TruncateHistory H (RunnerSetRevisioner E) (map (\<lambda>x. Labels (R_Meta x)) runners))
    (\<lambda>r s'. \<exists>cs. trace s' = trace s @ cs \<and> (\<forall>cr. DeleteC (ORevision cr) \<in> set cs \<longrightarrow>
       Name (CR_Meta cr) \<noteq> [] \<longrightarrow> Name (CR_Meta cr) \<noteq> CurrentRevision (S_Status (var s)) \<and>
       Name (CR_Meta cr) \<noteq> NextRevision (S_Status (var s)) \<and>
       (\<forall>x\<in>set runners. map_lookup (Labels (R_Meta x)) LabelControllerRevisionHash \<noteq> Some (Name (CR_Meta cr))))) s"
proof -
  let ?used = "in_use H LabelControllerRevisionHash u (map (\<lambda>x. Labels (R_Meta x)) runners)"
  have used: "n \<in> set ?used"
    if "n \<noteq> []" "n = CurrentRevision (S_Status (var s)) \<or> n = NextRevision (S_Status (var s)) \<or>
      (\<exists>x\<in>set runners. map_lookup (Labels (R_Meta x)) LabelControllerRevisionHash = Some n)" for n
    using that reads owner
    by (fastforce simp: in_use_def reads_status_def Let_def map_index_def image_iff split: if_splits)
  have "wp (TruncateHistory H (RunnerSetRevisioner E) (map (\<lambda>x. Labels (R_Meta x)) runners))
      (\<lambda>r s'. \<exists>cs. trace s' = trace s @ cs \<and> (\<forall>c\<in>set cs. truncate_call ?used c)) s"
    using runnerset_revisions.truncate_calls [OF owner, of E "map (\<lambda>x. Labels (R_Meta x)) runners"]
    by (simp add: RunnerSetRevisioner_def)
  then show ?thesis
  proof (rule wp_mono)
    fix r and s' :: "('a, runnerset) st"
    assume "\<exists>cs. trace s' = trace s @ cs \<and> (\<forall>c\<in>set cs. truncate_call ?used c)"
    then obtain cs where cs: "trace s' = trace s @ cs" "\<forall>c\<in>set cs. truncate_call ?used c" by blast
    have "Name (CR_Meta cr) \<notin> set ?used" if "DeleteC (ORevision cr) \<in> set cs" for cr
      using cs(2) that by (fastforce simp: truncate_call_def list_call_def)
    with cs(1) used show "\<exists>cs. trace s' = trace s @ cs \<and> (\<forall>cr. DeleteC (ORevision cr) \<in> set cs \<longrightarrow>
       Name (CR_Meta cr) \<noteq> [] \<longrightarrow> Name (CR_Meta cr) \<noteq> CurrentRevision (S_Status (var s)) \<and>
       Name (CR_Meta cr) \<noteq> NextRevision (S_Status (var s)) \<and>
       (\<forall>x\<in>set runners. map_lookup (Labels (R_Meta x)) LabelControllerRevisionHash \<noteq> Some (Name (CR_Meta cr))))"
      by blast
  qed
qed

text \<open>While the template does not change, the history is not written: if the latest revision is equal to
  the one made of the runner set as it is, \<open>MakeHistory\<close> sends nothing after the list request, and
  the revision it gives is that latest one.\<close>

theorem unchanged_template_writes_nothing:
  assumes "ToUnstructured (H_Converter H) (var s) = Inr u"
    and "RunnerSet_ListRevision E s = (Done (Inr revs), s1)" and "revs \<noteq> []"
    and "RunnerSet_NextRevision E (nextRevisionNumber (sort_Stable SortableRevisions_Less revs)) s1 =
        (Done (Inr cr), s2)"
    and "IsEqual (H_DeepEqual H) (Some (last (sort_Stable SortableRevisions_Less revs))) (Some cr)
        LabelControllerRevisionHash"
    and "\<And>x. H_DeepEqual H x x"
  shows "wp (MakeHistory H fuel (RunnerSetRevisioner E)) (\<lambda>res s'. trace s' = trace s1 \<and>
     (\<forall>x. res = Done (Inr x) \<longrightarrow> x = last (sort_Stable SortableRevisions_Less revs))) s"
proof -
  have "issues (\<lambda>c. False) (RunnerSet_NextRevision E n)" for n
    using runnerset_revisions.next_calls [of E n] by (simp add: RunnerSetRevisioner_def)
  from issuesD [OF this assms(4)] obtain cs where "trace s2 = trace s1 @ cs" "\<forall>c\<in>set cs. False" by blast
  then have s2: "trace s2 = trace s1" by (cases cs) auto
  have "wp (MakeHistory H fuel (RunnerSetRevisioner E)) (\<lambda>res s'. trace s' = trace s2 \<and> world s' = world s2 \<and>
     (\<forall>x. res = Done (Inr x) \<longrightarrow> x = last (sort_Stable SortableRevisions_Less revs))) s"
    by (rule runnerset_revisions.make_history_unchanged [OF assms(1)])
      (use assms in \<open>simp_all add: RunnerSetRevisioner_def\<close>)
  then show ?thesis by (rule wp_mono) (simp add: s2)
qed

definition encoded_template :: "'w revisioner_env \<Rightarrow> runnerset \<Rightarrow> json_map option" where
  "encoded_template E rs =
     (case RE_Encode E rs of Inl _ \<Rightarrow> None
      | Inr d \<Rightarrow> (case RE_Unmarshal E d of Inl _ \<Rightarrow> None
         | Inr raw \<Rightarrow> (case fmlookup raw ''spec'' of
              Some (JObject spec) \<Rightarrow> (case fmlookup spec ''template'' of Some (JObject t) \<Rightarrow> Some t | _ \<Rightarrow> None)
            | _ \<Rightarrow> None)))"

text \<open>The document that restores a template.\<close>

definition restore_patch :: "json_map \<Rightarrow> json_map" where
  "restore_patch t = fmupd ''spec'' (JObject (fmupd ''template''
        (JObject (fmupd ''$patch'' (JString ''replace'') t)) fmempty)) fmempty"

definition json_roundtrip :: "'w revisioner_env \<Rightarrow> json_map set \<Rightarrow> bool" where
  "json_roundtrip E ms \<longleftrightarrow> (\<forall>m\<in>ms. \<exists>d. RE_Marshal E m = Inr d \<and> RE_Unmarshal E d = Inr m)"

lemma ObjectPatch_template:
  "encoded_template E rs = Some t \<Longrightarrow> ObjectPatch E rs s =
     (Done (RE_Marshal E (restore_patch t)), s)"
  by (auto simp: encoded_template_def ObjectPatch_def restore_patch_def
      split: sum.splits option.splits json.splits)

text \<open>The data of a revision determines the template: runner sets whose encoded forms have different
  templates (apart from the patch directive) get revisions with different data, provided that
  encoding a JSON object and decoding it gives it back; runner sets with the same template get the same.\<close>

theorem revision_data_determines_template:
  assumes "encoded_template E rs = Some t" and "encoded_template E rs' = Some t'"
    and "json_roundtrip E {restore_patch t, restore_patch t'}"
    and "fst (ObjectPatch E rs s) = Done (Inr d)" and "fst (ObjectPatch E rs' s') = Done (Inr d')"
  shows "d = d' \<longleftrightarrow> fmdrop ''$patch'' t = fmdrop ''$patch'' t'"
proof -
  have d: "RE_Marshal E (restore_patch t) = Inr d" "RE_Marshal E (restore_patch t') = Inr d'"
    using assms(4,5) by (simp_all add: ObjectPatch_template [OF assms(1)] ObjectPatch_template [OF assms(2)])
  have "d = d' \<longleftrightarrow> restore_patch t = restore_patch t'"
    using d assms(3) unfolding json_roundtrip_def by (metis insertCI sum.inject(2))
  also have "\<dots> \<longleftrightarrow> fmupd ''$patch'' (JString ''replace'') t = fmupd ''$patch'' (JString ''replace'') t'"
  proof
    assume "restore_patch t = restore_patch t'"
    then have "fmlookup (restore_patch t) ''spec'' = fmlookup (restore_patch t') ''spec''" by simp
    then have "fmupd ''template'' (JObject (fmupd ''$patch'' (JString ''replace'') t)) fmempty =
      fmupd ''template'' (JObject (fmupd ''$patch'' (JString ''replace'') t')) fmempty"
      by (simp add: restore_patch_def)
    then have "fmlookup (fmupd ''template'' (JObject (fmupd ''$patch'' (JString ''replace'') t)) fmempty) ''template'' =
      fmlookup (fmupd ''template'' (JObject (fmupd ''$patch'' (JString ''replace'') t')) fmempty) ''template''"
      by (rule arg_cong)
    then show "fmupd ''$patch'' (JString ''replace'') t = fmupd ''$patch'' (JString ''replace'') t'" by simp
  qed (simp add: restore_patch_def)
  also have "\<dots> \<longleftrightarrow> fmdrop ''$patch'' t = fmdrop ''$patch'' t'"
  proof
    assume "fmupd ''$patch'' (JString ''replace'') t = fmupd ''$patch'' (JString ''replace'') t'"
    then have "fmdrop ''$patch'' (fmupd ''$patch'' (JString ''replace'') t) =
      fmdrop ''$patch'' (fmupd ''$patch'' (JString ''replace'') t')" by (rule arg_cong)
    then show "fmdrop ''$patch'' t = fmdrop ''$patch'' t'" by (simp add: fmdrop_fmupd)
  next
    assume *: "fmdrop ''$patch'' t = fmdrop ''$patch'' t'"
    show "fmupd ''$patch'' (JString ''replace'') t = fmupd ''$patch'' (JString ''replace'') t'"
    proof (rule fmap_ext)
      fix k
      have "fmlookup (fmdrop ''$patch'' t) k = fmlookup (fmdrop ''$patch'' t') k" using * by simp
      then show "fmlookup (fmupd ''$patch'' (JString ''replace'') t) k =
        fmlookup (fmupd ''$patch'' (JString ''replace'') t') k" by (simp split: if_splits)
    qed
  qed
  finally show ?thesis .
qed

end
