(* ===== verification/RunnerSet_Samples.thy ===== *)
theory RunnerSet_Samples
  imports RunnerSet_Properties
begin

text \<open>
  The properties of the runner set controller at concrete inputs: a small set whose server answers
  with fixed lists, and the environment of its revisioner.
\<close>

definition set_runner :: "runner_phase \<Rightarrow> runner" where
  "set_runner phase = (sample_runner None [] phase)\<lparr>R_Meta := sample_meta
     \<lparr>OwnerReferences := [\<lparr>OwnerKind = ''RunnerSet'', OwnerName = ''s1'', OwnerUID = ''u2'',
        OwnerController = True\<rparr>]\<rparr>\<rparr>"

definition sample_revisioner_env :: "('w, controller_revision) resource \<Rightarrow> 'w revisioner_env" where
  "sample_revisioner_env c =
     \<lparr>RE_Client = (sample_cluster (sample_runner None [] []) (sample_secret None None) sample_ready_pod)
        \<lparr>RevisionsOf := c\<rparr>,
      RE_Library = (sample_library 0)\<lparr>rand_SafeEncodeString := (\<lambda>s. ''x'')\<rparr>,
      RE_Encode = (\<lambda>rs. Inr (Name (S_Meta rs))),
      RE_Unmarshal = (\<lambda>d. if d = ''p1'' then Inr (restore_patch fmempty)
        else if d = ''p2'' then Inr (restore_patch (fmupd ''kind'' JNull fmempty))
        else if d = ''s1'' then Inr (fmupd ''spec'' (JObject (fmupd ''template'' (JObject fmempty) fmempty)) fmempty)
        else Inr (fmupd ''spec'' (JObject (fmupd ''template'' (JObject (fmupd ''kind'' JNull fmempty)) fmempty)) fmempty)),
      RE_Marshal = (\<lambda>m. if m = restore_patch fmempty then Inr ''p1'' else Inr ''p2'')\<rparr>"

definition sample_set_reconciler :: "runner list \<Rightarrow> unit runnerset_reconciler" where
  "sample_set_reconciler items =
     \<lparr>SR_Client = (sample_cluster (sample_runner None [] []) (sample_secret None None) sample_ready_pod)
        \<lparr>RunnersOf := (sample_resource (sample_runner None [] []) items)\<lparr>Fetch := (\<lambda>obj w. (Inr obj, w))\<rparr>\<rparr>,
      SR_Library = sample_library 0, SR_Unstructured = sample_unstructured,
      SR_Converter = sample_runnerset_json,
      SR_Revisioner = RunnerSetRevisioner (sample_revisioner_env
        (sample_resource (sample_revision ''s1-1'' 1) [])),
      SR_DeepEqual = (=), SR_RetryOnConflict = (\<lambda>f x. f x),
      SR_Sort = sort_Stable RunnersToDelete_Less, SR_Fuel = 1\<rparr>"

definition found_runners :: "runner list" where
  "found_runners = [set_runner RunnerActivePhase, set_runner RunnerPendingPhase]"

definition listed_runners :: "runner list" where
  "listed_runners = set_runner RunnerCompletePhase # set_runner RunnerIdlePhase # found_runners"

lemma sample_find:
  "fst (findRunners (sample_set_reconciler listed_runners) (sample_revision ''s1-1'' 1)
     (start () (sample_runnerset 3))) = Done (Inr found_runners)"
  by code_simp

lemma findRunners_counts_witness:
  "ActiveRunners (S_Status (var (snd (findRunners (sample_set_reconciler listed_runners)
     (sample_revision ''s1-1'' 1) (start () (sample_runnerset 3)))))) = 1"
proof -
  have "length (filter (in_phase RunnerActivePhase) found_runners) = 1" by code_simp
  with wpD [OF findRunners_counts, of "sample_set_reconciler listed_runners" "sample_revision ''s1-1'' 1"
      "start () (sample_runnerset 3)"] sample_find
  show ?thesis by (metis Nat.of_nat_1 prod.collapse)
qed

lemma findRunners_deletes_finished_witness:
  "\<exists>items. find_call (sample_set_reconciler listed_runners) (sample_runnerset 3) (sample_revision ''s1-1'' 1) items
     (DeleteC (ORunner (set_runner RunnerCompletePhase)))"
proof -
  let ?s = "start () (sample_runnerset 3)"
  let ?run = "findRunners (sample_set_reconciler listed_runners) (sample_revision ''s1-1'' 1) ?s"
  have del: "DeleteC (ORunner (set_runner RunnerCompletePhase)) \<in> set (trace (snd ?run))"
    by code_simp
  have "trace (snd ?run) = trace ?s @ trace (snd ?run)" by (simp add: start_def)
  from findRunners_deletes_finished [OF del surjective_pairing this] show ?thesis
    by (simp add: start_def)
qed

lemma syncRunners_reaches_desired_witness:
  "\<exists>cs. trace (snd (syncRunners (sample_set_reconciler []) found_runners (sample_revision ''s1-1'' 1)
      (start () (sample_runnerset 1)))) = cs \<and> synced found_runners 1 cs"
proof -
  have s: "sorts RunnersToDelete_Less (SR_Sort (sample_set_reconciler []))"
    by (simp add: sample_set_reconciler_def to_delete.sorts_sort_Stable)
  have n: "Runners (S_Spec (var (start () (sample_runnerset 1)))) = Some 1" "(0 :: int) \<le> sint (1 :: int32)"
    by (simp_all add: start_def sample_runnerset_def)
  show ?thesis
    using wpD [OF syncRunners_reaches_desired [OF s n, of found_runners "sample_revision ''s1-1'' 1"]
        surjective_pairing]
    by (simp add: start_def)
qed

lemma created_runners_belong_to_set_witness:
  "\<exists>cs. trace (snd (syncRunners (sample_set_reconciler []) [] (sample_revision ''s1-1'' 1)
      (start () (sample_runnerset 1)))) = cs \<and>
    (\<forall>old new. CommitC (ORunner old) (ORunner new) \<in> set cs \<longrightarrow>
       made_for (sample_set_reconciler []) (sample_runnerset 1) (sample_revision ''s1-1'' 1) old new)"
proof -
  have f: "finds_no_unnamed (RunnersOf (SR_Client (sample_set_reconciler [])))"
    by (simp add: finds_no_unnamed_def sample_set_reconciler_def sample_resource_def)
  show ?thesis
    using wpD [OF created_runners_belong_to_set [OF f, where runners = "[]" and cr = "sample_revision ''s1-1'' 1"
          and s = "start () (sample_runnerset 1)"]
        surjective_pairing]
    by (simp add: start_def)
qed

lemma history_in_use_is_kept_witness:
  "\<exists>cs. trace (snd (TruncateHistory (history_of (sample_set_reconciler []))
      (RunnerSetRevisioner (sample_revisioner_env (sample_resource (sample_revision ''a'' 1) [])))
      (map (\<lambda>x. Labels (R_Meta x)) found_runners) (start () (sample_runnerset 1)))) = cs \<and>
    (\<forall>cr. DeleteC (ORevision cr) \<in> set cs \<longrightarrow> Name (CR_Meta cr) \<noteq> [] \<longrightarrow>
       (\<forall>x\<in>set found_runners. map_lookup (Labels (R_Meta x)) LabelControllerRevisionHash \<noteq> Some (Name (CR_Meta cr))))"
proof -
  let ?H = "history_of (sample_set_reconciler [])"
  have r: "reads_status (H_Unstructured ?H) (H_Converter ?H)"
    by (simp add: reads_status_def history_of_def sample_set_reconciler_def sample_unstructured_def
        sample_runnerset_json_def GetCurrentRevision_def GetNextRevision_def)
  have u: "\<exists>u. ToUnstructured (H_Converter ?H) (var (start () (sample_runnerset 1))) = Inr u"
    by (simp add: history_of_def sample_set_reconciler_def sample_runnerset_json_def)
  then obtain u where "ToUnstructured (H_Converter ?H) (var (start () (sample_runnerset 1))) = Inr u" ..
  from wpD [OF history_in_use_is_kept [OF r this, of "sample_revisioner_env (sample_resource (sample_revision ''a'' 1) [])"
        found_runners] surjective_pairing]
  show ?thesis by (auto simp: start_def)
qed

definition listed_revision :: "int64 \<Rightarrow> controller_revision" where
  "listed_revision n =
     \<lparr>CR_Meta = empty_meta\<lparr>Name := ''s1-x'', Namespace := ''ns'',
        Labels := Some (fmupd LabelControllerRevisionHash ''x'' fmempty), Annotations := make_map,
        OwnerReferences := [\<lparr>OwnerKind = ''RunnerSet'', OwnerName = ''s1'', OwnerUID = ''u2'',
          OwnerController = True\<rparr>]\<rparr>,
      Raw = ''p1'', DataObject = None, Revision = n\<rparr>"

definition listing_env :: "unit revisioner_env" where
  "listing_env = sample_revisioner_env (sample_resource (listed_revision 1) [listed_revision 1])"

lemma listing_marshal: "RE_Marshal (sample_revisioner_env c) (restore_patch fmempty) = Inr ''p1''"
  by (simp add: sample_revisioner_env_def)

lemma listing_template: "encoded_template (sample_revisioner_env c) (sample_runnerset 1) = Some fmempty"
  by (simp add: encoded_template_def sample_revisioner_env_def sample_runnerset_def)

lemma listing_next:
  "RunnerSet_NextRevision listing_env n s = (Done (Inr (listed_revision n)), s)" if "var s = sample_runnerset 1"
proof -
  have "revision_Hash (RE_Library listing_env) cr c = ''x''" for cr c
    by (simp add: revision_Hash_def listing_env_def sample_revisioner_env_def)
  moreover have "metav1_NewControllerRef (RE_Library listing_env) m k = (sample_controller_ref m)\<lparr>OwnerKind := k\<rparr>" for m k
    by (simp add: listing_env_def sample_revisioner_env_def sample_library_def)
  moreover have "ObjectPatch listing_env (sample_runnerset 1) s = (Done (Inr ''p1''), s)"
    unfolding listing_env_def by (simp add: ObjectPatch_template [OF listing_template] listing_marshal)
  ultimately show ?thesis
    using that
    by (simp add: RunnerSet_NextRevision_def run_andthen read_var_def Let_def copy_map_def make_map_def
        listed_revision_def revision_Name_def sample_runnerset_def sample_meta_def empty_meta_def
        sample_controller_ref_def)
qed

lemma listing_list:
  "\<exists>s'. RunnerSet_ListRevision listing_env s = (Done (Inr [listed_revision 1]), s') \<and> var s' = var s"
  if "var s = sample_runnerset 1"
  using that
  by (simp add: RunnerSet_ListRevision_def listing_env_def sample_revisioner_env_def sample_library_def
      sample_cluster_def sample_resource_def client_defs ext_def run_andthen read_var_def keep_controlled_def
      listed_revision_def sample_runnerset_def sample_meta_def empty_meta_def)

lemma unchanged_template_writes_nothing_witness:
  "\<exists>s1. RunnerSet_ListRevision listing_env (start () (sample_runnerset 1)) = (Done (Inr [listed_revision 1]), s1) \<and>
    wp (MakeHistory (history_of (sample_set_reconciler [])) 1 (RunnerSetRevisioner listing_env))
     (\<lambda>res s'. trace s' = trace s1 \<and> (\<forall>x. res = Done (Inr x) \<longrightarrow> x = listed_revision 1))
     (start () (sample_runnerset 1))"
proof -
  let ?H = "history_of (sample_set_reconciler [])" and ?s = "start () (sample_runnerset 1)"
  obtain u where u: "ToUnstructured (H_Converter ?H) (var ?s) = Inr u"
    by (simp add: history_of_def sample_set_reconciler_def sample_runnerset_json_def)
  have v: "var ?s = sample_runnerset 1" by (simp add: start_def)
  from listing_list [OF v] obtain s1 where l: "RunnerSet_ListRevision listing_env ?s =
      (Done (Inr [listed_revision 1]), s1)" and "var s1 = sample_runnerset 1" by (auto simp: v)
  note n = listing_next [OF this(2)]
  have sorted: "sort_Stable SortableRevisions_Less [listed_revision 1] = [listed_revision 1]"
    by (simp add: sort_Stable_def)
  have eq: "IsEqual (H_DeepEqual ?H) (Some (last (sort_Stable SortableRevisions_Less [listed_revision 1])))
      (Some (listed_revision (nextRevisionNumber (sort_Stable SortableRevisions_Less [listed_revision 1]))))
      LabelControllerRevisionHash"
  proof -
    have "label_hash (CR_Meta (listed_revision k)) LabelControllerRevisionHash = None" for k
      unfolding label_hash_def listed_revision_def by code_simp
    then show ?thesis
      by (simp add: IsEqual_def sorted) (simp add: listed_revision_def history_of_def sample_set_reconciler_def)
  qed
  have "wp (MakeHistory ?H 1 (RunnerSetRevisioner listing_env)) (\<lambda>res s'. trace s' = trace s1 \<and>
     (\<forall>x. res = Done (Inr x) \<longrightarrow> x = last (sort_Stable SortableRevisions_Less [listed_revision 1]))) ?s"
    by (rule unchanged_template_writes_nothing [OF u l _ n eq])
      (simp_all add: history_of_def sample_set_reconciler_def)
  with l show ?thesis by (simp add: sorted)
qed

lemma revision_data_determines_template_witness:
  "''p1'' = ''p2'' \<longleftrightarrow> fmdrop ''$patch'' fmempty = fmdrop ''$patch'' (fmupd ''kind'' JNull fmempty :: json_map)"
proof -
  let ?E = "sample_revisioner_env (sample_resource (sample_revision ''a'' 1) []) :: unit revisioner_env"
  let ?a = "sample_runnerset 1"
  let ?b = "?a\<lparr>S_Meta := (S_Meta ?a)\<lparr>Name := ''s2''\<rparr>\<rparr>"
  let ?t = "fmempty :: json_map" and ?t' = "fmupd ''kind'' JNull fmempty :: json_map"
  have t: "encoded_template ?E ?b = Some ?t'"
    by (simp add: encoded_template_def sample_revisioner_env_def sample_runnerset_def)
  have diff: "restore_patch ?t' \<noteq> restore_patch ?t"
    unfolding restore_patch_def by code_simp
  then have m: "RE_Marshal ?E (restore_patch ?t') = Inr ''p2''"
    by (simp add: sample_revisioner_env_def)
  have rt: "json_roundtrip ?E {restore_patch ?t, restore_patch ?t'}"
    by (simp add: json_roundtrip_def m listing_marshal) (simp add: sample_revisioner_env_def)
  have d: "fst (ObjectPatch ?E ?a ()) = Done (Inr ''p1'')" "fst (ObjectPatch ?E ?b ()) = Done (Inr ''p2'')"
    by (simp_all add: ObjectPatch_template [OF listing_template] ObjectPatch_template [OF t] m listing_marshal)
  show ?thesis by (rule revision_data_determines_template [OF listing_template t rt d])
qed

end
