(* ===== verification/RunnerSet_Fleet.thy ===== *)
theory RunnerSet_Fleet
  imports RunnerSet_Samples
begin

text \<open>
  A runner set over many reconciliations.  Deleting a runner does not remove it: its finalizer keeps it
  in the store, marked as ending, until the runner controller has cleaned up, and the runner set goes
  on counting it.  The abstract fleet is the number of live and of ending members of a set; the
  reconciliation of \<open>RunnerSet_Controller\<close> is shown to be a step of it (a refinement), and the
  fleet to come to the desired number of live members and to stay there.
\<close>

section \<open>The abstract fleet\<close>

text \<open>\<open>(a, e)\<close>: the live members and those that are ending.\<close>

type_synonym fleet = "nat \<times> nat"

text \<open>One reconciliation towards \<open>n\<close> runners.  Ending members count, so that a replacement is made only
  when one has left; with too many, only as many live ones go as there are over \<open>n\<close>.  Those without a
  finalizer are gone at once.\<close>

inductive fleet_step :: "nat \<Rightarrow> fleet \<Rightarrow> fleet \<Rightarrow> bool" for n :: nat where
  scale_up: "a + e < n \<Longrightarrow> fleet_step n (a, e) (n - e, e)"
| scale_down: "n \<le> a + e \<Longrightarrow> n \<le> min a n + e' \<Longrightarrow> min a n + e' \<le> a + e \<Longrightarrow>
    fleet_step n (a, e) (min a n, e')"

inductive_cases fleet_stepE: "fleet_step n (a, e) f"

text \<open>What happens between two reconciliations: an ending member leaves.\<close>

inductive fleet_moves :: "nat \<Rightarrow> fleet \<Rightarrow> fleet \<Rightarrow> bool" for n :: nat where
  rests: "fleet_moves n f f"
| reconciled: "fleet_moves n f g \<Longrightarrow> fleet_step n g h \<Longrightarrow> fleet_moves n f h"
| left: "fleet_moves n f (a, Suc e) \<Longrightarrow> fleet_moves n f (a, e)"

lemma fleet_step_live:
  assumes "fleet_step n f g"
  shows "min (fst f) n \<le> fst g" and "fst g \<le> n" and "n \<le> fst g + snd g"
  using assms by (cases rule: fleet_step.cases; auto)+

lemma fleet_moves_trans: "fleet_moves n g h \<Longrightarrow> fleet_moves n f g \<Longrightarrow> fleet_moves n f h"
  by (induction rule: fleet_moves.induct) (auto intro: fleet_moves.intros)

text \<open>The live members fall to no less than the desired number, and rise to no more.\<close>

lemma fleet_moves_floor:
  "fleet_moves n f g \<Longrightarrow> min (fst f) n \<le> fst g \<and> fst g \<le> max (fst f) n"
proof (induction rule: fleet_moves.induct)
  case (reconciled f g h)
  then show ?case using fleet_step_live [OF reconciled.hyps(2)] by auto
qed auto

text \<open>Once nothing is ending, the next reconciliation reaches the desired number, which is kept.\<close>

lemma fleet_step_settles: "fleet_step n (a, 0) g \<Longrightarrow> fst g = n"
  by (erule fleet_stepE) auto

lemma fleet_moves_settled: "fleet_moves n (n, e) g \<Longrightarrow> fst g = n"
  using fleet_moves_floor [of n "(n, e)" g] by simp

section \<open>The store of runners\<close>

definition key_of :: "runner \<Rightarrow> object_key" where
  "key_of r = ObjectKeyFromObject (R_Meta r)"

definition alive :: "runner \<Rightarrow> bool" where
  "alive r \<longleftrightarrow> GetDeletionTimestamp_IsZero (R_Meta r)"

definition keyed :: "runner list \<Rightarrow> bool" where
  "keyed rs \<longleftrightarrow> distinct (map key_of rs)"

text \<open>What the server does with a list request, an update and a deletion.\<close>

definition selected :: "string \<Rightarrow> string gomap \<Rightarrow> runner \<Rightarrow> bool" where
  "selected ns m r \<longleftrightarrow> Namespace (R_Meta r) = ns \<and>
     (case m of None \<Rightarrow> True | Some f \<Rightarrow> fmpred (\<lambda>k v. map_lookup (Labels (R_Meta r)) k = Some v) f)"

definition replaced :: "runner \<Rightarrow> runner list \<Rightarrow> runner list" where
  "replaced x rs = map (\<lambda>y. if key_of y = key_of x then x else y) rs"

text \<open>A write that takes the last finalizer off an ending runner removes it.\<close>

definition written :: "runner \<Rightarrow> runner \<Rightarrow> runner list \<Rightarrow> runner list" where
  "written b x rs =
     (if \<not> alive x \<and> Finalizers (R_Meta x) = [] \<and> Finalizers (R_Meta b) \<noteq> []
      then filter (\<lambda>y. key_of y \<noteq> key_of x) rs else replaced x rs)"

text \<open>The first deletion sets the time; without a finalizer the runner is gone.\<close>

definition ended :: "instant \<Rightarrow> runner \<Rightarrow> runner list" where
  "ended t y =
     (if Finalizers (R_Meta y) = [] then []
      else if alive y then [y\<lparr>R_Meta := (R_Meta y)\<lparr>DeletionTimestamp := Some t\<rparr>\<rparr>] else [y])"

definition deleted :: "instant \<Rightarrow> runner \<Rightarrow> runner list \<Rightarrow> runner list" where
  "deleted t x rs = concat (map (\<lambda>y. if key_of y = key_of x then ended t y else [y]) rs)"

lemma key_of_ended: "z \<in> set (ended t y) \<Longrightarrow> key_of z = key_of y"
  by (auto simp: ended_def key_of_def ObjectKeyFromObject_def split: if_splits)

lemma deleted_simps [simp]:
  "deleted t x [] = []"
  "deleted t x (y # ys) = (if key_of y = key_of x then ended t y else [y]) @ deleted t x ys"
  by (simp_all add: deleted_def)

lemma in_deleted: "z \<in> set (deleted t x rs) \<Longrightarrow> \<exists>y\<in>set rs. key_of y = key_of z"
  by (induction rs) (auto split: if_splits dest: key_of_ended)

lemma keyed_simps [simp]:
  "keyed []" "keyed (y # ys) \<longleftrightarrow> key_of y \<notin> key_of ` set ys \<and> keyed ys"
  by (simp_all add: keyed_def)

lemma keyed_append: "keyed (xs @ ys) \<longleftrightarrow>
    keyed xs \<and> keyed ys \<and> key_of ` set xs \<inter> key_of ` set ys = {}"
  by (simp add: keyed_def)

lemma keyed_filter: "keyed rs \<Longrightarrow> keyed (filter P rs)"
  by (simp add: keyed_def distinct_map_filter)

lemma keyed_ended: "keyed (ended t y)"
  by (simp add: ended_def)

lemma keyed_deleted: "keyed rs \<Longrightarrow> keyed (deleted t x rs)"
proof (induction rs)
  case (Cons y ys)
  have other: "key_of y \<notin> key_of ` set (deleted t x ys)"
  proof
    assume "key_of y \<in> key_of ` set (deleted t x ys)"
    then obtain z where z: "z \<in> set (deleted t x ys)" "key_of z = key_of y" by auto
    from in_deleted [OF z(1)] obtain u where "u \<in> set ys" "key_of u = key_of z" by blast
    then have "key_of y \<in> key_of ` set ys" using z(2) by (intro image_eqI [of _ _ u]) simp_all
    with Cons.prems show False by simp
  qed
  have "key_of ` set (ended t y) \<subseteq> {key_of y}"
    by (auto dest: key_of_ended)
  then have "key_of ` set (ended t y) = {} \<or> key_of ` set (ended t y) = {key_of y}"
    by (rule subset_singletonD)
  with other have "key_of ` set (ended t y) \<inter> key_of ` set (deleted t x ys) = {}"
    by (elim disjE) simp_all
  with other Cons show ?case
    by (simp add: keyed_append keyed_ended)
qed simp

lemma key_of_replaced: "map key_of (replaced x rs) = map key_of rs"
  by (induction rs) (auto simp: replaced_def)

lemma keyed_replaced: "keyed (replaced x rs) = keyed rs"
  by (simp add: keyed_def key_of_replaced)

lemma stays_replaced: "z \<in> set rs \<Longrightarrow> key_of z \<noteq> key_of x \<Longrightarrow> z \<in> set (replaced x rs)"
  by (force simp: replaced_def)

lemma in_replaced: "y \<in> set rs \<Longrightarrow> key_of x = key_of y \<Longrightarrow> x \<in> set (replaced x rs)"
  by (force simp: replaced_def)

lemma stays_deleted: "z \<in> set rs \<Longrightarrow> key_of z \<noteq> key_of x \<Longrightarrow> z \<in> set (deleted t x rs)"
  by (induction rs) auto

lemma filter_deleted_other:
  assumes "\<And>y z. y \<in> set rs \<Longrightarrow> key_of y = key_of x \<Longrightarrow> z \<in> set (ended t y) \<Longrightarrow> \<not> P z"
  shows "filter P (deleted t x rs) = filter (\<lambda>y. P y \<and> key_of y \<noteq> key_of x) rs"
  using assms
proof (induction rs)
  case (Cons y ys)
  have "filter P (ended t y) = []" if "key_of y = key_of x"
    using Cons.prems [of y] that by (simp add: filter_empty_conv)
  with Cons.IH Cons.prems show ?case by auto
qed simp

section \<open>What the set relies on\<close>

text \<open>Documented behaviour of the server for a store of runners that nobody else writes meanwhile.  A
  list request answers with what is selected; a deletion ends the object of that key; a patch that
  leaves the key and the finalizers alone is applied; and an unnamed object is not found, so that it is created, under
  a new name.\<close>

definition created_from :: "runner \<Rightarrow> runner \<Rightarrow> bool" where
  "created_from x y \<longleftrightarrow> (\<exists>n u v t spec. y = x\<lparr>R_Meta := (R_Meta x)
     \<lparr>Name := n, UID := u, ResourceVersion := v, CreationTimestamp := t\<rparr>, R_Spec := spec\<rparr>)"

definition serves :: "('w, runner) resource \<Rightarrow> ('w \<Rightarrow> runner list) \<Rightarrow> bool" where
  "serves c stored \<longleftrightarrow>
     (\<forall>ns m w. \<exists>w'. ListAll c (InNamespaceMatchingLabels ns m) w =
        (Inr (filter (selected ns m) (stored w)), w') \<and> stored w' = stored w) \<and>
     (\<forall>x w. \<exists>err w' t. Delete c x w = (err, w') \<and> t \<noteq> 0 \<and> stored w' = deleted t x (stored w)) \<and>
     (\<forall>x m w. x \<in> set (stored w) \<longrightarrow> ObjectKeyFromObject m = key_of x \<longrightarrow> Finalizers m = Finalizers (R_Meta x) \<longrightarrow>
        (\<exists>v w'. Patch c x (x\<lparr>R_Meta := m\<rparr>) w = ((None, x\<lparr>R_Meta := m\<lparr>ResourceVersion := v\<rparr>\<rparr>), w') \<and>
           stored w' = replaced (x\<lparr>R_Meta := m\<lparr>ResourceVersion := v\<rparr>\<rparr>) (stored w))) \<and>
     (\<forall>x w. Name (R_Meta x) = [] \<longrightarrow> (\<exists>w'. Fetch c x w = (Inr x, w') \<and> stored w' = stored w)) \<and>
     (\<forall>x y w. Name (R_Meta y) = [] \<longrightarrow> GenerateName (R_Meta y) \<noteq> [] \<longrightarrow>
        (\<exists>y' w'. Commit c x y w = ((None, y'), w') \<and> created_from y y' \<and>
           stored w' = stored w @ [y'] \<and> key_of y' \<notin> key_of ` set (stored w)))"

text \<open>Controllers of an object are read off its owner references, which hold the UID of the owner; an object
  of the namespace that has none can be given one.\<close>

definition tells_controller :: "'w library \<Rightarrow> bool" where
  "tells_controller L \<longleftrightarrow>
     (\<forall>m. OwnerReferences m = [] \<longrightarrow> metav1_GetControllerOf L m = None) \<and>
     (\<forall>m m' owner. OwnerReferences m = OwnerReferences m' \<longrightarrow>
        metav1_GetControllerOf L m = metav1_GetControllerOf L m' \<and>
        metav1_IsControlledBy L m owner = metav1_IsControlledBy L m' owner) \<and>
     (\<forall>m owner owner'. UID owner = UID owner' \<longrightarrow>
        metav1_IsControlledBy L m owner = metav1_IsControlledBy L m owner') \<and>
     (\<forall>m owner. metav1_GetControllerOf L m = None \<longrightarrow> Namespace m = Namespace owner \<longrightarrow>
        (\<exists>refs. ctrl_SetControllerReference L owner m = Inr (m\<lparr>OwnerReferences := refs\<rparr>) \<and>
           metav1_IsControlledBy L (m\<lparr>OwnerReferences := refs\<rparr>) owner))"

lemma tells_controllerD:
  assumes "tells_controller L" and "OwnerReferences m = OwnerReferences m'"
  shows "metav1_IsControlledBy L m owner = metav1_IsControlledBy L m' owner"
    and "metav1_GetControllerOf L m = metav1_GetControllerOf L m'"
  using assms unfolding tells_controller_def by blast+

text \<open>The selector of the set selects what its template makes, as the admission requires.\<close>

definition selects_template :: "string \<Rightarrow> string gomap \<Rightarrow> runnerset \<Rightarrow> bool" where
  "selects_template key m rs \<longleftrightarrow>
     (case m of None \<Rightarrow> True
      | Some f \<Rightarrow> fmpred (\<lambda>k v. k \<noteq> key \<and> map_lookup (Labels (T_Meta (Template (S_Spec rs)))) k = Some v) f)"

definition fleet_env :: "'w runnerset_reconciler \<Rightarrow> runnerset \<Rightarrow> string gomap \<Rightarrow> ('w \<Rightarrow> runner list) \<Rightarrow> bool" where
  "fleet_env R rs m stored \<longleftrightarrow>
     serves (RunnersOf (SR_Client R)) stored \<and> tells_controller (SR_Library R) \<and>
     sorts RunnersToDelete_Less (SR_Sort R) \<and>
     metav1_LabelSelectorAsMap (SR_Library R) (Selector (S_Spec rs)) = Inr m \<and>
     selects_template (HashLabelKey (SR_Revisioner R)) m rs"

text \<open>The handler's object is the same set, with the same spec and not deleted meanwhile; its status, its
  resource version, its labels and annotations may have changed.\<close>

definition same_set :: "runnerset \<Rightarrow> runnerset \<Rightarrow> bool" where
  "same_set rs v \<longleftrightarrow> S_Spec v = S_Spec rs \<and> UID (S_Meta v) = UID (S_Meta rs) \<and>
     Namespace (S_Meta v) = Namespace (S_Meta rs) \<and> DeletionTimestamp (S_Meta v) = DeletionTimestamp (S_Meta rs)"

lemma same_setD:
  assumes "same_set rs v"
  shows "S_Spec v = S_Spec rs" "Namespace (S_Meta v) = Namespace (S_Meta rs)"
    "GetDeletionTimestamp_IsZero (S_Meta v) = GetDeletionTimestamp_IsZero (S_Meta rs)"
    "tells_controller L \<Longrightarrow> metav1_IsControlledBy L mt (S_Meta v) = metav1_IsControlledBy L mt (S_Meta rs)"
proof -
  show "S_Spec v = S_Spec rs" "Namespace (S_Meta v) = Namespace (S_Meta rs)"
    "GetDeletionTimestamp_IsZero (S_Meta v) = GetDeletionTimestamp_IsZero (S_Meta rs)"
    using assms by (simp_all add: same_set_def GetDeletionTimestamp_IsZero_def)
  have uid: "UID (S_Meta v) = UID (S_Meta rs)" using assms by (simp add: same_set_def)
  show "metav1_IsControlledBy L mt (S_Meta v) = metav1_IsControlledBy L mt (S_Meta rs)" if "tells_controller L"
    using that uid unfolding tells_controller_def by blast
qed

lemma same_set_cong:
  assumes "same_set rs v"
  shows "tells_controller (SR_Library R) \<Longrightarrow> managed R v = managed R rs" "outdated R v = outdated R rs"
  using same_setD [OF assms] by (auto simp: managed_def outdated_def fun_eq_iff)

section \<open>The members of a set\<close>

definition member :: "'w runnerset_reconciler \<Rightarrow> runnerset \<Rightarrow> controller_revision \<Rightarrow> string gomap \<Rightarrow> runner \<Rightarrow> bool" where
  "member R rs cr m r \<longleftrightarrow> selected (Namespace (S_Meta rs)) m r \<and> managed R rs r \<and>
     \<not> in_phase RunnerCompletePhase r \<and> \<not> outdated R rs cr r"

definition fleet_of :: "'w runnerset_reconciler \<Rightarrow> runnerset \<Rightarrow> controller_revision \<Rightarrow> string gomap \<Rightarrow>
    runner list \<Rightarrow> fleet" where
  "fleet_of R rs cr m rs' =
     (length (filter (\<lambda>r. member R rs cr m r \<and> alive r) rs'),
      length (filter (\<lambda>r. member R rs cr m r \<and> \<not> alive r) rs'))"

text \<open>What matters of a member: which one it is and whether it is ending.\<close>

definition view :: "runner \<Rightarrow> object_key \<times> bool" where
  "view r = (key_of r, alive r)"

lemma member_cong:
  assumes "tells_controller (SR_Library R)"
    and "Labels (R_Meta y) = Labels (R_Meta x)" "Namespace (R_Meta y) = Namespace (R_Meta x)"
    and "OwnerReferences (R_Meta y) = OwnerReferences (R_Meta x)" "R_Status y = R_Status x"
  shows "member R rs cr m y = member R rs cr m x"
proof -
  have "managed R rs y = managed R rs x"
    using assms(1,4) unfolding managed_def tells_controller_def by metis
  with assms(2,3,5) show ?thesis
    by (simp add: member_def selected_def in_phase_def outdated_def split: option.split)
qed

lemma member_ended:
  assumes "tells_controller (SR_Library R)" and "z \<in> set (ended t y)"
  shows "member R rs cr m z = member R rs cr m y"
proof (rule member_cong [OF assms(1)])
qed (use assms(2) in \<open>auto simp: ended_def split: if_splits\<close>)

lemma members_deleted_other:
  assumes "tells_controller (SR_Library R)"
    and "\<And>y. y \<in> set rs' \<Longrightarrow> key_of y = key_of x \<Longrightarrow> \<not> member R rs cr m y"
  shows "filter (member R rs cr m) (deleted t x rs') = filter (member R rs cr m) rs'"
proof -
  have "filter (member R rs cr m) (deleted t x rs') =
      filter (\<lambda>y. member R rs cr m y \<and> key_of y \<noteq> key_of x) rs'"
    by (rule filter_deleted_other) (use assms member_ended in blast)
  also have "\<dots> = filter (member R rs cr m) rs'"
    using assms(2) by (auto intro: filter_cong)
  finally show ?thesis .
qed

lemma views_replaced:
  assumes "y \<in> set rs'" and "keyed rs'" and "view x = view y"
    and "member R rs cr m x = member R rs cr m y"
  shows "map view (filter (member R rs cr m) (replaced x rs')) = map view (filter (member R rs cr m) rs')"
  using assms
proof (induction rs')
  case (Cons z zs)
  have other: "replaced x zs = zs" if "key_of x \<notin> key_of ` set zs"
    using that by (induction zs) (auto simp: replaced_def)
  show ?case
  proof (cases "key_of z = key_of x")
    case True
    with Cons.prems have "z = y" "key_of x \<notin> key_of ` set zs"
      by (auto simp: view_def)
    with True other Cons.prems(3,4) show ?thesis by (simp add: replaced_def)
  next
    case False
    with Cons.prems have "y \<in> set zs" "keyed zs" by (auto simp: view_def)
    with Cons.IH [OF this Cons.prems(3,4)] False show ?thesis by (simp add: replaced_def)
  qed
qed simp

section \<open>The requests, on the store\<close>

lemma wp_list:
  assumes "serves c stored"
    and "\<And>s'. var s' = var s \<Longrightarrow> stored (world s') = stored (world s) \<Longrightarrow>
      Q (Done (Inr (filter (selected ns m) (stored (world s))))) s'"
  shows "wp (client_List k c (InNamespaceMatchingLabels ns m)) Q s"
proof -
  obtain w' where "ListAll c (InNamespaceMatchingLabels ns m) (world s) =
      (Inr (filter (selected ns m) (stored (world s))), w')" "stored w' = stored (world s)"
    using assms(1) unfolding serves_def by blast
  with assms(2) show ?thesis by (simp add: client_List_def wp_ext)
qed

lemma wp_delete:
  assumes "serves c stored"
    and "\<And>err t s'. var s' = var s \<Longrightarrow> t \<noteq> 0 \<Longrightarrow> stored (world s') = deleted t x (stored (world s)) \<Longrightarrow>
      Q (Done err) s'"
  shows "wp (client_Delete k c x) Q s"
proof -
  obtain err w' t where "Delete c x (world s) = (err, w')" "t \<noteq> 0" "stored w' = deleted t x (stored (world s))"
    using assms(1) unfolding serves_def by blast
  with assms(2) show ?thesis by (simp add: client_Delete_def wp_ext)
qed

lemma wp_patch:
  assumes "serves c stored" and "x \<in> set (stored (world s))" and "ObjectKeyFromObject m = key_of x"
    and "Finalizers m = Finalizers (R_Meta x)"
    and "\<And>v s'. var s' = var s \<Longrightarrow>
      stored (world s') = replaced (x\<lparr>R_Meta := m\<lparr>ResourceVersion := v\<rparr>\<rparr>) (stored (world s)) \<Longrightarrow>
      Q (Done (None, x\<lparr>R_Meta := m\<lparr>ResourceVersion := v\<rparr>\<rparr>)) s'"
  shows "wp (client_Patch k c x (x\<lparr>R_Meta := m\<rparr>)) Q s"
proof -
  obtain v w' where "Patch c x (x\<lparr>R_Meta := m\<rparr>) (world s) = ((None, x\<lparr>R_Meta := m\<lparr>ResourceVersion := v\<rparr>\<rparr>), w')"
    "stored w' = replaced (x\<lparr>R_Meta := m\<lparr>ResourceVersion := v\<rparr>\<rparr>) (stored (world s))"
    using assms(1-4) unfolding serves_def by blast
  with assms(5) show ?thesis by (simp add: client_Patch_def wp_ext)
qed

lemma wp_fetch_unnamed:
  assumes "serves c stored" and "Name (R_Meta x) = []"
    and "\<And>s'. var s' = var s \<Longrightarrow> stored (world s') = stored (world s) \<Longrightarrow> Q (Done (Inr x)) s'"
  shows "wp (ext k (Fetch c x)) Q s"
proof -
  obtain w' where "Fetch c x (world s) = (Inr x, w')" "stored w' = stored (world s)"
    using assms(1,2) unfolding serves_def by blast
  with assms(3) show ?thesis by (simp add: wp_ext)
qed

lemma wp_commit_unnamed:
  assumes "serves c stored" and "Name (R_Meta y) = []" and "GenerateName (R_Meta y) \<noteq> []"
    and "\<And>y' s'. var s' = var s \<Longrightarrow> created_from y y' \<Longrightarrow> stored (world s') = stored (world s) @ [y'] \<Longrightarrow>
      key_of y' \<notin> key_of ` set (stored (world s)) \<Longrightarrow> Q (Done (None, y')) s'"
  shows "wp (ext k (Commit c x y)) Q s"
proof -
  obtain y' w' where "Commit c x y (world s) = ((None, y'), w')" "created_from y y'"
    "stored w' = stored (world s) @ [y']" "key_of y' \<notin> key_of ` set (stored (world s))"
    using assms(1-3) unfolding serves_def by blast
  with assms(4) show ?thesis by (simp add: wp_ext)
qed

section \<open>Finding the members\<close>

text \<open>What the loop keeps: the store holds each key once, the members are the same but for what their
  adoption changes, and those not looked at yet are untouched.\<close>

definition same_members :: "'w runnerset_reconciler \<Rightarrow> runnerset \<Rightarrow> controller_revision \<Rightarrow> string gomap \<Rightarrow>
    runner list \<Rightarrow> runner list \<Rightarrow> bool" where
  "same_members R rs cr m old new \<longleftrightarrow> keyed new \<and>
     map view (filter (member R rs cr m) new) = map view (filter (member R rs cr m) old)"

text \<open>A runner of the store after its adoption: still the same runner.\<close>

lemma adopt_stored:
  assumes "fleet_env R rs m stored" and "same_set rs (var s)" and "keyed (stored (world s))"
    and "y \<in> set (stored (world s))" and "selected (Namespace (S_Meta rs)) m y" and "managed R rs y"
  shows "wp (adoptRunner R y) (\<lambda>r s'. var s' = var s \<and> (\<exists>x. r = Done (None, x) \<and> view x = view y \<and>
     R_Status x = R_Status y \<and> Labels (R_Meta x) = Labels (R_Meta y) \<and> member R rs cr m x = member R rs cr m y \<and>
     x \<in> set (stored (world s')) \<and> same_members R rs cr m (stored (world s)) (stored (world s')) \<and>
     (\<forall>z\<in>set (stored (world s)). key_of z \<noteq> key_of y \<longrightarrow> z \<in> set (stored (world s'))))) s"
proof (cases "metav1_GetControllerOf (SR_Library R) (R_Meta y) = None")
  case False
  then show ?thesis
    using assms(3,4) by (simp add: adoptRunner_def wp_ret same_members_def)
next
  case True
  have sv: "serves (RunnersOf (SR_Client R)) stored" and tells: "tells_controller (SR_Library R)"
    using assms(1) by (simp_all add: fleet_env_def)
  have "Namespace (R_Meta y) = Namespace (S_Meta (var s))"
    using assms(5) same_setD(2) [OF assms(2)] by (simp add: selected_def)
  with tells True obtain refs
    where set: "ctrl_SetControllerReference (SR_Library R) (S_Meta (var s)) (R_Meta y) = Inr ((R_Meta y)\<lparr>OwnerReferences := refs\<rparr>)"
      and own: "metav1_IsControlledBy (SR_Library R) ((R_Meta y)\<lparr>OwnerReferences := refs\<rparr>) (S_Meta (var s))"
    unfolding tells_controller_def by blast
  have ctl: "metav1_IsControlledBy (SR_Library R) ((R_Meta y)\<lparr>OwnerReferences := refs\<rparr>) (S_Meta rs)"
    using own by (simp add: same_setD(4) [OF assms(2) tells])
  let ?x = "\<lambda>v. y\<lparr>R_Meta := (R_Meta y)\<lparr>OwnerReferences := refs, ResourceVersion := v\<rparr>\<rparr>"
  have meta: "(R_Meta y)\<lparr>OwnerReferences := refs\<rparr>\<lparr>ResourceVersion := v\<rparr> =
      (R_Meta y)\<lparr>OwnerReferences := refs, ResourceVersion := v\<rparr>" for v by simp
  have "metav1_IsControlledBy (SR_Library R) (R_Meta (?x v)) (S_Meta rs)" for v
    using ctl tells_controllerD [OF tells, of "R_Meta (?x v)" "(R_Meta y)\<lparr>OwnerReferences := refs\<rparr>"] by simp
  then have mem: "member R rs cr m (?x v) = member R rs cr m y" for v
    using assms(5,6) by (auto simp: member_def managed_def selected_def in_phase_def outdated_def split: option.splits)
  have x: "view (?x v) = view y" "key_of (?x v) = key_of y" for v
    by (simp_all add: view_def key_of_def alive_def ObjectKeyFromObject_def GetDeletionTimestamp_IsZero_def)
  have "wp (client_Patch ORunner (RunnersOf (SR_Client R)) y (y\<lparr>R_Meta := (R_Meta y)\<lparr>OwnerReferences := refs\<rparr>\<rparr>))
      (\<lambda>r s'. var s' = var s1 \<and> (\<exists>v. r = Done (None, ?x v) \<and>
         stored (world s') = replaced (?x v) (stored (world s1)))) s1"
    if "stored (world s1) = stored (world s)" for s1 :: "('a, runnerset) st"
    by (rule wp_patch [OF sv])
      (use that assms(4) in \<open>auto simp: key_of_def ObjectKeyFromObject_def\<close>)
  note patch = this
  let ?new = "\<lambda>v. replaced (?x v) (stored (world s))"
  have post: "?x v \<in> set (?new v)" "same_members R rs cr m (stored (world s)) (?new v)"
    "\<forall>z\<in>set (stored (world s)). key_of z \<noteq> key_of y \<longrightarrow> z \<in> set (?new v)" for v
    using in_replaced [OF assms(4) x(2)] views_replaced [OF assms(4,3) x(1) mem] stays_replaced [of _ _ "?x v"] x(2) assms(3)
    by (simp_all add: same_members_def keyed_replaced)
  show ?thesis
    using True
    by (simp add: adoptRunner_def wp_andthen wp_read_var wp_event set)
      (rule wp_mono [OF patch], simp, use x post mem in fastforce)
qed

lemma keyed_unique:
  assumes "keyed rs" "x \<in> set rs" "y \<in> set rs" "key_of x = key_of y"
  shows "x = y"
  using assms unfolding keyed_def by (meson distinct_map inj_onD)

lemma same_members_deleted:
  assumes "tells_controller (SR_Library R)" and "same_members R rs cr m old new"
    and "x \<in> set new" and "\<not> member R rs cr m x"
  shows "same_members R rs cr m old (deleted t x new)"
proof -
  have k: "keyed new" using assms(2) by (simp add: same_members_def)
  have "filter (member R rs cr m) (deleted t x new) = filter (member R rs cr m) new"
    by (rule members_deleted_other [OF assms(1)]) (use keyed_unique [OF k] assms(3,4) in blast)
  with assms(2) k show ?thesis by (simp add: same_members_def keyed_deleted)
qed

lemma find_runner_stored:
  assumes env: "fleet_env R rs m stored" and set: "same_set rs (var s)" and "keyed (stored (world s))"
    and "y \<in> set (stored (world s))" and sel: "selected (Namespace (S_Meta rs)) m y"
  shows "wp (find_runner R cr y f) (\<lambda>r s'. var s' = var s \<and> (\<exists>f'. r = Done f' \<and>
     map view (F_Runners f') = map view (F_Runners f) @ map view (filter (member R rs cr m) [y])) \<and>
     same_members R rs cr m (stored (world s)) (stored (world s')) \<and>
     (\<forall>z\<in>set (stored (world s)). key_of z \<noteq> key_of y \<longrightarrow> z \<in> set (stored (world s')))) s"
    (is "wp _ ?Q s")
proof (cases "managed R rs y")
  case False
  then have "\<not> managed R (var s) y" using env by (simp add: same_set_cong [OF set] fleet_env_def)
  with False assms(3) show ?thesis
    by (simp add: find_runner_def wp_andthen wp_read_var wp_ret managed_def member_def same_members_def)
next
  case True
  have sv: "serves (RunnersOf (SR_Client R)) stored" and tells: "tells_controller (SR_Library R)"
    using env by (simp_all add: fleet_env_def)
  have mem: "member R rs cr m y \<longleftrightarrow> \<not> in_phase RunnerCompletePhase y \<and> \<not> outdated R rs cr y"
    using True sel by (simp add: member_def)
  have spec: "S_Spec (var s) = S_Spec rs" using set by (simp add: same_set_def)
  have mng: "managed R (var s) y" using True tells by (simp add: same_set_cong [OF set])
  let ?Q' = "\<lambda>x s1. var s1 = var s \<and> view x = view y \<and> R_Status x = R_Status y \<and>
     Labels (R_Meta x) = Labels (R_Meta y) \<and> member R rs cr m x = member R rs cr m y \<and>
     x \<in> set (stored (world s1)) \<and> same_members R rs cr m (stored (world s)) (stored (world s1)) \<and>
     (\<forall>z\<in>set (stored (world s)). key_of z \<noteq> key_of y \<longrightarrow> z \<in> set (stored (world s1)))"
  have keep: "?Q (Done (keep_runner x f')) s1" if "?Q' x s1" "member R rs cr m y" "F_Runners f' = F_Runners f" for x f' s1
    using that by (simp add: keep_runner_def)
  have drop: "wp (andthen (client_Delete ORunner (RunnersOf (SR_Client R)) x) (\<lambda>_. ret f)) ?Q s1"
    if "?Q' x s1" "\<not> member R rs cr m y" for x s1
    unfolding wp_andthen
  proof (rule wp_delete [OF sv])
    fix err t and s' :: "('a, runnerset) st"
    assume s': "var s' = var s1" "stored (world s') = deleted t x (stored (world s1))"
    have key: "key_of x = key_of y" using that(1) by (simp add: view_def)
    have "same_members R rs cr m (stored (world s)) (stored (world s'))"
      unfolding s' by (rule same_members_deleted [OF tells]) (use that in blast)+
    with that s' stays_deleted [of _ "stored (world s1)" x t] key
    show "case Done err of Done a \<Rightarrow> wp (ret f) ?Q s' | Panicked p \<Rightarrow> ?Q (Panicked p) s'"
      by (simp add: wp_ret)
  qed
  let ?body = "\<lambda>x. if Phase (R_Status x) = RunnerIdlePhase
           then (if StrategyType (UpdateStrategy (S_Spec (var s))) = RollingUpdateRunnerSetStrategyType \<and>
                    map_index (Labels (R_Meta x)) (HashLabelKey (SR_Revisioner R)) \<noteq> Name (CR_Meta cr)
                 then andthen (client_Delete ORunner (RunnersOf (SR_Client R)) x) (\<lambda>_. ret f)
                 else ret (keep_runner x (f\<lparr>F_Idle := F_Idle f + 1\<rparr>)))
           else if Phase (R_Status x) = RunnerActivePhase
           then ret (keep_runner x (f\<lparr>F_Active := F_Active f + 1\<rparr>))
           else if Phase (R_Status x) = RunnerCompletePhase
           then andthen (client_Delete ORunner (RunnersOf (SR_Client R)) x) (\<lambda>_. ret f)
           else ret (keep_runner x f)"
  have after: "wp (?body x) ?Q s1"
    if q: "?Q' x s1" for x s1
  proof (cases "member R rs cr m y")
    case False
    then have "Phase (R_Status x) = RunnerCompletePhase \<or> (Phase (R_Status x) = RunnerIdlePhase \<and>
        StrategyType (UpdateStrategy (S_Spec (var s))) = RollingUpdateRunnerSetStrategyType \<and>
        map_index (Labels (R_Meta x)) (HashLabelKey (SR_Revisioner R)) \<noteq> Name (CR_Meta cr))"
      using q mem by (auto simp: in_phase_def outdated_def spec)
    with drop [OF q False] show ?thesis by (auto simp: phases_distinct)
  next
    case True
    then have "Phase (R_Status x) \<noteq> RunnerCompletePhase" "\<not> (Phase (R_Status x) = RunnerIdlePhase \<and>
        StrategyType (UpdateStrategy (S_Spec (var s))) = RollingUpdateRunnerSetStrategyType \<and>
        map_index (Labels (R_Meta x)) (HashLabelKey (SR_Revisioner R)) \<noteq> Name (CR_Meta cr))"
      using q mem by (auto simp: in_phase_def outdated_def spec)
    with keep [OF q True] show ?thesis by (auto simp: wp_ret)
  qed
  have "find_runner R cr y f s =
      andthen (adoptRunner R y) (\<lambda>(err, x). if err \<noteq> None then ret f else ?body x) s"
    using mng by (auto simp: find_runner_def andthen_def read_var_def managed_def)
  moreover have "wp (andthen (adoptRunner R y) (\<lambda>(err, x). if err \<noteq> None then ret f else ?body x)) ?Q s"
    unfolding wp_andthen
  proof (rule wp_mono [OF adopt_stored [OF env set assms(3,4) sel True, of cr]])
    fix r and s1 :: "('a, runnerset) st"
    assume "var s1 = var s \<and> (\<exists>x. r = Done (None, x) \<and> view x = view y \<and>
     R_Status x = R_Status y \<and> Labels (R_Meta x) = Labels (R_Meta y) \<and> member R rs cr m x = member R rs cr m y \<and>
     x \<in> set (stored (world s1)) \<and> same_members R rs cr m (stored (world s)) (stored (world s1)) \<and>
     (\<forall>z\<in>set (stored (world s)). key_of z \<noteq> key_of y \<longrightarrow> z \<in> set (stored (world s1))))"
    then obtain x where r: "r = Done (None, x)" and q: "?Q' x s1" by blast
    from after [OF q]
    show "case r of
        Done a \<Rightarrow> wp (case a of (err, x) \<Rightarrow> if err \<noteq> None then ret f else ?body x) ?Q s1
      | Panicked p \<Rightarrow> ?Q (Panicked p) s1"
      unfolding r by simp
  qed
  ultimately show ?thesis by (simp add: wp_def)
qed

lemma same_members_refl: "keyed rs' \<Longrightarrow> same_members R rs cr m rs' rs'"
  by (simp add: same_members_def)

lemma same_members_trans:
  "same_members R rs cr m a b \<Longrightarrow> same_members R rs cr m b c \<Longrightarrow> same_members R rs cr m a c"
  by (simp add: same_members_def)

lemma find_loop_stored:
  assumes env: "fleet_env R rs m stored" and set: "same_set rs (var s)" and keyed: "keyed (stored (world s))"
    and items: "items = filter (selected (Namespace (S_Meta rs)) m) (stored (world s))"
  shows "wp (for_each items (find_runner R cr) \<lparr>F_Runners = [], F_Idle = 0, F_Active = 0\<rparr>)
    (\<lambda>r s'. var s' = var s \<and> (\<exists>f. r = Done f \<and> map view (F_Runners f) = map view (filter (member R rs cr m) items)) \<and>
       same_members R rs cr m (stored (world s)) (stored (world s'))) s"
proof (rule wp_for_each [where I = "\<lambda>xs f s'. var s' = var s \<and> same_members R rs cr m (stored (world s)) (stored (world s')) \<and>
    map view (F_Runners f) = map view (filter (member R rs cr m) xs) \<and>
    (\<forall>z\<in>set (stored (world s)). key_of z \<notin> key_of ` set xs \<longrightarrow> z \<in> set (stored (world s')))"], goal_cases)
  case (1 xs y ys f s1)
  note inv = 1(2)
  have "keyed items" using keyed by (simp add: items keyed_filter)
  then have fresh: "key_of y \<notin> key_of ` set xs" using 1(1) by (auto simp: keyed_append)
  have y: "y \<in> set (stored (world s))" "selected (Namespace (S_Meta rs)) m y"
    using arg_cong [OF 1(1), of set] by (auto simp: items)
  have s1: "same_set rs (var s1)" "keyed (stored (world s1))" "y \<in> set (stored (world s1))"
    using inv set y(1) fresh by (simp_all add: same_members_def)
  show ?case
    by (rule wp_mono [OF find_runner_stored [OF env s1 y(2), of cr f]])
      (use inv in \<open>auto intro: same_members_trans\<close>)
qed (use keyed in \<open>auto simp: same_members_refl\<close>)

lemma findRunners_stored:
  assumes env: "fleet_env R rs m stored" and set: "same_set rs (var s)" and keyed: "keyed (stored (world s))"
  shows "wp (findRunners R cr) (\<lambda>r s'. same_set rs (var s') \<and> same_members R rs cr m (stored (world s)) (stored (world s')) \<and>
    (\<exists>runners. r = Done (Inr runners) \<and>
       map view runners = map view (filter (member R rs cr m) (stored (world s))))) s"
proof -
  have sv: "serves (RunnersOf (SR_Client R)) stored"
    and sel: "metav1_LabelSelectorAsMap (SR_Library R) (Selector (S_Spec (var s))) = Inr m"
    and ns: "Namespace (S_Meta (var s)) = Namespace (S_Meta rs)"
    using env set by (simp_all add: fleet_env_def same_set_def)
  let ?items = "filter (selected (Namespace (S_Meta rs)) m) (stored (world s))"
  have members: "filter (member R rs cr m) ?items = filter (member R rs cr m) (stored (world s))"
    by (auto simp: member_def intro: filter_cong)
  have loop: "wp (for_each ?items (find_runner R cr) \<lparr>F_Runners = [], F_Idle = 0, F_Active = 0\<rparr>)
    (\<lambda>r s'. var s' = var s \<and> (\<exists>f. r = Done f \<and>
         map view (F_Runners f) = map view (filter (member R rs cr m) (stored (world s)))) \<and>
       same_members R rs cr m (stored (world s)) (stored (world s'))) s1"
    if s1: "var s1 = var s" "stored (world s1) = stored (world s)" for s1
    using find_loop_stored [OF env, of s1 ?items cr] set keyed by (simp add: s1 members del: filter_filter)
  show ?thesis
    unfolding findRunners_def
    by (simp add: wp_andthen wp_read_var sel ns)
      (rule wp_list [OF sv], simp add: wp_andthen wp_modify_var wp_ret,
       rule wp_mono [OF loop], use set in \<open>auto simp: same_set_def set_counts_def wp_modify_var wp_ret wp_andthen\<close>)
qed

section \<open>Creating and deleting members\<close>

lemma create_runner_stored:
  assumes env: "fleet_env R rs m stored" and set: "same_set rs (var s)"
  shows "wp (create_runner R cr i errs) (\<lambda>r s'. var s' = var s \<and> r = Done errs \<and>
    (\<exists>x. stored (world s') = stored (world s) @ [x] \<and> member R rs cr m x \<and> alive x \<and>
       key_of x \<notin> key_of ` set (stored (world s)))) s"
proof -
  have sv: "serves (RunnersOf (SR_Client R)) stored" and tells: "tells_controller (SR_Library R)"
    and sel: "selects_template (HashLabelKey (SR_Revisioner R)) m rs"
    using env by (simp_all add: fleet_env_def)
  note v = same_setD(1,2) [OF set]
  let ?key = "HashLabelKey (SR_Revisioner R)"
  obtain f where f: "copy_map (Labels (T_Meta (Template (S_Spec rs)))) = Some f"
    by (cases "Labels (T_Meta (Template (S_Spec rs)))") (simp_all add: copy_map_def make_map_def)
  have look: "fmlookup f k = map_lookup (Labels (T_Meta (Template (S_Spec rs)))) k" for k
    using f by (auto simp: copy_map_def make_map_def split: option.splits)
  let ?new = "new_runner ?key (var s) cr (Some (fmupd ?key (Name (CR_Meta cr)) f))"
  have new: "OwnerReferences (R_Meta ?new) = []" "Name (R_Meta ?new) = []" "GenerateName (R_Meta ?new) \<noteq> []"
    "Namespace (R_Meta ?new) = Namespace (S_Meta rs)" "DeletionTimestamp (R_Meta ?new) = None"
    "Labels (R_Meta ?new) = Some (fmupd ?key (Name (CR_Meta cr)) f)" "Phase (R_Status ?new) = []"
    by (simp_all add: new_runner_def empty_meta_def v)
  have "metav1_GetControllerOf (SR_Library R) (R_Meta ?new) = None"
    using tells new(1) unfolding tells_controller_def by blast
  moreover have "Namespace (R_Meta ?new) = Namespace (S_Meta (var s))" using new(4) v(2) by simp
  ultimately obtain refs
    where refs: "ctrl_SetControllerReference (SR_Library R) (S_Meta (var s)) (R_Meta ?new) =
        Inr ((R_Meta ?new)\<lparr>OwnerReferences := refs\<rparr>)"
      and own: "metav1_IsControlledBy (SR_Library R) ((R_Meta ?new)\<lparr>OwnerReferences := refs\<rparr>) (S_Meta (var s))"
    using tells unfolding tells_controller_def by blast
  have ctl: "metav1_IsControlledBy (SR_Library R) ((R_Meta ?new)\<lparr>OwnerReferences := refs\<rparr>) (S_Meta rs)"
    using own by (simp add: same_setD(4) [OF set tells])
  let ?own = "?new\<lparr>R_Meta := (R_Meta ?new)\<lparr>OwnerReferences := refs\<rparr>\<rparr>"
  have made: "member R rs cr m x \<and> alive x" if "created_from ?own x" for x
  proof -
    have x: "Labels (R_Meta x) = Some (fmupd ?key (Name (CR_Meta cr)) f)" "Phase (R_Status x) = []"
      "Namespace (R_Meta x) = Namespace (S_Meta rs)" "DeletionTimestamp (R_Meta x) = None"
      "OwnerReferences (R_Meta x) = refs"
      using that new by (auto simp: created_from_def)
    have "metav1_IsControlledBy (SR_Library R) (R_Meta x) (S_Meta rs)"
      using ctl tells_controllerD [OF tells, of "R_Meta x" "(R_Meta ?new)\<lparr>OwnerReferences := refs\<rparr>"] x(5) by simp
    then show ?thesis
      using x sel look
      by (auto simp: member_def managed_def selected_def in_phase_def outdated_def alive_def selects_template_def
          GetDeletionTimestamp_IsZero_def phase_defs fmpred_iff split: option.splits)
  qed
  show ?thesis
    unfolding create_runner_def CreateOrUpdate_def mutate_runner_def
    by (simp add: wp_andthen wp_read_var v f wp_map_store, rule wp_fetch_unnamed [OF sv], simp add: new,
        simp add: wp_andthen wp_read_var v refs wp_ret, rule wp_commit_unnamed [OF sv])
      (use new made in \<open>auto simp: wp_event wp_andthen wp_ret collect_def\<close>)
qed

lemma create_runners_stored:
  assumes env: "fleet_env R rs m stored" and set: "same_set rs (var s)" and keyed: "keyed (stored (world s))"
  shows "wp (for_each is (create_runner R cr) errs) (\<lambda>r s'. var s' = var s \<and> r = Done errs \<and>
    keyed (stored (world s')) \<and> (\<exists>news. stored (world s') = stored (world s) @ news \<and> length news = length is \<and>
       (\<forall>x\<in>set news. member R rs cr m x \<and> alive x))) s"
proof (rule wp_for_each [where I = "\<lambda>xs e s'. var s' = var s \<and> e = errs \<and> keyed (stored (world s')) \<and>
    (\<exists>news. stored (world s') = stored (world s) @ news \<and> length news = length xs \<and>
       (\<forall>x\<in>set news. member R rs cr m x \<and> alive x))"], goal_cases)
  case (1 xs i ys e s1)
  then obtain news where news: "stored (world s1) = stored (world s) @ news" "length news = length xs"
    "\<forall>x\<in>set news. member R rs cr m x \<and> alive x" "var s1 = var s" "e = errs" "keyed (stored (world s1))" by blast
  have "same_set rs (var s1)" using set news(4) by simp
  note step = create_runner_stored [OF env this, of cr i e]
  show ?case
  proof (rule wp_mono [OF step])
    fix r and s' :: "('a, runnerset) st"
    assume "var s' = var s1 \<and> r = Done e \<and> (\<exists>x. stored (world s') = stored (world s1) @ [x] \<and>
       member R rs cr m x \<and> alive x \<and> key_of x \<notin> key_of ` set (stored (world s1)))"
    then obtain x where x: "stored (world s') = stored (world s1) @ [x]" "member R rs cr m x" "alive x"
      "key_of x \<notin> key_of ` set (stored (world s1))" "r = Done e" "var s' = var s1" by blast
    have "keyed (stored (world s'))" using news(6) x(1,4) by (simp add: keyed_append)
    moreover have "stored (world s') = stored (world s) @ (news @ [x])" using x(1) news(1) by simp
    moreover have "\<forall>z\<in>set (news @ [x]). member R rs cr m z \<and> alive z" using x(2,3) news(3) by simp
    moreover have "length (news @ [x]) = length (xs @ [i])" using news(2) by simp
    ultimately show "case r of
        Done a \<Rightarrow> var s' = var s \<and> a = errs \<and> keyed (stored (world s')) \<and>
          (\<exists>news. stored (world s') = stored (world s) @ news \<and> length news = length (xs @ [i]) \<and>
             (\<forall>x\<in>set news. member R rs cr m x \<and> alive x))
      | Panicked p \<Rightarrow> var s' = var s \<and> Panicked p = Done errs \<and> keyed (stored (world s')) \<and>
          (\<exists>news. stored (world s') = stored (world s) @ news \<and> length news = length is \<and>
             (\<forall>x\<in>set news. member R rs cr m x \<and> alive x))"
      using x(5,6) news(4,5) by auto
  qed
qed (use keyed in auto)

lemma ended_not_alive: "t \<noteq> 0 \<Longrightarrow> z \<in> set (ended t y) \<Longrightarrow> \<not> alive z"
  by (auto simp: ended_def alive_def GetDeletionTimestamp_IsZero_def time_IsZero_def split: if_splits)

lemma count_deleted:
  assumes "tells_controller (SR_Library R)" and "keyed rs'"
  shows "length (filter (member R rs cr m) (deleted t x rs')) \<le> length (filter (member R rs cr m) rs')"
    and "length (filter (member R rs cr m) rs') \<le> Suc (length (filter (member R rs cr m) (deleted t x rs')))"
proof -
  have one: "length (filter (member R rs cr m) (ended t y)) \<le> length (filter (member R rs cr m) [y])" for y
  proof -
    have "length (ended t y) \<le> 1" by (simp add: ended_def)
    then have "length (filter (member R rs cr m) (ended t y)) \<le> 1"
      using length_filter_le order_trans by blast
    moreover have "filter (member R rs cr m) (ended t y) = []" if "\<not> member R rs cr m y"
      using that member_ended [OF assms(1)] by (simp add: filter_empty_conv)
    ultimately show ?thesis by simp
  qed
  show "length (filter (member R rs cr m) (deleted t x rs')) \<le> length (filter (member R rs cr m) rs')"
  proof (induction rs')
    case (Cons y ys)
    then show ?case using one [of y] by auto
  qed simp
  have other: "deleted t x ys = ys" if "key_of x \<notin> key_of ` set ys" for ys
    using that by (induction ys) auto
  show "length (filter (member R rs cr m) rs') \<le> Suc (length (filter (member R rs cr m) (deleted t x rs')))"
    using assms(2)
  proof (induction rs')
    case (Cons y ys)
    then show ?case using other [of ys] by (cases "key_of y = key_of x") auto
  qed simp
qed

lemma delete_runners_stored:
  assumes env: "fleet_env R rs m stored" and keyed: "keyed (stored (world s))"
  shows "wp (for_each dels (delete_runner R) errs) (\<lambda>r s'. var s' = var s \<and> (\<exists>e. r = Done e) \<and>
    keyed (stored (world s')) \<and>
    filter (\<lambda>y. member R rs cr m y \<and> alive y) (stored (world s')) =
      filter (\<lambda>y. member R rs cr m y \<and> alive y \<and> key_of y \<notin> key_of ` set dels) (stored (world s)) \<and>
    length (filter (member R rs cr m) (stored (world s'))) \<le> length (filter (member R rs cr m) (stored (world s))) \<and>
    length (filter (member R rs cr m) (stored (world s))) \<le>
      length (filter (member R rs cr m) (stored (world s'))) + length dels) s"
proof (rule wp_for_each [where I = "\<lambda>xs e s'. var s' = var s \<and> keyed (stored (world s')) \<and>
    filter (\<lambda>y. member R rs cr m y \<and> alive y) (stored (world s')) =
      filter (\<lambda>y. member R rs cr m y \<and> alive y \<and> key_of y \<notin> key_of ` set xs) (stored (world s)) \<and>
    length (filter (member R rs cr m) (stored (world s'))) \<le> length (filter (member R rs cr m) (stored (world s))) \<and>
    length (filter (member R rs cr m) (stored (world s))) \<le>
      length (filter (member R rs cr m) (stored (world s'))) + length xs"], goal_cases)
  case (1 xs x ys e s1)
  have sv: "serves (RunnersOf (SR_Client R)) stored" and tells: "tells_controller (SR_Library R)"
    using env by (simp_all add: fleet_env_def)
  have k: "keyed (stored (world s1))" using 1(2) by simp
  have live: "filter (\<lambda>y. member R rs cr m y \<and> alive y) (deleted t x (stored (world s1))) =
      filter (\<lambda>y. member R rs cr m y \<and> alive y \<and> key_of y \<notin> key_of ` set (xs @ [x])) (stored (world s))"
    if "t \<noteq> 0" for t
  proof -
    have "filter (\<lambda>y. member R rs cr m y \<and> alive y) (deleted t x (stored (world s1))) =
        filter (\<lambda>y. key_of y \<noteq> key_of x) (filter (\<lambda>y. member R rs cr m y \<and> alive y) (stored (world s1)))"
      using ended_not_alive [OF that] by (subst filter_deleted_other) (auto intro: filter_cong)
    then show ?thesis using 1(2) by (auto intro: filter_cong)
  qed
  have counts: "length (filter (member R rs cr m) (deleted t x (stored (world s1))))
        \<le> length (filter (member R rs cr m) (stored (world s)))"
    "length (filter (member R rs cr m) (stored (world s)))
        \<le> Suc (length (filter (member R rs cr m) (deleted t x (stored (world s1)))) + length xs)" for t
    using 1(2) count_deleted [OF tells k, of rs cr m t x] by linarith+
  show ?case
    unfolding delete_runner_def wp_andthen wp_read_var
    by (simp, rule wp_delete [OF sv], simp add: wp_andthen wp_event wp_ret)
      (use 1(2) live keyed_deleted [OF k] counts in auto)
qed (use keyed in auto)

section \<open>The sync is a step of the fleet\<close>

lemma priority_alive:
  "delete_priority_of k \<le> delete_priority_of d \<Longrightarrow> alive d \<Longrightarrow> alive k"
  by (auto simp: delete_priority_of_def alive_def less_eq_delete_priority_def split: if_splits)

lemma length_filter_mset: "mset xs = mset ys \<Longrightarrow> length (filter P xs) = length (filter P ys)"
  by (metis mset_filter size_mset)

lemma surplus_live:
  assumes "sorts RunnersToDelete_Less srt" and "n < length runners"
    and "prioritizedRunnersToDelete srt runners (int (length runners) - int n) = (dels, runners')"
    and "keyed runners"
  shows "length dels = length runners - n"
    and "length (filter (\<lambda>r. alive r \<and> key_of r \<notin> key_of ` set dels) runners) = min (length (filter alive runners)) n"
proof -
  from prioritized_split [OF assms(1) _ assms(3)] assms(2) obtain kept
    where kept: "mset runners = mset dels + mset kept" "length dels = length runners - n"
      "\<forall>d\<in>set dels. \<forall>k\<in>set kept. delete_priority_of k \<le> delete_priority_of d" by auto
  show "length dels = length runners - n" by (rule kept(2))
  have parts: "mset runners = mset (dels @ kept)" using kept(1) by simp
  have "mset (map key_of runners) = mset (map key_of (dels @ kept))" using parts by simp
  then have "keyed (dels @ kept)"
    using assms(4) mset_eq_imp_distinct_iff unfolding keyed_def by blast
  then have apart: "key_of ` set dels \<inter> key_of ` set kept = {}" by (simp add: keyed_append)
  have len: "length kept = n"
    using arg_cong [OF kept(1), of size] kept(2) assms(2) by simp
  have "length (filter (\<lambda>r. alive r \<and> key_of r \<notin> key_of ` set dels) runners) =
      length (filter (\<lambda>r. alive r \<and> key_of r \<notin> key_of ` set dels) (dels @ kept))"
    by (rule length_filter_mset [OF parts])
  also have "\<dots> = length (filter alive kept)"
  proof -
    have "filter (\<lambda>r. alive r \<and> key_of r \<notin> key_of ` set dels) dels = []" by (auto simp: filter_empty_conv)
    moreover have "filter (\<lambda>r. alive r \<and> key_of r \<notin> key_of ` set dels) kept = filter alive kept"
      using apart by (auto intro!: filter_cong)
    ultimately show ?thesis by simp
  qed
  also have "\<dots> = min (length (filter alive runners)) n"
  proof (cases "\<exists>d\<in>set dels. alive d")
    case True
    with kept(3) priority_alive have "\<forall>k\<in>set kept. alive k" by blast
    then have "length (filter alive kept) = n" using len by simp
    moreover have "length (filter alive runners) \<ge> length (filter alive kept)"
      using length_filter_mset [OF parts, of alive] by simp
    ultimately show ?thesis by simp
  next
    case False
    then have "filter alive dels = []" by (simp add: filter_empty_conv)
    then have "length (filter alive runners) = length (filter alive kept)"
      using length_filter_mset [OF parts, of alive] by simp
    then show ?thesis using len length_filter_le [of alive kept] by simp
  qed
  finally show "length (filter (\<lambda>r. alive r \<and> key_of r \<notin> key_of ` set dels) runners) =
      min (length (filter alive runners)) n" .
qed

text \<open>Counting by views.\<close>

lemma count_views:
  assumes "map view xs = map view ys"
  shows "length (filter (\<lambda>r. P (view r)) xs) = length (filter (\<lambda>r. P (view r)) ys)"
proof -
  have "length (filter P (map view xs)) = length (filter P (map view ys))" using assms by simp
  then show ?thesis by (simp add: filter_map comp_def)
qed

lemma keyed_views: "map view xs = map view ys \<Longrightarrow> keyed xs = keyed ys"
proof -
  assume "map view xs = map view ys"
  then have "map (fst \<circ> view) xs = map (fst \<circ> view) ys" by (metis list.map_comp)
  then show ?thesis by (simp add: keyed_def view_def comp_def)
qed

lemma fleet_of_same: "same_members R rs cr m old new \<Longrightarrow> fleet_of R rs cr m new = fleet_of R rs cr m old"
proof -
  assume "same_members R rs cr m old new"
  then have v: "map view (filter (member R rs cr m) new) = map view (filter (member R rs cr m) old)"
    by (simp add: same_members_def)
  from count_views [OF v, of snd] count_views [OF v, of "\<lambda>x. \<not> snd x"] show ?thesis
    by (simp add: fleet_of_def view_def filter_filter conj_commute)
qed

lemma fleet_size: "length (filter (member R rs cr m) xs) = fst (fleet_of R rs cr m xs) + snd (fleet_of R rs cr m xs)"
  by (induction xs) (auto simp: fleet_of_def)

lemma sync_stored:
  assumes env: "fleet_env R rs m stored" and set: "same_set rs (var s)" and keyed: "keyed (stored (world s))"
    and views: "map view runners = map view (filter (member R rs cr m) (stored (world s)))"
    and n: "Runners (S_Spec rs) = Some n" "0 \<le> sint n"
  shows "wp (syncRunners R runners cr) (\<lambda>r s'. var s' = var s \<and> (\<exists>e xs. r = Done (e, xs)) \<and> keyed (stored (world s')) \<and>
    fleet_step (nat (sint n)) (fleet_of R rs cr m (stored (world s))) (fleet_of R rs cr m (stored (world s')))) s"
    (is "wp _ ?Q s")
proof -
  obtain a e where ae: "fleet_of R rs cr m (stored (world s)) = (a, e)" by fastforce
  have N: "Runners (S_Spec (var s)) = Some n" using set n(1) by (simp add: same_set_def)
  have len: "length runners = a + e"
    using arg_cong [OF views, of length] fleet_size [of R rs cr m "stored (world s)"] by (simp add: ae)
  have live: "length (filter alive runners) = a"
    using count_views [OF views, of snd] ae by (simp add: fleet_of_def view_def conj_commute)
  have kr: "keyed runners" using keyed_views [OF views] keyed by (simp add: keyed_filter)
  let ?n = "nat (sint n)" and ?d = "int (length runners) - sint n"
  consider (few) "?d < 0" | (many) "0 < ?d" | (right) "?d = 0" by linarith
  then show ?thesis
  proof cases
    case few
    have up: "fleet_step ?n (a, e) (fleet_of R rs cr m (stored (world s) @ news))"
      if "length news = nat (- ?d)" "\<forall>x\<in>set news. member R rs cr m x \<and> alive x" for news
    proof -
      have "filter (\<lambda>r. member R rs cr m r \<and> alive r) news = news"
        "filter (\<lambda>r. member R rs cr m r \<and> \<not> alive r) news = []"
        using that(2) by (auto simp: filter_empty_conv)
      then have "fleet_of R rs cr m (stored (world s) @ news) = (a + nat (- ?d), e)"
        using ae that(1) by (simp add: fleet_of_def)
      also have "a + nat (- ?d) = ?n - e" using few len n(2) by linarith
      finally show ?thesis using few len n(2) by (simp add: fleet_step.scale_up)
    qed
    have "wp (andthen (for_each [0..<nat (- ?d)] (create_runner R cr) [])
        (\<lambda>errs. ret (kerrors_NewAggregate (SR_Library R) errs, runners))) ?Q s"
      unfolding wp_andthen
      by (rule wp_mono [OF create_runners_stored [OF env set keyed]]) (use up ae in \<open>auto simp: wp_ret\<close>)
    with few N show ?thesis
      by (simp add: syncRunners_def wp_andthen wp_read_var Let_def)
  next
    case many
    obtain dels runners' where p: "prioritizedRunnersToDelete (SR_Sort R) runners ?d = (dels, runners')"
      by fastforce
    have srt: "sorts RunnersToDelete_Less (SR_Sort R)" using env by (simp add: fleet_env_def)
    have pn: "prioritizedRunnersToDelete (SR_Sort R) runners (int (length runners) - int ?n) = (dels, runners')"
      and less: "?n < length runners"
      using p many n(2) by simp_all
    note surplus = surplus_live [OF srt less pn kr]
    have left: "length (filter (\<lambda>y. member R rs cr m y \<and> alive y \<and> key_of y \<notin> key_of ` set dels) (stored (world s))) = min a ?n"
      using count_views [OF views, of "\<lambda>x. snd x \<and> fst x \<notin> key_of ` set dels"] surplus(2) live
      by (simp add: view_def conj_commute conj_left_commute)
    have down: "fleet_step ?n (a, e) (fleet_of R rs cr m new)"
      if "filter (\<lambda>y. member R rs cr m y \<and> alive y) new =
        filter (\<lambda>y. member R rs cr m y \<and> alive y \<and> key_of y \<notin> key_of ` set dels) (stored (world s))"
      "length (filter (member R rs cr m) new) \<le> length (filter (member R rs cr m) (stored (world s)))"
      "length (filter (member R rs cr m) (stored (world s))) \<le> length (filter (member R rs cr m) new) + length dels"
      for new
    proof -
      obtain a' e' where f: "fleet_of R rs cr m new = (a', e')" by (cases "fleet_of R rs cr m new")
      moreover have "fst (fleet_of R rs cr m new) = min a ?n"
        unfolding fleet_of_def fst_conv that(1) by (rule left)
      ultimately have e': "fleet_of R rs cr m new = (min a ?n, e')" by simp
      have "length (filter (member R rs cr m) (stored (world s))) = a + e"
        "length (filter (member R rs cr m) new) = min a ?n + e'"
        by (simp_all add: fleet_size ae e')
      with that(2,3) surplus(1) less len show ?thesis
        unfolding e' by (intro fleet_step.scale_down) linarith+
    qed
    have "wp (andthen (for_each dels (delete_runner R) [])
        (\<lambda>errs. ret (kerrors_NewAggregate (SR_Library R) errs, runners'))) ?Q s"
      unfolding wp_andthen
      by (rule wp_mono [OF delete_runners_stored [OF env keyed, where cr = cr]]) (use down ae in \<open>auto simp: wp_ret\<close>)
    with many N p show ?thesis
      by (simp add: syncRunners_def wp_andthen wp_read_var Let_def)
  next
    case right
    then have "?n = a + e" using len n(2) by linarith
    then have "fleet_step ?n (a, e) (min a ?n, e)" by (intro fleet_step.scale_down) simp_all
    with \<open>?n = a + e\<close> have "fleet_step ?n (a, e) (a, e)" by simp
    with right N keyed show ?thesis
      by (simp add: syncRunners_def wp_simps Let_def ae)
  qed
qed

end
