(* ===== verification/RunnerSet_Life.thy ===== *)
theory RunnerSet_Life
  imports RunnerSet_Fleet
begin

text \<open>
  The whole reconciliation of a runner set as a step of its fleet, and the life of the fleet over any
  number of reconciliations: it comes to the desired number of live runners and stays there.
\<close>

section \<open>Programs that leave the runners alone\<close>

text \<open>Requests for other kinds of objects leave the runners alone.\<close>

definition leaves_runners :: "('w, 'o) resource \<Rightarrow> ('w \<Rightarrow> runner list) \<Rightarrow> bool" where
  "leaves_runners c stored \<longleftrightarrow>
     (\<forall>sel w. stored (snd (ListAll c sel w)) = stored w) \<and>
     (\<forall>x w. stored (snd (Delete c x w)) = stored w) \<and>
     (\<forall>x y w. stored (snd (Patch c x y w)) = stored w) \<and>
     (\<forall>x y w. stored (snd (StatusPatch c x y w)) = stored w)"

lemma leaves_client [leaves_intros]:
  assumes "leaves_runners c stored"
  shows "leaves stored (client_List kd c sel)" "leaves stored (client_Delete k c x)"
    "leaves stored (client_Patch k c x y)" "leaves stored (client_StatusPatch k c x y)"
  using assms by (simp_all add: client_defs leaves_runners_def leaves_ext)

lemma leaves_TruncateHistory:
  assumes "leaves_runners (H_Client H) stored" and "leaves_runners (RevisionsOf (RE_Client E)) stored"
  shows "leaves stored (TruncateHistory H (RunnerSetRevisioner E) controlled)"
  using assms
  by (auto simp: TruncateHistory_def RunnerSetRevisioner_def RunnerSet_ListRevision_def keep_controlled_def
      truncate_revisions_def delete_revision_def Let_def
      intro!: leaves_intros split: sum.split option.split)

lemma leaves_Patcher_Patch:
  assumes "leaves_runners c stored"
  shows "leaves stored (Patcher_Patch U cv L k c p)"
  unfolding Patcher_Patch_def
  by (rule leaves_andthen)
    (auto intro!: leaves_intros assms simp: Let_def split: sum.splits prod.splits option.splits)

section \<open>A reconciliation of the set\<close>

definition set_env :: "'w runnerset_reconciler \<Rightarrow> 'w revisioner_env \<Rightarrow> ('w \<Rightarrow> runner list) \<Rightarrow> bool" where
  "set_env R E stored \<longleftrightarrow>
     SR_Revisioner R = RunnerSetRevisioner E \<and> leaves_runners (RevisionsOf (RE_Client E)) stored \<and>
     leaves_runners (RevisionsOf (SR_Client R)) stored \<and> leaves_runners (RunnerSetsOf (SR_Client R)) stored"

text \<open>A reconciliation from \<open>s\<close> that reads the set \<open>rs\<close>, in whatever version and with whatever status, and comes
  to a revision of the name of \<open>cr\<close>, the one of its template.\<close>

definition reads_set :: "'w runnerset_reconciler \<Rightarrow> object_key \<Rightarrow> ('w \<Rightarrow> runner list) \<Rightarrow> runnerset \<Rightarrow>
    controller_revision \<Rightarrow> ('w, runnerset) st \<Rightarrow> bool" where
  "reads_set R key stored rs cr s \<longleftrightarrow>
     (\<exists>v w patcher s1 cr'.
        Get (RunnerSetsOf (SR_Client R)) key (world s) = (Inr v, w) \<and> same_set rs v \<and> stored w = stored (world s) \<and>
        NewPatcher (SR_Unstructured R) (SR_Converter R) v = Inr patcher \<and>
        MakeHistory (history_of R) (SR_Fuel R) (SR_Revisioner R)
          (s\<lparr>world := w, trace := trace s @ [GetC KRunnerSet key], var := v\<rparr>) = (Done (Inr cr'), s1) \<and>
        Name (CR_Meta cr') = Name (CR_Meta cr) \<and> same_set rs (var s1) \<and> stored (world s1) = stored w)"

lemma fleet_of_revision: "Name (CR_Meta cr') = Name (CR_Meta cr) \<Longrightarrow> fleet_of R rs cr' m = fleet_of R rs cr m"
  by (simp add: fun_eq_iff fleet_of_def member_def outdated_def)

lemma reconcile_runnerset_stored:
  assumes env: "fleet_env R rs m stored" and senv: "set_env R E stored"
    and keyed: "keyed (stored (world s))" and set: "same_set rs (var s)"
    and live: "GetDeletionTimestamp_IsZero (S_Meta rs)"
    and sel: "metav1_LabelSelectorAsSelector (SR_Library R) (Selector (S_Spec rs)) = Inr sl"
    and made: "MakeHistory (history_of R) (SR_Fuel R) (SR_Revisioner R) s = (Done (Inr cr), s1)"
    and s1: "same_set rs (var s1)" "stored (world s1) = stored (world s)"
    and n: "Runners (S_Spec rs) = Some n" "0 \<le> sint n"
  shows "wp (reconcile_runnerset R) (\<lambda>r s'. keyed (stored (world s')) \<and>
    fleet_step (nat (sint n)) (fleet_of R rs cr m (stored (world s))) (fleet_of R rs cr m (stored (world s')))) s"
    (is "wp _ ?Q s")
proof -
  note v = same_setD(1,3) [OF set]
  have trunc: "stored (world s') = stored (world s2)"
    if "TruncateHistory (history_of R) (SR_Revisioner R) xs s2 = (r, s')" for xs s2 r s'
    using leavesD [OF leaves_TruncateHistory, of "history_of R" stored E xs s2] senv that
    by (simp add: set_env_def history_of_def)
  have rest: "wp (andthen (syncRunners R runners cr) (\<lambda>(err, runners).
      if err \<noteq> None then ret (no_requeue, err)
      else andthen (modify_var (\<lambda>s. if StatusRunners (S_Status s) = count_updated (HashLabelKey (SR_Revisioner R)) cr runners
              then set_CurrentRevision (Name (CR_Meta cr)) s else s)) (\<lambda>_.
           andthen (modify_var (set_StatusSelector (selector_String (SR_Library R) sl))) (\<lambda>_.
           andthen (TruncateHistory (history_of R) (SR_Revisioner R) (map (\<lambda>runner. Labels (R_Meta runner)) runners))
             (\<lambda>err. ret (no_requeue, err)))))) ?Q s2"
    if s2: "same_set rs (var s2)" "same_members R rs cr m (stored (world s)) (stored (world s2))"
      "map view runners = map view (filter (member R rs cr m) (stored (world s)))" for runners s2
    unfolding wp_andthen
  proof (rule wp_mono [OF sync_stored [OF env s2(1) _ _ n, where runners = runners and cr = cr]], goal_cases)
    case 1
    then show ?case using s2(2) by (simp add: same_members_def)
  next
    case 2
    then show ?case using s2(2,3) by (simp add: same_members_def)
  next
    case (3 r s3)
    then obtain e xs where r: "r = Done (e, xs)" by blast
    have "?Q x s4" if "stored (world s4) = stored (world s3)" for x s4
      using 3 that fleet_of_same [OF s2(2)] by simp
    then show ?case
      unfolding r by (auto simp: wp_ret wp_modify_var wp_andthen intro!: wpI split: outcome.split dest!: trunc)
  qed
  have found: "wp (findRunners R cr) (\<lambda>r s2. same_set rs (var s2) \<and>
      same_members R rs cr m (stored (world s)) (stored (world s2)) \<and>
      (\<exists>runners. r = Done (Inr runners) \<and>
         map view runners = map view (filter (member R rs cr m) (stored (world s))))) s1"
    using findRunners_stored [OF env s1(1), of cr] keyed s1(2) by simp
  have run: "wp (MakeHistory (history_of R) (SR_Fuel R) (SR_Revisioner R)) Q' s = Q' (Done (Inr cr)) s1" for Q'
    by (simp add: wp_def made)
  show ?thesis
    unfolding reconcile_runnerset_def wp_andthen [of read_var] wp_read_var
    by (simp add: v live sel) (simp only: wp_andthen [of "MakeHistory a b c" for a b c] run outcome.case sum.case
        wp_andthen [of "findRunners a b" for a b], rule wp_mono [OF found], use rest in auto)
qed

text \<open>A set that is not being deleted, with the number of runners it wants.\<close>

definition wants :: "'w runnerset_reconciler \<Rightarrow> runnerset \<Rightarrow> nat \<Rightarrow> bool" where
  "wants R rs n \<longleftrightarrow> GetDeletionTimestamp_IsZero (S_Meta rs) \<and>
     (\<exists>sl. metav1_LabelSelectorAsSelector (SR_Library R) (Selector (S_Spec rs)) = Inr sl) \<and>
     (\<exists>k. Runners (S_Spec rs) = Some k \<and> 0 \<le> sint k \<and> n = nat (sint k))"

lemma Reconcile_stored:
  assumes env: "fleet_env R rs m stored" and senv: "set_env R E stored" and n: "wants R rs n"
    and keyed: "keyed (stored (world s))" and reads: "reads_set R key stored rs cr s"
  shows "keyed (stored (world (snd (RunnerSet_Reconcile R key s))))"
    and "fleet_step n (fleet_of R rs cr m (stored (world s)))
      (fleet_of R rs cr m (stored (world (snd (RunnerSet_Reconcile R key s)))))"
proof -
  from reads obtain v w patcher s1
    and cr' where get: "Get (RunnerSetsOf (SR_Client R)) key (world s) = (Inr v, w)" and v: "same_set rs v"
      and w: "stored w = stored (world s)"
      and p: "NewPatcher (SR_Unstructured R) (SR_Converter R) v = Inr patcher"
      and made: "MakeHistory (history_of R) (SR_Fuel R) (SR_Revisioner R)
          (s\<lparr>world := w, trace := trace s @ [GetC KRunnerSet key], var := v\<rparr>) = (Done (Inr cr'), s1)"
      and cr': "Name (CR_Meta cr') = Name (CR_Meta cr)"
      and s1: "same_set rs (var s1)" "stored (world s1) = stored w"
    unfolding reads_set_def by blast
  from n obtain sl k where sl: "metav1_LabelSelectorAsSelector (SR_Library R) (Selector (S_Spec rs)) = Inr sl"
    and live: "GetDeletionTimestamp_IsZero (S_Meta rs)"
    and k: "Runners (S_Spec rs) = Some k" "0 \<le> sint k" "n = nat (sint k)"
    unfolding wants_def by blast
  let ?s = "s\<lparr>world := w, trace := trace s @ [GetC KRunnerSet key], var := v\<rparr>"
  let ?d = "Patcher_Patch (SR_Unstructured R) (SR_Converter R) (SR_Library R) ORunnerSet (RunnerSetsOf (SR_Client R)) patcher"
  have body: "wp (reconcile_runnerset R) (\<lambda>r s'. keyed (stored (world s')) \<and>
      fleet_step n (fleet_of R rs cr m (stored w)) (fleet_of R rs cr m (stored (world s')))) ?s"
    using reconcile_runnerset_stored [OF env senv _ _ live sl made s1(1) _ k(1,2)] keyed v w s1(2) k(3)
    by (simp add: fleet_of_revision [OF cr'])
  have "snd (RunnerSet_Reconcile R key s) = snd (deferred (reconcile_runnerset R) ?d patch_result ?s)"
    by (simp add: RunnerSet_Reconcile_def client_Get_def ext_def get run_andthen write_var_def p)
  also have "\<dots> = snd (?d (snd (reconcile_runnerset R ?s)))" by (rule deferred_state)
  finally have "stored (world (snd (RunnerSet_Reconcile R key s))) = stored (world (snd (reconcile_runnerset R ?s)))"
    using leavesD [OF leaves_Patcher_Patch [of "RunnerSetsOf (SR_Client R)" stored]] senv by (simp add: set_env_def)
  with wpD [OF body surjective_pairing] w
  show "keyed (stored (world (snd (RunnerSet_Reconcile R key s))))"
    and "fleet_step n (fleet_of R rs cr m (stored (world s)))
      (fleet_of R rs cr m (stored (world (snd (RunnerSet_Reconcile R key s)))))"
    by simp_all
qed

text \<open>C8. A reconciliation of a runner set is one step of the abstract fleet: with \<open>a\<close> live and \<open>e\<close> ending
  members (ending ones wait for their finalizer), it creates runners exactly up to the desired number
  of both together, and when there are too many it leaves the smaller of \<open>a\<close> and the desired number
  alive; so it never takes more live runners than are over the desired number, however many are
  ending.  Members that are complete, or outdated and idle under rolling updates, do not count.\<close>

theorem reconcile_refines_fleet_step:
  assumes "fleet_env R rs m stored" and "set_env R E stored" and "wants R rs n"
    and "keyed (stored (world s))" and "reads_set R key stored rs cr s"
  shows "fleet_step n (fleet_of R rs cr m (stored (world s)))
    (fleet_of R rs cr m (stored (world (snd (RunnerSet_Reconcile R key s)))))"
  by (rule Reconcile_stored(2) [OF assms])

section \<open>The life of a set\<close>

text \<open>Reconciliations under one template; departures: the runner controller takes the finalizer off
  an ending runner, which then leaves the store; and anything else, reconciliations that fail
  included, as long as the members stay members, live or ending as they are.\<close>

inductive set_life :: "'w runnerset_reconciler \<Rightarrow> object_key \<Rightarrow> ('w \<Rightarrow> runner list) \<Rightarrow> runnerset \<Rightarrow>
    controller_revision \<Rightarrow> string gomap \<Rightarrow> 'w \<Rightarrow> 'w \<Rightarrow> bool" for R key stored rs cr m w0 where
  set_start: "set_life R key stored rs cr m w0 w0"
| set_reconciled: "set_life R key stored rs cr m w0 (world s) \<Longrightarrow> reads_set R key stored rs cr s \<Longrightarrow>
    set_life R key stored rs cr m w0 (world (snd (RunnerSet_Reconcile R key s)))"
| set_departed: "set_life R key stored rs cr m w0 w \<Longrightarrow> stored w = xs @ r # ys \<Longrightarrow> \<not> alive r \<Longrightarrow>
    stored w' = xs @ ys \<Longrightarrow> set_life R key stored rs cr m w0 w'"
| set_elsewhere: "set_life R key stored rs cr m w0 w \<Longrightarrow> same_members R rs cr m (stored w) (stored w') \<Longrightarrow>
    set_life R key stored rs cr m w0 w'"

lemma fleet_of_departed:
  "\<not> alive r \<Longrightarrow> fleet_of R rs cr m (xs @ r # ys) = (a, e) \<Longrightarrow>
     fleet_of R rs cr m (xs @ ys) = (a, e - (if member R rs cr m r then 1 else 0)) \<and> (member R rs cr m r \<longrightarrow> 0 < e)"
  by (auto simp: fleet_of_def)

lemma set_life_moves:
  assumes life: "set_life R key stored rs cr m w0 w" and env: "fleet_env R rs m stored" "set_env R E stored" "wants R rs n"
    and keyed: "keyed (stored w0)"
  shows "keyed (stored w) \<and> fleet_moves n (fleet_of R rs cr m (stored w0)) (fleet_of R rs cr m (stored w))"
  using life
proof (induction rule: set_life.induct)
  case set_start
  then show ?case using keyed by (simp add: fleet_moves.rests)
next
  case (set_reconciled s)
  then show ?case
    using Reconcile_stored [OF env, of s key cr] by (blast intro: fleet_moves.reconciled)
next
  case (set_departed w xs r ys w')
  obtain a e where ae: "fleet_of R rs cr m (xs @ r # ys) = (a, e)" by fastforce
  note gone = fleet_of_departed [OF set_departed.hyps(3) ae]
  have "fleet_moves n (fleet_of R rs cr m (stored w0)) (fleet_of R rs cr m (xs @ ys))"
  proof (cases "member R rs cr m r")
    case True
    with gone obtain d where "e = Suc d" "fleet_of R rs cr m (xs @ ys) = (a, d)"
      by (cases e) auto
    with set_departed ae show ?thesis by (auto intro: fleet_moves.left)
  next
    case False
    with gone set_departed ae show ?thesis by simp
  qed
  moreover have "keyed (xs @ ys)" using set_departed by (auto simp: keyed_append)
  ultimately show ?case using set_departed.hyps(4) by simp
next
  case (set_elsewhere w w')
  then show ?case using fleet_of_same [OF set_elsewhere.hyps(2)] by (simp add: same_members_def)
qed

text \<open>C9. The runner set converges, however its reconciliations are interleaved with departures and with
  whatever else leaves the members as they are: at every moment, the live members are no fewer than
  the smaller of the desired number and what there was at first, and no more than the larger; and
  once a reconciliation starts with none of the members ending, exactly the desired number is alive
  from then on, through every later reconciliation and departure.\<close>

theorem runnerset_converges:
  assumes env: "fleet_env R rs m stored" "set_env R E stored" "wants R rs n" and "keyed (stored w0)"
  shows "(\<forall>w. set_life R key stored rs cr m w0 w \<longrightarrow>
      min (fst (fleet_of R rs cr m (stored w0))) n \<le> fst (fleet_of R rs cr m (stored w)) \<and>
      fst (fleet_of R rs cr m (stored w)) \<le> max (fst (fleet_of R rs cr m (stored w0))) n) \<and>
    (\<forall>s w. set_life R key stored rs cr m w0 (world s) \<longrightarrow> reads_set R key stored rs cr s \<longrightarrow>
      snd (fleet_of R rs cr m (stored (world s))) = 0 \<longrightarrow>
      set_life R key stored rs cr m (world (snd (RunnerSet_Reconcile R key s))) w \<longrightarrow>
      fst (fleet_of R rs cr m (stored w)) = n)"
proof (intro conjI allI impI)
  let ?fleet = "\<lambda>w. fleet_of R rs cr m (stored w)"
  show "min (fst (?fleet w0)) n \<le> fst (?fleet w)" "fst (?fleet w) \<le> max (fst (?fleet w0)) n"
    if "set_life R key stored rs cr m w0 w" for w
    using set_life_moves [OF that env assms(4)] fleet_moves_floor by blast+
  fix s w
  assume before: "set_life R key stored rs cr m w0 (world s)" and reads: "reads_set R key stored rs cr s"
    and settled: "snd (?fleet (world s)) = 0"
    and after: "set_life R key stored rs cr m (world (snd (RunnerSet_Reconcile R key s))) w"
  from set_life_moves [OF before env assms(4)] have k: "keyed (stored (world s))" by simp
  note step = Reconcile_stored [OF env k reads]
  have "fst (?fleet (world (snd (RunnerSet_Reconcile R key s)))) = n"
    using step(2) settled fleet_step_settles by (metis prod.collapse)
  with set_life_moves [OF after env step(1)] show "fst (?fleet w) = n"
    using fleet_moves_settled by (metis prod.collapse)
qed

section \<open>A store of runners\<close>

text \<open>A server whose world is the list of its runners, and a set that wants three of them.\<close>

definition stored_name :: "runner list \<Rightarrow> string" where
  "stored_name ws = concat (map (\<lambda>r. Name (R_Meta r)) ws) @ ''x''"

definition store_resource :: "(runner list, runner) resource" where
  "store_resource =
     \<lparr>Get = (\<lambda>key ws. (case find (\<lambda>r. key_of r = key) ws of Some r \<Rightarrow> Inr r | None \<Rightarrow> Inl sample_not_found, ws)),
      ListAll = (\<lambda>sel ws. (case sel of InNamespaceMatchingLabels ns mp \<Rightarrow> Inr (filter (selected ns mp) ws)
        | _ \<Rightarrow> Inr ws, ws)),
      Create = (\<lambda>x ws. ((None, x), ws @ [x])),
      Update = (\<lambda>x ws. ((None, x), replaced x ws)),
      Patch = (\<lambda>b x ws.
        let y = x\<lparr>R_Status := R_Status b, R_Meta := (R_Meta x)\<lparr>ResourceVersion := ''2''\<rparr>\<rparr> in ((None, y), written b y ws)),
      StatusPatch = (\<lambda>b x ws.
        let y = b\<lparr>R_Status := R_Status x, R_Meta := (R_Meta b)\<lparr>ResourceVersion := ''2''\<rparr>\<rparr> in ((None, y), replaced y ws)),
      Delete = (\<lambda>x ws. (None, deleted 1 x ws)),
      Fetch = (\<lambda>x ws. (Inr (if Name (R_Meta x) = [] then x
        else case find (\<lambda>r. key_of r = key_of x) ws of Some r \<Rightarrow> r | None \<Rightarrow> x), ws)),
      Commit = (\<lambda>x y ws.
        let y' = (if Name (R_Meta y) = [] then y\<lparr>R_Meta := (R_Meta y)\<lparr>Name := GenerateName (R_Meta y) @ stored_name ws\<rparr>\<rparr> else y)
        in ((None, y'), ws @ [y']))\<rparr>"

lemma stored_name_new: "r \<in> set ws \<Longrightarrow> length (Name (R_Meta r)) < length (stored_name ws)"
proof -
  assume "r \<in> set ws"
  then have "length (Name (R_Meta r)) \<le> sum_list (map (\<lambda>r. length (Name (R_Meta r))) ws)"
    by (induction ws) auto
  then show ?thesis by (simp add: stored_name_def length_concat comp_def)
qed

lemma store_serves: "serves store_resource (\<lambda>ws. ws)"
proof -
  have new: "key_of (y\<lparr>R_Meta := (R_Meta y)\<lparr>Name := p @ stored_name ws\<rparr>\<rparr>) \<notin> key_of ` set ws" for y p ws
  proof
    assume "key_of (y\<lparr>R_Meta := (R_Meta y)\<lparr>Name := p @ stored_name ws\<rparr>\<rparr>) \<in> key_of ` set ws"
    then obtain r where r: "r \<in> set ws" "p @ stored_name ws = Name (R_Meta r)"
      by (auto simp: key_of_def ObjectKeyFromObject_def)
    from stored_name_new [OF r(1)] show False unfolding r(2) [symmetric] by simp
  qed
  have created: "created_from y (y\<lparr>R_Meta := (R_Meta y)\<lparr>Name := k\<rparr>\<rparr>)" for y k
    unfolding created_from_def
    by (intro exI [of _ k] exI [of _ "UID (R_Meta y)"] exI [of _ "ResourceVersion (R_Meta y)"]
        exI [of _ "CreationTimestamp (R_Meta y)"] exI [of _ "R_Spec y"]) simp
  show ?thesis
    unfolding serves_def store_resource_def
    by (auto simp: Let_def new created written_def intro: exI [of _ "1 :: int"])
qed

definition fleet_env_of :: "runner list revisioner_env" where
  "fleet_env_of = sample_revisioner_env (sample_resource (sample_revision ''s1-1'' 1) [])"

text \<open>The set as it is read: its version goes with the runners, as it does when each reconciliation patches
  the status of the set.\<close>

definition seen_set :: "string \<Rightarrow> runnerset" where
  "seen_set v = (sample_runnerset 3)\<lparr>S_Meta := (S_Meta (sample_runnerset 3))\<lparr>ResourceVersion := v\<rparr>\<rparr>"

lemma seen_set_same: "same_set (sample_runnerset 3) (seen_set v)"
  by (simp add: same_set_def seen_set_def)

definition fleet_reconciler :: "runner list runnerset_reconciler" where
  "fleet_reconciler =
     \<lparr>SR_Client = (sample_cluster (sample_runner None [] []) (sample_secret None None) sample_ready_pod)
        \<lparr>RunnersOf := store_resource, RunnerSetsOf := (sample_resource (sample_runnerset 3) [])
          \<lparr>Get := (\<lambda>key ws. (Inr (seen_set (stored_name ws)), ws))\<rparr>\<rparr>,
      SR_Library = sample_library 0, SR_Unstructured = sample_unstructured,
      SR_Converter = sample_runnerset_json, SR_Revisioner = RunnerSetRevisioner fleet_env_of,
      SR_DeepEqual = (=), SR_RetryOnConflict = (\<lambda>f x. f x),
      SR_Sort = sort_Stable RunnersToDelete_Less, SR_Fuel = 1\<rparr>"

lemma controller_of_append:
  "sample_controller_of (xs @ ys) =
     (case sample_controller_of xs of None \<Rightarrow> sample_controller_of ys | Some r \<Rightarrow> Some r)"
  by (induction xs) auto

lemma fleet_reconciler_env:
  "fleet_env fleet_reconciler (sample_runnerset 3) None (\<lambda>ws. ws)"
  "set_env fleet_reconciler fleet_env_of (\<lambda>ws. ws)"
  "wants fleet_reconciler (sample_runnerset 3) 3"
proof -
  have "\<exists>refs. ctrl_SetControllerReference (sample_library 0) owner mt = Inr (mt\<lparr>OwnerReferences := refs\<rparr>) \<and>
      metav1_IsControlledBy (sample_library 0) (mt\<lparr>OwnerReferences := refs\<rparr>) owner"
    if "metav1_GetControllerOf (sample_library 0) mt = None" for mt owner
    using that
    by (intro exI [of _ "OwnerReferences mt @ [sample_controller_ref owner]"])
      (simp add: sample_library_def controller_of_append sample_controller_ref_def)
  note refs = this
  have uid: "metav1_IsControlledBy (sample_library 0) m owner = metav1_IsControlledBy (sample_library 0) m owner'"
    if "UID owner = UID owner'" for m owner owner'
    using that by (simp add: sample_library_def split: option.split)
  have "tells_controller (sample_library 0 :: runner list library)"
    unfolding tells_controller_def
  proof (intro conjI, goal_cases)
    case 3
    then show ?case using uid by blast
  next
    case 4
    then show ?case using refs by blast
  qed (simp_all add: sample_library_def)
  then show "fleet_env fleet_reconciler (sample_runnerset 3) None (\<lambda>ws. ws)"
    by (simp add: fleet_env_def fleet_reconciler_def store_serves to_delete.sorts_sort_Stable
        selects_template_def) (simp add: sample_library_def sample_runnerset_def)
  show "set_env fleet_reconciler fleet_env_of (\<lambda>ws. ws)"
    by (simp add: set_env_def leaves_runners_def fleet_reconciler_def fleet_env_of_def sample_revisioner_env_def
        sample_cluster_def sample_resource_def)
  show "wants fleet_reconciler (sample_runnerset 3) 3"
    by (simp add: wants_def fleet_reconciler_def sample_library_def sample_runnerset_def sample_meta_def
        empty_meta_def GetDeletionTimestamp_IsZero_def)
qed

definition fleet_start :: "runner list \<Rightarrow> (runner list, runnerset) st" where
  "fleet_start ws = start ws (seen_set [])"

definition fleet_revision :: controller_revision where
  "fleet_revision = (case fst (MakeHistory (history_of fleet_reconciler) 1 (SR_Revisioner fleet_reconciler)
     (fleet_start [])) of Done (Inr cr) \<Rightarrow> cr)"

lemma fleet_history:
  "fst (MakeHistory (history_of fleet_reconciler) (SR_Fuel fleet_reconciler) (SR_Revisioner fleet_reconciler) 
     \<lparr>world = ws, trace = tr, var = seen_set v\<rparr>) = Done (Inr fleet_revision) \<and>
   world (snd (MakeHistory (history_of fleet_reconciler) (SR_Fuel fleet_reconciler) (SR_Revisioner fleet_reconciler) 
     \<lparr>world = ws, trace = tr, var = seen_set v\<rparr>)) = ws \<and>
   var (snd (MakeHistory (history_of fleet_reconciler) (SR_Fuel fleet_reconciler) (SR_Revisioner fleet_reconciler) 
     \<lparr>world = ws, trace = tr, var = seen_set v\<rparr>)) = seen_set v"
  by code_simp

lemma fleet_reads:
  "reads_set fleet_reconciler sample_key (\<lambda>ws. ws) (sample_runnerset 3) fleet_revision (fleet_start ws)"
proof -
  let ?v = "seen_set (stored_name ws)"
  let ?s = "\<lparr>world = ws, trace = [GetC KRunnerSet sample_key], var = ?v\<rparr>"
  obtain patcher where "NewPatcher (SR_Unstructured fleet_reconciler) (SR_Converter fleet_reconciler) ?v = Inr patcher"
    by (simp add: NewPatcher_def fleet_reconciler_def sample_runnerset_json_def sample_unstructured_def)
  moreover have "Get (RunnerSetsOf (SR_Client fleet_reconciler)) sample_key (world (fleet_start ws)) = (Inr ?v, ws)"
    by (simp add: fleet_reconciler_def fleet_start_def start_def)
  moreover have "(fleet_start ws)\<lparr>world := ws, trace := trace (fleet_start ws) @ [GetC KRunnerSet sample_key],
      var := ?v\<rparr> = ?s"
    by (simp add: fleet_start_def start_def)
  moreover obtain s1 where "MakeHistory (history_of fleet_reconciler) (SR_Fuel fleet_reconciler)
      (SR_Revisioner fleet_reconciler) ?s = (Done (Inr fleet_revision), s1)" "world s1 = ws" "var s1 = ?v"
    using fleet_history [of ws "[GetC KRunnerSet sample_key]"] by (metis prod.collapse)
  ultimately show ?thesis
    using seen_set_same unfolding reads_set_def by (auto simp: fleet_start_def start_def)
qed

text \<open>One pending runner and one that is ending.\<close>

definition fleet_runners :: "runner list" where
  "fleet_runners = [set_runner RunnerPendingPhase,
     (set_runner RunnerIdlePhase)\<lparr>R_Meta := sample_meta\<lparr>Name := ''r2'', DeletionTimestamp := Some 1,
        Finalizers := [''f''], Labels := Some (fmupd LabelControllerRevisionHash (Name (CR_Meta fleet_revision)) fmempty)\<rparr>\<rparr>]"

lemma fleet_runners_fleet:
  "fleet_of fleet_reconciler (sample_runnerset 3) fleet_revision None fleet_runners = (1, 1)" 
  "fleet_of fleet_reconciler (sample_runnerset 3) fleet_revision None (take 1 fleet_runners) = (1, 0)" 
  by code_simp+

lemma fleet_runners_keyed: "keyed fleet_runners"
  by code_simp

lemma reconcile_refines_fleet_step_witness:
  "fleet_of fleet_reconciler (sample_runnerset 3) fleet_revision None
     (world (snd (RunnerSet_Reconcile fleet_reconciler sample_key (fleet_start fleet_runners)))) = (2, 1)"
proof -
  have "fleet_step 3 (fleet_of fleet_reconciler (sample_runnerset 3) fleet_revision None (world (fleet_start fleet_runners)))
     (fleet_of fleet_reconciler (sample_runnerset 3) fleet_revision None
     (world (snd (RunnerSet_Reconcile fleet_reconciler sample_key (fleet_start fleet_runners)))))"
    using reconcile_refines_fleet_step [OF fleet_reconciler_env _ fleet_reads] fleet_runners_keyed
    by (simp add: fleet_start_def start_def)
  then show ?thesis
    by (auto simp: fleet_start_def start_def fleet_runners_fleet elim: fleet_stepE)
qed

text \<open>The ending runner leaves, then the set is reconciled twice.\<close>

definition fleet_world :: "runner list \<Rightarrow> runner list" where
  "fleet_world ws = world (snd (RunnerSet_Reconcile fleet_reconciler sample_key (fleet_start ws)))"

lemma runnerset_converges_witness:
  "1 \<le> fst (fleet_of fleet_reconciler (sample_runnerset 3) fleet_revision None (fleet_world fleet_runners)) \<and>
   fst (fleet_of fleet_reconciler (sample_runnerset 3) fleet_revision None
     (fleet_world (fleet_world (take 1 fleet_runners)))) = 3"
proof -
  let ?life = "set_life fleet_reconciler sample_key (\<lambda>ws. ws) (sample_runnerset 3) fleet_revision None"
  note converges = runnerset_converges [OF fleet_reconciler_env fleet_runners_keyed, of sample_key fleet_revision]
  have w: "world (fleet_start ws) = ws" for ws by (simp add: fleet_start_def start_def)
  have step: "?life w0 (fleet_world ws)" if "?life w0 ws" for w0 ws
    using set_life.set_reconciled [OF _ fleet_reads] that w by (simp add: fleet_world_def)
  have "?life fleet_runners (take 1 fleet_runners)"
    by (rule set_life.set_departed [OF set_life.set_start, where xs = "take 1 fleet_runners" and r = "fleet_runners ! 1" and ys = "[]"])
      (simp_all add: fleet_runners_def alive_def GetDeletionTimestamp_IsZero_def time_IsZero_def)
  moreover have "snd (fleet_of fleet_reconciler (sample_runnerset 3) fleet_revision None (take 1 fleet_runners)) = 0"
    unfolding fleet_runners_fleet by simp
  moreover have "?life (fleet_world (take 1 fleet_runners)) (fleet_world (fleet_world (take 1 fleet_runners)))"
    by (rule step [OF set_life.set_start])
  ultimately have "fst (fleet_of fleet_reconciler (sample_runnerset 3) fleet_revision None
     (fleet_world (fleet_world (take 1 fleet_runners)))) = 3"
    using conjunct2 [OF converges] fleet_reads [of "take 1 fleet_runners"] unfolding fleet_world_def by (metis w)
  moreover have "1 \<le> fst (fleet_of fleet_reconciler (sample_runnerset 3) fleet_revision None (fleet_world fleet_runners))"
    using conjunct1 [OF converges] step [OF set_life.set_start, of fleet_runners] fleet_runners_fleet(1) by fastforce
  ultimately show ?thesis by blast
qed

end
