(* ===== verification/Joint_Controllers.thy ===== *)
theory Joint_Controllers
  imports RunnerSet_Life Runner_Lifecycle
begin

text \<open>
  Both controllers on one store of runners.  The runner set controller deletes a runner, which only marks
  it as ending; the runner controller cleans up behind it and takes the finalizer off, so that it leaves
  the store; then the runner set controller makes the next one.  The departures that \<open>set_life\<close> takes
  for granted are here what \<open>Reconcile\<close> of the runner controller does.
\<close>

section \<open>What the runner controller relies on\<close>

text \<open>Documented behaviour of the server for the two writes of the patch helper to an ending runner: the
  patch of its finalizers, which removes the runner with the last one, and the patch of its status.\<close>

definition serves_owner :: "('w, runner) resource \<Rightarrow> ('w \<Rightarrow> runner list) \<Rightarrow> bool" where
  "serves_owner c stored \<longleftrightarrow>
     (\<forall>r w. keyed (stored w) \<longrightarrow> r \<in> set (stored w) \<longrightarrow>
        (\<exists>w'. Get c (key_of r) w = (Inr r, w') \<and> stored w' = stored w)) \<and>
     (\<forall>b fs w. b \<in> set (stored w) \<longrightarrow> (\<exists>v w'.
        Patch c b (b\<lparr>R_Meta := (R_Meta b)\<lparr>Finalizers := fs\<rparr>\<rparr>) w =
          ((None, b\<lparr>R_Meta := (R_Meta b)\<lparr>Finalizers := fs, ResourceVersion := v\<rparr>\<rparr>), w') \<and>
        stored w' = written b (b\<lparr>R_Meta := (R_Meta b)\<lparr>Finalizers := fs, ResourceVersion := v\<rparr>\<rparr>) (stored w))) \<and>
     (\<forall>b st w. b \<in> set (stored w) \<longrightarrow> (\<exists>v w'.
        StatusPatch c b (b\<lparr>R_Status := st\<rparr>) w =
          ((None, b\<lparr>R_Status := st, R_Meta := (R_Meta b)\<lparr>ResourceVersion := v\<rparr>\<rparr>), w') \<and>
        stored w' = replaced (b\<lparr>R_Status := st, R_Meta := (R_Meta b)\<lparr>ResourceVersion := v\<rparr>\<rparr>) (stored w)))"

text \<open>The finalizer helper removes the one finalizer.\<close>

definition removes_finalizer :: "'w library \<Rightarrow> bool" where
  "removes_finalizer L \<longleftrightarrow>
     (\<forall>mt f. controllerutil_RemoveFinalizer L mt f = mt\<lparr>Finalizers := removeAll f (Finalizers mt)\<rparr>)"

text \<open>The unstructured form of a runner is its status and the rest, and shows the phase and the
  finalizers.\<close>

definition json_form :: "unstructured_lib \<Rightarrow> runner converter \<Rightarrow> bool" where
  "json_form U cv \<longleftrightarrow> (\<exists>rest st.
     (\<forall>r. split_status U cv r = Some (rest r, Some (st (R_Status r)), True)) \<and>
     (\<forall>r s. rest (r\<lparr>R_Status := s\<rparr>) = rest r) \<and>
     (\<forall>r r'. Finalizers (R_Meta r) \<noteq> Finalizers (R_Meta r') \<longrightarrow> rest r \<noteq> rest r') \<and>
     (\<forall>s s'. Phase s \<noteq> Phase s' \<longrightarrow> st s \<noteq> st s'))"

definition runner_env :: "'w runner_reconciler \<Rightarrow> ('w \<Rightarrow> runner list) \<Rightarrow> bool" where
  "runner_env R stored \<longleftrightarrow>
     serves_owner (RunnersOf (RR_Client R)) stored \<and> apart R stored \<and>
     removes_finalizer (RR_Library R) \<and> json_form (RR_Unstructured R) (RR_Converter R)"

section \<open>The patch on the store\<close>

lemma split_statusD:
  assumes "split_status U cv x = Some (rest, st, True)"
  obtains mp where "ToUnstructured cv x = Inr mp" "NestedFieldCopy U mp [''status''] = (st, True, None)"
    "RemoveNestedField U mp [''status''] = rest"
  using assms that by (auto simp: split_status_def split: sum.splits prod.splits if_splits)

text \<open>What the patch helper sends for an ending runner, and what becomes of the store.\<close>

lemma patch_ending:
  assumes serves: "serves_owner c stored" and json: "json_form U cv"
    and r: "r \<in> set (stored (world s))" and p: "NewPatcher U cv r = Inr p"
  shows "var s = r \<Longrightarrow> stored (world (snd (Patcher_Patch U cv L k c p s))) = stored (world s)"
    and "var s = r\<lparr>R_Meta := (R_Meta r)\<lparr>Finalizers := fs\<rparr>\<rparr> \<Longrightarrow> fs \<noteq> Finalizers (R_Meta r) \<Longrightarrow>
      \<exists>v. stored (world (snd (Patcher_Patch U cv L k c p s))) =
        written r (r\<lparr>R_Meta := (R_Meta r)\<lparr>Finalizers := fs, ResourceVersion := v\<rparr>\<rparr>) (stored (world s))"
    and "var s = r\<lparr>R_Status := st'\<rparr> \<Longrightarrow> Phase st' \<noteq> Phase (R_Status r) \<Longrightarrow>
      \<exists>v. stored (world (snd (Patcher_Patch U cv L k c p s))) =
        replaced (r\<lparr>R_Status := st', R_Meta := (R_Meta r)\<lparr>ResourceVersion := v\<rparr>\<rparr>) (stored (world s))"
proof -
  from json obtain rest st where split: "\<And>x. split_status U cv x = Some (rest x, Some (st (R_Status x)), True)"
    and same: "\<And>x y. rest (x\<lparr>R_Status := y\<rparr>) = rest x"
    and diff: "\<And>x y. Finalizers (R_Meta x) \<noteq> Finalizers (R_Meta y) \<Longrightarrow> rest x \<noteq> rest y"
      "\<And>x y. Phase x \<noteq> Phase y \<Longrightarrow> st x \<noteq> st y"
    unfolding json_form_def by blast
  have pf: "before p = rest r" "beforeStatus p = Some (st (R_Status r))" "beforeHasStatus p"
    "patch p = r" "statusPatch p = r"
    using NewPatcher_split [OF p] split [of r] by simp_all
  obtain mp where mp: "ToUnstructured cv (var s) = Inr mp"
    "NestedFieldCopy U mp [''status''] = (Some (st (R_Status (var s))), True, None)"
    "RemoveNestedField U mp [''status''] = rest (var s)"
    using split [of "var s"] by (rule split_statusD)
  note run = Patcher_Patch_def run_andthen read_var_def pf Let_def client_defs ext_def write_var_def
  show "stored (world (snd (Patcher_Patch U cv L k c p s))) = stored (world s)" if "var s = r"
    using that mp by (simp add: run)
  show "\<exists>v. stored (world (snd (Patcher_Patch U cv L k c p s))) =
        written r (r\<lparr>R_Meta := (R_Meta r)\<lparr>Finalizers := fs, ResourceVersion := v\<rparr>\<rparr>) (stored (world s))"
    if v: "var s = r\<lparr>R_Meta := (R_Meta r)\<lparr>Finalizers := fs\<rparr>\<rparr>" and fs: "fs \<noteq> Finalizers (R_Meta r)"
  proof -
    from serves r obtain v w' where "Patch c r (r\<lparr>R_Meta := (R_Meta r)\<lparr>Finalizers := fs\<rparr>\<rparr>) (world s) =
          ((None, r\<lparr>R_Meta := (R_Meta r)\<lparr>Finalizers := fs, ResourceVersion := v\<rparr>\<rparr>), w')"
        "stored w' = written r (r\<lparr>R_Meta := (R_Meta r)\<lparr>Finalizers := fs, ResourceVersion := v\<rparr>\<rparr>) (stored (world s))"
      unfolding serves_owner_def by blast
    moreover have "rest r \<noteq> rest (var s)" using fs v by (intro diff) simp
    ultimately show ?thesis using v mp by (auto simp: run)
  qed
  show "\<exists>v. stored (world (snd (Patcher_Patch U cv L k c p s))) =
        replaced (r\<lparr>R_Status := st', R_Meta := (R_Meta r)\<lparr>ResourceVersion := v\<rparr>\<rparr>) (stored (world s))"
    if v: "var s = r\<lparr>R_Status := st'\<rparr>" and ph: "Phase st' \<noteq> Phase (R_Status r)"
  proof -
    from serves r obtain v w' where "StatusPatch c r (r\<lparr>R_Status := st'\<rparr>) (world s) =
          ((None, r\<lparr>R_Status := st', R_Meta := (R_Meta r)\<lparr>ResourceVersion := v\<rparr>\<rparr>), w')"
        "stored w' = replaced (r\<lparr>R_Status := st', R_Meta := (R_Meta r)\<lparr>ResourceVersion := v\<rparr>\<rparr>) (stored (world s))"
      unfolding serves_owner_def by blast
    moreover have "st (R_Status r) \<noteq> st st'" using ph by (intro diff) simp
    ultimately show ?thesis using v mp same by (auto simp: run)
  qed
qed

section \<open>Reconciling an ending runner\<close>

lemma not_alive: "\<not> alive r \<longleftrightarrow> deleting r"
  by (simp add: alive_def)

text \<open>The two writes that end a runner: it is complete, or the finalizer is off.\<close>

definition completed :: "runner \<Rightarrow> runner" where
  "completed r = r\<lparr>R_Status := (R_Status r)\<lparr>Phase := RunnerCompletePhase\<rparr>\<rparr>"

definition released :: "runner \<Rightarrow> runner" where
  "released r = r\<lparr>R_Meta := (R_Meta r)\<lparr>Finalizers := removeAll RunnerController (Finalizers (R_Meta r))\<rparr>\<rparr>"

definition ended_in :: "runner \<Rightarrow> runner list \<Rightarrow> runner list \<Rightarrow> bool" where
  "ended_in r old new \<longleftrightarrow>
     (if Phase (R_Status r) = RunnerActivePhase then \<exists>v. new = replaced (versioned v (completed r)) old
      else \<exists>v. new = written r (versioned v (released r)) old)"

text \<open>What the body of the reconciliation makes of the runner is what reaches the store.\<close>

lemma Reconcile_ending_state:
  assumes env: "runner_env R stored" and keyed: "keyed (stored (world s))"
    and r: "r \<in> set (stored (world s))" and ending: "\<not> alive r"
  obtains s0 out s1 where "var s0 = r" "deleting (var s0)" "reconcile_runner R s0 = (out, s1)"
    "var s1 = r \<Longrightarrow> stored (world (snd (Reconcile R (key_of r) s))) = stored (world s)"
    "Phase (R_Status r) = RunnerActivePhase \<Longrightarrow> var s1 = completed r \<Longrightarrow>
       ended_in r (stored (world s)) (stored (world (snd (Reconcile R (key_of r) s))))"
    "Phase (R_Status r) \<noteq> RunnerActivePhase \<Longrightarrow> var s1 = released r \<Longrightarrow> released r \<noteq> r \<Longrightarrow>
       ended_in r (stored (world s)) (stored (world (snd (Reconcile R (key_of r) s))))"
proof -
  from env keyed r obtain w' where get: "Get (RunnersOf (RR_Client R)) (key_of r) (world s) = (Inr r, w')"
    and w': "stored w' = stored (world s)"
    unfolding runner_env_def serves_owner_def by blast
  let ?s0 = "s\<lparr>world := w', trace := trace s @ [GetC KRunner (key_of r)], var := r\<rparr>"
  have serves: "serves_owner (RunnersOf (RR_Client R)) stored" and json: "json_form (RR_Unstructured R) (RR_Converter R)"
    and apart: "apart R stored"
    using env by (simp_all add: runner_env_def)
  from json obtain p where p: "NewPatcher (RR_Unstructured R) (RR_Converter R) r = Inr p"
    unfolding json_form_def by (metis NewPatcher_exists)
  obtain out s1 where body: "reconcile_runner R ?s0 = (out, s1)" by fastforce
  have "reconcile_deletion R (podForRunner (RR_MapOrder R) r) (secretForRunner r) ?s0 = (out, s1)"
    using ending body by (simp add: reconcile_runner_def run_andthen read_var_def Let_def alive_def)
  then have left: "stored (world s1) = stored (world s)"
    using leavesD [OF leaves_reconcile_deletion [OF apart], of "podForRunner (RR_MapOrder R) r" "secretForRunner r" ?s0]
      w' by simp
  have run: "snd (Reconcile R (key_of r) s) = snd (Patcher_Patch (RR_Unstructured R) (RR_Converter R) (RR_Library R) ORunner
       (RunnersOf (RR_Client R)) p s1)"
    by (simp add: Reconcile_def client_Get_def ext_def get run_andthen write_var_def p deferred_state body)
  have "r \<in> set (stored (world s1))" using r left by simp
  note sent = patch_ending [OF serves json this p, where L = "RR_Library R" and k = ORunner, folded run, unfolded left]
  show thesis
  proof (rule that [of ?s0, OF _ _ body])
    show "ended_in r (stored (world s)) (stored (world (snd (Reconcile R (key_of r) s))))"
      if "Phase (R_Status r) = RunnerActivePhase" "var s1 = completed r"
      using sent(3) [of "(R_Status r)\<lparr>Phase := RunnerCompletePhase\<rparr>"] that
      by (auto simp: ended_in_def completed_def versioned_def)
    show "ended_in r (stored (world s)) (stored (world (snd (Reconcile R (key_of r) s))))"
      if "Phase (R_Status r) \<noteq> RunnerActivePhase" "var s1 = released r" "released r \<noteq> r"
    proof -
      have "removeAll RunnerController (Finalizers (R_Meta r)) \<noteq> Finalizers (R_Meta r)"
        using that(3) by (auto simp: released_def)
      from sent(2) [OF _ this] that(1,2) show ?thesis by (auto simp: ended_in_def released_def versioned_def)
    qed
  qed (use sent(1) ending in \<open>simp_all add: alive_def\<close>)
qed

lemma deletion_var:
  assumes "deleting (var s)" and "removes_finalizer (RR_Library R)"
  shows "wp (reconcile_runner R) (\<lambda>r s'. var s' = var s \<or>
    var s' = (if Phase (R_Status (var s)) = RunnerActivePhase then completed (var s) else released (var s))) s"
  using deletion_active [of s R "podForRunner (RR_MapOrder R) (var s)" "secretForRunner (var s)"]
    deletion_inactive [of s R "podForRunner (RR_MapOrder R) (var s)" "secretForRunner (var s)"] assms
  by (auto simp: reconcile_runner_def wp_andthen wp_read_var Let_def set_Phase_def completed_def released_def
      removes_finalizer_def)

lemma Reconcile_ending:
  assumes env: "runner_env R stored" and "keyed (stored (world s))"
    and "r \<in> set (stored (world s))" and "\<not> alive r"
  shows "stored (world (snd (Reconcile R (key_of r) s))) = stored (world s) \<or>
    ended_in r (stored (world s)) (stored (world (snd (Reconcile R (key_of r) s))))"
proof (rule Reconcile_ending_state [OF assms])
  fix s0 out s1
  assume st: "var s0 = r" "deleting (var s0)" "reconcile_runner R s0 = (out, s1)"
    and same: "var s1 = r \<Longrightarrow> stored (world (snd (Reconcile R (key_of r) s))) = stored (world s)"
    and ends: "Phase (R_Status r) = RunnerActivePhase \<Longrightarrow> var s1 = completed r \<Longrightarrow>
       ended_in r (stored (world s)) (stored (world (snd (Reconcile R (key_of r) s))))"
    "Phase (R_Status r) \<noteq> RunnerActivePhase \<Longrightarrow> var s1 = released r \<Longrightarrow> released r \<noteq> r \<Longrightarrow>
       ended_in r (stored (world s)) (stored (world (snd (Reconcile R (key_of r) s))))"
  have fin: "removes_finalizer (RR_Library R)" using env by (simp add: runner_env_def)
  from wpD [OF deletion_var [OF st(2) fin] st(3)] st(1) same ends show ?thesis
    by (cases "Phase (R_Status r) = RunnerActivePhase"; cases "released r = r") auto
qed

text \<open>When GitHub lets the runner go and the server takes the writes, the runner is ended.\<close>

definition lets_go :: "'w runner_reconciler \<Rightarrow> bool" where
  "lets_go R \<longleftrightarrow> (\<forall>url i w. tolerated (snd (fst (GetRunner (RR_Github R) url i w))) \<and>
     \<not> GetBusy (fst (fst (GetRunner (RR_Github R) url i w))))"

lemma Reconcile_lets_go:
  assumes env: "runner_env R stored" and "keyed (stored (world s))"
    and "r \<in> set (stored (world s))" and "\<not> alive r"
    and coop: "cooperates R" and free: "lets_go R" and own: "RunnerController \<in> set (Finalizers (R_Meta r))"
  shows "ended_in r (stored (world s)) (stored (world (snd (Reconcile R (key_of r) s))))"
proof (rule Reconcile_ending_state [OF assms(1-4)])
  fix s0 out s1
  assume st: "var s0 = r" "deleting (var s0)" "reconcile_runner R s0 = (out, s1)"
    and ends: "Phase (R_Status r) = RunnerActivePhase \<Longrightarrow> var s1 = completed r \<Longrightarrow>
       ended_in r (stored (world s)) (stored (world (snd (Reconcile R (key_of r) s))))"
    "Phase (R_Status r) \<noteq> RunnerActivePhase \<Longrightarrow> var s1 = released r \<Longrightarrow> released r \<noteq> r \<Longrightarrow>
       ended_in r (stored (world s)) (stored (world (snd (Reconcile R (key_of r) s))))"
  have fin: "removes_finalizer (RR_Library R)" using env by (simp add: runner_env_def)
  have fs: "removeAll RunnerController (Finalizers (R_Meta r)) \<noteq> Finalizers (R_Meta r)"
    using own by (metis DiffE insertI1 set_removeAll)
  then have "Finalizers (R_Meta (released r)) \<noteq> Finalizers (R_Meta r)" by (simp add: released_def)
  then have rel: "R_Meta (released r) \<noteq> R_Meta r" "released r \<noteq> r" by metis+
  show ?thesis
  proof (cases "Phase (R_Status r) = RunnerActivePhase")
    case True
    have "tolerated err \<and> \<not> GetBusy g"
      if "fst (GetRunner (RR_Github R) url i w) = (g, err)" for url i w g err
      using free that unfolding lets_go_def by (metis fst_conv snd_conv)
    from wpD [OF active_runner_let_go [OF st(2) _ this] st(3)] True st(1)
    have "var s1 = completed r" by (simp add: set_Phase_def completed_def)
    with ends(1) True show ?thesis by simp
  next
    case False
    have "R_Meta (var s1) = R_Meta (released r)"
      using wpD [OF clean_up [OF coop st(2)] st(3)] False st(1) fin
      by (simp add: removes_finalizer_def released_def)
    with wpD [OF deletion_var [OF st(2) fin] st(3)] False st(1) rel(1) have "var s1 = released r" by auto
    with ends(2) False rel(2) show ?thesis by simp
  qed
qed

section \<open>What becomes of the fleet\<close>

lemma filter_replaced_other:
  "\<not> P x \<Longrightarrow> filter P (replaced x rs') = filter (\<lambda>y. P y \<and> key_of y \<noteq> key_of x) rs'"
  by (induction rs') (auto simp: replaced_def)

lemma filter_gone:
  assumes "new = replaced x old \<or> new = filter (\<lambda>y. key_of y \<noteq> key_of x) old" and "\<not> P x"
  shows "filter P new = filter (\<lambda>y. P y \<and> key_of y \<noteq> key_of x) old"
  using assms(1) filter_replaced_other [of P, OF assms(2)] by (auto simp: conj_commute)

lemma ended_forms [simp]:
  "key_of (versioned v r) = key_of r" "key_of (completed r) = key_of r" "key_of (released r) = key_of r"
  "alive (versioned v r) = alive r" "alive (completed r) = alive r" "alive (released r) = alive r"
  "view (versioned v r) = view r" "view (completed r) = view r" "view (released r) = view r"
  by (simp_all add: versioned_def completed_def released_def key_of_def alive_def view_def ObjectKeyFromObject_def
      GetDeletionTimestamp_IsZero_def)

lemma member_forms:
  assumes "tells_controller (SR_Library R)"
  shows "\<not> member R rs cr m (versioned v (completed r))"
    and "member R rs cr m (versioned v (released r)) = member R rs cr m r"
proof -
  show "\<not> member R rs cr m (versioned v (completed r))"
    by (simp add: member_def in_phase_def versioned_def completed_def)
  show "member R rs cr m (versioned v (released r)) = member R rs cr m r"
    by (rule member_cong [OF assms]) (simp_all add: versioned_def released_def)
qed

lemma ended_in_cases:
  assumes "ended_in r old new" and "\<not> alive r"
  obtains (complete) v where "new = replaced (versioned v (completed r)) old"
  | (removed) "new = filter (\<lambda>y. key_of y \<noteq> key_of r) old"
  | (stays) v where "new = replaced (versioned v (released r)) old"
      "Finalizers (R_Meta (released r)) \<noteq> [] \<or> Finalizers (R_Meta r) = []"
proof (cases "Phase (R_Status r) = RunnerActivePhase")
  case True
  then have "\<exists>v. new = replaced (versioned v (completed r)) old" using assms(1) by (simp add: ended_in_def)
  with complete show thesis by blast
next
  case False
  then have "\<exists>v. new = written r (versioned v (released r)) old" using assms(1) by (simp add: ended_in_def)
  then obtain v where v: "new = written r (versioned v (released r)) old" ..
  show thesis
  proof (cases "Finalizers (R_Meta (released r)) = [] \<and> Finalizers (R_Meta r) \<noteq> []")
    case True
    with v assms(2) removed show thesis by (simp add: written_def)
  next
    case False
    then have "new = replaced (versioned v (released r)) old" using v by (auto simp: written_def)
    from stays [OF this] False show thesis by blast
  qed
qed

text \<open>A runner that is ended and has no other finalizer is no member any more, and the others are as they
  were.\<close>

definition ours :: "runner \<Rightarrow> bool" where
  "ours r \<longleftrightarrow> set (Finalizers (R_Meta r)) = {RunnerController}"

lemma ours_released: "ours r \<Longrightarrow> Finalizers (R_Meta (released r)) = [] \<and> Finalizers (R_Meta r) \<noteq> []"
proof -
  assume "ours r"
  then have "set (Finalizers (R_Meta (released r))) = {}" "set (Finalizers (R_Meta r)) \<noteq> {}"
    by (simp_all add: ours_def released_def)
  then show ?thesis by (simp only: set_empty simp_thms)
qed

definition gone_from :: "runner \<Rightarrow> runner list \<Rightarrow> runner list \<Rightarrow> bool" where
  "gone_from r old new \<longleftrightarrow>
     (\<exists>v. new = replaced (versioned v (completed r)) old) \<or> new = filter (\<lambda>y. key_of y \<noteq> key_of r) old"

lemma ended_in_gone_from: "ended_in r old new \<Longrightarrow> \<not> alive r \<Longrightarrow> ours r \<Longrightarrow> gone_from r old new"
  by (erule ended_in_cases) (auto simp: gone_from_def dest: ours_released)

lemma gone_from_members:
  assumes "gone_from r old new" and "keyed old" and "r \<in> set old" and "\<not> alive r"
    and tells: "tells_controller (SR_Library R)"
  shows "filter (\<lambda>y. member R rs cr m y \<and> alive y) new = filter (\<lambda>y. member R rs cr m y \<and> alive y) old"
    and "filter (\<lambda>y. member R rs cr m y \<and> \<not> alive y) new =
      filter (\<lambda>y. member R rs cr m y \<and> \<not> alive y \<and> key_of y \<noteq> key_of r) old"
    and "keyed new"
proof -
  have other: "filter P new = filter (\<lambda>y. P y \<and> key_of y \<noteq> key_of r) old"
    if "\<And>v. \<not> P (versioned v (completed r))" for P
    using assms(1) filter_replaced_other [of P "versioned v (completed r)" old for v, OF that]
    by (auto simp: gone_from_def conj_commute)
  have "filter (\<lambda>y. member R rs cr m y \<and> alive y) new =
      filter (\<lambda>y. (member R rs cr m y \<and> alive y) \<and> key_of y \<noteq> key_of r) old"
    by (rule other) (simp add: assms(4))
  also have "\<dots> = filter (\<lambda>y. member R rs cr m y \<and> alive y) old"
    by (rule filter_cong) (use keyed_unique [OF assms(2) _ assms(3)] assms(4) in blast)+
  finally show "filter (\<lambda>y. member R rs cr m y \<and> alive y) new = filter (\<lambda>y. member R rs cr m y \<and> alive y) old" .
  have "filter (\<lambda>y. member R rs cr m y \<and> \<not> alive y) new =
      filter (\<lambda>y. (member R rs cr m y \<and> \<not> alive y) \<and> key_of y \<noteq> key_of r) old"
    by (rule other) (simp add: member_forms(1) [OF tells])
  then show "filter (\<lambda>y. member R rs cr m y \<and> \<not> alive y) new =
      filter (\<lambda>y. member R rs cr m y \<and> \<not> alive y \<and> key_of y \<noteq> key_of r) old" by simp
  show "keyed new" using assms(1,2) by (auto simp: gone_from_def keyed_replaced keyed_filter)
qed

lemma filter_but_one:
  assumes "keyed old" and "r \<in> set old"
  shows "length (filter P old) = length (filter (\<lambda>y. P y \<and> key_of y \<noteq> key_of r) old) + (if P r then 1 else 0)"
  using assms
proof (induction old)
  case (Cons z zs)
  show ?case
  proof (cases "z = r")
    case True
    with Cons.prems(1) have "key_of y \<noteq> key_of r" if "y \<in> set zs" for y
      using that by (metis image_eqI keyed_simps(2))
    then have "filter (\<lambda>y. P y \<and> key_of y \<noteq> key_of r) zs = filter P zs"
      by (intro filter_cong) simp_all
    with True show ?thesis by simp
  next
    case False
    with Cons.prems have "r \<in> set zs" "keyed zs" by auto
    moreover have "key_of z \<noteq> key_of r"
      using Cons.prems(1) \<open>r \<in> set zs\<close> by (metis image_eqI keyed_simps(2))
    ultimately show ?thesis using Cons.IH by simp
  qed
qed simp

lemma ended_in_fleet:
  assumes "ended_in r old new" and "keyed old" and "r \<in> set old" and "\<not> alive r"
    and tells: "tells_controller (SR_Library R)"
  shows "keyed new \<and> fleet_moves n (fleet_of R rs cr m old) (fleet_of R rs cr m new)"
proof -
  have gone: "keyed new \<and> fleet_moves n (fleet_of R rs cr m old) (fleet_of R rs cr m new)"
    if "gone_from r old new"
  proof -
    note left = gone_from_members(1,2) [OF that assms(2-4) tells, of rs cr m]
    obtain a e where f: "fleet_of R rs cr m new = (a, e)" by fastforce
    have "fleet_of R rs cr m old = (a, if member R rs cr m r then Suc e else e)"
      using f left filter_but_one [OF assms(2,3), of "\<lambda>y. member R rs cr m y \<and> \<not> alive y"] assms(4)
      by (auto simp: fleet_of_def)
    then show ?thesis using gone_from_members(3) [OF that assms(2-4) tells] f by (auto intro: fleet_moves.intros)
  qed
  from assms(1,4) show ?thesis
  proof (cases rule: ended_in_cases)
    case (stays v)
    have "map view (filter (member R rs cr m) (replaced (versioned v (released r)) old)) =
        map view (filter (member R rs cr m) old)"
      by (rule views_replaced [OF assms(3,2)]) (simp_all add: member_forms(2) [OF tells])
    then have "same_members R rs cr m old new"
      using stays(1) assms(2) by (simp add: same_members_def keyed_replaced)
    with fleet_of_same [OF this] show ?thesis by (simp add: fleet_moves.rests same_members_def)
  next
    case (complete v)
    then have "gone_from r old new" by (auto simp: gone_from_def)
    then show ?thesis by (rule gone)
  next
    case removed
    then have "gone_from r old new" by (simp add: gone_from_def)
    then show ?thesis by (rule gone)
  qed
qed

section \<open>Both controllers together\<close>

text \<open>Any interleaving of the reconciliations of the set with those of runners that are ending, and with
  anything that leaves the members as they are.\<close>

inductive joint_life :: "'w runner_reconciler \<Rightarrow> 'w runnerset_reconciler \<Rightarrow> object_key \<Rightarrow> ('w \<Rightarrow> runner list) \<Rightarrow>
    runnerset \<Rightarrow> controller_revision \<Rightarrow> string gomap \<Rightarrow> 'w \<Rightarrow> 'w \<Rightarrow> bool" for RR R key stored rs cr m w0 where
  joint_start: "joint_life RR R key stored rs cr m w0 w0"
| joint_set: "joint_life RR R key stored rs cr m w0 (world s) \<Longrightarrow> reads_set R key stored rs cr s \<Longrightarrow>
    joint_life RR R key stored rs cr m w0 (world (snd (RunnerSet_Reconcile R key s)))"
| joint_runner: "joint_life RR R key stored rs cr m w0 (world s) \<Longrightarrow> r \<in> set (stored (world s)) \<Longrightarrow> \<not> alive r \<Longrightarrow>
    joint_life RR R key stored rs cr m w0 (world (snd (Reconcile RR (key_of r) s)))"
| joint_elsewhere: "joint_life RR R key stored rs cr m w0 w \<Longrightarrow> same_members R rs cr m (stored w) (stored w') \<Longrightarrow>
    joint_life RR R key stored rs cr m w0 w'"

lemma joint_life_moves:
  assumes life: "joint_life RR R key stored rs cr m w0 w"
    and env: "fleet_env R rs m stored" "set_env R E stored" "wants R rs n" and renv: "runner_env RR stored"
    and keyed: "keyed (stored w0)"
  shows "keyed (stored w) \<and> fleet_moves n (fleet_of R rs cr m (stored w0)) (fleet_of R rs cr m (stored w))"
  using life
proof (induction rule: joint_life.induct)
  case joint_start
  then show ?case using keyed by (simp add: fleet_moves.rests)
next
  case (joint_set s)
  then show ?case
    using Reconcile_stored [OF env, of s key cr] by (blast intro: fleet_moves.reconciled)
next
  case (joint_runner s r)
  have tells: "tells_controller (SR_Library R)" using env(1) by (simp add: fleet_env_def)
  have k: "keyed (stored (world s))" using joint_runner by simp
  from Reconcile_ending [OF renv k joint_runner.hyps(2,3)] show ?case
  proof
    assume "ended_in r (stored (world s)) (stored (world (snd (Reconcile RR (key_of r) s))))"
    from ended_in_fleet [OF this k joint_runner.hyps(2,3) tells, of n rs cr m] joint_runner.IH
    show ?case by (blast intro: fleet_moves_trans)
  qed (use joint_runner.IH in simp)
next
  case (joint_elsewhere w w')
  then show ?case using fleet_of_same [OF joint_elsewhere.hyps(2)] by (simp add: same_members_def)
qed

text \<open>C10. The two controllers together implement the abstract fleet: in any interleaving of reconciliations of
  the runner set, which read it in whatever version its status patches have left it, with
  reconciliations of runners that are being deleted, whatever GitHub, the secrets and the pods answer,
  and with anything else that leaves the members as they are, every reconciliation of an ending runner
  lets at most that one runner leave and never takes a live one, so that the live members never become
  fewer than the smaller of the desired number and what there was at first, nor more than the larger.\<close>

theorem controllers_implement_fleet:
  assumes "fleet_env R rs m stored" and "set_env R E stored" and "wants R rs n" and "runner_env RR stored"
    and "keyed (stored w0)" and "joint_life RR R key stored rs cr m w0 w"
  shows "fleet_moves n (fleet_of R rs cr m (stored w0)) (fleet_of R rs cr m (stored w)) \<and>
    min (fst (fleet_of R rs cr m (stored w0))) n \<le> fst (fleet_of R rs cr m (stored w)) \<and>
    fst (fleet_of R rs cr m (stored w)) \<le> max (fst (fleet_of R rs cr m (stored w0))) n"
  using joint_life_moves [OF assms(6,1-5)] fleet_moves_floor by blast

text \<open>The runner controller works through a queue.\<close>

fun reconcile_each :: "'w runner_reconciler \<Rightarrow> runner \<Rightarrow> object_key list \<Rightarrow> 'w \<Rightarrow> 'w" where
  "reconcile_each RR v [] w = w"
| "reconcile_each RR v (k # ks) w = reconcile_each RR v ks (world (snd (Reconcile RR k (start w v))))"

definition dying :: "'w runnerset_reconciler \<Rightarrow> runnerset \<Rightarrow> controller_revision \<Rightarrow> string gomap \<Rightarrow> runner list \<Rightarrow>
    runner list" where
  "dying R rs cr m xs = filter (\<lambda>r. member R rs cr m r \<and> \<not> alive r) xs"

lemma reconcile_each_drains:
  assumes renv: "runner_env RR stored" and coop: "cooperates RR" and free: "lets_go RR"
    and tells: "tells_controller (SR_Library R)"
    and "keyed (stored w)" and "\<forall>r\<in>set (dying R rs cr m (stored w)). ours r"
    and "set ks \<subseteq> key_of ` set (dying R rs cr m (stored w))" and "distinct ks"
  shows "keyed (stored (reconcile_each RR v ks w)) \<and>
    filter (\<lambda>y. member R rs cr m y \<and> alive y) (stored (reconcile_each RR v ks w)) =
      filter (\<lambda>y. member R rs cr m y \<and> alive y) (stored w) \<and>
    dying R rs cr m (stored (reconcile_each RR v ks w)) =
      filter (\<lambda>y. key_of y \<notin> set ks) (dying R rs cr m (stored w))"
  using assms(5-8)
proof (induction ks arbitrary: w)
  case (Cons k ks)
  let ?s = "start w v"
  have w: "world ?s = w" by (simp add: start_def)
  from Cons.prems(3) obtain r where r: "k = key_of r" "r \<in> set (stored w)" "\<not> alive r" "member R rs cr m r" "ours r"
    using Cons.prems(2) by (auto simp: dying_def)
  let ?w1 = "world (snd (Reconcile RR k ?s))"
  have own: "RunnerController \<in> set (Finalizers (R_Meta r))" using r(5) by (simp add: ours_def)
  have "ended_in r (stored w) (stored ?w1)"
    using Reconcile_lets_go [OF renv _ _ r(3) coop free own, of ?s] Cons.prems(1) r(1,2) w by simp
  then have "gone_from r (stored w) (stored ?w1)" by (rule ended_in_gone_from [OF _ r(3,5)])
  note left = gone_from_members [OF this Cons.prems(1) r(2,3) tells]
  have rest: "dying R rs cr m (stored ?w1) = filter (\<lambda>y. key_of y \<noteq> k) (dying R rs cr m (stored w))"
    using left(2) [of rs cr m] r(1) by (simp add: dying_def conj_ac)
  have "keyed (stored (reconcile_each RR v ks ?w1)) \<and>
    filter (\<lambda>y. member R rs cr m y \<and> alive y) (stored (reconcile_each RR v ks ?w1)) =
      filter (\<lambda>y. member R rs cr m y \<and> alive y) (stored ?w1) \<and>
    dying R rs cr m (stored (reconcile_each RR v ks ?w1)) =
      filter (\<lambda>y. key_of y \<notin> set ks) (dying R rs cr m (stored ?w1))"
  proof (rule Cons.IH [OF left(3)])
    show "\<forall>r\<in>set (dying R rs cr m (stored ?w1)). ours r" using Cons.prems(2) rest by auto
    show "set ks \<subseteq> key_of ` set (dying R rs cr m (stored ?w1))"
    proof
      fix x
      assume "x \<in> set ks"
      with Cons.prems(3,4) have "x \<in> key_of ` set (dying R rs cr m (stored w))" "x \<noteq> k" by auto
      then obtain y where "y \<in> set (dying R rs cr m (stored w))" "x = key_of y" "key_of y \<noteq> k" by blast
      then show "x \<in> key_of ` set (dying R rs cr m (stored ?w1))" unfolding rest by simp
    qed
    show "distinct ks" using Cons.prems(4) by simp
  qed
  then show ?case using left(1) [of rs cr m] rest by (simp add: conj_ac)
qed simp

text \<open>C11. From any store that holds each key once and whatever number of members is ending, each of them held
  by the finalizer of the runner controller and no other: when GitHub lets them go and the server takes
  the writes, one reconciliation of each ending member by the runner controller, in any order, and
  then one of the runner set bring the number of live runners to exactly the desired one.\<close>

theorem controllers_replace_ending_runners:
  assumes env: "fleet_env R rs m stored" "set_env R E stored" "wants R rs n"
    and "runner_env RR stored" and "cooperates RR" and "lets_go RR"
    and "keyed (stored w)" and "\<forall>r\<in>set (dying R rs cr m (stored w)). ours r"
    and ks: "set ks = key_of ` set (dying R rs cr m (stored w))" "distinct ks"
    and s: "world s = reconcile_each RR v ks w" and reads: "reads_set R key stored rs cr s"
  shows "fst (fleet_of R rs cr m (stored (world (snd (RunnerSet_Reconcile R key s))))) = n"
proof -
  have tells: "tells_controller (SR_Library R)" using env(1) by (simp add: fleet_env_def)
  note drained = reconcile_each_drains [OF assms(4-6) tells assms(7,8) equalityD1 [OF ks(1)] ks(2), of v]
  then have k: "keyed (stored (world s))" and "dying R rs cr m (stored (world s)) = []"
    using ks(1) s by (auto simp: filter_empty_conv)
  then have none: "snd (fleet_of R rs cr m (stored (world s))) = 0" by (simp add: dying_def fleet_of_def)
  from Reconcile_stored(2) [OF env k reads] show ?thesis
    by (metis fleet_step_settles none prod.collapse)
qed

end
