(* ===== verification/Joint_Samples.thy ===== *)
theory Joint_Samples
  imports Joint_Controllers
begin

text \<open>
  The theorems of \<open>Joint_Controllers\<close> at a concrete store: the set of \<open>RunnerSet_Life\<close> that wants three
  runners, one that is pending and two that are ending, the second of them with its job just done.
\<close>

definition joint_reconciler :: "runner list runner_reconciler" where
  "joint_reconciler =
     \<lparr>RR_Client = (SR_Client fleet_reconciler)
        \<lparr>SecretsOf := sample_resource fresh_secret [fresh_secret]\<rparr>,
      RR_Github = sample_github (sample_gh_runner False, None) (sample_token, None),
      RR_Executor = sample_executor ''7'',
      RR_Library = (sample_library (63808000000 * Second))\<lparr>ctrl_SetControllerReference := (\<lambda>owner mt. Inr mt)\<rparr>,
      RR_Unstructured = sample_unstructured, RR_Converter = sample_runner_json,
      RR_MapOrder = sample_order\<rparr>"

lemma sample_json_form: "json_form sample_unstructured sample_runner_json"
proof -
  let ?m = "\<lambda>r. fmupd ''status'' (JString (Phase (R_Status r)))
        (fmupd ''finalizers'' (JArray (map JString (Finalizers (R_Meta r))))
        (fmupd ''id'' (case ID (R_Spec r) of None \<Rightarrow> JNull | Some i \<Rightarrow> JInt (sint i)) fmempty))"
  let ?rest = "\<lambda>r. fmdrop ''status'' (?m r)"
  have "?rest r \<noteq> ?rest r'" if "Finalizers (R_Meta r) \<noteq> Finalizers (R_Meta r')" for r r'
  proof
    assume "?rest r = ?rest r'"
    then have "fmlookup (?rest r) ''finalizers'' = fmlookup (?rest r') ''finalizers''" by (rule arg_cong)
    then have "map JString (Finalizers (R_Meta r)) = map JString (Finalizers (R_Meta r'))" by simp
    moreover have "inj JString" by (simp add: inj_def)
    ultimately show False using that by (simp add: inj_map_eq_map)
  qed
  note differ = this
  show ?thesis
    unfolding json_form_def
  proof (intro exI [of _ ?rest] exI [of _ "\<lambda>s. JString (Phase s)"] conjI allI impI)
    show "?rest (r\<lparr>R_Status := s\<rparr>) = ?rest r" for r s by (rule fmap_ext) simp
    show "?rest r \<noteq> ?rest r'" if "Finalizers (R_Meta r) \<noteq> Finalizers (R_Meta r')" for r r'
      by (rule differ [OF that])
  qed (simp_all add: split_status_def sample_unstructured_def sample_runner_json_def)
qed

lemma store_serves_owner: "serves_owner store_resource (\<lambda>ws. ws)"
proof -
  have "find (\<lambda>x. key_of x = key_of r) ws = Some r" if "keyed ws" "r \<in> set ws" for r ws
    using that by (induction ws) auto
  then show ?thesis
    by (auto simp: serves_owner_def store_resource_def Let_def written_def)
qed

lemma joint_reconciler_env:
  "runner_env joint_reconciler (\<lambda>ws. ws)" "cooperates joint_reconciler" "lets_go joint_reconciler"
proof -
  have resources: "RunnersOf (RR_Client joint_reconciler) = store_resource"
    "SecretsOf (RR_Client joint_reconciler) = sample_resource fresh_secret [fresh_secret]"
    "PodsOf (RR_Client joint_reconciler) = sample_resource sample_ready_pod [sample_ready_pod]"
    by (simp_all add: joint_reconciler_def fleet_reconciler_def sample_cluster_def)
  show "runner_env joint_reconciler (\<lambda>ws. ws)"
    by (simp add: runner_env_def apart_def resources store_serves_owner)
      (simp add: joint_reconciler_def leaves_writes_def sample_resource_def sample_github_def sample_library_def
        sample_executor_def removes_finalizer_def sample_json_form)
  show "cooperates joint_reconciler"
    by (simp add: cooperates_def accepts_deletions_def resources)
      (simp add: joint_reconciler_def sample_resource_def sample_library_def sample_github_def tolerated_def)
  show "lets_go joint_reconciler"
    by (simp add: lets_go_def joint_reconciler_def sample_github_def sample_gh_runner_def tolerated_def)
qed

definition ending_runner :: "string \<Rightarrow> runner_phase \<Rightarrow> runner" where
  "ending_runner n phase = (set_runner phase)\<lparr>R_Meta := sample_meta\<lparr>Name := n, DeletionTimestamp := Some 1,
     Finalizers := [RunnerController],
     Labels := Some (fmupd LabelControllerRevisionHash (Name (CR_Meta fleet_revision)) fmempty)\<rparr>\<rparr>"

definition joint_runners :: "runner list" where
  "joint_runners = [set_runner RunnerPendingPhase, ending_runner ''r2'' RunnerIdlePhase, ending_runner ''r3'' RunnerActivePhase]"

lemma joint_runners_fleet:
  "fleet_of fleet_reconciler (sample_runnerset 3) fleet_revision None joint_runners = (1, 2)"
  "dying fleet_reconciler (sample_runnerset 3) fleet_revision None joint_runners =
     [ending_runner ''r2'' RunnerIdlePhase, ending_runner ''r3'' RunnerActivePhase]"
  "keyed joint_runners"
  by code_simp+

lemma ending_runner_simps:
  "\<not> alive (ending_runner n p)" "ours (ending_runner n p)" "key_of (ending_runner n p) = \<lparr>Key_Namespace = ''ns'', Key_Name = n\<rparr>"
  by (simp_all add: ending_runner_def alive_def ours_def key_of_def GetDeletionTimestamp_IsZero_def time_IsZero_def
      ObjectKeyFromObject_def sample_meta_def empty_meta_def)

text \<open>The set is reconciled, and adopts the ending runners; the one whose job is done is reconciled, and ends;
  and the set is reconciled again, and makes another one.\<close>

definition key_r3 :: object_key where
  "key_r3 = \<lparr>Key_Namespace = ''ns'', Key_Name = ''r3''\<rparr>"

definition joint_world :: "runner list \<Rightarrow> runner list" where
  "joint_world ws = world (snd (Reconcile joint_reconciler key_r3 (start ws (set_runner []))))"

lemma joint_world_fleet:
  "fleet_of fleet_reconciler (sample_runnerset 3) fleet_revision None
     (fleet_world (joint_world (fleet_world joint_runners))) = (2, 1)"
  by code_simp

lemma joint_ending:
  "map_option alive (find (\<lambda>y. key_of y = key_r3) (fleet_world joint_runners)) = Some False"
  by code_simp

lemma controllers_implement_fleet_witness:
  "fleet_moves 3 (fleet_of fleet_reconciler (sample_runnerset 3) fleet_revision None joint_runners) (2, 1) \<and>
   fleet_of fleet_reconciler (sample_runnerset 3) fleet_revision None
     (fleet_world (joint_world (fleet_world joint_runners))) = (2, 1)"
proof -
  let ?life = "joint_life joint_reconciler fleet_reconciler sample_key (\<lambda>ws. ws) (sample_runnerset 3) fleet_revision None
    joint_runners"
  have w: "world (start ws v) = ws" "world (fleet_start ws) = ws" for ws :: "runner list" and v :: runner
    by (simp_all add: start_def fleet_start_def)
  have set: "?life (fleet_world ws)" if "?life ws" for ws
    using joint_life.joint_set [OF _ fleet_reads] that w(2) by (simp add: fleet_world_def)
  from joint_ending obtain r where r: "r \<in> set (fleet_world joint_runners)" "key_of r = key_r3" "\<not> alive r"
    by (auto simp: find_Some_iff) (metis nth_mem)
  have "?life (fleet_world joint_runners)" by (rule set [OF joint_life.joint_start])
  then have "?life (joint_world (fleet_world joint_runners))"
    using joint_life.joint_runner [where s = "start (fleet_world joint_runners) (set_runner [])" and r = r] r w(1)
    by (simp add: joint_world_def)
  then have "?life (fleet_world (joint_world (fleet_world joint_runners)))" by (rule set)
  from controllers_implement_fleet [OF fleet_reconciler_env joint_reconciler_env(1) joint_runners_fleet(3) this]
  show ?thesis by (simp add: joint_runners_fleet(1) joint_world_fleet)
qed

lemma controllers_replace_ending_runners_witness:
  "fst (fleet_of fleet_reconciler (sample_runnerset 3) fleet_revision None
     (world (snd (RunnerSet_Reconcile fleet_reconciler sample_key (fleet_start
       (reconcile_each joint_reconciler (set_runner [])
          [\<lparr>Key_Namespace = ''ns'', Key_Name = ''r3''\<rparr>, \<lparr>Key_Namespace = ''ns'', Key_Name = ''r2''\<rparr>] joint_runners)))))) = 3"
proof (rule controllers_replace_ending_runners [OF fleet_reconciler_env joint_reconciler_env joint_runners_fleet(3)
      _ _ _ _ fleet_reads])
  show "world (fleet_start (reconcile_each joint_reconciler (set_runner [])
          [\<lparr>Key_Namespace = ''ns'', Key_Name = ''r3''\<rparr>, \<lparr>Key_Namespace = ''ns'', Key_Name = ''r2''\<rparr>] joint_runners)) =
      reconcile_each joint_reconciler (set_runner [])
          [\<lparr>Key_Namespace = ''ns'', Key_Name = ''r3''\<rparr>, \<lparr>Key_Namespace = ''ns'', Key_Name = ''r2''\<rparr>] joint_runners"
    by (simp add: fleet_start_def start_def)
qed (auto simp: joint_runners_fleet(2) ending_runner_simps)

end
