(* ===== verification/Patch_Properties.thy ===== *)
theory Patch_Properties
  imports Runner_Controller Samples
begin

text \<open>
  The properties of the patch helper that both controllers defer: what it sends, and what becomes of a
  change of the status when the rest of the object changed too.
\<close>

text \<open>C37. The patch helper sends exactly what changed since the object was read: a patch when the object
  without its status differs, a status patch when the statuses differ, both from the object as it
  was read, in that order; and nothing at all for an object that is as it was.\<close>

theorem patch_sends_what_changed:
  assumes new: "NewPatcher U cv obj0 = Inr p"
    and split0: "split_status U cv obj0 = Some (rest0, status0, has0)"
    and split1: "split_status U cv (var s) = Some (rest1, status1, has1)"
  shows "wp (Patcher_Patch U cv L k c p) (\<lambda>r s'. \<exists>obj'.
      trace s' = trace s @ (if rest0 = rest1 then [] else [PatchC (k obj0) (k (var s))])
        @ (if (has0 \<or> has1) \<and> status0 \<noteq> status1 then [StatusPatchC (k obj0) (k obj')] else []) \<and>
      (rest0 = rest1 \<longrightarrow> obj' = var s)) s"
proof -
  have p: "before p = rest0" "beforeStatus p = status0" "beforeHasStatus p = has0"
    "patch p = obj0" "statusPatch p = obj0"
    using NewPatcher_split [OF new] split0 by simp_all
  show ?thesis
    using Patcher_Patch_calls [OF split1 refl refl refl, where p = p and k = k and L = L and c = c]
    by (rule wp_mono) (auto simp: p main_calls_def status_calls_def)
qed

lemma patch_sends_what_changed_witness:
  "let r = sample_runner None [] RunnerIdlePhase; r' = set_Phase RunnerActivePhase r;
       c = sample_resource r [r] :: (unit, runner) resource
   in case NewPatcher sample_unstructured sample_runner_json r of Inl e \<Rightarrow> False
      | Inr p \<Rightarrow> trace (snd (Patcher_Patch sample_unstructured sample_runner_json (sample_library 0)
          ORunner c p (start () r'))) = [StatusPatchC (ORunner r) (ORunner r')]"
proof -
  let ?r = "sample_runner None [] RunnerIdlePhase"
  let ?r' = "set_Phase RunnerActivePhase ?r"
  let ?c = "sample_resource ?r [?r] :: (unit, runner) resource"
  obtain p where p: "NewPatcher sample_unstructured sample_runner_json ?r = Inr p"
    by (simp add: NewPatcher_def sample_defs)
  let ?rest = "fmdrop ''status'' (fmupd ''status'' (JString []) (fmupd ''finalizers'' (JArray [])
      (fmupd ''id'' (JInt 7) fmempty)))"
  have s0: "split_status sample_unstructured sample_runner_json ?r =
      Some (?rest, Some (JString RunnerIdlePhase), True)"
    and s1: "split_status sample_unstructured sample_runner_json (var (start () ?r')) =
      Some (?rest, Some (JString RunnerActivePhase), True)"
    by (simp_all add: split_status_def sample_defs start_def set_Phase_def fmdrop_fmupd)
  show ?thesis
    using patch_sends_what_changed [OF p s0 s1, where L = "sample_library 0" and k = ORunner and c = ?c]
    by (simp add: p Let_def wp_def case_prod_beta start_def)
qed

text \<open>When the object and its status have both changed, and the server's answer to the first patch
  brings back the status as it was read (a patch of the object does not touch the status
  subresource), then the status patch sends that old status: the change of the status is not sent.\<close>

theorem status_change_lost_behind_main_patch:
  assumes new: "NewPatcher U cv runner = Inr p"
    and split0: "split_status U cv runner = Some (rest0, status0, has0)"
    and split1: "split_status U cv (var s) = Some (rest1, status1, has1)"
    and main: "rest0 \<noteq> rest1"
    and answer: "Patch c runner (var s) (world s) = ((err, got), w')" "R_Status got = R_Status runner"
  shows "wp (Patcher_Patch U cv L ORunner c p) (\<lambda>r s'. \<exists>cs. trace s' = trace s @ cs \<and>
      (\<forall>b sent. StatusPatchC (ORunner b) (ORunner sent) \<in> set cs \<longrightarrow>
         b = runner \<and> R_Status sent = R_Status runner)) s"
proof -
  have p: "before p = rest0" "patch p = runner" "statusPatch p = runner"
    using NewPatcher_split [OF new] split0 by simp_all
  show ?thesis
    using Patcher_Patch_calls [OF split1 refl refl refl, where p = p and k = ORunner and L = L and c = c]
    by (rule wp_mono) (use main answer in \<open>auto simp: p main_calls_def status_calls_def\<close>)
qed

text \<open>A first reconciliation: the finalizer and the phase are new, and the phase is not sent.\<close>

definition forgetful_resource :: "runner \<Rightarrow> (unit, runner) resource" where
  "forgetful_resource r = (sample_resource r [r])
     \<lparr>Patch := (\<lambda>base obj w. ((None, obj\<lparr>R_Status := R_Status base\<rparr>), w))\<rparr>"

lemma status_change_lost_behind_main_patch_witness:
  "let r = sample_runner None [] RunnerIdlePhase;
       r' = (set_Phase RunnerActivePhase r)\<lparr>R_Spec := (R_Spec r)\<lparr>ID := Some 8\<rparr>\<rparr>
   in case NewPatcher sample_unstructured sample_runner_json r of Inl e \<Rightarrow> False
      | Inr p \<Rightarrow> \<exists>sent. StatusPatchC (ORunner r) (ORunner sent) \<in>
            set (trace (snd (Patcher_Patch sample_unstructured sample_runner_json (sample_library 0)
              ORunner (forgetful_resource r) p (start () r'))))
          \<and> Phase (R_Status r') = RunnerActivePhase \<and> Phase (R_Status sent) = RunnerIdlePhase"
proof -
  let ?r = "sample_runner None [] RunnerIdlePhase"
  let ?r' = "(set_Phase RunnerActivePhase ?r)\<lparr>R_Spec := (R_Spec ?r)\<lparr>ID := Some 8\<rparr>\<rparr>"
  obtain p where p: "NewPatcher sample_unstructured sample_runner_json ?r = Inr p"
    by (simp add: NewPatcher_def sample_defs)
  let ?m = "\<lambda>i. fmupd ''finalizers'' (JArray []) (fmupd ''id'' (JInt i) fmempty)"
  let ?st = "snd (Patcher_Patch sample_unstructured sample_runner_json (sample_library 0)
          ORunner (forgetful_resource ?r) p (start () ?r'))"
  have s0: "split_status sample_unstructured sample_runner_json ?r =
      Some (?m 7, Some (JString RunnerIdlePhase), True)"
    and s1: "split_status sample_unstructured sample_runner_json (var (start () ?r')) =
      Some (?m 8, Some (JString RunnerActivePhase), True)"
    by (simp_all add: split_status_def sample_defs start_def set_Phase_def fmdrop_fmupd)
  have "fmlookup (?m 7) ''id'' \<noteq> fmlookup (?m 8) ''id''" by simp
  then have d: "?m 7 \<noteq> ?m 8" by metis
  have a: "Patch (forgetful_resource ?r) ?r (var (start () ?r')) (world (start () ?r')) =
      ((None, ?r'\<lparr>R_Status := R_Status ?r\<rparr>), ())"
    by (simp add: forgetful_resource_def start_def)
  have ph: "Phase (R_Status ?r) = RunnerIdlePhase" "Phase (R_Status ?r') = RunnerActivePhase"
    by (simp_all add: sample_runner_def set_Phase_def)
  have pf: "statusPatch p = ?r" "beforeStatus p = Some (JString RunnerIdlePhase)" "beforeHasStatus p"
    using NewPatcher_split [OF p] s0 by simp_all
  have "\<exists>sent. StatusPatchC (ORunner ?r) (ORunner sent) \<in> set (trace ?st)"
    using Patcher_Patch_calls [OF s1 refl refl refl, where p = p and k = ORunner
        and L = "sample_library 0" and c = "forgetful_resource ?r"] pf
    by (auto simp: wp_def case_prod_beta status_calls_def)
  then obtain sent where sent: "StatusPatchC (ORunner ?r) (ORunner sent) \<in> set (trace ?st)" by blast
  have "\<exists>cs. trace ?st = trace (start () ?r') @ cs \<and> (\<forall>b sent.
      StatusPatchC (ORunner b) (ORunner sent) \<in> set cs \<longrightarrow> b = ?r \<and> R_Status sent = R_Status ?r)"
    using status_change_lost_behind_main_patch [OF p s0 s1 d a, where L = "sample_library 0"]
    by (simp only: wp_def case_prod_beta) simp
  with sent have "R_Status sent = R_Status ?r" by (auto simp: start_def)
  with sent ph show ?thesis
    unfolding Let_def p sum.case by metis
qed

end
