(* ===== verification/Webhooks.thy ===== *)
theory Webhooks
  imports Patch_Helper Go_Strings
begin

text \<open>
  \<open>webhooks\<close>: the defaulting and validating admission webhooks of runners and runner sets.  A webhook
  works on a \<open>runtime.Object\<close> (\<open>kobject\<close>), which it casts to its own kind; the answer is an error of
  the API (\<open>admission_error\<close>, built from the field errors) or none.
\<close>

section \<open>Regular expressions\<close>

text \<open>The constructs of \<open>regexp\<close> that the package's pattern uses, on bytes: a literal, one or more
  bytes other than a given one, an optional part, a sequence, and the end of the text.  \<open>rests\<close> gives
  what may be left of a text after a match at its start; \<open>MatchString\<close> looks for a match anywhere.\<close>

datatype regex =
  Literal string
| NoneOf char
| Optional regex
| Sequence regex regex
| EndOfText

fun rests :: "regex \<Rightarrow> string \<Rightarrow> string list" where
  "rests (Literal l) s = (if HasPrefix s l then [drop (length l) s] else [])"
| "rests (NoneOf c) s = map (\<lambda>k. drop k s) [1..<Suc (length (takeWhile (\<lambda>x. x \<noteq> c) s))]"
| "rests (Optional r) s = rests r s @ [s]"
| "rests (Sequence r1 r2) s = concat (map (rests r2) (rests r1 s))"
| "rests EndOfText s = (if s = [] then [[]] else [])"

fun MatchString :: "regex \<Rightarrow> string \<Rightarrow> bool" where
  "MatchString r [] = (rests r [] \<noteq> [])"
| "MatchString r (c # s) = (rests r (c # s) \<noteq> [] \<or> MatchString r s)"

definition matchOrgOrRepoURLRegexp :: regex where
  "matchOrgOrRepoURLRegexp =
     Sequence (Literal ''http'')
    (Sequence (Optional (Literal ''s''))
    (Sequence (Literal ''://github.com/'')
    (Sequence (NoneOf (CHR ''/''))
    (Sequence (Optional (Sequence (Literal ''/'') (NoneOf (CHR ''/''))))
     EndOfText))))"

definition invalidURLMessage :: string where
  "invalidURLMessage =
     ''Must be Github Org or Repository URL. eg: https://github.com/org or https://github.com/org/repo''"

section \<open>Errors\<close>

text \<open>\<open>field.Error\<close> with its path, and the API errors that the webhooks return: \<open>NewBadRequest\<close> for an
  object that is not of the expected kind, \<open>NewInternalError\<close> around an error of the conversion,
  \<open>NewInvalid\<close> about an object with its field errors, and an error passed on as it is.\<close>

datatype field_value = StringValue string | LabelsValue "string gomap"

datatype field_error =
  FieldInvalid "string list" field_value string
| FieldForbidden "string list" string

datatype admission_error =
  BadRequest kind
| InternalError go_error
| Invalid kobject "field_error list"
| OtherError go_error

definition admission :: "kobject \<Rightarrow> field_error list \<Rightarrow> admission_error option" where
  "admission obj allErrs = (if length allErrs = 0 then None else Some (Invalid obj allErrs))"

section \<open>The unstructured form of a spec\<close>

text \<open>\<open>DefaultUnstructuredConverter\<close> makes a JSON object by the \<open>json\<close> tags of a struct: with \<open>omitempty\<close> an
  empty text, list or map and a nil pointer are left out, so that nil and empty are the same there, while
  a nested struct is always a member.  How the types of \<open>corev1\<close> look is left to the encoders.\<close>

record spec_encoders =
  Enc_PullSecret :: "opaque \<Rightarrow> json"
  Enc_Toleration :: "opaque \<Rightarrow> json"
  Enc_Affinity :: "opaque \<Rightarrow> json"
  Enc_Resources :: "opaque \<Rightarrow> json"
  Enc_SecurityContext :: "opaque \<Rightarrow> json"
  Enc_Volume :: "volume \<Rightarrow> json"
  Enc_VolumeMount :: "volume_mount \<Rightarrow> json"

definition json_field :: "string \<Rightarrow> json option \<Rightarrow> json_map \<Rightarrow> json_map" where
  "json_field k v m = (case v of None \<Rightarrow> m | Some j \<Rightarrow> fmupd k j m)"

definition omit_string :: "string \<Rightarrow> json option" where
  "omit_string s = (if s = [] then None else Some (JString s))"

definition omit_list :: "('a \<Rightarrow> json) \<Rightarrow> 'a list \<Rightarrow> json option" where
  "omit_list f xs = (if xs = [] then None else Some (JArray (map f xs)))"

definition entries :: "string gomap \<Rightarrow> (string, string) fmap" where
  "entries m = (case m of None \<Rightarrow> fmempty | Some f \<Rightarrow> f)"

definition omit_map :: "string gomap \<Rightarrow> json option" where
  "omit_map m = (if entries m = fmempty then None else Some (JObject (fmmap JString (entries m))))"

definition image_json :: "spec_encoders \<Rightarrow> runner_image \<Rightarrow> json_map" where
  "image_json E i =
     json_field ''name'' (omit_string (ImageName i))
    (json_field ''pullPolicy'' (omit_string (PullPolicy i))
    (json_field ''pullSecrets'' (omit_list (Enc_PullSecret E) (PullSecrets i)) fmempty))"

definition placement_json :: "spec_encoders \<Rightarrow> runner_placement \<Rightarrow> json_map" where
  "placement_json E p =
     json_field ''nodeSelector'' (omit_map (NodeSelector p))
    (json_field ''tolerations'' (omit_list (Enc_Toleration E) (Tolerations p))
    (json_field ''affinity'' (map_option (Enc_Affinity E) (Affinity p)) fmempty))"

definition spec_json :: "spec_encoders \<Rightarrow> runner_spec \<Rightarrow> json_map" where
  "spec_json E sp =
     json_field ''url'' (Some (JString (URL sp)))
    (json_field ''id'' (map_option (\<lambda>i. JInt (sint i)) (ID sp))
    (json_field ''os'' (omit_string (OS sp))
    (json_field ''group'' (omit_string (Group sp))
    (json_field ''workdir'' (omit_string (Workdir sp))
    (json_field ''image'' (Some (JObject (image_json E (Image sp))))
    (json_field ''evictionPolicy'' (omit_string (EvictionPolicy sp))
    (json_field ''placement'' (Some (JObject (placement_json E (Placement sp))))
    (json_field ''resources'' (Some (Enc_Resources E (Resources sp)))
    (json_field ''serviceAccountName'' (omit_string (ServiceAccountName sp))
    (json_field ''securityContext'' (map_option (Enc_SecurityContext E) (SecurityContext sp))
    (json_field ''runtimeClassName'' (map_option JString (RuntimeClassName sp))
    (json_field ''volumes'' (omit_list (Enc_Volume E) (Volumes sp))
    (json_field ''volumeMounts'' (omit_list (Enc_VolumeMount E) (VolumeMounts sp)) fmempty)))))))))))))"

section \<open>The webhook of runners\<close>

text \<open>\<open>Default\<close> changes the object that it is given.\<close>

definition default_runner :: "runner \<Rightarrow> ('s, runner) prog" where
  "default_runner runner =
     (let labels = (if Labels (R_Meta runner) = None then make_map else Labels (R_Meta runner))
      in andthen
           (if map_lookup labels LabelRunnerName = None \<and> Name (R_Meta runner) \<noteq> []
            then map_store labels LabelRunnerName (Name (R_Meta runner)) else ret labels) (\<lambda>labels.
         let spec = R_Spec runner;
             spec = (if Group spec = [] then spec\<lparr>Group := ''Default''\<rparr> else spec);
             spec = (if Workdir spec = [] then spec\<lparr>Workdir := ''_work''\<rparr> else spec)
         in ret (runner\<lparr>R_Meta := (R_Meta runner)\<lparr>Labels := labels\<rparr>, R_Spec := spec\<rparr>)))"

definition RunnerWebhook_Default :: "kobject \<Rightarrow> ('s, admission_error option \<times> kobject) prog" where
  "RunnerWebhook_Default obj =
     (case obj of
        ORunner runner \<Rightarrow> andthen (default_runner runner) (\<lambda>runner. ret (None, ORunner runner))
      | _ \<Rightarrow> ret (Some (BadRequest KRunner), obj))"

definition RunnerWebhook_ValidateCreate :: "kobject \<Rightarrow> ('s, admission_error option) prog" where
  "RunnerWebhook_ValidateCreate obj =
     (case obj of
        ORunner runner \<Rightarrow>
          let allErrs =
            (if \<not> MatchString matchOrgOrRepoURLRegexp (URL (R_Spec runner))
             then [FieldInvalid [''spec'', ''url''] (StringValue (URL (R_Spec runner))) invalidURLMessage]
             else [])
          in ret (admission obj allErrs)
      | _ \<Rightarrow> ret (Some (BadRequest KRunner)))"

text \<open>The specs are compared in unstructured form, without the fields that the controller fills in; an
  object whose spec is not a JSON object makes the type assertion panic.\<close>

definition RunnerWebhook_ValidateUpdate :: "kobject converter \<Rightarrow> kobject \<Rightarrow> kobject \<Rightarrow>
    ('s, admission_error option) prog" where
  "RunnerWebhook_ValidateUpdate cv oldObj newObj =
     (case ToUnstructured cv oldObj of
        Inl err \<Rightarrow> ret (Some (InternalError err))
      | Inr oldRunner \<Rightarrow>
          (case ToUnstructured cv newObj of
             Inl err \<Rightarrow> ret (Some (InternalError err))
           | Inr newRunner \<Rightarrow>
               (case fmlookup newRunner ''spec'' of
                  Some (JObject newRunnerSpec) \<Rightarrow>
                    (case fmlookup oldRunner ''spec'' of
                       Some (JObject oldRunnerSpec) \<Rightarrow>
                         let oldRunnerSpec = fmdrop ''os'' (fmdrop ''id'' oldRunnerSpec);
                             newRunnerSpec = fmdrop ''os'' (fmdrop ''id'' newRunnerSpec);
                             allErrs = (if oldRunnerSpec \<noteq> newRunnerSpec
                                        then [FieldForbidden [''spec''] ''spec is immutable''] else [])
                         in ret (admission newObj allErrs)
                     | _ \<Rightarrow> panics BadTypeAssertion)
                | _ \<Rightarrow> panics BadTypeAssertion)))"

definition RunnerWebhook_ValidateDelete :: "kobject \<Rightarrow> ('s, admission_error option) prog" where
  "RunnerWebhook_ValidateDelete obj = ret None"

section \<open>The webhook of runner sets\<close>

definition default_runnerset :: "runnerset \<Rightarrow> ('s, runnerset) prog" where
  "default_runnerset runnerset =
     (let meta = S_Meta runnerset;
          meta = (if Labels meta = None then meta\<lparr>Labels := make_map\<rparr> else meta);
          template = Template (S_Spec runnerset);
          labels = (if Labels (T_Meta template) = None then make_map else Labels (T_Meta template))
      in andthen
           (if map_lookup labels LabelRunnerSetName = None
            then map_store labels LabelRunnerSetName (Name meta) else ret labels) (\<lambda>labels.
         ret (runnerset\<lparr>S_Meta := meta, S_Spec := (S_Spec runnerset)
           \<lparr>Template := template\<lparr>T_Meta := (T_Meta template)\<lparr>Labels := labels\<rparr>\<rparr>\<rparr>\<rparr>)))"

definition RunnerSetWebhook_Default :: "kobject \<Rightarrow> ('s, admission_error option \<times> kobject) prog" where
  "RunnerSetWebhook_Default obj =
     (case obj of
        ORunnerSet runnerset \<Rightarrow>
          andthen (default_runnerset runnerset) (\<lambda>runnerset. ret (None, ORunnerSet runnerset))
      | _ \<Rightarrow> ret (Some (BadRequest KRunnerSet), obj))"

definition template_url_errors :: "runner_template_spec \<Rightarrow> field_error list" where
  "template_url_errors template =
     (if \<not> MatchString matchOrgOrRepoURLRegexp (URL (T_Spec template))
      then [FieldInvalid [''spec'', ''template'', ''spec'', ''url''] (StringValue (URL (T_Spec template)))
              invalidURLMessage]
      else [])"

definition RunnerSetWebhook_ValidateCreate :: "'w library \<Rightarrow> kobject \<Rightarrow>
    ('s, admission_error option) prog" where
  "RunnerSetWebhook_ValidateCreate L obj =
     (case obj of
        ORunnerSet runnerset \<Rightarrow>
          (case metav1_LabelSelectorAsSelector L (Selector (S_Spec runnerset)) of
             Inl err \<Rightarrow> ret (Some (OtherError err))
           | Inr selector \<Rightarrow>
               let template = Template (S_Spec runnerset);
                   allErrs = template_url_errors template @
                     (if \<not> selector_Matches L selector (Labels (T_Meta template))
                      then [FieldInvalid [''spec'', ''template'', ''metadata'', ''labels'']
                              (LabelsValue (Labels (T_Meta template)))
                              ''`selector` does not match template `labels`'']
                      else [])
               in ret (admission obj allErrs))
      | _ \<Rightarrow> ret (Some (BadRequest KRunnerSet)))"

definition RunnerSetWebhook_ValidateUpdate :: "kobject \<Rightarrow> kobject \<Rightarrow>
    ('s, admission_error option) prog" where
  "RunnerSetWebhook_ValidateUpdate oldObj newObj =
     (case oldObj of
        ORunnerSet oldRunnerSet \<Rightarrow>
          (case newObj of
             ORunnerSet newRunnerSet \<Rightarrow>
               let allErrs = template_url_errors (Template (S_Spec newRunnerSet)) @
                     (if Selector (S_Spec oldRunnerSet) \<noteq> Selector (S_Spec newRunnerSet)
                      then [FieldForbidden [''spec'', ''selector''] ''`selector` is immutable''] else [])
               in ret (admission newObj allErrs)
           | _ \<Rightarrow> ret (Some (BadRequest KRunnerSet)))
      | _ \<Rightarrow> ret (Some (BadRequest KRunnerSet)))"

definition RunnerSetWebhook_ValidateDelete :: "kobject \<Rightarrow> ('s, admission_error option) prog" where
  "RunnerSetWebhook_ValidateDelete obj = ret None"

end
