(* ===== verification/Webhook_Properties.thy ===== *)
theory Webhook_Properties
  imports Webhooks RunnerSet_Samples Runner_Deletion
begin

text \<open>
  The properties of the webhooks, and how they fit the controllers: which URLs are admitted, what the
  defaults leave, that the runner controller's own patches are admitted while every other change of a
  spec is refused, and that the runners made of an admitted set are admissible.
\<close>

section \<open>The URL pattern\<close>

lemma rests_Literal: "t \<in> set (rests (Literal l) s) \<longleftrightarrow> s = l @ t"
  by (auto simp: HasPrefix_iff)

lemma rests_NoneOf: "t \<in> set (rests (NoneOf c) s) \<longleftrightarrow> (\<exists>u. s = u @ t \<and> u \<noteq> [] \<and> c \<notin> set u)"
proof
  assume "t \<in> set (rests (NoneOf c) s)"
  then obtain k where k: "1 \<le> k" "k \<le> length (takeWhile (\<lambda>x. x \<noteq> c) s)" "t = drop k s" by auto
  have "take k s = take k (takeWhile (\<lambda>x. x \<noteq> c) s)"
    using k(2) by (metis takeWhile_eq_take take_take min.absorb1)
  then have "c \<notin> set (take k s)" by (metis (mono_tags) in_set_takeD set_takeWhileD)
  moreover have "take k s \<noteq> []" using k by (cases s) auto
  ultimately show "\<exists>u. s = u @ t \<and> u \<noteq> [] \<and> c \<notin> set u"
    using k(3) by (metis append_take_drop_id)
next
  assume "\<exists>u. s = u @ t \<and> u \<noteq> [] \<and> c \<notin> set u"
  then obtain u where u: "s = u @ t" "u \<noteq> []" "c \<notin> set u" by blast
  then have "takeWhile (\<lambda>x. x \<noteq> c) s = u @ takeWhile (\<lambda>x. x \<noteq> c) t"
    by (simp only: u(1)) (subst takeWhile_append2, auto)
  then have "length u \<in> set [1..<Suc (length (takeWhile (\<lambda>x. x \<noteq> c) s))]"
    using u(2) by (simp add: Suc_le_eq)
  with u(1) show "t \<in> set (rests (NoneOf c) s)" by (auto intro!: image_eqI [of _ _ "length u"])
qed

lemma rests_Sequence: "t \<in> set (rests (Sequence r1 r2) s) \<longleftrightarrow> (\<exists>m. m \<in> set (rests r1 s) \<and> t \<in> set (rests r2 m))"
  by auto

lemma rests_Optional: "t \<in> set (rests (Optional r) s) \<longleftrightarrow> t \<in> set (rests r s) \<or> t = s"
  by auto

lemma rests_EndOfText: "t \<in> set (rests EndOfText s) \<longleftrightarrow> s = [] \<and> t = []"
  by auto

lemmas rests_iff = rests_Literal rests_NoneOf rests_Optional rests_Sequence rests_EndOfText

lemma MatchString_iff: "MatchString r s \<longleftrightarrow> (\<exists>pre t. s = pre @ t \<and> (\<exists>x. x \<in> set (rests r t)))"
proof (induction s)
  case Nil
  show ?case by (simp add: ex_in_conv)
next
  case (Cons c s)
  have "(\<exists>pre t. c # s = pre @ t \<and> (\<exists>x. x \<in> set (rests r t))) \<longleftrightarrow>
      (\<exists>x. x \<in> set (rests r (c # s))) \<or> (\<exists>pre t. s = pre @ t \<and> (\<exists>x. x \<in> set (rests r t)))"
    by (metis append_Cons append_Nil append_eq_Cons_conv)
  then show ?case by (simp add: Cons ex_in_conv)
qed

text \<open>The URLs as the documentation gives them.\<close>

definition name_part :: "string \<Rightarrow> bool" where
  "name_part p \<longleftrightarrow> p \<noteq> [] \<and> CHR ''/'' \<notin> set p"

definition github_url :: "string \<Rightarrow> string \<Rightarrow> string \<Rightarrow> string" where
  "github_url scheme owner repo =
     scheme @ ''://github.com/'' @ owner @ (if repo = [] then [] else CHR ''/'' # repo)"

text \<open>The pattern at one position.\<close>

lemma url_pattern_at:
  "(\<exists>x. x \<in> set (rests matchOrgOrRepoURLRegexp t)) \<longleftrightarrow>
      (\<exists>scheme owner repo. t = github_url scheme owner repo \<and> scheme \<in> {''http'', ''https''} \<and>
        name_part owner \<and> (repo = [] \<or> name_part repo))"
proof
  assume "\<exists>x. x \<in> set (rests matchOrgOrRepoURLRegexp t)"
  then obtain t1 t2 t3 owner tail where m: "t = ''http'' @ t1" "t2 = t1 \<or> t1 = ''s'' @ t2"
    "t2 = ''://github.com/'' @ t3" "t3 = owner @ tail" "owner \<noteq> []" "CHR ''/'' \<notin> set owner"
    "tail = [] \<or> (\<exists>repo. tail = ''/'' @ repo \<and> repo \<noteq> [] \<and> CHR ''/'' \<notin> set repo)"
    by (simp only: matchOrgOrRepoURLRegexp_def rests_iff append_Nil2) blast
  obtain scheme where "t = scheme @ ''://github.com/'' @ owner @ tail" "scheme \<in> {''http'', ''https''}"
    using m(1-4) by auto
  moreover define repo where "repo = tl tail"
  have "tail = (if repo = [] then [] else CHR ''/'' # repo)" "repo = [] \<or> name_part repo"
    using m(7) unfolding repo_def by (auto simp: name_part_def)
  ultimately have "t = github_url scheme owner repo" "scheme \<in> {''http'', ''https''}" "name_part owner"
    "repo = [] \<or> name_part repo"
    using m(5,6) by (simp_all only: github_url_def name_part_def simp_thms)
  then show "\<exists>scheme owner repo. t = github_url scheme owner repo \<and> scheme \<in> {''http'', ''https''} \<and>
      name_part owner \<and> (repo = [] \<or> name_part repo)" by blast
next
  assume "\<exists>scheme owner repo. t = github_url scheme owner repo \<and> scheme \<in> {''http'', ''https''} \<and>
      name_part owner \<and> (repo = [] \<or> name_part repo)"
  then obtain scheme owner repo where t: "t = github_url scheme owner repo" "scheme \<in> {''http'', ''https''}"
    "owner \<noteq> []" "CHR ''/'' \<notin> set owner" "repo = [] \<or> name_part repo"
    by (auto simp: name_part_def)
  define sch where "sch = drop 4 scheme"
  define tail where "tail = (if repo = [] then [] else ''/'' @ repo)"
  have sch: "scheme = ''http'' @ sch" "sch = ''s'' \<or> sch = []"
    using t(2) by (auto simp: sch_def)
  have tail: "[] \<in> set (rests (Optional (Sequence (Literal ''/'') (NoneOf (CHR ''/'')))) tail)"
    unfolding rests_iff using t(5) by (auto simp: tail_def name_part_def)
  have "t = ''http'' @ sch @ ''://github.com/'' @ owner @ tail"
    using t(1) sch(1) by (simp add: github_url_def tail_def)
  moreover have "sch @ ''://github.com/'' @ owner @ tail = ''s'' @ ''://github.com/'' @ owner @ tail \<or>
      ''://github.com/'' @ owner @ tail = sch @ ''://github.com/'' @ owner @ tail"
    using sch(2) by auto
  ultimately have "[] \<in> set (rests matchOrgOrRepoURLRegexp t)"
    unfolding matchOrgOrRepoURLRegexp_def rests_Sequence rests_Literal rests_EndOfText rests_NoneOf
      rests_Optional [of _ "Literal l" for l]
    using t(3,4) tail by blast
  then show "\<exists>x. x \<in> set (rests matchOrgOrRepoURLRegexp t)" ..
qed

lemma url_pattern_iff:
  "MatchString matchOrgOrRepoURLRegexp s \<longleftrightarrow>
     (\<exists>pre scheme owner repo. s = pre @ github_url scheme owner repo \<and> scheme \<in> {''http'', ''https''} \<and>
        name_part owner \<and> (repo = [] \<or> name_part repo))"
  unfolding MatchString_iff url_pattern_at by blast

text \<open>C27. The pattern admits exactly the texts that end in the URL of an organisation or of a
  repository on github.com over http or https.  What stands before the URL is not looked at.\<close>

theorem url_pattern_admits:
  "MatchString matchOrgOrRepoURLRegexp s \<longleftrightarrow>
     (\<exists>pre scheme owner repo. s = pre @ github_url scheme owner repo \<and> scheme \<in> {''http'', ''https''} \<and>
        name_part owner \<and> (repo = [] \<or> name_part repo))"
  by (rule url_pattern_iff)

section \<open>Defaults\<close>

text \<open>The defaults of a runner: it gets its own name as its runner label unless it has that label or
  has no name yet, a group and a working directory where these are empty, and keeps everything else.
  The default never fails, and defaulting again changes nothing.\<close>

theorem runner_defaults:
  "\<exists>r'. RunnerWebhook_Default (ORunner r) s = (Done (None, ORunner r'), s) \<and>
     RunnerWebhook_Default (ORunner r') s = (Done (None, ORunner r'), s) \<and>
     (\<forall>k. map_lookup (Labels (R_Meta r')) k =
        (if k = LabelRunnerName \<and> map_lookup (Labels (R_Meta r)) k = None \<and> Name (R_Meta r) \<noteq> []
         then Some (Name (R_Meta r)) else map_lookup (Labels (R_Meta r)) k)) \<and>
     R_Spec r' = (R_Spec r)\<lparr>Group := (if Group (R_Spec r) = [] then ''Default'' else Group (R_Spec r)),
        Workdir := (if Workdir (R_Spec r) = [] then ''_work'' else Workdir (R_Spec r))\<rparr> \<and>
     r' = r\<lparr>R_Meta := (R_Meta r)\<lparr>Labels := Labels (R_Meta r')\<rparr>, R_Spec := R_Spec r'\<rparr>"
proof -
  obtain f where f: "(if Labels (R_Meta r) = None then make_map else Labels (R_Meta r)) = Some f"
    "\<forall>k. fmlookup f k = map_lookup (Labels (R_Meta r)) k"
    by (cases "Labels (R_Meta r)") (auto simp: make_map_def)
  show ?thesis
    by (auto simp: RunnerWebhook_Default_def default_runner_def run_andthen Let_def f)
qed

text \<open>The same for a runner set: its template carries the name of a set, its own by default.\<close>

lemma runnerset_defaults:
  "\<exists>rs'. RunnerSetWebhook_Default (ORunnerSet rs) s = (Done (None, ORunnerSet rs'), s) \<and>
     RunnerSetWebhook_Default (ORunnerSet rs') s = (Done (None, ORunnerSet rs'), s) \<and>
     Name (S_Meta rs') = Name (S_Meta rs) \<and> Selector (S_Spec rs') = Selector (S_Spec rs) \<and>
     T_Spec (Template (S_Spec rs')) = T_Spec (Template (S_Spec rs)) \<and>
     (\<forall>k. map_lookup (Labels (T_Meta (Template (S_Spec rs')))) k =
        (if k = LabelRunnerSetName \<and> map_lookup (Labels (T_Meta (Template (S_Spec rs)))) k = None
         then Some (Name (S_Meta rs)) else map_lookup (Labels (T_Meta (Template (S_Spec rs)))) k))"
proof -
  let ?l = "Labels (T_Meta (Template (S_Spec rs)))"
  obtain f where f: "(if ?l = None then make_map else ?l) = Some f" "\<forall>k. fmlookup f k = map_lookup ?l k"
    by (cases ?l) (auto simp: make_map_def)
  show ?thesis
    by (auto simp: RunnerSetWebhook_Default_def default_runnerset_def run_andthen Let_def f)
qed

section \<open>Specs are immutable\<close>

text \<open>Documented behaviour of the converter: the spec of a runner becomes the JSON object of its tags.\<close>

definition converts_specs :: "spec_encoders \<Rightarrow> kobject converter \<Rightarrow> bool" where
  "converts_specs E cv \<longleftrightarrow>
     (\<forall>r. \<exists>m. ToUnstructured cv (ORunner r) = Inr m \<and> fmlookup m ''spec'' = Some (JObject (spec_json E (R_Spec r))))"

text \<open>Two specs that differ at most in the fields that the controller fills in and in what JSON does not
  show: whether an empty node selector is nil, and what the encoders leave out.\<close>

definition same_image :: "spec_encoders \<Rightarrow> runner_image \<Rightarrow> runner_image \<Rightarrow> bool" where
  "same_image E a b \<longleftrightarrow> ImageName a = ImageName b \<and> PullPolicy a = PullPolicy b \<and>
     map (Enc_PullSecret E) (PullSecrets a) = map (Enc_PullSecret E) (PullSecrets b)"

definition same_placement :: "spec_encoders \<Rightarrow> runner_placement \<Rightarrow> runner_placement \<Rightarrow> bool" where
  "same_placement E a b \<longleftrightarrow> entries (NodeSelector a) = entries (NodeSelector b) \<and>
     map (Enc_Toleration E) (Tolerations a) = map (Enc_Toleration E) (Tolerations b) \<and>
     map_option (Enc_Affinity E) (Affinity a) = map_option (Enc_Affinity E) (Affinity b)"

definition same_but_filled :: "spec_encoders \<Rightarrow> runner_spec \<Rightarrow> runner_spec \<Rightarrow> bool" where
  "same_but_filled E a b \<longleftrightarrow>
     URL a = URL b \<and> Group a = Group b \<and> Workdir a = Workdir b \<and> same_image E (Image a) (Image b) \<and>
     EvictionPolicy a = EvictionPolicy b \<and> same_placement E (Placement a) (Placement b) \<and>
     Enc_Resources E (Resources a) = Enc_Resources E (Resources b) \<and>
     ServiceAccountName a = ServiceAccountName b \<and>
     map_option (Enc_SecurityContext E) (SecurityContext a) = map_option (Enc_SecurityContext E) (SecurityContext b) \<and>
     RuntimeClassName a = RuntimeClassName b \<and>
     map (Enc_Volume E) (Volumes a) = map (Enc_Volume E) (Volumes b) \<and>
     map (Enc_VolumeMount E) (VolumeMounts a) = map (Enc_VolumeMount E) (VolumeMounts b)"

lemma lookup_json_field:
  "fmlookup (json_field k v m) k' = (if k' = k \<and> v \<noteq> None then v else fmlookup m k')"
  by (auto simp: json_field_def split: option.split)

lemma omit_string_iff: "omit_string a = omit_string b \<longleftrightarrow> a = b"
  by (auto simp: omit_string_def)

lemma omit_list_iff: "omit_list f xs = omit_list f ys \<longleftrightarrow> map f xs = map f ys"
  by (auto simp: omit_list_def)

lemma omit_map_iff: "omit_map m = omit_map m' \<longleftrightarrow> entries m = entries m'"
proof -
  have "inj (fmmap JString :: (string, string) fmap \<Rightarrow> json_map)"
    by (rule fmap.inj_map) (simp add: inj_def)
  then show ?thesis by (auto simp: omit_map_def inj_eq)
qed

lemma omit_string_option: "map_option JString a = map_option JString b \<longleftrightarrow> a = b"
  by (cases a; cases b) simp_all

lemma image_members:
  "fmlookup (image_json E i) ''name'' = omit_string (ImageName i)"
  "fmlookup (image_json E i) ''pullPolicy'' = omit_string (PullPolicy i)"
  "fmlookup (image_json E i) ''pullSecrets'' = omit_list (Enc_PullSecret E) (PullSecrets i)"
  by (simp_all add: image_json_def lookup_json_field)

lemma placement_members:
  "fmlookup (placement_json E p) ''nodeSelector'' = omit_map (NodeSelector p)"
  "fmlookup (placement_json E p) ''tolerations'' = omit_list (Enc_Toleration E) (Tolerations p)"
  "fmlookup (placement_json E p) ''affinity'' = map_option (Enc_Affinity E) (Affinity p)"
  by (simp_all add: placement_json_def lookup_json_field)

lemma spec_members:
  "fmlookup (spec_json E sp) ''url'' = Some (JString (URL sp))"
  "fmlookup (spec_json E sp) ''group'' = omit_string (Group sp)"
  "fmlookup (spec_json E sp) ''workdir'' = omit_string (Workdir sp)"
  "fmlookup (spec_json E sp) ''image'' = Some (JObject (image_json E (Image sp)))"
  "fmlookup (spec_json E sp) ''evictionPolicy'' = omit_string (EvictionPolicy sp)"
  "fmlookup (spec_json E sp) ''placement'' = Some (JObject (placement_json E (Placement sp)))"
  "fmlookup (spec_json E sp) ''resources'' = Some (Enc_Resources E (Resources sp))"
  "fmlookup (spec_json E sp) ''serviceAccountName'' = omit_string (ServiceAccountName sp)"
  "fmlookup (spec_json E sp) ''securityContext'' = map_option (Enc_SecurityContext E) (SecurityContext sp)"
  "fmlookup (spec_json E sp) ''runtimeClassName'' = map_option JString (RuntimeClassName sp)"
  "fmlookup (spec_json E sp) ''volumes'' = omit_list (Enc_Volume E) (Volumes sp)"
  "fmlookup (spec_json E sp) ''volumeMounts'' = omit_list (Enc_VolumeMount E) (VolumeMounts sp)"
  by (simp_all add: spec_json_def lookup_json_field)

lemma image_json_iff: "image_json E a = image_json E b \<longleftrightarrow> same_image E a b"
proof
  assume "image_json E a = image_json E b"
  then have l: "fmlookup (image_json E a) k = fmlookup (image_json E b) k" for k by simp
  show "same_image E a b"
    using l [of "''name''"] l [of "''pullPolicy''"] l [of "''pullSecrets''"]
    by (simp only: image_members omit_string_iff omit_list_iff same_image_def simp_thms)
next
  assume "same_image E a b"
  then show "image_json E a = image_json E b"
    by (simp add: image_json_def same_image_def omit_list_iff [symmetric])
qed

lemma placement_json_iff: "placement_json E a = placement_json E b \<longleftrightarrow> same_placement E a b"
proof
  assume "placement_json E a = placement_json E b"
  then have l: "fmlookup (placement_json E a) k = fmlookup (placement_json E b) k" for k by simp
  show "same_placement E a b"
    using l [of "''nodeSelector''"] l [of "''tolerations''"] l [of "''affinity''"]
    by (simp only: placement_members omit_map_iff omit_list_iff same_placement_def simp_thms)
next
  assume "same_placement E a b"
  then show "placement_json E a = placement_json E b"
    by (simp add: placement_json_def same_placement_def omit_list_iff [symmetric] omit_map_def)
qed

text \<open>The members of the object that the comparison looks at.\<close>

lemma drop_both:
  "fmdrop ''os'' (fmdrop ''id'' (spec_json E a)) = fmdrop ''os'' (fmdrop ''id'' (spec_json E b)) \<longleftrightarrow>
     same_but_filled E a b"
proof
  assume "fmdrop ''os'' (fmdrop ''id'' (spec_json E a)) = fmdrop ''os'' (fmdrop ''id'' (spec_json E b))"
  then have "fmlookup (fmdrop ''os'' (fmdrop ''id'' (spec_json E a))) k =
      fmlookup (fmdrop ''os'' (fmdrop ''id'' (spec_json E b))) k" for k by simp
  then have l: "fmlookup (spec_json E a) k = fmlookup (spec_json E b) k" if "k \<noteq> ''os''" "k \<noteq> ''id''" for k
    using that by (metis fmlookup_drop)
  show "same_but_filled E a b"
    using l [of "''url''"] l [of "''group''"] l [of "''workdir''"] l [of "''image''"] l [of "''evictionPolicy''"]
      l [of "''placement''"] l [of "''resources''"] l [of "''serviceAccountName''"] l [of "''securityContext''"]
      l [of "''runtimeClassName''"] l [of "''volumes''"] l [of "''volumeMounts''"]
    by (simp add: spec_members omit_string_iff omit_list_iff omit_string_option image_json_iff placement_json_iff
        same_but_filled_def)
next
  assume same: "same_but_filled E a b"
  show "fmdrop ''os'' (fmdrop ''id'' (spec_json E a)) = fmdrop ''os'' (fmdrop ''id'' (spec_json E b))"
  proof (rule fmap_ext)
    fix k
    show "fmlookup (fmdrop ''os'' (fmdrop ''id'' (spec_json E a))) k =
        fmlookup (fmdrop ''os'' (fmdrop ''id'' (spec_json E b))) k"
      using same
      by (simp add: spec_json_def lookup_json_field same_but_filled_def image_json_iff [symmetric]
          placement_json_iff [symmetric] omit_list_iff [symmetric])
  qed
qed

text \<open>C25. The spec of a runner is immutable: an update is admitted exactly when the new spec differs
  from the old one at most in the fields that the controller fills in, the runner's id and its
  operating system, and in what the JSON form does not show, such as a nil instead of an empty node
  selector; any other update gets the one error that says so.\<close>

theorem runner_spec_is_immutable:
  assumes "converts_specs E cv"
  shows "RunnerWebhook_ValidateUpdate cv (ORunner old) (ORunner new) s =
    (Done (if same_but_filled E (R_Spec old) (R_Spec new) then None
           else Some (Invalid (ORunner new) [FieldForbidden [''spec''] ''spec is immutable''])), s)"
proof -
  from assms obtain m m' where
    m: "ToUnstructured cv (ORunner old) = Inr m" "fmlookup m ''spec'' = Some (JObject (spec_json E (R_Spec old)))"
      "ToUnstructured cv (ORunner new) = Inr m'" "fmlookup m' ''spec'' = Some (JObject (spec_json E (R_Spec new)))"
    unfolding converts_specs_def by blast
  show ?thesis
    by (simp add: RunnerWebhook_ValidateUpdate_def m Let_def admission_def drop_both)
qed

subsection \<open>A converter\<close>

definition opaque_json :: "opaque \<Rightarrow> json" where
  "opaque_json x = (case x of Opaque t \<Rightarrow> JString t)"

definition sample_encoders :: spec_encoders where
  "sample_encoders =
     \<lparr>Enc_PullSecret = opaque_json, Enc_Toleration = opaque_json, Enc_Affinity = opaque_json,
      Enc_Resources = opaque_json, Enc_SecurityContext = opaque_json,
      Enc_Volume = (\<lambda>v. case v of SecretVolume a b \<Rightarrow> JArray [JString a, JString b] | OtherVolume x \<Rightarrow> opaque_json x),
      Enc_VolumeMount = (\<lambda>v. case v of Mount a r b \<Rightarrow> JArray [JString a, JBool r, JString b]
        | OtherMount x \<Rightarrow> opaque_json x)\<rparr>"

definition sample_object_json :: "kobject converter" where
  "sample_object_json =
     \<lparr>ToUnstructured = (\<lambda>obj. case obj of
          ORunner r \<Rightarrow> Inr (fmupd ''spec'' (JObject (spec_json sample_encoders (R_Spec r))) fmempty)
        | _ \<Rightarrow> Inl (LibError ''kind'')),
      FromUnstructured = (\<lambda>m obj. Inr obj)\<rparr>"

lemma sample_object_json_converts: "converts_specs sample_encoders sample_object_json"
  by (simp add: converts_specs_def sample_object_json_def)

text \<open>A spec without a node selector, with an empty one, and with another URL.\<close>

definition selecting :: "string gomap \<Rightarrow> runner" where
  "selecting m = (sample_runner None [] [])\<lparr>R_Spec := sample_spec
     \<lparr>Placement := (Placement sample_spec)\<lparr>NodeSelector := m\<rparr>\<rparr>\<rparr>"

lemma runner_spec_is_immutable_witness:
  "fst (RunnerWebhook_ValidateUpdate sample_object_json (ORunner (selecting None))
     (ORunner ((selecting None)\<lparr>R_Spec := (R_Spec (selecting None))\<lparr>URL := []\<rparr>\<rparr>)) ()) \<noteq> Done None \<and>
   fst (RunnerWebhook_ValidateUpdate sample_object_json (ORunner (selecting None)) (ORunner (selecting (Some fmempty))) ()) =
     Done None"
  by (simp add: runner_spec_is_immutable [OF sample_object_json_converts])
    (simp add: same_but_filled_def same_image_def same_placement_def selecting_def entries_def sample_spec_def)

section \<open>The controller and the webhook\<close>

text \<open>The runner controller changes nothing of a spec but what it fills in.\<close>

definition blank :: "runner \<Rightarrow> runner_spec" where
  "blank r = (R_Spec r)\<lparr>ID := None, OS := []\<rparr>"

lemma blank_same: "blank a = blank b \<Longrightarrow> same_but_filled E (R_Spec a) (R_Spec b)"
  by (cases "R_Spec a"; cases "R_Spec b") (simp add: blank_def same_but_filled_def same_image_def same_placement_def)

lemma keeps_set_status_spec [keeps_intros]: "keeps blank (set_status_condition R st re me)"
  by (auto simp: set_status_condition_def blank_def set_Conditions_def intro!: keeps_intros keeps_modify_var)

lemma keeps_blank_reconcileStatus: "keeps blank (reconcileStatus R p)"
  unfolding reconcileStatus_def gh_GetRunner_def Let_def
  by (auto intro!: keeps_intros keeps_modify_var simp: blank_def set_ID_def set_OS_def set_Phase_def
      split: prod.splits)

lemma keeps_blank_reconcile: "keeps blank (reconcile_runner R)"
  unfolding reconcile_runner_def reconcile_normal_def reconcile_deletion_def gh_GetRunner_def Let_def
  by (auto intro!: keeps_intros keeps_modify_var keeps_CreateOrUpdate keeps_blank_reconcileStatus
      simp: blank_def set_Phase_def split: prod.splits)

definition runner_patch :: "call \<Rightarrow> bool" where
  "runner_patch c \<longleftrightarrow> (\<exists>b n. c = PatchC (ORunner b) (ORunner n))"

lemma reconcile_runner_no_patch: "issues (\<lambda>c. \<not> runner_patch c) (reconcile_runner R)"
  unfolding reconcile_runner_def Let_def
  by (auto simp: runner_patch_def
      intro!: issues_intros issues_reconcile_normal issues_reconcile_deletion)

lemma Patcher_Patch_runner:
  "wp (Patcher_Patch U cv L ORunner c p) (\<lambda>r s'. \<exists>cs. trace s' = trace s @ cs \<and>
     (\<forall>b n. PatchC (ORunner b) (ORunner n) \<in> set cs \<longrightarrow> b = patch p \<and> n = var s)) s"
  by (auto simp: Patcher_Patch_def wp_simps Let_def client_defs split: sum.splits prod.splits option.splits)

text \<open>C24. The webhook lets the controller work: every patch of a runner that a reconciliation sends is
  admitted, since the controller changes no part of a spec but the runner's id and operating system.\<close>

theorem own_patches_are_admitted:
  assumes "converts_specs E cv"
    and "PatchC (ORunner old) (ORunner new) \<in> set (trace (snd (Reconcile R key (start w v))))"
  shows "RunnerWebhook_ValidateUpdate cv (ORunner old) (ORunner new) t = (Done None, t)"
proof -
  obtain r s' where run: "Reconcile R key (start w v) = (r, s')" by fastforce
  with assms(2) have sent: "PatchC (ORunner old) (ORunner new) \<in> set (trace s')" by simp
  from run have "same_but_filled E (R_Spec old) (R_Spec new)"
  proof (cases rule: Reconcile_cases)
    case (patched runner p w1 r1 s1 perr)
    from issuesD [OF reconcile_runner_no_patch patched(3)]
    obtain cs where cs: "trace s1 = [GetC KRunner key] @ cs" "\<forall>c\<in>set cs. \<not> runner_patch c" by auto
    from wpD [OF Patcher_Patch_runner patched(4)]
    obtain ds where ds: "trace s' = trace s1 @ ds"
      "\<forall>b n. PatchC (ORunner b) (ORunner n) \<in> set ds \<longrightarrow> b = patch p \<and> n = var s1" by blast
    have "PatchC (ORunner old) (ORunner new) \<in> set ds"
      using sent cs ds(1) by (auto simp: runner_patch_def)
    with ds(2) NewPatcher_split(2) [OF patched(2)] have "old = runner" "new = var s1" by auto
    with keepsD [OF keeps_blank_reconcile patched(3)] show ?thesis
      by (intro blank_same) simp
  qed (use sent in auto)
  then show ?thesis by (simp add: runner_spec_is_immutable [OF assms(1)])
qed

section \<open>Admitted sets\<close>

text \<open>C26. The runners of an admitted set are admissible: every runner that \<open>syncRunners\<close> writes for a runner
  set that passed the validation of a creation or of an update passes the validation of runners.\<close>

theorem admitted_set_makes_admissible_runners:
  assumes "fst (RunnerSetWebhook_ValidateCreate L (ORunnerSet (var s)) t) = Done None \<or>
      fst (RunnerSetWebhook_ValidateUpdate old (ORunnerSet (var s)) t) = Done None"
    and "finds_no_unnamed (RunnersOf (SR_Client R))"
  shows "wp (syncRunners R runners cr) (\<lambda>r s'. \<exists>cs. trace s' = trace s @ cs \<and>
    (\<forall>b new. CommitC (ORunner b) (ORunner new) \<in> set cs \<longrightarrow>
       RunnerWebhook_ValidateCreate (ORunner new) t' = (Done None, t'))) s"
proof -
  have url: "MatchString matchOrgOrRepoURLRegexp (URL (T_Spec (Template (S_Spec (var s)))))"
    using assms(1)
    by (auto simp: RunnerSetWebhook_ValidateCreate_def RunnerSetWebhook_ValidateUpdate_def Let_def
        admission_def template_url_errors_def split: sum.splits kobject.splits if_splits)
  have "RunnerWebhook_ValidateCreate (ORunner new) t' = (Done None, t')" if "made_for R (var s) cr b new" for b new
    using that url by (simp add: made_for_def RunnerWebhook_ValidateCreate_def admission_def)
  then show ?thesis
    by (intro wp_mono [OF created_runners_belong_to_set [OF assms(2)]]) blast
qed

text \<open>Documented behaviour of a list request with label requirements: what it gives has those labels.\<close>

definition lists_matching :: "('w, runner) resource \<Rightarrow> bool" where
  "lists_matching c \<longleftrightarrow> (\<forall>ns m w xs w'. ListAll c (InNamespaceMatchingLabels ns (Some m)) w = (Inr xs, w') \<longrightarrow>
     (\<forall>x\<in>set xs. \<forall>k v. fmlookup m k = Some v \<longrightarrow> map_lookup (Labels (R_Meta x)) k = Some v))"

text \<open>A template whose labels contradict the selector of its set.\<close>

definition contradicts :: "'w library \<Rightarrow> runnerset \<Rightarrow> string \<Rightarrow> bool" where
  "contradicts L rs k \<longleftrightarrow> (\<exists>m v. metav1_LabelSelectorAsMap L (Selector (S_Spec rs)) = Inr (Some m) \<and>
     fmlookup m k = Some v \<and> map_lookup (Labels (T_Meta (Template (S_Spec rs)))) k \<noteq> Some v)"

lemma find_unmanaged: "\<not> managed R (var s) x \<Longrightarrow> find_runner R cr x f s = (Done f, s)"
  by (simp add: find_runner_def managed_def run_andthen read_var_def)

lemma find_only_unmanaged:
  "(\<And>x. x \<in> set xs \<Longrightarrow> \<not> managed R (var s) x) \<Longrightarrow> for_each xs (find_runner R cr) f s = (Done f, s)"
  by (induction xs) (simp_all add: run_andthen find_unmanaged)

text \<open>The validation of an update does not look at the labels of the template, and so it admits a set
  that loses its runners: when the new template's labels contradict the selector, the update is admitted
  all the same; and with runners that carry the labels of the template, the controller then finds none
  of them and starts to create the full number again, in every reconciliation.\<close>

theorem admitted_update_loses_runners:
  assumes url: "MatchString matchOrgOrRepoURLRegexp (URL (T_Spec (Template (S_Spec rs))))"
    and selector: "Selector (S_Spec rs) = Selector (S_Spec old)"
    and bad: "contradicts (SR_Library R) rs k"
    and server: "lists_matching (RunnersOf (SR_Client R))"
    and own: "\<And>sel w xs w' x. ListAll (RunnersOf (SR_Client R)) sel w = (Inr xs, w') \<Longrightarrow> x \<in> set xs \<Longrightarrow>
        managed R rs x \<Longrightarrow> map_lookup (Labels (R_Meta x)) k = map_lookup (Labels (T_Meta (Template (S_Spec rs)))) k"
    and s: "var s = rs" and n: "Runners (S_Spec rs) = Some n" "0 \<le> sint n"
    and srt: "sorts RunnersToDelete_Less (SR_Sort R)"
  shows "RunnerSetWebhook_ValidateUpdate (ORunnerSet old) (ORunnerSet rs) t = (Done None, t) \<and>
    wp (findRunners R cr) (\<lambda>res s'. \<forall>runners. res = Done (Inr runners) \<longrightarrow> runners = [] \<and>
      wp (syncRunners R runners cr) (\<lambda>r s''. \<exists>cs. trace s'' = trace s' @ cs \<and>
        length (filter is_create cs) = nat (sint n)) s') s"
proof
  show "RunnerSetWebhook_ValidateUpdate (ORunnerSet old) (ORunnerSet rs) t = (Done None, t)"
    using url selector by (simp add: RunnerSetWebhook_ValidateUpdate_def admission_def template_url_errors_def)
  obtain m v where m: "metav1_LabelSelectorAsMap (SR_Library R) (Selector (S_Spec rs)) = Inr (Some m)"
    "fmlookup m k = Some v" "map_lookup (Labels (T_Meta (Template (S_Spec rs)))) k \<noteq> Some v"
    using bad by (auto simp: contradicts_def)
  have none: "\<not> managed R rs x"
    if "ListAll (RunnersOf (SR_Client R)) (InNamespaceMatchingLabels ns (Some m)) w = (Inr xs, w')" "x \<in> set xs"
    for ns w xs w' x
    using server m(2,3) own [OF that] that unfolding lists_matching_def by metis
  have sync: "wp (syncRunners R [] cr) (\<lambda>r s''. \<exists>cs. trace s'' = trace s' @ cs \<and>
      length (filter is_create cs) = nat (sint n)) s'" if "S_Spec (var s') = S_Spec rs" for s'
    by (rule wp_mono [OF syncRunners_reaches_desired [OF srt]]) (use n that in \<open>auto simp: synced_def\<close>)
  show "wp (findRunners R cr) (\<lambda>res s'. \<forall>runners. res = Done (Inr runners) \<longrightarrow> runners = [] \<and>
      wp (syncRunners R runners cr) (\<lambda>r s''. \<exists>cs. trace s'' = trace s' @ cs \<and>
        length (filter is_create cs) = nat (sint n)) s') s"
  proof (rule wpI, intro allI impI)
    fix res s' runners
    assume run: "findRunners R cr s = (res, s')" and res: "res = Done (Inr runners)"
    obtain got w1 where got: "ListAll (RunnersOf (SR_Client R))
        (InNamespaceMatchingLabels (Namespace (S_Meta rs)) (Some m)) (world s) = (got, w1)" by fastforce
    with run res obtain xs where xs: "got = Inr xs"
      by (cases got) (auto simp: findRunners_def run_andthen read_var_def s m(1) client_List_def ext_def)
    have "for_each xs (find_runner R cr) f s1 = (Done f, s1)" if "var s1 = rs" for f s1
      by (rule find_only_unmanaged) (use none [OF got [unfolded xs]] that in auto)
    then have "runners = [] \<and> S_Spec (var s') = S_Spec rs"
      using run res got xs
      by (auto simp: findRunners_def run_andthen read_var_def s m(1) client_List_def ext_def
          modify_var_def set_counts_def)
    with sync show "runners = [] \<and> wp (syncRunners R runners cr) (\<lambda>r s''. \<exists>cs. trace s'' = trace s' @ cs \<and>
        length (filter is_create cs) = nat (sint n)) s'" by simp
  qed
qed

section \<open>The properties at concrete inputs\<close>

lemma admitted_url: "MatchString matchOrgOrRepoURLRegexp (URL sample_spec)"
  by code_simp

fun writes_runner :: "call \<Rightarrow> bool" where
  "writes_runner (CommitC (ORunner b) (ORunner new)) = True"
| "writes_runner _ = False"

lemma admitted_set_makes_admissible_runners_witness:
  "\<exists>b new. CommitC (ORunner b) (ORunner new) \<in> set (trace (snd (syncRunners (sample_set_reconciler []) []
      (sample_revision ''s1-1'' 1) (start () (sample_runnerset 1))))) \<and>
    RunnerWebhook_ValidateCreate (ORunner new) () = (Done None, ())"
proof -
  let ?R = "sample_set_reconciler []" and ?s = "start () (sample_runnerset 1)"
  let ?sync = "syncRunners ?R [] (sample_revision ''s1-1'' 1) ?s"
  have "list_ex writes_runner (trace (snd ?sync))"
    by code_simp
  then obtain c where "c \<in> set (trace (snd ?sync))" "writes_runner c"
    unfolding list_ex_iff by blast
  then obtain b new where made: "CommitC (ORunner b) (ORunner new) \<in> set (trace (snd ?sync))"
    by (auto elim: writes_runner.elims)
  have "fst (RunnerSetWebhook_ValidateUpdate (ORunnerSet (var ?s)) (ORunnerSet (var ?s)) ()) = Done None"
    by (simp add: RunnerSetWebhook_ValidateUpdate_def admission_def template_url_errors_def sample_runnerset_def
        start_def admitted_url)
  moreover have "finds_no_unnamed (RunnersOf (SR_Client ?R))"
    by (simp add: finds_no_unnamed_def sample_set_reconciler_def sample_resource_def)
  ultimately have "wp (syncRunners ?R [] (sample_revision ''s1-1'' 1)) (\<lambda>r s'. \<exists>cs. trace s' = trace ?s @ cs \<and>
    (\<forall>b new. CommitC (ORunner b) (ORunner new) \<in> set cs \<longrightarrow> RunnerWebhook_ValidateCreate (ORunner new) () = (Done None, ()))) ?s"
    by (rule admitted_set_makes_admissible_runners [OF disjI2])
  from wpD [OF this surjective_pairing] made show ?thesis by (auto simp: start_def)
qed

text \<open>A reconciliation that adds the finalizer and then cannot read the secret.\<close>

definition unreadable_secrets :: "unit runner_reconciler" where
  "unreadable_secrets =
     (let R = sample_reconciler (sample_runner None [] []) (sample_secret None None) sample_ready_pod
        (sample_gh_runner False, None) (sample_token, None)
      in R\<lparr>RR_Client := (RR_Client R)\<lparr>SecretsOf := (SecretsOf (RR_Client R))
        \<lparr>Fetch := (\<lambda>x w. (Inl (LibError ''down''), w))\<rparr>\<rparr>\<rparr>)"

lemma own_patches_are_admitted_witness:
  "\<exists>old new. PatchC (ORunner old) (ORunner new) \<in> set (trace (snd (Reconcile unreadable_secrets sample_key
       (start () (sample_runner None [] []))))) \<and>
     RunnerWebhook_ValidateUpdate sample_object_json (ORunner old) (ORunner new) () = (Done None, ())"
proof -
  let ?new = "sample_runner None [RunnerController] []"
  have ne: "fmdrop ''status'' (fmupd ''status'' a (fmupd ''finalizers'' (JArray []) m)) \<noteq>
      fmdrop ''status'' (fmupd ''status'' b (fmupd ''finalizers'' (JArray [x]) m))" for a b x and m :: json_map
  proof
    assume "fmdrop ''status'' (fmupd ''status'' a (fmupd ''finalizers'' (JArray []) m)) =
      fmdrop ''status'' (fmupd ''status'' b (fmupd ''finalizers'' (JArray [x]) m))"
    from arg_cong [OF this, where f = "\<lambda>m. fmlookup m ''finalizers''"] show False by simp
  qed
  have "PatchC (ORunner (sample_runner None [] [])) (ORunner ?new) \<in>
      set (trace (snd (Reconcile unreadable_secrets sample_key (start () (sample_runner None [] [])))))"
    by (simp add: Reconcile_def reconcile_runner_def reconcile_normal_def CreateOrUpdate_def NewPatcher_def
        Patcher_Patch_def run_andthen deferred_def client_defs ext_def read_var_def write_var_def modify_var_def
        start_def forbidden_or_not_found_def IsForbidden_def has_status_def unreadable_secrets_def sample_reconciler_def
        sample_cluster_def sample_resource_def sample_library_def sample_unstructured_def sample_runner_json_def
        sample_runner_def sample_meta_def Let_def GetDeletionTimestamp_IsZero_def
        IsNotFound_def parseErrorResponse_def ne)
  note sent = this
  show ?thesis
    by (intro exI conjI, rule sent, rule own_patches_are_admitted [OF sample_object_json_converts sent])
qed

text \<open>A set that selects a label which its template does not have.\<close>

definition blind_set :: runnerset where
  "blind_set = (sample_runnerset 2)\<lparr>S_Spec := (S_Spec (sample_runnerset 2))
     \<lparr>Selector := \<lparr>MatchLabels = Some (fmupd ''app'' ''x'' fmempty), MatchExpressions = []\<rparr>\<rparr>\<rparr>"

lemma admitted_update_loses_runners_witness:
  "RunnerSetWebhook_ValidateUpdate (ORunnerSet blind_set) (ORunnerSet blind_set) () = (Done None, ()) \<and>
    wp (findRunners (sample_set_reconciler []) (sample_revision ''s1-1'' 1))
     (\<lambda>res s'. \<forall>runners. res = Done (Inr runners) \<longrightarrow> runners = [] \<and>
       wp (syncRunners (sample_set_reconciler []) runners (sample_revision ''s1-1'' 1))
        (\<lambda>r s''. \<exists>cs. trace s'' = trace s' @ cs \<and> length (filter is_create cs) = nat (sint (2 :: int32))) s')
     (start () blind_set)"
proof (rule admitted_update_loses_runners)
  show "MatchString matchOrgOrRepoURLRegexp (URL (T_Spec (Template (S_Spec blind_set))))"
    using admitted_url by (simp add: blind_set_def sample_runnerset_def)
  show "contradicts (SR_Library (sample_set_reconciler [])) blind_set ''app''"
    by (simp add: contradicts_def sample_set_reconciler_def sample_library_def blind_set_def sample_runnerset_def
        empty_meta_def)
  show "lists_matching (RunnersOf (SR_Client (sample_set_reconciler [])))"
    by (simp add: lists_matching_def sample_set_reconciler_def sample_resource_def)
  show "sorts RunnersToDelete_Less (SR_Sort (sample_set_reconciler []))"
    by (simp add: sample_set_reconciler_def to_delete.sorts_sort_Stable)
qed (simp_all add: start_def blind_set_def sample_runnerset_def sample_set_reconciler_def sample_resource_def)

end
