(* ===== verification/Conversion.thy ===== *)
theory Conversion
  imports Prelude Api_Types
begin

text \<open>
  \<open>api/v1alpha1\<close>: the older version of the API, and its conversion to and from the hub version v1alpha2.
  A conversion function of the code fills an object that it is given (\<open>out\<close>): the fields that it
  does not assign keep their values, and so the model takes \<open>out\<close> and gives it back updated.
\<close>

section \<open>The types of v1alpha1\<close>

record a1_runner_image =
  A1_ImageName :: string
  A1_PullPolicy :: string
  A1_PullSecrets :: "opaque list"

record a1_runner_placement =
  A1_NodeSelector :: "string gomap"
  A1_Tolerations :: "opaque list"
  A1_Affinity :: "opaque option"

record a1_runner_spec =
  A1_URL :: string
  A1_ID :: "int64 option"
  A1_OS :: string
  A1_Group :: string
  A1_Workdir :: string
  A1_Image :: a1_runner_image
  A1_Placement :: a1_runner_placement
  A1_Resources :: opaque
  A1_ServiceAccountName :: string
  A1_SecurityContext :: "opaque option"
  A1_RuntimeClassName :: "string option"
  A1_Volumes :: "volume list"
  A1_VolumeMounts :: "volume_mount list"

record a1_runner_status =
  A1_Phase :: string
  A1_Conditions :: "condition list"

record a1_runner =
  A1_R_Type :: type_meta
  A1_R_Meta :: object_meta
  A1_R_Spec :: a1_runner_spec
  A1_R_Status :: a1_runner_status

record a1_runner_template_spec =
  A1_T_Meta :: object_meta
  A1_T_Spec :: a1_runner_spec

record a1_runnerset_spec =
  A1_Runners :: "int32 option"
  A1_Selector :: label_selector
  A1_Template :: a1_runner_template_spec

record a1_runnerset_status =
  A1_StatusRunners :: int32
  A1_IdleRunners :: int32
  A1_ActiveRunners :: int32
  A1_S_Conditions :: "condition list"
  A1_StatusSelector :: string

record a1_runnerset =
  A1_S_Type :: type_meta
  A1_S_Meta :: object_meta
  A1_S_Spec :: a1_runnerset_spec
  A1_S_Status :: a1_runnerset_status

text \<open>Lists of both versions; \<open>metav1.ListMeta\<close> is copied as a whole.\<close>

record a1_runner_list =
  A1_RL_Type :: type_meta
  A1_RL_Meta :: opaque
  A1_RL_Items :: "a1_runner list"

record a1_runnerset_list =
  A1_SL_Type :: type_meta
  A1_SL_Meta :: opaque
  A1_SL_Items :: "a1_runnerset list"

record runner_list =
  RL_Type :: type_meta
  RL_Meta :: opaque
  RL_Items :: "runner list"

record runnerset_list =
  SL_Type :: type_meta
  SL_Meta :: opaque
  SL_Items :: "runnerset list"

definition AnnotationRunnerEvictionPolicy :: string where
  "AnnotationRunnerEvictionPolicy = ''runner.octorun.github.io/eviction-policy''"

section \<open>The constants of v1alpha1\<close>

type_synonym a1_runner_phase = string

definition A1_RunnerConditionOnline :: string where "A1_RunnerConditionOnline = ''runner.octorun.github.io/Online''"
definition A1_RunnerBusyReason :: string where "A1_RunnerBusyReason = ''RunnerBusy''"
definition A1_RunnerOnlineReason :: string where "A1_RunnerOnlineReason = ''RunnerOnline''"
definition A1_RunnerOfflineReason :: string where "A1_RunnerOfflineReason = ''RunnerOffline''"
definition A1_RunnerPodPendingReason :: string where "A1_RunnerPodPendingReason = ''RunnerPodPending''"
definition A1_RunnerPodSucceededReason :: string where "A1_RunnerPodSucceededReason = ''RunnerPodSucceeded''"
definition A1_RunnerSecretFailedReason :: string where "A1_RunnerSecretFailedReason = ''RunnerSecretFailed''"
definition A1_RunnerPendingPhase :: a1_runner_phase where "A1_RunnerPendingPhase = ''Pending''"
definition A1_RunnerIdlePhase :: a1_runner_phase where "A1_RunnerIdlePhase = ''Idle''"
definition A1_RunnerActivePhase :: a1_runner_phase where "A1_RunnerActivePhase = ''Active''"
definition A1_RunnerCompletePhase :: a1_runner_phase where "A1_RunnerCompletePhase = ''Complete''"
definition A1_RunnerAdoptedReason :: string where "A1_RunnerAdoptedReason = ''RunnerAdopted''"
definition A1_RunnerCreatedReason :: string where "A1_RunnerCreatedReason = ''RunnerCreated''"
definition A1_RunnerDeletedReason :: string where "A1_RunnerDeletedReason = ''RunnerDeleted''"
definition A1_AnnotationRunnerAssignedJobAt :: string where "A1_AnnotationRunnerAssignedJobAt = ''runner.octorun.github.io/assigned-job-at''"
definition A1_AnnotationRunnerTokenExpiresAt :: string where "A1_AnnotationRunnerTokenExpiresAt = ''runner.octorun.github.io/token-expires-at''"
definition A1_LabelPrefix :: string where "A1_LabelPrefix = ''octorun.github.io/''"
definition A1_LabelRunnerName :: string where "A1_LabelRunnerName = A1_LabelPrefix @ ''runner''"
definition A1_LabelRunnerSetName :: string where "A1_LabelRunnerSetName = A1_LabelPrefix @ ''runnerset''"

text \<open>No conversion touches these texts where they occur in objects: both versions mean the same by them.\<close>

lemma constants_agree:
  "A1_RunnerConditionOnline = RunnerConditionOnline"
  "A1_RunnerBusyReason = RunnerBusyReason"
  "A1_RunnerOnlineReason = RunnerOnlineReason"
  "A1_RunnerOfflineReason = RunnerOfflineReason"
  "A1_RunnerPodPendingReason = RunnerPodPendingReason"
  "A1_RunnerPodSucceededReason = RunnerPodSucceededReason"
  "A1_RunnerSecretFailedReason = RunnerSecretFailedReason"
  "A1_RunnerPendingPhase = RunnerPendingPhase"
  "A1_RunnerIdlePhase = RunnerIdlePhase"
  "A1_RunnerActivePhase = RunnerActivePhase"
  "A1_RunnerCompletePhase = RunnerCompletePhase"
  "A1_RunnerAdoptedReason = RunnerAdoptedReason"
  "A1_RunnerCreatedReason = RunnerCreatedReason"
  "A1_RunnerDeletedReason = RunnerDeletedReason"
  "A1_AnnotationRunnerAssignedJobAt = AnnotationRunnerAssignedJobAt"
  "A1_AnnotationRunnerTokenExpiresAt = AnnotationRunnerTokenExpiresAt"
  "A1_LabelPrefix = LabelPrefix"
  "A1_LabelRunnerName = LabelRunnerName"
  "A1_LabelRunnerSetName = LabelRunnerSetName"
  by (simp_all add: A1_RunnerConditionOnline_def RunnerConditionOnline_def A1_RunnerBusyReason_def
      RunnerBusyReason_def A1_RunnerOnlineReason_def RunnerOnlineReason_def
      A1_RunnerOfflineReason_def RunnerOfflineReason_def A1_RunnerPodPendingReason_def
      RunnerPodPendingReason_def A1_RunnerPodSucceededReason_def RunnerPodSucceededReason_def
      A1_RunnerSecretFailedReason_def RunnerSecretFailedReason_def A1_RunnerPendingPhase_def
      RunnerPendingPhase_def A1_RunnerIdlePhase_def RunnerIdlePhase_def A1_RunnerActivePhase_def
      RunnerActivePhase_def A1_RunnerCompletePhase_def RunnerCompletePhase_def
      A1_RunnerAdoptedReason_def RunnerAdoptedReason_def A1_RunnerCreatedReason_def
      RunnerCreatedReason_def A1_RunnerDeletedReason_def RunnerDeletedReason_def
      A1_AnnotationRunnerAssignedJobAt_def AnnotationRunnerAssignedJobAt_def
      A1_AnnotationRunnerTokenExpiresAt_def AnnotationRunnerTokenExpiresAt_def
      A1_LabelPrefix_def LabelPrefix_def A1_LabelRunnerName_def LabelRunnerName_def
      A1_LabelRunnerSetName_def LabelRunnerSetName_def)

section \<open>Zero values\<close>

text \<open>What \<open>make([]T, n)\<close> fills a slice with.\<close>

definition zero_runner_spec :: runner_spec where
  "zero_runner_spec =
     \<lparr>URL = [], ID = None, OS = [], Group = [], Workdir = [],
      Image = \<lparr>ImageName = [], PullPolicy = [], PullSecrets = []\<rparr>, EvictionPolicy = [],
      Placement = \<lparr>NodeSelector = None, Tolerations = [], Affinity = None\<rparr>,
      Resources = Opaque [], ServiceAccountName = [], SecurityContext = None,
      RuntimeClassName = None, Volumes = [], VolumeMounts = []\<rparr>"

definition zero_runner :: runner where
  "zero_runner =
     \<lparr>R_Type = \<lparr>APIVersion = [], Kind = []\<rparr>, R_Meta = empty_meta, R_Spec = zero_runner_spec,
      R_Status = \<lparr>Phase = [], Conditions = []\<rparr>\<rparr>"

definition zero_runnerset :: runnerset where
  "zero_runnerset =
     \<lparr>S_Type = \<lparr>APIVersion = [], Kind = []\<rparr>, S_Meta = empty_meta,
      S_Spec = \<lparr>Runners = None, Selector = \<lparr>MatchLabels = None, MatchExpressions = []\<rparr>,
        UpdateStrategy = \<lparr>StrategyType = []\<rparr>, RevisionHistoryLimit = None,
        Template = \<lparr>T_Meta = empty_meta, T_Spec = zero_runner_spec\<rparr>\<rparr>,
      S_Status = \<lparr>StatusRunners = 0, IdleRunners = 0, ActiveRunners = 0, CurrentRevision = [],
        NextRevision = [], CollisionCount = None, S_Conditions = [], StatusSelector = []\<rparr>\<rparr>"

definition zero_a1_runner_spec :: a1_runner_spec where
  "zero_a1_runner_spec =
     \<lparr>A1_URL = [], A1_ID = None, A1_OS = [], A1_Group = [], A1_Workdir = [],
      A1_Image = \<lparr>A1_ImageName = [], A1_PullPolicy = [], A1_PullSecrets = []\<rparr>,
      A1_Placement = \<lparr>A1_NodeSelector = None, A1_Tolerations = [], A1_Affinity = None\<rparr>,
      A1_Resources = Opaque [], A1_ServiceAccountName = [], A1_SecurityContext = None,
      A1_RuntimeClassName = None, A1_Volumes = [], A1_VolumeMounts = []\<rparr>"

definition zero_a1_runner :: a1_runner where
  "zero_a1_runner =
     \<lparr>A1_R_Type = \<lparr>APIVersion = [], Kind = []\<rparr>, A1_R_Meta = empty_meta,
      A1_R_Spec = zero_a1_runner_spec, A1_R_Status = \<lparr>A1_Phase = [], A1_Conditions = []\<rparr>\<rparr>"

definition zero_a1_runnerset :: a1_runnerset where
  "zero_a1_runnerset =
     \<lparr>A1_S_Type = \<lparr>APIVersion = [], Kind = []\<rparr>, A1_S_Meta = empty_meta,
      A1_S_Spec = \<lparr>A1_Runners = None, A1_Selector = \<lparr>MatchLabels = None, MatchExpressions = []\<rparr>,
        A1_Template = \<lparr>A1_T_Meta = empty_meta, A1_T_Spec = zero_a1_runner_spec\<rparr>\<rparr>,
      A1_S_Status = \<lparr>A1_StatusRunners = 0, A1_IdleRunners = 0, A1_ActiveRunners = 0,
        A1_S_Conditions = [], A1_StatusSelector = []\<rparr>\<rparr>"

section \<open>The conversion functions\<close>

text \<open>The loop over the items of a list: each is converted into a zero value; the first error ends it.\<close>

fun convert_items :: "('a \<Rightarrow> 'b \<Rightarrow> go_error + 'b) \<Rightarrow> 'b \<Rightarrow> 'a list \<Rightarrow> go_error + 'b list" where
  "convert_items conv zero [] = Inr []"
| "convert_items conv zero (x # xs) =
     (case conv x zero of
        Inl err \<Rightarrow> Inl err
      | Inr y \<Rightarrow> (case convert_items conv zero xs of Inl err \<Rightarrow> Inl err | Inr ys \<Rightarrow> Inr (y # ys)))"

subsection \<open>From v1alpha1 to v1alpha2\<close>

definition Convert_v1alpha1_RunnerImage_To_v1alpha2_RunnerImage ::
    "a1_runner_image \<Rightarrow> runner_image \<Rightarrow> go_error + runner_image" where
  "Convert_v1alpha1_RunnerImage_To_v1alpha2_RunnerImage inn out =
     Inr (out\<lparr>ImageName := A1_ImageName inn, PullPolicy := A1_PullPolicy inn,
           PullSecrets := A1_PullSecrets inn\<rparr>)"

definition Convert_v1alpha1_RunnerPlacement_To_v1alpha2_RunnerPlacement ::
    "a1_runner_placement \<Rightarrow> runner_placement \<Rightarrow> go_error + runner_placement" where
  "Convert_v1alpha1_RunnerPlacement_To_v1alpha2_RunnerPlacement inn out =
     Inr (out\<lparr>NodeSelector := A1_NodeSelector inn, Tolerations := A1_Tolerations inn,
           Affinity := A1_Affinity inn\<rparr>)"

definition Convert_v1alpha1_RunnerSpec_To_v1alpha2_RunnerSpec ::
    "a1_runner_spec \<Rightarrow> runner_spec \<Rightarrow> go_error + runner_spec" where
  "Convert_v1alpha1_RunnerSpec_To_v1alpha2_RunnerSpec inn out =
     (case Convert_v1alpha1_RunnerImage_To_v1alpha2_RunnerImage (A1_Image inn) (Image out) of
        Inl err \<Rightarrow> Inl err
      | Inr img \<Rightarrow>
          (case Convert_v1alpha1_RunnerPlacement_To_v1alpha2_RunnerPlacement (A1_Placement inn) (Placement out) of
             Inl err \<Rightarrow> Inl err
           | Inr placement \<Rightarrow>
               Inr (out\<lparr>URL := A1_URL inn, ID := A1_ID inn, OS := A1_OS inn,
                     Group := A1_Group inn, Workdir := A1_Workdir inn, Image := img,
                     Placement := placement, Resources := A1_Resources inn,
                     ServiceAccountName := A1_ServiceAccountName inn,
                     SecurityContext := A1_SecurityContext inn,
                     RuntimeClassName := A1_RuntimeClassName inn, Volumes := A1_Volumes inn,
                     VolumeMounts := A1_VolumeMounts inn\<rparr>)))"

definition Convert_v1alpha1_RunnerStatus_To_v1alpha2_RunnerStatus ::
    "a1_runner_status \<Rightarrow> runner_status \<Rightarrow> go_error + runner_status" where
  "Convert_v1alpha1_RunnerStatus_To_v1alpha2_RunnerStatus inn out =
     Inr (out\<lparr>Phase := A1_Phase inn, Conditions := A1_Conditions inn\<rparr>)"

definition Convert_v1alpha1_Runner_To_v1alpha2_Runner ::
    "a1_runner \<Rightarrow> runner \<Rightarrow> go_error + runner" where
  "Convert_v1alpha1_Runner_To_v1alpha2_Runner inn out =
     (case Convert_v1alpha1_RunnerSpec_To_v1alpha2_RunnerSpec (A1_R_Spec inn) (R_Spec out) of
        Inl err \<Rightarrow> Inl err
      | Inr spec \<Rightarrow>
          (case Convert_v1alpha1_RunnerStatus_To_v1alpha2_RunnerStatus (A1_R_Status inn) (R_Status out) of
             Inl err \<Rightarrow> Inl err
           | Inr status \<Rightarrow>
               Inr (out\<lparr>R_Meta := A1_R_Meta inn, R_Spec := spec, R_Status := status\<rparr>)))"

definition Convert_v1alpha1_RunnerTemplateSpec_To_v1alpha2_RunnerTemplateSpec ::
    "a1_runner_template_spec \<Rightarrow> runner_template_spec \<Rightarrow> go_error + runner_template_spec" where
  "Convert_v1alpha1_RunnerTemplateSpec_To_v1alpha2_RunnerTemplateSpec inn out =
     (case Convert_v1alpha1_RunnerSpec_To_v1alpha2_RunnerSpec (A1_T_Spec inn) (T_Spec out) of
        Inl err \<Rightarrow> Inl err
      | Inr spec \<Rightarrow>
          Inr (out\<lparr>T_Meta := A1_T_Meta inn, T_Spec := spec\<rparr>))"

definition Convert_v1alpha1_RunnerSetSpec_To_v1alpha2_RunnerSetSpec ::
    "a1_runnerset_spec \<Rightarrow> runnerset_spec \<Rightarrow> go_error + runnerset_spec" where
  "Convert_v1alpha1_RunnerSetSpec_To_v1alpha2_RunnerSetSpec inn out =
     (case Convert_v1alpha1_RunnerTemplateSpec_To_v1alpha2_RunnerTemplateSpec (A1_Template inn) (Template out) of
        Inl err \<Rightarrow> Inl err
      | Inr template \<Rightarrow>
          Inr (out\<lparr>Runners := A1_Runners inn, Selector := A1_Selector inn, Template := template\<rparr>))"

definition Convert_v1alpha1_RunnerSetStatus_To_v1alpha2_RunnerSetStatus ::
    "a1_runnerset_status \<Rightarrow> runnerset_status \<Rightarrow> go_error + runnerset_status" where
  "Convert_v1alpha1_RunnerSetStatus_To_v1alpha2_RunnerSetStatus inn out =
     Inr (out\<lparr>StatusRunners := A1_StatusRunners inn, IdleRunners := A1_IdleRunners inn,
           ActiveRunners := A1_ActiveRunners inn, S_Conditions := A1_S_Conditions inn,
           StatusSelector := A1_StatusSelector inn\<rparr>)"

definition Convert_v1alpha1_RunnerSet_To_v1alpha2_RunnerSet ::
    "a1_runnerset \<Rightarrow> runnerset \<Rightarrow> go_error + runnerset" where
  "Convert_v1alpha1_RunnerSet_To_v1alpha2_RunnerSet inn out =
     (case Convert_v1alpha1_RunnerSetSpec_To_v1alpha2_RunnerSetSpec (A1_S_Spec inn) (S_Spec out) of
        Inl err \<Rightarrow> Inl err
      | Inr spec \<Rightarrow>
          (case Convert_v1alpha1_RunnerSetStatus_To_v1alpha2_RunnerSetStatus (A1_S_Status inn) (S_Status out) of
             Inl err \<Rightarrow> Inl err
           | Inr status \<Rightarrow>
               Inr (out\<lparr>S_Meta := A1_S_Meta inn, S_Spec := spec, S_Status := status\<rparr>)))"

definition Convert_v1alpha1_RunnerList_To_v1alpha2_RunnerList ::
    "a1_runner_list \<Rightarrow> runner_list \<Rightarrow> go_error + runner_list" where
  "Convert_v1alpha1_RunnerList_To_v1alpha2_RunnerList inn out =
     (case convert_items Convert_v1alpha1_Runner_To_v1alpha2_Runner zero_runner (A1_RL_Items inn) of
        Inl err \<Rightarrow> Inl err
      | Inr items \<Rightarrow> Inr (out\<lparr>RL_Meta := A1_RL_Meta inn, RL_Items := items\<rparr>))"

definition Convert_v1alpha1_RunnerSetList_To_v1alpha2_RunnerSetList ::
    "a1_runnerset_list \<Rightarrow> runnerset_list \<Rightarrow> go_error + runnerset_list" where
  "Convert_v1alpha1_RunnerSetList_To_v1alpha2_RunnerSetList inn out =
     (case convert_items Convert_v1alpha1_RunnerSet_To_v1alpha2_RunnerSet zero_runnerset (A1_SL_Items inn) of
        Inl err \<Rightarrow> Inl err
      | Inr items \<Rightarrow> Inr (out\<lparr>SL_Meta := A1_SL_Meta inn, SL_Items := items\<rparr>))"

subsection \<open>From v1alpha2 to v1alpha1\<close>

definition Convert_v1alpha2_RunnerImage_To_v1alpha1_RunnerImage ::
    "runner_image \<Rightarrow> a1_runner_image \<Rightarrow> go_error + a1_runner_image" where
  "Convert_v1alpha2_RunnerImage_To_v1alpha1_RunnerImage inn out =
     Inr (out\<lparr>A1_ImageName := ImageName inn, A1_PullPolicy := PullPolicy inn,
           A1_PullSecrets := PullSecrets inn\<rparr>)"

definition Convert_v1alpha2_RunnerPlacement_To_v1alpha1_RunnerPlacement ::
    "runner_placement \<Rightarrow> a1_runner_placement \<Rightarrow> go_error + a1_runner_placement" where
  "Convert_v1alpha2_RunnerPlacement_To_v1alpha1_RunnerPlacement inn out =
     Inr (out\<lparr>A1_NodeSelector := NodeSelector inn, A1_Tolerations := Tolerations inn,
           A1_Affinity := Affinity inn\<rparr>)"

definition Convert_v1alpha2_RunnerSpec_To_v1alpha1_RunnerSpec ::
    "runner_spec \<Rightarrow> a1_runner_spec \<Rightarrow> go_error + a1_runner_spec" where
  "Convert_v1alpha2_RunnerSpec_To_v1alpha1_RunnerSpec inn out =
     (case Convert_v1alpha2_RunnerImage_To_v1alpha1_RunnerImage (Image inn) (A1_Image out) of
        Inl err \<Rightarrow> Inl err
      | Inr img \<Rightarrow>
          (case Convert_v1alpha2_RunnerPlacement_To_v1alpha1_RunnerPlacement (Placement inn) (A1_Placement out) of
             Inl err \<Rightarrow> Inl err
           | Inr placement \<Rightarrow>
               Inr (out\<lparr>A1_URL := URL inn, A1_ID := ID inn, A1_OS := OS inn,
                     A1_Group := Group inn, A1_Workdir := Workdir inn, A1_Image := img,
                     A1_Placement := placement, A1_Resources := Resources inn,
                     A1_ServiceAccountName := ServiceAccountName inn,
                     A1_SecurityContext := SecurityContext inn,
                     A1_RuntimeClassName := RuntimeClassName inn, A1_Volumes := Volumes inn,
                     A1_VolumeMounts := VolumeMounts inn\<rparr>)))"

definition Convert_v1alpha2_RunnerStatus_To_v1alpha1_RunnerStatus ::
    "runner_status \<Rightarrow> a1_runner_status \<Rightarrow> go_error + a1_runner_status" where
  "Convert_v1alpha2_RunnerStatus_To_v1alpha1_RunnerStatus inn out =
     Inr (out\<lparr>A1_Phase := Phase inn, A1_Conditions := Conditions inn\<rparr>)"

definition Convert_v1alpha2_Runner_To_v1alpha1_Runner ::
    "runner \<Rightarrow> a1_runner \<Rightarrow> go_error + a1_runner" where
  "Convert_v1alpha2_Runner_To_v1alpha1_Runner inn out =
     (case Convert_v1alpha2_RunnerSpec_To_v1alpha1_RunnerSpec (R_Spec inn) (A1_R_Spec out) of
        Inl err \<Rightarrow> Inl err
      | Inr spec \<Rightarrow>
          (case Convert_v1alpha2_RunnerStatus_To_v1alpha1_RunnerStatus (R_Status inn) (A1_R_Status out) of
             Inl err \<Rightarrow> Inl err
           | Inr status \<Rightarrow>
               Inr (out\<lparr>A1_R_Meta := R_Meta inn, A1_R_Spec := spec, A1_R_Status := status\<rparr>)))"

definition Convert_v1alpha2_RunnerTemplateSpec_To_v1alpha1_RunnerTemplateSpec ::
    "runner_template_spec \<Rightarrow> a1_runner_template_spec \<Rightarrow> go_error + a1_runner_template_spec" where
  "Convert_v1alpha2_RunnerTemplateSpec_To_v1alpha1_RunnerTemplateSpec inn out =
     (case Convert_v1alpha2_RunnerSpec_To_v1alpha1_RunnerSpec (T_Spec inn) (A1_T_Spec out) of
        Inl err \<Rightarrow> Inl err
      | Inr spec \<Rightarrow>
          Inr (out\<lparr>A1_T_Meta := T_Meta inn, A1_T_Spec := spec\<rparr>))"

definition Convert_v1alpha2_RunnerSetSpec_To_v1alpha1_RunnerSetSpec ::
    "runnerset_spec \<Rightarrow> a1_runnerset_spec \<Rightarrow> go_error + a1_runnerset_spec" where
  "Convert_v1alpha2_RunnerSetSpec_To_v1alpha1_RunnerSetSpec inn out =
     (case Convert_v1alpha2_RunnerTemplateSpec_To_v1alpha1_RunnerTemplateSpec (Template inn) (A1_Template out) of
        Inl err \<Rightarrow> Inl err
      | Inr template \<Rightarrow>
          Inr (out\<lparr>A1_Runners := Runners inn, A1_Selector := Selector inn, A1_Template := template\<rparr>))"

definition Convert_v1alpha2_RunnerSetStatus_To_v1alpha1_RunnerSetStatus ::
    "runnerset_status \<Rightarrow> a1_runnerset_status \<Rightarrow> go_error + a1_runnerset_status" where
  "Convert_v1alpha2_RunnerSetStatus_To_v1alpha1_RunnerSetStatus inn out =
     Inr (out\<lparr>A1_StatusRunners := StatusRunners inn, A1_IdleRunners := IdleRunners inn,
           A1_ActiveRunners := ActiveRunners inn, A1_S_Conditions := S_Conditions inn,
           A1_StatusSelector := StatusSelector inn\<rparr>)"

definition Convert_v1alpha2_RunnerSet_To_v1alpha1_RunnerSet ::
    "runnerset \<Rightarrow> a1_runnerset \<Rightarrow> go_error + a1_runnerset" where
  "Convert_v1alpha2_RunnerSet_To_v1alpha1_RunnerSet inn out =
     (case Convert_v1alpha2_RunnerSetSpec_To_v1alpha1_RunnerSetSpec (S_Spec inn) (A1_S_Spec out) of
        Inl err \<Rightarrow> Inl err
      | Inr spec \<Rightarrow>
          (case Convert_v1alpha2_RunnerSetStatus_To_v1alpha1_RunnerSetStatus (S_Status inn) (A1_S_Status out) of
             Inl err \<Rightarrow> Inl err
           | Inr status \<Rightarrow>
               Inr (out\<lparr>A1_S_Meta := S_Meta inn, A1_S_Spec := spec, A1_S_Status := status\<rparr>)))"

definition Convert_v1alpha2_RunnerList_To_v1alpha1_RunnerList ::
    "runner_list \<Rightarrow> a1_runner_list \<Rightarrow> go_error + a1_runner_list" where
  "Convert_v1alpha2_RunnerList_To_v1alpha1_RunnerList inn out =
     (case convert_items Convert_v1alpha2_Runner_To_v1alpha1_Runner zero_a1_runner (RL_Items inn) of
        Inl err \<Rightarrow> Inl err
      | Inr items \<Rightarrow> Inr (out\<lparr>A1_RL_Meta := RL_Meta inn, A1_RL_Items := items\<rparr>))"

definition Convert_v1alpha2_RunnerSetList_To_v1alpha1_RunnerSetList ::
    "runnerset_list \<Rightarrow> a1_runnerset_list \<Rightarrow> go_error + a1_runnerset_list" where
  "Convert_v1alpha2_RunnerSetList_To_v1alpha1_RunnerSetList inn out =
     (case convert_items Convert_v1alpha2_RunnerSet_To_v1alpha1_RunnerSet zero_a1_runnerset (SL_Items inn) of
        Inl err \<Rightarrow> Inl err
      | Inr items \<Rightarrow> Inr (out\<lparr>A1_SL_Meta := SL_Meta inn, A1_SL_Items := items\<rparr>))"

section \<open>The methods\<close>

text \<open>An object of the hub version; a method asserts the type of the one it is given.\<close>

datatype hub =
  HubRunner runner
| HubRunnerList runner_list
| HubRunnerSet runnerset
| HubRunnerSetList runnerset_list

definition Runner_ConvertTo :: "a1_runner \<Rightarrow> hub \<Rightarrow> ('s, go_error + hub) prog" where
  "Runner_ConvertTo src dstRaw =
     (case dstRaw of
        HubRunner dst \<Rightarrow> ret (map_sum id HubRunner (Convert_v1alpha1_Runner_To_v1alpha2_Runner src dst))
      | _ \<Rightarrow> panics BadTypeAssertion)"

definition Runner_ConvertFrom :: "a1_runner \<Rightarrow> hub \<Rightarrow> ('s, go_error + a1_runner) prog" where
  "Runner_ConvertFrom dst srcRaw =
     (case srcRaw of
        HubRunner src \<Rightarrow> ret (Convert_v1alpha2_Runner_To_v1alpha1_Runner src dst)
      | _ \<Rightarrow> panics BadTypeAssertion)"

definition RunnerList_ConvertTo :: "a1_runner_list \<Rightarrow> hub \<Rightarrow> ('s, go_error + hub) prog" where
  "RunnerList_ConvertTo src dstRaw =
     (case dstRaw of
        HubRunnerList dst \<Rightarrow>
          ret (map_sum id HubRunnerList (Convert_v1alpha1_RunnerList_To_v1alpha2_RunnerList src dst))
      | _ \<Rightarrow> panics BadTypeAssertion)"

definition RunnerList_ConvertFrom :: "a1_runner_list \<Rightarrow> hub \<Rightarrow> ('s, go_error + a1_runner_list) prog" where
  "RunnerList_ConvertFrom dst srcRaw =
     (case srcRaw of
        HubRunnerList src \<Rightarrow> ret (Convert_v1alpha2_RunnerList_To_v1alpha1_RunnerList src dst)
      | _ \<Rightarrow> panics BadTypeAssertion)"

definition RunnerSet_ConvertTo :: "a1_runnerset \<Rightarrow> hub \<Rightarrow> ('s, go_error + hub) prog" where
  "RunnerSet_ConvertTo src dstRaw =
     (case dstRaw of
        HubRunnerSet dst \<Rightarrow>
          ret (map_sum id HubRunnerSet (Convert_v1alpha1_RunnerSet_To_v1alpha2_RunnerSet src dst))
      | _ \<Rightarrow> panics BadTypeAssertion)"

definition RunnerSet_ConvertFrom :: "a1_runnerset \<Rightarrow> hub \<Rightarrow> ('s, go_error + a1_runnerset) prog" where
  "RunnerSet_ConvertFrom dst srcRaw =
     (case srcRaw of
        HubRunnerSet src \<Rightarrow> ret (Convert_v1alpha2_RunnerSet_To_v1alpha1_RunnerSet src dst)
      | _ \<Rightarrow> panics BadTypeAssertion)"

definition RunnerSetList_ConvertTo :: "a1_runnerset_list \<Rightarrow> hub \<Rightarrow> ('s, go_error + hub) prog" where
  "RunnerSetList_ConvertTo src dstRaw =
     (case dstRaw of
        HubRunnerSetList dst \<Rightarrow>
          ret (map_sum id HubRunnerSetList (Convert_v1alpha1_RunnerSetList_To_v1alpha2_RunnerSetList src dst))
      | _ \<Rightarrow> panics BadTypeAssertion)"

definition RunnerSetList_ConvertFrom :: "a1_runnerset_list \<Rightarrow> hub \<Rightarrow>
    ('s, go_error + a1_runnerset_list) prog" where
  "RunnerSetList_ConvertFrom dst srcRaw =
     (case srcRaw of
        HubRunnerSetList src \<Rightarrow> ret (Convert_v1alpha2_RunnerSetList_To_v1alpha1_RunnerSetList src dst)
      | _ \<Rightarrow> panics BadTypeAssertion)"

section \<open>Round trips\<close>

lemmas to_hub_defs =
  Convert_v1alpha1_RunnerImage_To_v1alpha2_RunnerImage_def
  Convert_v1alpha1_RunnerPlacement_To_v1alpha2_RunnerPlacement_def
  Convert_v1alpha1_RunnerSpec_To_v1alpha2_RunnerSpec_def
  Convert_v1alpha1_RunnerStatus_To_v1alpha2_RunnerStatus_def
  Convert_v1alpha1_Runner_To_v1alpha2_Runner_def
  Convert_v1alpha1_RunnerTemplateSpec_To_v1alpha2_RunnerTemplateSpec_def
  Convert_v1alpha1_RunnerSetSpec_To_v1alpha2_RunnerSetSpec_def
  Convert_v1alpha1_RunnerSetStatus_To_v1alpha2_RunnerSetStatus_def
  Convert_v1alpha1_RunnerSet_To_v1alpha2_RunnerSet_def

lemmas from_hub_defs =
  Convert_v1alpha2_RunnerImage_To_v1alpha1_RunnerImage_def
  Convert_v1alpha2_RunnerPlacement_To_v1alpha1_RunnerPlacement_def
  Convert_v1alpha2_RunnerSpec_To_v1alpha1_RunnerSpec_def
  Convert_v1alpha2_RunnerStatus_To_v1alpha1_RunnerStatus_def
  Convert_v1alpha2_Runner_To_v1alpha1_Runner_def
  Convert_v1alpha2_RunnerTemplateSpec_To_v1alpha1_RunnerTemplateSpec_def
  Convert_v1alpha2_RunnerSetSpec_To_v1alpha1_RunnerSetSpec_def
  Convert_v1alpha2_RunnerSetStatus_To_v1alpha1_RunnerSetStatus_def
  Convert_v1alpha2_RunnerSet_To_v1alpha1_RunnerSet_def

lemma runner_there_and_back:
  "\<exists>h. Convert_v1alpha1_Runner_To_v1alpha2_Runner r h0 = Inr h \<and>
     Convert_v1alpha2_Runner_To_v1alpha1_Runner h d = Inr (r\<lparr>A1_R_Type := A1_R_Type d\<rparr>)"
  by (simp add: to_hub_defs from_hub_defs)

lemma runnerset_there_and_back:
  "\<exists>h. Convert_v1alpha1_RunnerSet_To_v1alpha2_RunnerSet r h0 = Inr h \<and>
     Convert_v1alpha2_RunnerSet_To_v1alpha1_RunnerSet h d = Inr (r\<lparr>A1_S_Type := A1_S_Type d\<rparr>)"
  by (simp add: to_hub_defs from_hub_defs)

end
