(* ===== verification/Object_Store.thy ===== *)
theory Object_Store
  imports Prelude Api_Types Conversion
begin

text \<open>
  The memory that the generated \<open>DeepCopy\<close> functions work on.  Elsewhere in the development an API
  object is a value; here it is what Go has: a struct whose pointers, slices and maps are addresses
  in a store, so that two objects can share a part and a write to the one can be seen through the
  other.  This theory holds the store, the structs of both API versions as they lie in memory, the
  three ways in which a generated function copies what a field refers to (\<open>copy_pointer\<close>,
  \<open>copy_slice\<close>, \<open>copy_strings\<close>), and the contract of a deep copy as the locale \<open>deep_copier\<close> with the
  rules that build a copier of a struct from those of its fields.

  A Kubernetes struct that is not part of the repository (an \<open>ObjectMeta\<close>, a \<open>Volume\<close>, ...) is a value
  of the type variable \<open>'l\<close>, and its own \<open>DeepCopyInto\<close> a parameter.
\<close>

section \<open>Structs in memory\<close>

type_synonym addr = nat

text \<open>A slice refers to a part of an array: the array, the offset of its first element and its
  length.  Its capacity plays no role here.\<close>

datatype slice = NilSlice | Slice addr nat nat

record mem_runner_image =
  M_ImageName :: string
  M_PullPolicy :: string
  M_PullSecrets :: slice

record mem_runner_placement =
  M_NodeSelector :: "addr option"
  M_Tolerations :: slice
  M_Affinity :: "addr option"

record 'l mem_runner_spec =
  M_URL :: string
  M_ID :: "addr option"
  M_OS :: string
  M_Group :: string
  M_Workdir :: string
  M_Image :: mem_runner_image
  M_EvictionPolicy :: string
  M_Placement :: mem_runner_placement
  M_Resources :: 'l
  M_ServiceAccountName :: string
  M_SecurityContext :: "addr option"
  M_RuntimeClassName :: "addr option"
  M_Volumes :: slice
  M_VolumeMounts :: slice

record mem_runner_status =
  M_Phase :: string
  M_Conditions :: slice

record 'l mem_runner =
  M_R_Type :: type_meta
  M_R_Meta :: 'l
  M_R_Spec :: "'l mem_runner_spec"
  M_R_Status :: mem_runner_status

record 'l mem_runner_list =
  M_RL_Type :: type_meta
  M_RL_Meta :: 'l
  M_RL_Items :: slice

record 'l mem_runner_template_spec =
  M_T_Meta :: 'l
  M_T_Spec :: "'l mem_runner_spec"

record 'l mem_runnerset_spec =
  M_Runners :: "addr option"
  M_Selector :: 'l
  M_UpdateStrategy :: runnerset_update_strategy
  M_RevisionHistoryLimit :: "addr option"
  M_Template :: "'l mem_runner_template_spec"

record mem_runnerset_status =
  M_StatusRunners :: int32
  M_IdleRunners :: int32
  M_ActiveRunners :: int32
  M_CurrentRevision :: string
  M_NextRevision :: string
  M_CollisionCount :: "addr option"
  M_S_Conditions :: slice
  M_StatusSelector :: string

record 'l mem_runnerset =
  M_S_Type :: type_meta
  M_S_Meta :: 'l
  M_S_Spec :: "'l mem_runnerset_spec"
  M_S_Status :: mem_runnerset_status

record 'l mem_runnerset_list =
  M_SL_Type :: type_meta
  M_SL_Meta :: 'l
  M_SL_Items :: slice

text \<open>The structs of \<open>api/v1alpha1\<close>.\<close>

record mem_a1_runner_image =
  M1_ImageName :: string
  M1_PullPolicy :: string
  M1_PullSecrets :: slice

record mem_a1_runner_placement =
  M1_NodeSelector :: "addr option"
  M1_Tolerations :: slice
  M1_Affinity :: "addr option"

record 'l mem_a1_runner_spec =
  M1_URL :: string
  M1_ID :: "addr option"
  M1_OS :: string
  M1_Group :: string
  M1_Workdir :: string
  M1_Image :: mem_a1_runner_image
  M1_Placement :: mem_a1_runner_placement
  M1_Resources :: 'l
  M1_ServiceAccountName :: string
  M1_SecurityContext :: "addr option"
  M1_RuntimeClassName :: "addr option"
  M1_Volumes :: slice
  M1_VolumeMounts :: slice

record mem_a1_runner_status =
  M1_Phase :: string
  M1_Conditions :: slice

record 'l mem_a1_runner =
  M1_R_Type :: type_meta
  M1_R_Meta :: 'l
  M1_R_Spec :: "'l mem_a1_runner_spec"
  M1_R_Status :: mem_a1_runner_status

record 'l mem_a1_runner_list =
  M1_RL_Type :: type_meta
  M1_RL_Meta :: 'l
  M1_RL_Items :: slice

record 'l mem_a1_runner_template_spec =
  M1_T_Meta :: 'l
  M1_T_Spec :: "'l mem_a1_runner_spec"

record 'l mem_a1_runnerset_spec =
  M1_Runners :: "addr option"
  M1_Selector :: 'l
  M1_Template :: "'l mem_a1_runner_template_spec"

record mem_a1_runnerset_status =
  M1_StatusRunners :: int32
  M1_IdleRunners :: int32
  M1_ActiveRunners :: int32
  M1_S_Conditions :: slice
  M1_StatusSelector :: string

record 'l mem_a1_runnerset =
  M1_S_Type :: type_meta
  M1_S_Meta :: 'l
  M1_S_Spec :: "'l mem_a1_runnerset_spec"
  M1_S_Status :: mem_a1_runnerset_status

record 'l mem_a1_runnerset_list =
  M1_SL_Type :: type_meta
  M1_SL_Meta :: 'l
  M1_SL_Items :: slice

section \<open>The store\<close>

text \<open>What an address can hold: the target of a pointer, the array behind a slice, or a map.\<close>

datatype 'l cell =
  CInt32 (the_int32: int32)
| CInt64 (the_int64: int64)
| CString (the_string: string)
| CStrings (the_strings: "(string, string) fmap")
| CReferences (the_references: "opaque list")
| CStruct (the_struct: 'l)
| CStructs (the_structs: "'l list")
| CImage (the_image: mem_runner_image)
| CPlacement (the_placement: mem_runner_placement)
| CSpec (the_spec: "'l mem_runner_spec")
| CStatus (the_status: mem_runner_status)
| CRunner (the_runner: "'l mem_runner")
| CRunners (the_runners: "'l mem_runner list")
| CRunnerList (the_runner_list: "'l mem_runner_list")
| CTemplate (the_template: "'l mem_runner_template_spec")
| CStrategy (the_strategy: runnerset_update_strategy)
| CSetSpec (the_set_spec: "'l mem_runnerset_spec")
| CSetStatus (the_set_status: mem_runnerset_status)
| CSet (the_set: "'l mem_runnerset")
| CSets (the_sets: "'l mem_runnerset list")
| CSetList (the_set_list: "'l mem_runnerset_list")
| C1Image (the_a1_image: mem_a1_runner_image)
| C1Placement (the_a1_placement: mem_a1_runner_placement)
| C1Spec (the_a1_spec: "'l mem_a1_runner_spec")
| C1Status (the_a1_status: mem_a1_runner_status)
| C1Runner (the_a1_runner: "'l mem_a1_runner")
| C1Runners (the_a1_runners: "'l mem_a1_runner list")
| C1RunnerList (the_a1_runner_list: "'l mem_a1_runner_list")
| C1Template (the_a1_template: "'l mem_a1_runner_template_spec")
| C1SetSpec (the_a1_set_spec: "'l mem_a1_runnerset_spec")
| C1SetStatus (the_a1_set_status: mem_a1_runnerset_status)
| C1Set (the_a1_set: "'l mem_a1_runnerset")
| C1Sets (the_a1_sets: "'l mem_a1_runnerset list")
| C1SetList (the_a1_set_list: "'l mem_a1_runnerset_list")

text \<open>Addresses below the limit are allocated; the next object gets the limit as its address.\<close>

record 'l store =
  Limit :: addr
  cells :: "addr \<Rightarrow> 'l cell"

definition reserve :: "'l store \<Rightarrow> addr \<times> 'l store" where
  "reserve h = (Limit h, h\<lparr>Limit := Limit h + 1\<rparr>)"

definition put_cell :: "addr \<Rightarrow> 'l cell \<Rightarrow> 'l store \<Rightarrow> 'l store" where
  "put_cell a c h = h\<lparr>cells := (cells h)(a := c)\<rparr>"

text \<open>A type of cells: how a cell of that type is made, read and recognised.  Go is typed, so that a
  pointer leads to a cell of its type.\<close>

record ('l, 'a) cell_type =
  put :: "'a \<Rightarrow> 'l cell"
  got :: "'l cell \<Rightarrow> 'a"
  typed :: "'l cell \<Rightarrow> bool"

definition lawful :: "('l, 'a) cell_type \<Rightarrow> bool" where
  "lawful T \<longleftrightarrow> (\<forall>x. got T (put T x) = x \<and> typed T (put T x))"

section \<open>The ways to copy\<close>

type_synonym ('l, 'a) copier = "'a \<Rightarrow> 'l store \<Rightarrow> 'a \<times> 'l store"

text \<open>\<open>*out = *in\<close>, for a type without pointers.\<close>

definition assign :: "('l, 'a) copier" where
  "assign x h = (x, h)"

text \<open>A pointer: \<open>nil\<close> stays \<open>nil\<close>; otherwise \<open>new\<close> reserves a cell, which is filled with a copy of
  what the pointer leads to.  (The zero value in the new cell is overwritten before anything reads
  it, so that the model leaves it out.)\<close>

definition copy_pointer :: "('l, 'a) cell_type \<Rightarrow> ('l, 'a) copier \<Rightarrow> ('l, addr option) copier" where
  "copy_pointer T copy p h =
     (case p of
        None \<Rightarrow> (None, h)
      | Some a \<Rightarrow>
          (let (b, h1) = reserve h;
               (y, h2) = copy (got T (cells h1 a)) h1
           in (Some b, put_cell b (put T y) h2)))"

text \<open>The loop over the elements of a slice.\<close>

fun copy_elements :: "('l, 'a) copier \<Rightarrow> ('l, 'a list) copier" where
  "copy_elements copy [] h = ([], h)"
| "copy_elements copy (x # xs) h =
     (let (y, h1) = copy x h; (ys, h2) = copy_elements copy xs h1 in (y # ys, h2))"

text \<open>A slice: \<open>make\<close> reserves an array of the length of the slice, which starts at its offset 0.\<close>

definition elements :: "('l, 'a list) cell_type \<Rightarrow> 'l store \<Rightarrow> slice \<Rightarrow> 'a list" where
  "elements T h s =
     (case s of NilSlice \<Rightarrow> [] | Slice a i n \<Rightarrow> take n (drop i (got T (cells h a))))"

definition copy_slice :: "('l, 'a list) cell_type \<Rightarrow> ('l, 'a) copier \<Rightarrow> ('l, slice) copier" where
  "copy_slice T copy s h =
     (case s of
        NilSlice \<Rightarrow> (NilSlice, h)
      | Slice a i n \<Rightarrow>
          (let (b, h1) = reserve h;
               (ys, h2) = copy_elements copy (elements T h1 s) h1
           in (Slice b 0 n, put_cell b (put T ys) h2)))"

text \<open>A map of strings: each entry is written into a new map, in the order in which \<open>range\<close> happens to
  visit them.\<close>

definition copy_strings :: "(string gomap \<Rightarrow> string list) \<Rightarrow> ('l, addr option) copier" where
  "copy_strings order p h =
     (case p of
        None \<Rightarrow> (None, h)
      | Some a \<Rightarrow>
          (let (b, h1) = reserve h;
               entries = Some (the_strings (cells h1 a))
           in (Some b, fold (\<lambda>key h. put_cell b
                   (CStrings (fmupd key (map_index entries key) (the_strings (cells h b)))) h)
                 (order entries) (put_cell b (CStrings fmempty) h1))))"

section \<open>Stores that agree\<close>

definition agree :: "addr set \<Rightarrow> 'l store \<Rightarrow> 'l store \<Rightarrow> bool" where
  "agree A h h' \<longleftrightarrow> (\<forall>a\<in>A. cells h' a = cells h a)"

definition extends :: "'l store \<Rightarrow> 'l store \<Rightarrow> bool" where
  "extends h h' \<longleftrightarrow> Limit h \<le> Limit h' \<and> agree {..<Limit h} h h'"

text \<open>Between \<open>h\<close> and \<open>h'\<close> something was made that is well formed and has the value \<open>v\<close>, and remains so
  in every store that agrees with \<open>h'\<close> on the cells that were allocated on the way.\<close>

definition copied :: "('l store \<Rightarrow> bool) \<Rightarrow> ('l store \<Rightarrow> 'v) \<Rightarrow> 'v \<Rightarrow> 'l store \<Rightarrow> 'l store \<Rightarrow> bool" where
  "copied P V v h h' \<longleftrightarrow>
     (\<forall>h''. Limit h' \<le> Limit h'' \<and> agree {Limit h..<Limit h'} h' h'' \<longrightarrow> P h'' \<and> V h'' = v)"

text \<open>Later writes to the store.\<close>

definition mutate :: "(addr \<times> 'l cell) list \<Rightarrow> 'l store \<Rightarrow> 'l store" where
  "mutate ws = fold (\<lambda>(a, c). put_cell a c) ws"

lemma extends_refl [simp]: "extends h h"
  by (simp add: extends_def agree_def)

lemma extends_trans: "extends h1 h2 \<Longrightarrow> extends h2 h3 \<Longrightarrow> extends h1 h3"
  by (auto simp: extends_def agree_def)

lemma extends_reserve: "reserve h = (b, h') \<Longrightarrow> extends h h'"
  by (auto simp: reserve_def extends_def agree_def)

lemma Limit_put [simp]: "Limit (put_cell a c h) = Limit h"
  by (simp add: put_cell_def)

lemma cells_put [simp]: "cells (put_cell a c h) = (cells h)(a := c)"
  by (simp add: put_cell_def)

lemma extends_put: "extends h h' \<Longrightarrow> Limit h \<le> a \<Longrightarrow> extends h (put_cell a c h')"
  by (auto simp: extends_def agree_def)

lemma extends_reserve_put:
  "reserve h = (b, h1) \<Longrightarrow> extends h1 h2 \<Longrightarrow> extends h (put_cell b c h2)"
  by (auto simp: reserve_def extends_def agree_def)

lemma mutate_simps [simp]:
  "mutate [] h = h" "mutate ((a, c) # ws) h = mutate ws (put_cell a c h)"
  by (simp_all add: mutate_def)

lemma Limit_mutate [simp]: "Limit (mutate ws h) = Limit h"
  by (induction ws arbitrary: h) auto

lemma agree_mutate: "\<forall>(a, c)\<in>set ws. a \<notin> A \<Longrightarrow> agree A h (mutate ws h)"
proof (induction ws arbitrary: h)
  case (Cons w ws)
  then show ?case by (cases w) (force simp: agree_def)
qed (simp add: agree_def)

lemma copied_wider:
  assumes "copied P V v h1 h2" "extends h h1" "extends h2 h3"
  shows "copied P V v h h3"
  using assms by (auto simp: copied_def extends_def agree_def)

text \<open>A new cell \<open>b\<close> is filled with what was made after it was reserved.\<close>

lemma copied_put:
  assumes r: "reserve h = (b, h1)" and e: "extends h1 h2" and c: "copied P V v h1 h2"
    and new: "\<And>h. cells h b = c \<Longrightarrow> b < Limit h \<Longrightarrow> P h \<Longrightarrow> V h = v \<Longrightarrow> Q h \<and> W h = w"
  shows "copied Q W w h (put_cell b c h2)"
  unfolding copied_def
proof (intro allI impI)
  fix h'' assume *: "Limit (put_cell b c h2) \<le> Limit h'' \<and>
    agree {Limit h..<Limit (put_cell b c h2)} (put_cell b c h2) h''"
  have b: "b = Limit h" "Limit h1 = Suc b" using r by (auto simp: reserve_def)
  have "Limit h1 \<le> Limit h2" using e by (simp add: extends_def)
  then show "Q h'' \<and> W h'' = w"
    using * b c by (intro new) (auto simp: copied_def agree_def)
qed

lemma copied_now: "copied P V v h h' \<Longrightarrow> P h' \<and> V h' = v"
  by (simp add: copied_def agree_def)

section \<open>The contract of a deep copy\<close>

text \<open>\<open>ok\<close> says that an object is well formed (what it refers to is allocated and of the right type),
  \<open>val\<close> is the API object it stands for, \<open>copy\<close> its \<open>DeepCopyInto\<close>.\<close>

locale deep_copier =
  fixes ok :: "'l store \<Rightarrow> 'a \<Rightarrow> bool"
    and val :: "'l store \<Rightarrow> 'a \<Rightarrow> 'v"
    and copy :: "'a \<Rightarrow> 'l store \<Rightarrow> 'a \<times> 'l store"
  assumes grows: "copy x h = (y, h') \<Longrightarrow> extends h h'"
    and stable: "ok h x \<Longrightarrow> extends h h' \<Longrightarrow> ok h' x \<and> val h' x = val h x"
    and copies: "ok h x \<Longrightarrow> copy x h = (y, h') \<Longrightarrow>
      copied (\<lambda>h. ok h y) (\<lambda>h. val h y) (val h x) h h'"
begin

text \<open>The copy does not change when anything else does.\<close>

lemma copy_survives:
  assumes "ok h x" "copy x h = (y, h')" "\<forall>(a, c)\<in>set ws. a \<notin> {Limit h..<Limit h'}"
  shows "ok (mutate ws h') y \<and> val (mutate ws h') y = val h x"
  using copies [OF assms(1,2)] agree_mutate [OF assms(3)] by (simp add: copied_def)

text \<open>The original does not change when the copy does.\<close>

lemma original_survives:
  assumes "ok h x" "copy x h = (y, h')" "\<forall>(a, c)\<in>set ws. Limit h \<le> a"
  shows "ok (mutate ws h') x \<and> val (mutate ws h') x = val h x"
proof -
  have "extends h (mutate ws h')"
    using grows [OF assms(2)] agree_mutate [of ws "{..<Limit h}" h'] assms(3)
    by (force simp: extends_def agree_def)
  then show ?thesis using stable assms(1) by blast
qed

lemma copies_later:
  assumes "ok h x" "extends h h1" "copy x h1 = (y, h2)"
  shows "copied (\<lambda>h. ok h y) (\<lambda>h. val h y) (val h x) h1 h2"
  using copies stable assms by metis

end

text \<open>What each of the ways to copy asks for and gives.\<close>

definition pointer_ok :: "('l, 'a) cell_type \<Rightarrow> ('l store \<Rightarrow> 'a \<Rightarrow> bool) \<Rightarrow>
    'l store \<Rightarrow> addr option \<Rightarrow> bool" where
  "pointer_ok T ok h p =
     (case p of None \<Rightarrow> True
      | Some a \<Rightarrow> a < Limit h \<and> typed T (cells h a) \<and> ok h (got T (cells h a)))"

definition pointer_value :: "('l, 'a) cell_type \<Rightarrow> ('l store \<Rightarrow> 'a \<Rightarrow> 'v) \<Rightarrow>
    'l store \<Rightarrow> addr option \<Rightarrow> 'v option" where
  "pointer_value T val h p = map_option (\<lambda>a. val h (got T (cells h a))) p"

definition slice_ok :: "('l, 'a list) cell_type \<Rightarrow> ('l store \<Rightarrow> 'a \<Rightarrow> bool) \<Rightarrow>
    'l store \<Rightarrow> slice \<Rightarrow> bool" where
  "slice_ok T ok h s =
     (case s of NilSlice \<Rightarrow> True
      | Slice a i n \<Rightarrow> a < Limit h \<and> typed T (cells h a) \<and> i + n \<le> length (got T (cells h a)) \<and>
          (\<forall>x\<in>set (elements T h s). ok h x))"

definition slice_value :: "('l, 'a list) cell_type \<Rightarrow> ('l store \<Rightarrow> 'a \<Rightarrow> 'v) \<Rightarrow>
    'l store \<Rightarrow> slice \<Rightarrow> 'v list" where
  "slice_value T val h s = List.map (val h) (elements T h s)"

definition strings_ok :: "'l store \<Rightarrow> addr option \<Rightarrow> bool" where
  "strings_ok h p = (case p of None \<Rightarrow> True | Some a \<Rightarrow> a < Limit h \<and> is_CStrings (cells h a))"

definition strings_value :: "'l store \<Rightarrow> addr option \<Rightarrow> string gomap" where
  "strings_value h p = map_option (\<lambda>a. the_strings (cells h a)) p"

definition plain_ok :: "'l store \<Rightarrow> 'a \<Rightarrow> bool" where
  "plain_ok h x \<longleftrightarrow> True"

definition plain_value :: "'l store \<Rightarrow> 'a \<Rightarrow> 'a" where
  "plain_value h x = x"

lemma assign_deep: "deep_copier plain_ok plain_value assign"
  by unfold_locales (auto simp: assign_def plain_ok_def plain_value_def copied_def)

lemma pointer_deep:
  assumes T: "lawful T" and D: "deep_copier ok val copy"
  shows "deep_copier (pointer_ok T ok) (pointer_value T val) (copy_pointer T copy)"
proof (rule deep_copier.intro)
  fix p h q h' assume "copy_pointer T copy p h = (q, h')"
  then show "extends h h'"
    by (auto simp: copy_pointer_def split: option.splits prod.splits
        intro: extends_reserve_put deep_copier.grows [OF D])
next
  fix h h' p assume "pointer_ok T ok h p" "extends h h'"
  then show "pointer_ok T ok h' p \<and> pointer_value T val h' p = pointer_value T val h p"
    using deep_copier.stable [OF D, of h _ h']
    by (auto simp: pointer_ok_def pointer_value_def extends_def agree_def split: option.splits)
next
  fix h p q h' assume ok: "pointer_ok T ok h p" and c: "copy_pointer T copy p h = (q, h')"
  show "copied (\<lambda>h. pointer_ok T ok h q) (\<lambda>h. pointer_value T val h q) (pointer_value T val h p) h h'"
  proof (cases p)
    case None
    with c show ?thesis by (simp add: copy_pointer_def copied_def pointer_ok_def pointer_value_def)
  next
    case (Some a)
    obtain b h1 where r: "reserve h = (b, h1)" by (cases "reserve h")
    obtain y h2 where y: "copy (got T (cells h a)) h1 = (y, h2)"
      by (cases "copy (got T (cells h a)) h1")
    have "cells h1 = cells h" using r by (auto simp: reserve_def)
    then have h': "h' = put_cell b (put T y) h2" "q = Some b"
      using c Some r y by (simp_all add: copy_pointer_def)
    have "ok h (got T (cells h a))" using ok Some by (simp add: pointer_ok_def)
    then show ?thesis unfolding h' Some
      by (rule copied_put [OF r deep_copier.grows [OF D y]
            deep_copier.copies_later [OF D _ extends_reserve [OF r] y]])
        (use T in \<open>simp add: pointer_ok_def pointer_value_def lawful_def\<close>)
  qed
qed

lemma elements_deep:
  assumes D: "deep_copier ok val copy"
  shows "deep_copier (\<lambda>h xs. \<forall>x\<in>set xs. ok h x) (\<lambda>h. List.map (val h)) (copy_elements copy)"
proof (rule deep_copier.intro)
  show "extends h h'" if "copy_elements copy xs h = (ys, h')" for xs h ys h'
    using that
    by (induction xs arbitrary: h ys h')
      (auto split: prod.splits intro: extends_trans deep_copier.grows [OF D])
next
  show "(\<forall>x\<in>set xs. ok h' x) \<and> List.map (val h') xs = List.map (val h) xs"
    if "\<forall>x\<in>set xs. ok h x" "extends h h'" for xs h h'
    using that deep_copier.stable [OF D] by auto
next
  show "copied (\<lambda>h. \<forall>x\<in>set ys. ok h x) (\<lambda>h. List.map (val h) ys) (List.map (val h) xs) h h'"
    if "\<forall>x\<in>set xs. ok h x" "copy_elements copy xs h = (ys, h')" for xs h ys h'
    using that
  proof (induction xs arbitrary: h ys h')
    case Nil
    then show ?case by (simp add: copied_def)
  next
    case (Cons x xs)
    obtain y h1 where y: "copy x h = (y, h1)" by (cases "copy x h")
    obtain zs h2 where zs: "copy_elements copy xs h1 = (zs, h2)" by (cases "copy_elements copy xs h1")
    have e: "extends h h1" using deep_copier.grows [OF D y] .
    have e': "extends h1 h2" using zs
      by (induction xs arbitrary: h1 zs h2)
        (auto split: prod.splits intro: extends_trans deep_copier.grows [OF D])
    have oks: "\<forall>x\<in>set xs. ok h1 x" and vals: "List.map (val h1) xs = List.map (val h) xs"
      using Cons.prems deep_copier.stable [OF D _ e] by auto
    have 1: "copied (\<lambda>h. \<forall>x\<in>set zs. ok h x) (\<lambda>h. List.map (val h) zs) (List.map (val h) xs) h h2"
      using copied_wider [OF Cons.IH [OF oks zs] e extends_refl] unfolding vals .
    have 2: "copied (\<lambda>h. ok h y) (\<lambda>h. val h y) (val h x) h h2"
      using copied_wider [OF deep_copier.copies [OF D _ y] extends_refl e'] Cons.prems by simp
    from 1 2 show ?case using Cons.prems y zs by (auto simp: copied_def)
  qed
qed

lemma slice_deep:
  assumes T: "lawful T" and D: "deep_copier ok val copy"
  shows "deep_copier (slice_ok T ok) (slice_value T val) (copy_slice T copy)"
proof (rule deep_copier.intro)
  fix s h q h' assume "copy_slice T copy s h = (q, h')"
  then show "extends h h'"
    by (auto simp: copy_slice_def split: slice.splits prod.splits
        intro: extends_reserve_put deep_copier.grows [OF elements_deep [OF D]])
next
  fix h h' s assume "slice_ok T ok h s" "extends h h'"
  then show "slice_ok T ok h' s \<and> slice_value T val h' s = slice_value T val h s"
    using deep_copier.stable [OF D, of h _ h']
    by (auto simp: slice_ok_def slice_value_def elements_def extends_def agree_def split: slice.splits)
next
  fix h s q h' assume ok: "slice_ok T ok h s" and c: "copy_slice T copy s h = (q, h')"
  show "copied (\<lambda>h. slice_ok T ok h q) (\<lambda>h. slice_value T val h q) (slice_value T val h s) h h'"
  proof (cases s)
    case NilSlice
    with c show ?thesis by (simp add: copy_slice_def copied_def slice_ok_def slice_value_def elements_def)
  next
    case (Slice a i n)
    obtain b h1 where r: "reserve h = (b, h1)" by (cases "reserve h")
    obtain ys h2 where y: "copy_elements copy (elements T h s) h1 = (ys, h2)"
      by (cases "copy_elements copy (elements T h s) h1")
    have "cells h1 = cells h" using r by (auto simp: reserve_def)
    then have h': "h' = put_cell b (put T ys) h2" "q = Slice b 0 n"
      using c Slice r y by (simp_all add: copy_slice_def elements_def)
    have ok': "\<forall>x\<in>set (elements T h s). ok h x" using ok Slice by (simp add: slice_ok_def)
    note E = elements_deep [OF D]
    have "length (elements T h s) = n" using ok Slice by (auto simp: slice_ok_def elements_def)
    then have n: "length ys = n" if "List.map f ys = List.map g (elements T h s)" for f g
      using map_eq_imp_length_eq [OF that] by simp
    show ?thesis unfolding h'
      by (intro copied_put [OF r deep_copier.grows [OF E y]
            deep_copier.copies_later [OF E ok' extends_reserve [OF r] y]])
        (use T n in \<open>auto simp: slice_ok_def slice_value_def elements_def [of _ _ "Slice _ _ _"] lawful_def\<close>)
  qed
qed


lemma copied_entries:
  fixes h :: "'l store"
  shows "cells h b = CStrings m \<Longrightarrow>
    \<exists>h'. fold (\<lambda>key h. put_cell b (CStrings (fmupd key (map_index (Some f) key) (the_strings (cells h b)))) h) ks h
         = h' \<and> Limit h' = Limit h \<and> (\<forall>a. a \<noteq> b \<longrightarrow> cells h' a = cells h a) \<and>
       cells h' b = CStrings (fold (\<lambda>key. fmupd key (map_index (Some f) key)) ks m)"
  by (induction ks arbitrary: h m) auto

lemma fold_entries:
  "fmlookup (fold (\<lambda>key. fmupd key (v key)) ks m) k = (if k \<in> set ks then Some (v k) else fmlookup m k)"
  by (induction ks arbitrary: m) auto

lemma all_entries:
  assumes "map_order order"
  shows "fold (\<lambda>key. fmupd key (map_index (Some f) key)) (order (Some f)) fmempty = f"
  using assms
  by (intro fmap_ext) (auto simp: fold_entries map_order_def map_index_def)

lemma strings_deep:
  assumes order: "map_order order"
  shows "deep_copier strings_ok strings_value (copy_strings order)"
proof (rule deep_copier.intro)
  fix h h' p assume "strings_ok h p" "extends h h'"
  then show "strings_ok h' p \<and> strings_value h' p = strings_value h p"
    by (auto simp: strings_ok_def strings_value_def extends_def agree_def split: option.splits)
next
  fix p h q h' assume c: "copy_strings order p h = (q, h')"
  have "extends h h' \<and> copied (\<lambda>h. strings_ok h q) (\<lambda>h. strings_value h q) (strings_value h p) h h'"
  proof (cases p)
    case None
    with c show ?thesis by (simp add: copy_strings_def copied_def strings_ok_def strings_value_def)
  next
    case (Some a)
    obtain b h1 where r: "reserve h = (b, h1)" by (cases "reserve h")
    then have b: "b = Limit h" "Limit h1 = Suc b" "cells h1 = cells h" by (auto simp: reserve_def)
    define f where "f = the_strings (cells h a)"
    from copied_entries [of "put_cell b (CStrings fmempty) h1" b fmempty f "order (Some f)"]
    have *: "q = Some b \<and> Limit h' = Suc b \<and> (\<forall>a. a \<noteq> b \<longrightarrow> cells h' a = cells h a) \<and> cells h' b = CStrings f"
      using c Some r b by (auto simp: copy_strings_def f_def Let_def all_entries [OF order])
    have "copied (\<lambda>h. strings_ok h q) (\<lambda>h. strings_value h q) (strings_value h p) h h'"
      using * b by (auto simp: copied_def agree_def strings_ok_def strings_value_def f_def Some)
    then show ?thesis using * b by (auto simp: extends_def agree_def)
  qed
  then show "extends h h'"
    and "copied (\<lambda>h. strings_ok h q) (\<lambda>h. strings_value h q) (strings_value h p) h h'" by blast+
qed

subsection \<open>Structs from their fields\<close>

definition pair_ok :: "('l store \<Rightarrow> 'a \<Rightarrow> bool) \<Rightarrow> ('l store \<Rightarrow> 'b \<Rightarrow> bool) \<Rightarrow> 'l store \<Rightarrow> 'a \<times> 'b \<Rightarrow> bool" where
  "pair_ok ok ok' h p \<longleftrightarrow> ok h (fst p) \<and> ok' h (snd p)"

definition pair_value :: "('l store \<Rightarrow> 'a \<Rightarrow> 'v) \<Rightarrow> ('l store \<Rightarrow> 'b \<Rightarrow> 'w) \<Rightarrow> 'l store \<Rightarrow> 'a \<times> 'b \<Rightarrow> 'v \<times> 'w" where
  "pair_value val val' h p = (val h (fst p), val' h (snd p))"

definition copy_pair :: "('l, 'a) copier \<Rightarrow> ('l, 'b) copier \<Rightarrow> ('l, 'a \<times> 'b) copier" where
  "copy_pair copy copy' p h =
     (let (x, h1) = copy (fst p) h; (y, h2) = copy' (snd p) h1 in ((x, y), h2))"

lemmas pair_defs = pair_ok_def pair_value_def copy_pair_def

lemma pair_deep:
  assumes D: "deep_copier ok val copy" and D': "deep_copier ok' val' copy'"
  shows "deep_copier (pair_ok ok ok') (pair_value val val') (copy_pair copy copy')"
proof (rule deep_copier.intro)
  fix p h q h' assume "copy_pair copy copy' p h = (q, h')"
  then show "extends h h'"
    by (auto simp: copy_pair_def split: prod.splits
        intro: extends_trans deep_copier.grows [OF D] deep_copier.grows [OF D'])
next
  fix h h' p assume "pair_ok ok ok' h p" "extends h h'"
  then show "pair_ok ok ok' h' p \<and> pair_value val val' h' p = pair_value val val' h p"
    using deep_copier.stable [OF D] deep_copier.stable [OF D'] by (auto simp: pair_defs)
next
  fix h p q h' assume ok: "pair_ok ok ok' h p" and c: "copy_pair copy copy' p h = (q, h')"
  obtain x h1 where x: "copy (fst p) h = (x, h1)" by (cases "copy (fst p) h")
  obtain y h2 where y: "copy' (snd p) h1 = (y, h2)" by (cases "copy' (snd p) h1")
  have q: "q = (x, y)" "h' = h2" using c x y by (simp_all add: copy_pair_def)
  note e = deep_copier.grows [OF D x] and e' = deep_copier.grows [OF D' y]
  have "copied (\<lambda>h. ok h x) (\<lambda>h. val h x) (val h (fst p)) h h2"
    using copied_wider [OF deep_copier.copies [OF D _ x] extends_refl e'] ok by (simp add: pair_defs)
  moreover have "copied (\<lambda>h. ok' h y) (\<lambda>h. val' h y) (val' h (snd p)) h h2"
    using copied_wider [OF deep_copier.copies_later [OF D' _ e y] e extends_refl] ok
    by (simp add: pair_defs)
  ultimately show "copied (\<lambda>h. pair_ok ok ok' h q) (\<lambda>h. pair_value val val' h q)
      (pair_value val val' h p) h h'"
    by (simp add: copied_def q pair_defs)
qed

text \<open>A struct whose generated function copies the fields \<open>get\<close> in their order and assigns the others.\<close>

lemma struct_deep:
  assumes D: "deep_copier ok val copy"
    and copy: "\<And>x h. copy' x h = (case copy (get x) h of (t, h') \<Rightarrow> (upd t x, h'))"
    and get: "\<And>t x. get (upd t x) = t"
    and ok: "\<And>h x. ok' h x \<longleftrightarrow> ok h (get x)"
    and val: "\<And>h x. val' h x = F x (val h (get x))" and F: "\<And>t x. F (upd t x) = F x"
  shows "deep_copier ok' val' copy'"
proof (rule deep_copier.intro)
  fix x h y h' assume "copy' x h = (y, h')"
  then have "copy (get x) h = (fst (copy (get x) h), h')"
    unfolding copy by (cases "copy (get x) h") simp
  then show "extends h h'" by (rule deep_copier.grows [OF D])
next
  fix h h' x assume "ok' h x" "extends h h'"
  then show "ok' h' x \<and> val' h' x = val' h x"
    using deep_copier.stable [OF D] unfolding ok val by metis
next
  fix h x y h' assume ok': "ok' h x" and c: "copy' x h = (y, h')"
  obtain t where t: "copy (get x) h = (t, h')" and y: "y = upd t x"
    using c unfolding copy by (cases "copy (get x) h") simp
  have "ok h (get x)" using ok' unfolding ok .
  from deep_copier.copies [OF D this t]
  show "copied (\<lambda>h. ok' h y) (\<lambda>h. val' h y) (val' h x) h h'"
    unfolding copied_def ok val y get F by simp
qed

end
