(* ===== verification/DeepCopy.thy ===== *)
theory DeepCopy
  imports Object_Store
begin

text \<open>
  \<open>api/v1alpha2/zz_generated.deepcopy.go\<close>: the \<open>DeepCopyInto\<close> and \<open>DeepCopy\<close> functions of every type of
  the API, over the store of \<open>Object_Store\<close>.  A \<open>DeepCopyInto\<close> gets the struct that \<open>in\<close> points to and
  gives the one that \<open>*out\<close> becomes: it starts as \<open>*in\<close> (\<open>*out = *in\<close>) and gets the copied fields one
  after the other.  For every type there are the well-formed objects (\<open>_ok\<close>), the API value that an
  object stands for (\<open>_value\<close>), and the lemma that the copier satisfies \<open>deep_copier\<close>.
\<close>

section \<open>The Kubernetes structs\<close>

text \<open>A struct of Kubernetes with its own \<open>DeepCopyInto\<close> is known by its well-formed states, the value it
  stands for, and its copier.\<close>

record ('l, 'v) lib_struct =
  lib_ok :: "'l store \<Rightarrow> 'l \<Rightarrow> bool"
  lib_value :: "'l store \<Rightarrow> 'l \<Rightarrow> 'v"
  lib_copy :: "('l, 'l) copier"

record 'l kube =
  range_order :: "string gomap \<Rightarrow> string list"
  ObjectMeta :: "('l, object_meta) lib_struct"
  ListMeta :: "('l, opaque) lib_struct"
  LabelSelector :: "('l, label_selector) lib_struct"
  ResourceRequirements :: "('l, opaque) lib_struct"
  Toleration :: "('l, opaque) lib_struct"
  AffinityStruct :: "('l, opaque) lib_struct"
  SecurityContextStruct :: "('l, opaque) lib_struct"
  Volume :: "('l, volume) lib_struct"
  VolumeMount :: "('l, volume_mount) lib_struct"
  Condition :: "('l, condition) lib_struct"

text \<open>What their documentation says of \<open>DeepCopyInto\<close>: it makes a deep copy.\<close>

definition copies_deeply :: "('l, 'v) lib_struct \<Rightarrow> bool" where
  "copies_deeply S \<longleftrightarrow> deep_copier (lib_ok S) (lib_value S) (lib_copy S)"

definition kube_copies :: "'l kube \<Rightarrow> bool" where
  "kube_copies K \<longleftrightarrow> map_order (range_order K) \<and>
     copies_deeply (ObjectMeta K) \<and> copies_deeply (ListMeta K) \<and> copies_deeply (LabelSelector K) \<and>
     copies_deeply (ResourceRequirements K) \<and> copies_deeply (Toleration K) \<and>
     copies_deeply (AffinityStruct K) \<and> copies_deeply (SecurityContextStruct K) \<and>
     copies_deeply (Volume K) \<and> copies_deeply (VolumeMount K) \<and> copies_deeply (Condition K)"

lemma kube_copiesD:
  assumes "kube_copies K"
  shows "map_order (range_order K)"
    "deep_copier (lib_ok (ObjectMeta K)) (lib_value (ObjectMeta K)) (lib_copy (ObjectMeta K))"
    "deep_copier (lib_ok (ListMeta K)) (lib_value (ListMeta K)) (lib_copy (ListMeta K))"
    "deep_copier (lib_ok (LabelSelector K)) (lib_value (LabelSelector K)) (lib_copy (LabelSelector K))"
    "deep_copier (lib_ok (ResourceRequirements K)) (lib_value (ResourceRequirements K))
       (lib_copy (ResourceRequirements K))"
    "deep_copier (lib_ok (Toleration K)) (lib_value (Toleration K)) (lib_copy (Toleration K))"
    "deep_copier (lib_ok (AffinityStruct K)) (lib_value (AffinityStruct K)) (lib_copy (AffinityStruct K))"
    "deep_copier (lib_ok (SecurityContextStruct K)) (lib_value (SecurityContextStruct K))
       (lib_copy (SecurityContextStruct K))"
    "deep_copier (lib_ok (Volume K)) (lib_value (Volume K)) (lib_copy (Volume K))"
    "deep_copier (lib_ok (VolumeMount K)) (lib_value (VolumeMount K)) (lib_copy (VolumeMount K))"
    "deep_copier (lib_ok (Condition K)) (lib_value (Condition K)) (lib_copy (Condition K))"
  using assms by (simp_all add: kube_copies_def copies_deeply_def)

section \<open>The types of the cells\<close>

definition int32s :: "('l, int32) cell_type" where
  "int32s = \<lparr>put = CInt32, got = the_int32, typed = is_CInt32\<rparr>"

definition int64s :: "('l, int64) cell_type" where
  "int64s = \<lparr>put = CInt64, got = the_int64, typed = is_CInt64\<rparr>"

definition strings :: "('l, string) cell_type" where
  "strings = \<lparr>put = CString, got = the_string, typed = is_CString\<rparr>"

definition references :: "('l, opaque list) cell_type" where
  "references = \<lparr>put = CReferences, got = the_references, typed = is_CReferences\<rparr>"

definition lib_pointers :: "('l, 'l) cell_type" where
  "lib_pointers = \<lparr>put = CStruct, got = the_struct, typed = is_CStruct\<rparr>"

definition lib_arrays :: "('l, 'l list) cell_type" where
  "lib_arrays = \<lparr>put = CStructs, got = the_structs, typed = is_CStructs\<rparr>"

definition images :: "('l, mem_runner_image) cell_type" where
  "images = \<lparr>put = CImage, got = the_image, typed = is_CImage\<rparr>"

definition placements :: "('l, mem_runner_placement) cell_type" where
  "placements = \<lparr>put = CPlacement, got = the_placement, typed = is_CPlacement\<rparr>"

definition specs :: "('l, 'l mem_runner_spec) cell_type" where
  "specs = \<lparr>put = CSpec, got = the_spec, typed = is_CSpec\<rparr>"

definition statuses :: "('l, mem_runner_status) cell_type" where
  "statuses = \<lparr>put = CStatus, got = the_status, typed = is_CStatus\<rparr>"

definition runner_cells :: "('l, 'l mem_runner) cell_type" where
  "runner_cells = \<lparr>put = CRunner, got = the_runner, typed = is_CRunner\<rparr>"

definition runner_arrays :: "('l, 'l mem_runner list) cell_type" where
  "runner_arrays = \<lparr>put = CRunners, got = the_runners, typed = is_CRunners\<rparr>"

definition runner_lists :: "('l, 'l mem_runner_list) cell_type" where
  "runner_lists = \<lparr>put = CRunnerList, got = the_runner_list, typed = is_CRunnerList\<rparr>"

definition templates :: "('l, 'l mem_runner_template_spec) cell_type" where
  "templates = \<lparr>put = CTemplate, got = the_template, typed = is_CTemplate\<rparr>"

definition strategies :: "('l, runnerset_update_strategy) cell_type" where
  "strategies = \<lparr>put = CStrategy, got = the_strategy, typed = is_CStrategy\<rparr>"

definition set_specs :: "('l, 'l mem_runnerset_spec) cell_type" where
  "set_specs = \<lparr>put = CSetSpec, got = the_set_spec, typed = is_CSetSpec\<rparr>"

definition set_statuses :: "('l, mem_runnerset_status) cell_type" where
  "set_statuses = \<lparr>put = CSetStatus, got = the_set_status, typed = is_CSetStatus\<rparr>"

definition set_cells :: "('l, 'l mem_runnerset) cell_type" where
  "set_cells = \<lparr>put = CSet, got = the_set, typed = is_CSet\<rparr>"

definition set_arrays :: "('l, 'l mem_runnerset list) cell_type" where
  "set_arrays = \<lparr>put = CSets, got = the_sets, typed = is_CSets\<rparr>"

definition set_lists :: "('l, 'l mem_runnerset_list) cell_type" where
  "set_lists = \<lparr>put = CSetList, got = the_set_list, typed = is_CSetList\<rparr>"

lemmas cell_type_defs =
  int32s_def int64s_def strings_def references_def lib_pointers_def lib_arrays_def images_def
  placements_def specs_def statuses_def runner_cells_def runner_arrays_def runner_lists_def
  templates_def strategies_def set_specs_def set_statuses_def set_cells_def set_arrays_def set_lists_def

lemma lawful_cells:
  "lawful int32s" "lawful int64s" "lawful strings" "lawful references" "lawful lib_pointers"
  "lawful lib_arrays" "lawful images" "lawful placements" "lawful specs" "lawful statuses"
  "lawful runner_cells" "lawful runner_arrays" "lawful runner_lists" "lawful templates"
  "lawful strategies" "lawful set_specs" "lawful set_statuses" "lawful set_cells" "lawful set_arrays"
  "lawful set_lists"
  by (simp_all add: lawful_def cell_type_defs)

text \<open>The copiers of single fields.\<close>

lemmas int32_pointer_deep = pointer_deep [OF lawful_cells(1) assign_deep]
lemmas int64_pointer_deep = pointer_deep [OF lawful_cells(2) assign_deep]
lemmas string_pointer_deep = pointer_deep [OF lawful_cells(3) assign_deep]
lemmas references_deep = slice_deep [OF lawful_cells(4) assign_deep]
lemmas lib_pointer_deep = pointer_deep [OF lawful_cells(5)]
lemmas lib_slice_deep = slice_deep [OF lawful_cells(6)]

section \<open>Runner\<close>

definition RunnerImage_DeepCopyInto :: "('l, mem_runner_image) copier" where
  "RunnerImage_DeepCopyInto inn h =
     (let (secrets, h1) = copy_slice references assign (M_PullSecrets inn) h
      in (inn\<lparr>M_PullSecrets := secrets\<rparr>, h1))"

definition RunnerImage_ok :: "'l store \<Rightarrow> mem_runner_image \<Rightarrow> bool" where
  "RunnerImage_ok h x \<longleftrightarrow> slice_ok references plain_ok h (M_PullSecrets x)"

definition RunnerImage_value :: "'l store \<Rightarrow> mem_runner_image \<Rightarrow> runner_image" where
  "RunnerImage_value h x =
     \<lparr>ImageName = M_ImageName x, PullPolicy = M_PullPolicy x,
      PullSecrets = slice_value references plain_value h (M_PullSecrets x)\<rparr>"

lemma RunnerImage_deep: "deep_copier RunnerImage_ok RunnerImage_value RunnerImage_DeepCopyInto"
  by (rule struct_deep [OF references_deep,
        where get = M_PullSecrets and upd = "\<lambda>s x. x\<lparr>M_PullSecrets := s\<rparr>"
          and F = "\<lambda>x s. \<lparr>ImageName = M_ImageName x, PullPolicy = M_PullPolicy x, PullSecrets = s\<rparr>"])
    (simp_all add: RunnerImage_DeepCopyInto_def RunnerImage_ok_def RunnerImage_value_def)

definition RunnerPlacement_DeepCopyInto :: "'l kube \<Rightarrow> ('l, mem_runner_placement) copier" where
  "RunnerPlacement_DeepCopyInto K inn h =
     (let (selector, h1) = copy_strings (range_order K) (M_NodeSelector inn) h;
          (tolerations, h2) = copy_slice lib_arrays (lib_copy (Toleration K)) (M_Tolerations inn) h1;
          (affinity, h3) = copy_pointer lib_pointers (lib_copy (AffinityStruct K)) (M_Affinity inn) h2
      in (inn\<lparr>M_NodeSelector := selector, M_Tolerations := tolerations, M_Affinity := affinity\<rparr>, h3))"

definition RunnerPlacement_ok :: "'l kube \<Rightarrow> 'l store \<Rightarrow> mem_runner_placement \<Rightarrow> bool" where
  "RunnerPlacement_ok K h x \<longleftrightarrow>
     strings_ok h (M_NodeSelector x) \<and>
     slice_ok lib_arrays (lib_ok (Toleration K)) h (M_Tolerations x) \<and>
     pointer_ok lib_pointers (lib_ok (AffinityStruct K)) h (M_Affinity x)"

definition RunnerPlacement_value :: "'l kube \<Rightarrow> 'l store \<Rightarrow> mem_runner_placement \<Rightarrow> runner_placement" where
  "RunnerPlacement_value K h x =
     \<lparr>NodeSelector = strings_value h (M_NodeSelector x),
      Tolerations = slice_value lib_arrays (lib_value (Toleration K)) h (M_Tolerations x),
      Affinity = pointer_value lib_pointers (lib_value (AffinityStruct K)) h (M_Affinity x)\<rparr>"

lemma RunnerPlacement_deep:
  assumes "kube_copies K"
  shows "deep_copier (RunnerPlacement_ok K) (RunnerPlacement_value K) (RunnerPlacement_DeepCopyInto K)"
  by (rule struct_deep [OF pair_deep [OF strings_deep pair_deep [OF lib_slice_deep lib_pointer_deep]],
        where get = "\<lambda>x. (M_NodeSelector x, M_Tolerations x, M_Affinity x)"
          and upd = "\<lambda>(s, t, a) x. x\<lparr>M_NodeSelector := s, M_Tolerations := t, M_Affinity := a\<rparr>"
          and F = "\<lambda>x (s, t, a). \<lparr>NodeSelector = s, Tolerations = t, Affinity = a\<rparr>",
        OF kube_copiesD(1,6,7) [OF assms]])
    (auto simp: RunnerPlacement_DeepCopyInto_def RunnerPlacement_ok_def RunnerPlacement_value_def
       pair_defs split: prod.splits)

definition RunnerSpec_DeepCopyInto :: "'l kube \<Rightarrow> ('l, 'l mem_runner_spec) copier" where
  "RunnerSpec_DeepCopyInto K inn h =
     (let (id, h1) = copy_pointer int64s assign (M_ID inn) h;
          (image, h2) = RunnerImage_DeepCopyInto (M_Image inn) h1;
          (placement, h3) = RunnerPlacement_DeepCopyInto K (M_Placement inn) h2;
          (resources, h4) = lib_copy (ResourceRequirements K) (M_Resources inn) h3;
          (security, h5) = copy_pointer lib_pointers (lib_copy (SecurityContextStruct K)) (M_SecurityContext inn) h4;
          (runtime_class, h6) = copy_pointer strings assign (M_RuntimeClassName inn) h5;
          (vols, h7) = copy_slice lib_arrays (lib_copy (Volume K)) (M_Volumes inn) h6;
          (mounts, h8) = copy_slice lib_arrays (lib_copy (VolumeMount K)) (M_VolumeMounts inn) h7
      in (inn\<lparr>M_ID := id, M_Image := image, M_Placement := placement, M_Resources := resources,
            M_SecurityContext := security, M_RuntimeClassName := runtime_class, M_Volumes := vols,
            M_VolumeMounts := mounts\<rparr>, h8))"

definition RunnerSpec_ok :: "'l kube \<Rightarrow> 'l store \<Rightarrow> 'l mem_runner_spec \<Rightarrow> bool" where
  "RunnerSpec_ok K h x \<longleftrightarrow>
     pointer_ok int64s plain_ok h (M_ID x) \<and>
     RunnerImage_ok h (M_Image x) \<and>
     RunnerPlacement_ok K h (M_Placement x) \<and>
     lib_ok (ResourceRequirements K) h (M_Resources x) \<and>
     pointer_ok lib_pointers (lib_ok (SecurityContextStruct K)) h (M_SecurityContext x) \<and>
     pointer_ok strings plain_ok h (M_RuntimeClassName x) \<and>
     slice_ok lib_arrays (lib_ok (Volume K)) h (M_Volumes x) \<and>
     slice_ok lib_arrays (lib_ok (VolumeMount K)) h (M_VolumeMounts x)"

definition RunnerSpec_value :: "'l kube \<Rightarrow> 'l store \<Rightarrow> 'l mem_runner_spec \<Rightarrow> runner_spec" where
  "RunnerSpec_value K h x =
     \<lparr>URL = M_URL x, ID = pointer_value int64s plain_value h (M_ID x), OS = M_OS x,
      Group = M_Group x, Workdir = M_Workdir x, Image = RunnerImage_value h (M_Image x),
      EvictionPolicy = M_EvictionPolicy x, Placement = RunnerPlacement_value K h (M_Placement x),
      Resources = lib_value (ResourceRequirements K) h (M_Resources x),
      ServiceAccountName = M_ServiceAccountName x,
      SecurityContext = pointer_value lib_pointers (lib_value (SecurityContextStruct K)) h (M_SecurityContext x),
      RuntimeClassName = pointer_value strings plain_value h (M_RuntimeClassName x),
      Volumes = slice_value lib_arrays (lib_value (Volume K)) h (M_Volumes x),
      VolumeMounts = slice_value lib_arrays (lib_value (VolumeMount K)) h (M_VolumeMounts x)\<rparr>"

lemma RunnerSpec_deep:
  assumes "kube_copies K"
  shows "deep_copier (RunnerSpec_ok K) (RunnerSpec_value K) (RunnerSpec_DeepCopyInto K)"
proof -
  note K = kube_copiesD [OF assms]
  note fields = pair_deep [OF int64_pointer_deep pair_deep [OF RunnerImage_deep
    pair_deep [OF RunnerPlacement_deep [OF assms] pair_deep [OF K(5)
    pair_deep [OF lib_pointer_deep [OF K(8)] pair_deep [OF string_pointer_deep
    pair_deep [OF lib_slice_deep [OF K(9)] lib_slice_deep [OF K(10)]]]]]]]]
  show ?thesis
    by (rule struct_deep [OF fields, where get = "\<lambda>x. (M_ID x, M_Image x, M_Placement x,
            M_Resources x, M_SecurityContext x, M_RuntimeClassName x, M_Volumes x, M_VolumeMounts x)"
          and upd = "\<lambda>(i, m, p, r, s, c, v, w) x. x\<lparr>M_ID := i, M_Image := m, M_Placement := p,
            M_Resources := r, M_SecurityContext := s, M_RuntimeClassName := c, M_Volumes := v,
            M_VolumeMounts := w\<rparr>"
          and F = "\<lambda>x (i, m, p, r, s, c, v, w). \<lparr>URL = M_URL x, ID = i, OS = M_OS x,
            Group = M_Group x, Workdir = M_Workdir x, Image = m, EvictionPolicy = M_EvictionPolicy x,
            Placement = p, Resources = r, ServiceAccountName = M_ServiceAccountName x,
            SecurityContext = s, RuntimeClassName = c, Volumes = v, VolumeMounts = w\<rparr>"])
      (auto simp: RunnerSpec_DeepCopyInto_def RunnerSpec_ok_def RunnerSpec_value_def pair_defs
         split: prod.splits)
qed

definition RunnerStatus_DeepCopyInto :: "'l kube \<Rightarrow> ('l, mem_runner_status) copier" where
  "RunnerStatus_DeepCopyInto K inn h =
     (let (conditions, h1) = copy_slice lib_arrays (lib_copy (Condition K)) (M_Conditions inn) h
      in (inn\<lparr>M_Conditions := conditions\<rparr>, h1))"

definition RunnerStatus_ok :: "'l kube \<Rightarrow> 'l store \<Rightarrow> mem_runner_status \<Rightarrow> bool" where
  "RunnerStatus_ok K h x \<longleftrightarrow> slice_ok lib_arrays (lib_ok (Condition K)) h (M_Conditions x)"

definition RunnerStatus_value :: "'l kube \<Rightarrow> 'l store \<Rightarrow> mem_runner_status \<Rightarrow> runner_status" where
  "RunnerStatus_value K h x =
     \<lparr>Phase = M_Phase x, Conditions = slice_value lib_arrays (lib_value (Condition K)) h (M_Conditions x)\<rparr>"

lemma RunnerStatus_deep:
  assumes "kube_copies K"
  shows "deep_copier (RunnerStatus_ok K) (RunnerStatus_value K) (RunnerStatus_DeepCopyInto K)"
  by (rule struct_deep [OF lib_slice_deep [OF kube_copiesD(11) [OF assms]],
        where get = M_Conditions and upd = "\<lambda>c x. x\<lparr>M_Conditions := c\<rparr>"
          and F = "\<lambda>x c. \<lparr>Phase = M_Phase x, Conditions = c\<rparr>"])
    (simp_all add: RunnerStatus_DeepCopyInto_def RunnerStatus_ok_def RunnerStatus_value_def)

definition Runner_DeepCopyInto :: "'l kube \<Rightarrow> ('l, 'l mem_runner) copier" where
  "Runner_DeepCopyInto K inn h =
     (let (meta, h1) = lib_copy (ObjectMeta K) (M_R_Meta inn) h;
          (spec, h2) = RunnerSpec_DeepCopyInto K (M_R_Spec inn) h1;
          (status, h3) = RunnerStatus_DeepCopyInto K (M_R_Status inn) h2
      in (inn\<lparr>M_R_Type := M_R_Type inn, M_R_Meta := meta, M_R_Spec := spec, M_R_Status := status\<rparr>, h3))"

definition Runner_ok :: "'l kube \<Rightarrow> 'l store \<Rightarrow> 'l mem_runner \<Rightarrow> bool" where
  "Runner_ok K h x \<longleftrightarrow>
     lib_ok (ObjectMeta K) h (M_R_Meta x) \<and> RunnerSpec_ok K h (M_R_Spec x) \<and>
     RunnerStatus_ok K h (M_R_Status x)"

definition Runner_value :: "'l kube \<Rightarrow> 'l store \<Rightarrow> 'l mem_runner \<Rightarrow> runner" where
  "Runner_value K h x =
     \<lparr>R_Type = M_R_Type x, R_Meta = lib_value (ObjectMeta K) h (M_R_Meta x),
      R_Spec = RunnerSpec_value K h (M_R_Spec x), R_Status = RunnerStatus_value K h (M_R_Status x)\<rparr>"

lemma Runner_deep:
  assumes "kube_copies K"
  shows "deep_copier (Runner_ok K) (Runner_value K) (Runner_DeepCopyInto K)"
  by (rule struct_deep [OF pair_deep [OF kube_copiesD(2) [OF assms]
          pair_deep [OF RunnerSpec_deep [OF assms] RunnerStatus_deep [OF assms]]],
        where get = "\<lambda>x. (M_R_Meta x, M_R_Spec x, M_R_Status x)"
          and upd = "\<lambda>(m, s, t) x. x\<lparr>M_R_Meta := m, M_R_Spec := s, M_R_Status := t\<rparr>"
          and F = "\<lambda>x (m, s, t). \<lparr>R_Type = M_R_Type x, R_Meta = m, R_Spec = s, R_Status = t\<rparr>"])
    (auto simp: Runner_DeepCopyInto_def Runner_ok_def Runner_value_def pair_defs split: prod.splits)

definition RunnerList_DeepCopyInto :: "'l kube \<Rightarrow> ('l, 'l mem_runner_list) copier" where
  "RunnerList_DeepCopyInto K inn h =
     (let (meta, h1) = lib_copy (ListMeta K) (M_RL_Meta inn) h;
          (items, h2) = copy_slice runner_arrays (Runner_DeepCopyInto K) (M_RL_Items inn) h1
      in (inn\<lparr>M_RL_Type := M_RL_Type inn, M_RL_Meta := meta, M_RL_Items := items\<rparr>, h2))"

definition RunnerList_ok :: "'l kube \<Rightarrow> 'l store \<Rightarrow> 'l mem_runner_list \<Rightarrow> bool" where
  "RunnerList_ok K h x \<longleftrightarrow>
     lib_ok (ListMeta K) h (M_RL_Meta x) \<and> slice_ok runner_arrays (Runner_ok K) h (M_RL_Items x)"

definition RunnerList_value :: "'l kube \<Rightarrow> 'l store \<Rightarrow> 'l mem_runner_list \<Rightarrow> runner_list" where
  "RunnerList_value K h x =
     \<lparr>RL_Type = M_RL_Type x, RL_Meta = lib_value (ListMeta K) h (M_RL_Meta x),
      RL_Items = slice_value runner_arrays (Runner_value K) h (M_RL_Items x)\<rparr>"

lemma RunnerList_deep:
  assumes "kube_copies K"
  shows "deep_copier (RunnerList_ok K) (RunnerList_value K) (RunnerList_DeepCopyInto K)"
  by (rule struct_deep [OF pair_deep [OF kube_copiesD(3) [OF assms]
          slice_deep [OF lawful_cells(12) Runner_deep [OF assms]]],
        where get = "\<lambda>x. (M_RL_Meta x, M_RL_Items x)"
          and upd = "\<lambda>(m, i) x. x\<lparr>M_RL_Meta := m, M_RL_Items := i\<rparr>"
          and F = "\<lambda>x (m, i). \<lparr>RL_Type = M_RL_Type x, RL_Meta = m, RL_Items = i\<rparr>"])
    (auto simp: RunnerList_DeepCopyInto_def RunnerList_ok_def RunnerList_value_def pair_defs
       split: prod.splits)

section \<open>RunnerSet\<close>

definition RunnerTemplateSpec_DeepCopyInto :: "'l kube \<Rightarrow> ('l, 'l mem_runner_template_spec) copier" where
  "RunnerTemplateSpec_DeepCopyInto K inn h =
     (let (meta, h1) = lib_copy (ObjectMeta K) (M_T_Meta inn) h;
          (spec, h2) = RunnerSpec_DeepCopyInto K (M_T_Spec inn) h1
      in (inn\<lparr>M_T_Meta := meta, M_T_Spec := spec\<rparr>, h2))"

definition RunnerTemplateSpec_ok :: "'l kube \<Rightarrow> 'l store \<Rightarrow> 'l mem_runner_template_spec \<Rightarrow> bool" where
  "RunnerTemplateSpec_ok K h x \<longleftrightarrow>
     lib_ok (ObjectMeta K) h (M_T_Meta x) \<and> RunnerSpec_ok K h (M_T_Spec x)"

definition RunnerTemplateSpec_value ::
    "'l kube \<Rightarrow> 'l store \<Rightarrow> 'l mem_runner_template_spec \<Rightarrow> runner_template_spec" where
  "RunnerTemplateSpec_value K h x =
     \<lparr>T_Meta = lib_value (ObjectMeta K) h (M_T_Meta x), T_Spec = RunnerSpec_value K h (M_T_Spec x)\<rparr>"

lemma RunnerTemplateSpec_deep:
  assumes "kube_copies K"
  shows "deep_copier (RunnerTemplateSpec_ok K) (RunnerTemplateSpec_value K)
           (RunnerTemplateSpec_DeepCopyInto K)"
  by (rule struct_deep [OF pair_deep [OF kube_copiesD(2) [OF assms] RunnerSpec_deep [OF assms]],
        where get = "\<lambda>x. (M_T_Meta x, M_T_Spec x)"
          and upd = "\<lambda>(m, s) x. x\<lparr>M_T_Meta := m, M_T_Spec := s\<rparr>"
          and F = "\<lambda>x (m, s). \<lparr>T_Meta = m, T_Spec = s\<rparr>"])
    (auto simp: RunnerTemplateSpec_DeepCopyInto_def RunnerTemplateSpec_ok_def
       RunnerTemplateSpec_value_def pair_defs split: prod.splits)

text \<open>A struct without pointers is assigned.\<close>

definition RunnerSetUpdateStrategy_DeepCopyInto :: "('l, runnerset_update_strategy) copier" where
  "RunnerSetUpdateStrategy_DeepCopyInto inn h = (inn, h)"

definition RunnerSetSpec_DeepCopyInto :: "'l kube \<Rightarrow> ('l, 'l mem_runnerset_spec) copier" where
  "RunnerSetSpec_DeepCopyInto K inn h =
     (let (runners, h1) = copy_pointer int32s assign (M_Runners inn) h;
          (selector, h2) = lib_copy (LabelSelector K) (M_Selector inn) h1;
          strategy = M_UpdateStrategy inn;
          (history, h3) = copy_pointer int32s assign (M_RevisionHistoryLimit inn) h2;
          (template, h4) = RunnerTemplateSpec_DeepCopyInto K (M_Template inn) h3
      in (inn\<lparr>M_Runners := runners, M_Selector := selector, M_UpdateStrategy := strategy,
            M_RevisionHistoryLimit := history, M_Template := template\<rparr>, h4))"

definition RunnerSetSpec_ok :: "'l kube \<Rightarrow> 'l store \<Rightarrow> 'l mem_runnerset_spec \<Rightarrow> bool" where
  "RunnerSetSpec_ok K h x \<longleftrightarrow>
     pointer_ok int32s plain_ok h (M_Runners x) \<and>
     lib_ok (LabelSelector K) h (M_Selector x) \<and>
     pointer_ok int32s plain_ok h (M_RevisionHistoryLimit x) \<and>
     RunnerTemplateSpec_ok K h (M_Template x)"

definition RunnerSetSpec_value :: "'l kube \<Rightarrow> 'l store \<Rightarrow> 'l mem_runnerset_spec \<Rightarrow> runnerset_spec" where
  "RunnerSetSpec_value K h x =
     \<lparr>Runners = pointer_value int32s plain_value h (M_Runners x),
      Selector = lib_value (LabelSelector K) h (M_Selector x), UpdateStrategy = M_UpdateStrategy x,
      RevisionHistoryLimit = pointer_value int32s plain_value h (M_RevisionHistoryLimit x),
      Template = RunnerTemplateSpec_value K h (M_Template x)\<rparr>"

lemma RunnerSetSpec_deep:
  assumes "kube_copies K"
  shows "deep_copier (RunnerSetSpec_ok K) (RunnerSetSpec_value K) (RunnerSetSpec_DeepCopyInto K)"
  by (rule struct_deep [OF pair_deep [OF int32_pointer_deep pair_deep [OF kube_copiesD(4) [OF assms]
          pair_deep [OF int32_pointer_deep RunnerTemplateSpec_deep [OF assms]]]],
        where get = "\<lambda>x. (M_Runners x, M_Selector x, M_RevisionHistoryLimit x, M_Template x)"
          and upd = "\<lambda>(r, s, l, t) x. x\<lparr>M_Runners := r, M_Selector := s,
            M_RevisionHistoryLimit := l, M_Template := t\<rparr>"
          and F = "\<lambda>x (r, s, l, t). \<lparr>Runners = r, Selector = s, UpdateStrategy = M_UpdateStrategy x,
            RevisionHistoryLimit = l, Template = t\<rparr>"])
    (auto simp: RunnerSetSpec_DeepCopyInto_def RunnerSetSpec_ok_def RunnerSetSpec_value_def pair_defs
       split: prod.splits)

definition RunnerSetStatus_DeepCopyInto :: "'l kube \<Rightarrow> ('l, mem_runnerset_status) copier" where
  "RunnerSetStatus_DeepCopyInto K inn h =
     (let (collisions, h1) = copy_pointer int32s assign (M_CollisionCount inn) h;
          (conditions, h2) = copy_slice lib_arrays (lib_copy (Condition K)) (M_S_Conditions inn) h1
      in (inn\<lparr>M_CollisionCount := collisions, M_S_Conditions := conditions\<rparr>, h2))"

definition RunnerSetStatus_ok :: "'l kube \<Rightarrow> 'l store \<Rightarrow> mem_runnerset_status \<Rightarrow> bool" where
  "RunnerSetStatus_ok K h x \<longleftrightarrow>
     pointer_ok int32s plain_ok h (M_CollisionCount x) \<and>
     slice_ok lib_arrays (lib_ok (Condition K)) h (M_S_Conditions x)"

definition RunnerSetStatus_value :: "'l kube \<Rightarrow> 'l store \<Rightarrow> mem_runnerset_status \<Rightarrow> runnerset_status" where
  "RunnerSetStatus_value K h x =
     \<lparr>StatusRunners = M_StatusRunners x, IdleRunners = M_IdleRunners x,
      ActiveRunners = M_ActiveRunners x, CurrentRevision = M_CurrentRevision x,
      NextRevision = M_NextRevision x,
      CollisionCount = pointer_value int32s plain_value h (M_CollisionCount x),
      S_Conditions = slice_value lib_arrays (lib_value (Condition K)) h (M_S_Conditions x),
      StatusSelector = M_StatusSelector x\<rparr>"

lemma RunnerSetStatus_deep:
  assumes "kube_copies K"
  shows "deep_copier (RunnerSetStatus_ok K) (RunnerSetStatus_value K) (RunnerSetStatus_DeepCopyInto K)"
  by (rule struct_deep [OF pair_deep [OF int32_pointer_deep lib_slice_deep [OF kube_copiesD(11) [OF assms]]],
        where get = "\<lambda>x. (M_CollisionCount x, M_S_Conditions x)"
          and upd = "\<lambda>(n, c) x. x\<lparr>M_CollisionCount := n, M_S_Conditions := c\<rparr>"
          and F = "\<lambda>x (n, c). \<lparr>StatusRunners = M_StatusRunners x, IdleRunners = M_IdleRunners x,
            ActiveRunners = M_ActiveRunners x, CurrentRevision = M_CurrentRevision x,
            NextRevision = M_NextRevision x, CollisionCount = n, S_Conditions = c,
            StatusSelector = M_StatusSelector x\<rparr>"])
    (auto simp: RunnerSetStatus_DeepCopyInto_def RunnerSetStatus_ok_def RunnerSetStatus_value_def
       pair_defs split: prod.splits)

definition RunnerSet_DeepCopyInto :: "'l kube \<Rightarrow> ('l, 'l mem_runnerset) copier" where
  "RunnerSet_DeepCopyInto K inn h =
     (let (meta, h1) = lib_copy (ObjectMeta K) (M_S_Meta inn) h;
          (spec, h2) = RunnerSetSpec_DeepCopyInto K (M_S_Spec inn) h1;
          (status, h3) = RunnerSetStatus_DeepCopyInto K (M_S_Status inn) h2
      in (inn\<lparr>M_S_Type := M_S_Type inn, M_S_Meta := meta, M_S_Spec := spec, M_S_Status := status\<rparr>, h3))"

definition RunnerSet_ok :: "'l kube \<Rightarrow> 'l store \<Rightarrow> 'l mem_runnerset \<Rightarrow> bool" where
  "RunnerSet_ok K h x \<longleftrightarrow>
     lib_ok (ObjectMeta K) h (M_S_Meta x) \<and> RunnerSetSpec_ok K h (M_S_Spec x) \<and>
     RunnerSetStatus_ok K h (M_S_Status x)"

definition RunnerSet_value :: "'l kube \<Rightarrow> 'l store \<Rightarrow> 'l mem_runnerset \<Rightarrow> runnerset" where
  "RunnerSet_value K h x =
     \<lparr>S_Type = M_S_Type x, S_Meta = lib_value (ObjectMeta K) h (M_S_Meta x),
      S_Spec = RunnerSetSpec_value K h (M_S_Spec x), S_Status = RunnerSetStatus_value K h (M_S_Status x)\<rparr>"

lemma RunnerSet_deep:
  assumes "kube_copies K"
  shows "deep_copier (RunnerSet_ok K) (RunnerSet_value K) (RunnerSet_DeepCopyInto K)"
  by (rule struct_deep [OF pair_deep [OF kube_copiesD(2) [OF assms]
          pair_deep [OF RunnerSetSpec_deep [OF assms] RunnerSetStatus_deep [OF assms]]],
        where get = "\<lambda>x. (M_S_Meta x, M_S_Spec x, M_S_Status x)"
          and upd = "\<lambda>(m, s, t) x. x\<lparr>M_S_Meta := m, M_S_Spec := s, M_S_Status := t\<rparr>"
          and F = "\<lambda>x (m, s, t). \<lparr>S_Type = M_S_Type x, S_Meta = m, S_Spec = s, S_Status = t\<rparr>"])
    (auto simp: RunnerSet_DeepCopyInto_def RunnerSet_ok_def RunnerSet_value_def pair_defs
       split: prod.splits)

definition RunnerSetList_DeepCopyInto :: "'l kube \<Rightarrow> ('l, 'l mem_runnerset_list) copier" where
  "RunnerSetList_DeepCopyInto K inn h =
     (let (meta, h1) = lib_copy (ListMeta K) (M_SL_Meta inn) h;
          (items, h2) = copy_slice set_arrays (RunnerSet_DeepCopyInto K) (M_SL_Items inn) h1
      in (inn\<lparr>M_SL_Type := M_SL_Type inn, M_SL_Meta := meta, M_SL_Items := items\<rparr>, h2))"

definition RunnerSetList_ok :: "'l kube \<Rightarrow> 'l store \<Rightarrow> 'l mem_runnerset_list \<Rightarrow> bool" where
  "RunnerSetList_ok K h x \<longleftrightarrow>
     lib_ok (ListMeta K) h (M_SL_Meta x) \<and> slice_ok set_arrays (RunnerSet_ok K) h (M_SL_Items x)"

definition RunnerSetList_value :: "'l kube \<Rightarrow> 'l store \<Rightarrow> 'l mem_runnerset_list \<Rightarrow> runnerset_list" where
  "RunnerSetList_value K h x =
     \<lparr>SL_Type = M_SL_Type x, SL_Meta = lib_value (ListMeta K) h (M_SL_Meta x),
      SL_Items = slice_value set_arrays (RunnerSet_value K) h (M_SL_Items x)\<rparr>"

lemma RunnerSetList_deep:
  assumes "kube_copies K"
  shows "deep_copier (RunnerSetList_ok K) (RunnerSetList_value K) (RunnerSetList_DeepCopyInto K)"
  by (rule struct_deep [OF pair_deep [OF kube_copiesD(3) [OF assms]
          slice_deep [OF lawful_cells(19) RunnerSet_deep [OF assms]]],
        where get = "\<lambda>x. (M_SL_Meta x, M_SL_Items x)"
          and upd = "\<lambda>(m, i) x. x\<lparr>M_SL_Meta := m, M_SL_Items := i\<rparr>"
          and F = "\<lambda>x (m, i). \<lparr>SL_Type = M_SL_Type x, SL_Meta = m, SL_Items = i\<rparr>"])
    (auto simp: RunnerSetList_DeepCopyInto_def RunnerSetList_ok_def RunnerSetList_value_def pair_defs
       split: prod.splits)

section \<open>Copies behind a pointer\<close>

text \<open>\<open>DeepCopy\<close>: \<open>nil\<close> for \<open>nil\<close>, and otherwise a new object that \<open>DeepCopyInto\<close> fills.\<close>

definition RunnerImage_DeepCopy :: "('l, addr option) copier" where
  "RunnerImage_DeepCopy = copy_pointer images RunnerImage_DeepCopyInto"

definition RunnerPlacement_DeepCopy :: "'l kube \<Rightarrow> ('l, addr option) copier" where
  "RunnerPlacement_DeepCopy K = copy_pointer placements (RunnerPlacement_DeepCopyInto K)"

definition RunnerSpec_DeepCopy :: "'l kube \<Rightarrow> ('l, addr option) copier" where
  "RunnerSpec_DeepCopy K = copy_pointer specs (RunnerSpec_DeepCopyInto K)"

definition RunnerStatus_DeepCopy :: "'l kube \<Rightarrow> ('l, addr option) copier" where
  "RunnerStatus_DeepCopy K = copy_pointer statuses (RunnerStatus_DeepCopyInto K)"

definition Runner_DeepCopy :: "'l kube \<Rightarrow> ('l, addr option) copier" where
  "Runner_DeepCopy K = copy_pointer runner_cells (Runner_DeepCopyInto K)"

definition RunnerList_DeepCopy :: "'l kube \<Rightarrow> ('l, addr option) copier" where
  "RunnerList_DeepCopy K = copy_pointer runner_lists (RunnerList_DeepCopyInto K)"

definition RunnerTemplateSpec_DeepCopy :: "'l kube \<Rightarrow> ('l, addr option) copier" where
  "RunnerTemplateSpec_DeepCopy K = copy_pointer templates (RunnerTemplateSpec_DeepCopyInto K)"

definition RunnerSetUpdateStrategy_DeepCopy :: "('l, addr option) copier" where
  "RunnerSetUpdateStrategy_DeepCopy = copy_pointer strategies RunnerSetUpdateStrategy_DeepCopyInto"

definition RunnerSetSpec_DeepCopy :: "'l kube \<Rightarrow> ('l, addr option) copier" where
  "RunnerSetSpec_DeepCopy K = copy_pointer set_specs (RunnerSetSpec_DeepCopyInto K)"

definition RunnerSetStatus_DeepCopy :: "'l kube \<Rightarrow> ('l, addr option) copier" where
  "RunnerSetStatus_DeepCopy K = copy_pointer set_statuses (RunnerSetStatus_DeepCopyInto K)"

definition RunnerSet_DeepCopy :: "'l kube \<Rightarrow> ('l, addr option) copier" where
  "RunnerSet_DeepCopy K = copy_pointer set_cells (RunnerSet_DeepCopyInto K)"

definition RunnerSetList_DeepCopy :: "'l kube \<Rightarrow> ('l, addr option) copier" where
  "RunnerSetList_DeepCopy K = copy_pointer set_lists (RunnerSetList_DeepCopyInto K)"

text \<open>\<open>DeepCopyObject\<close> gives a \<open>runtime.Object\<close>, an interface: the nil interface, or a type with a pointer
  of it (which may itself be nil, a value that is not the nil interface).\<close>

datatype object_type = TRunner | TRunnerList | TRunnerSet | TRunnerSetList

type_synonym runtime_object = "(object_type \<times> addr option) option"

definition as_object :: "object_type \<Rightarrow> addr option \<times> 'l store \<Rightarrow> runtime_object \<times> 'l store" where
  "as_object t = (\<lambda>(c, h). case c of None \<Rightarrow> (None, h) | Some a \<Rightarrow> (Some (t, Some a), h))"

definition Runner_DeepCopyObject :: "'l kube \<Rightarrow> addr option \<Rightarrow> 'l store \<Rightarrow> runtime_object \<times> 'l store" where
  "Runner_DeepCopyObject K inn h = as_object TRunner (Runner_DeepCopy K inn h)"

definition RunnerList_DeepCopyObject :: "'l kube \<Rightarrow> addr option \<Rightarrow> 'l store \<Rightarrow> runtime_object \<times> 'l store" where
  "RunnerList_DeepCopyObject K inn h = as_object TRunnerList (RunnerList_DeepCopy K inn h)"

definition RunnerSet_DeepCopyObject :: "'l kube \<Rightarrow> addr option \<Rightarrow> 'l store \<Rightarrow> runtime_object \<times> 'l store" where
  "RunnerSet_DeepCopyObject K inn h = as_object TRunnerSet (RunnerSet_DeepCopy K inn h)"

definition RunnerSetList_DeepCopyObject :: "'l kube \<Rightarrow> addr option \<Rightarrow> 'l store \<Rightarrow> runtime_object \<times> 'l store" where
  "RunnerSetList_DeepCopyObject K inn h = as_object TRunnerSetList (RunnerSetList_DeepCopy K inn h)"

lemmas Runner_DeepCopy_deep = pointer_deep [OF lawful_cells(11) Runner_deep]
lemmas RunnerList_DeepCopy_deep = pointer_deep [OF lawful_cells(13) RunnerList_deep]
lemmas RunnerSet_DeepCopy_deep = pointer_deep [OF lawful_cells(18) RunnerSet_deep]
lemmas RunnerSetList_DeepCopy_deep = pointer_deep [OF lawful_cells(20) RunnerSetList_deep]

text \<open>The types of which the repository has everything: their copiers satisfy the contract outright.\<close>

interpretation image_copies: deep_copier "pointer_ok images RunnerImage_ok"
  "pointer_value images RunnerImage_value" RunnerImage_DeepCopy
  unfolding RunnerImage_DeepCopy_def by (rule pointer_deep [OF lawful_cells(7) RunnerImage_deep])

lemma strategy_is_assigned: "RunnerSetUpdateStrategy_DeepCopyInto = assign"
  by (simp add: fun_eq_iff RunnerSetUpdateStrategy_DeepCopyInto_def assign_def)

interpretation strategy_copies: deep_copier "pointer_ok strategies plain_ok"
  "pointer_value strategies plain_value" RunnerSetUpdateStrategy_DeepCopy
  unfolding RunnerSetUpdateStrategy_DeepCopy_def strategy_is_assigned
  by (rule pointer_deep [OF lawful_cells(15) assign_deep])

end
