(* ===== verification/DeepCopy_v1alpha1.thy ===== *)
theory DeepCopy_v1alpha1
  imports DeepCopy
begin

text \<open>
  \<open>api/v1alpha1/zz_generated.deepcopy.go\<close>: the deep copies of the older version of the API, in the same
  order as in \<open>DeepCopy\<close>.  The structs of this version have no eviction policy, no update strategy, no
  limit of the history and no revisions or collisions in the status.
\<close>

section \<open>The types of the cells\<close>

definition a1_images :: "('l, mem_a1_runner_image) cell_type" where
  "a1_images = \<lparr>put = C1Image, got = the_a1_image, typed = is_C1Image\<rparr>"

definition a1_placements :: "('l, mem_a1_runner_placement) cell_type" where
  "a1_placements = \<lparr>put = C1Placement, got = the_a1_placement, typed = is_C1Placement\<rparr>"

definition a1_specs :: "('l, 'l mem_a1_runner_spec) cell_type" where
  "a1_specs = \<lparr>put = C1Spec, got = the_a1_spec, typed = is_C1Spec\<rparr>"

definition a1_statuses :: "('l, mem_a1_runner_status) cell_type" where
  "a1_statuses = \<lparr>put = C1Status, got = the_a1_status, typed = is_C1Status\<rparr>"

definition a1_runner_cells :: "('l, 'l mem_a1_runner) cell_type" where
  "a1_runner_cells = \<lparr>put = C1Runner, got = the_a1_runner, typed = is_C1Runner\<rparr>"

definition a1_runner_arrays :: "('l, 'l mem_a1_runner list) cell_type" where
  "a1_runner_arrays = \<lparr>put = C1Runners, got = the_a1_runners, typed = is_C1Runners\<rparr>"

definition a1_runner_lists :: "('l, 'l mem_a1_runner_list) cell_type" where
  "a1_runner_lists = \<lparr>put = C1RunnerList, got = the_a1_runner_list, typed = is_C1RunnerList\<rparr>"

definition a1_templates :: "('l, 'l mem_a1_runner_template_spec) cell_type" where
  "a1_templates = \<lparr>put = C1Template, got = the_a1_template, typed = is_C1Template\<rparr>"

definition a1_set_specs :: "('l, 'l mem_a1_runnerset_spec) cell_type" where
  "a1_set_specs = \<lparr>put = C1SetSpec, got = the_a1_set_spec, typed = is_C1SetSpec\<rparr>"

definition a1_set_statuses :: "('l, mem_a1_runnerset_status) cell_type" where
  "a1_set_statuses = \<lparr>put = C1SetStatus, got = the_a1_set_status, typed = is_C1SetStatus\<rparr>"

definition a1_set_cells :: "('l, 'l mem_a1_runnerset) cell_type" where
  "a1_set_cells = \<lparr>put = C1Set, got = the_a1_set, typed = is_C1Set\<rparr>"

definition a1_set_arrays :: "('l, 'l mem_a1_runnerset list) cell_type" where
  "a1_set_arrays = \<lparr>put = C1Sets, got = the_a1_sets, typed = is_C1Sets\<rparr>"

definition a1_set_lists :: "('l, 'l mem_a1_runnerset_list) cell_type" where
  "a1_set_lists = \<lparr>put = C1SetList, got = the_a1_set_list, typed = is_C1SetList\<rparr>"

lemmas a1_cell_type_defs =
  a1_images_def a1_placements_def a1_specs_def a1_statuses_def a1_runner_cells_def a1_runner_arrays_def
  a1_runner_lists_def a1_templates_def a1_set_specs_def a1_set_statuses_def a1_set_cells_def a1_set_arrays_def a1_set_lists_def

lemma lawful_a1_cells:
  "lawful a1_images" "lawful a1_placements" "lawful a1_specs" "lawful a1_statuses"
  "lawful a1_runner_cells" "lawful a1_runner_arrays" "lawful a1_runner_lists" "lawful a1_templates"
  "lawful a1_set_specs" "lawful a1_set_statuses" "lawful a1_set_cells" "lawful a1_set_arrays"
  "lawful a1_set_lists"
  by (simp_all add: lawful_def a1_cell_type_defs)

section \<open>Runner\<close>

definition A1_RunnerImage_DeepCopyInto :: "('l, mem_a1_runner_image) copier" where
  "A1_RunnerImage_DeepCopyInto inn h =
     (let (secrets, h1) = copy_slice references assign (M1_PullSecrets inn) h
      in (inn\<lparr>M1_PullSecrets := secrets\<rparr>, h1))"

definition A1_RunnerImage_ok :: "'l store \<Rightarrow> mem_a1_runner_image \<Rightarrow> bool" where
  "A1_RunnerImage_ok h x \<longleftrightarrow> slice_ok references plain_ok h (M1_PullSecrets x)"

definition A1_RunnerImage_value :: "'l store \<Rightarrow> mem_a1_runner_image \<Rightarrow> a1_runner_image" where
  "A1_RunnerImage_value h x =
     \<lparr>A1_ImageName = M1_ImageName x, A1_PullPolicy = M1_PullPolicy x,
      A1_PullSecrets = slice_value references plain_value h (M1_PullSecrets x)\<rparr>"

lemma A1_RunnerImage_deep: "deep_copier A1_RunnerImage_ok A1_RunnerImage_value A1_RunnerImage_DeepCopyInto"
  by (rule struct_deep [OF references_deep,
        where get = M1_PullSecrets and upd = "\<lambda>s x. x\<lparr>M1_PullSecrets := s\<rparr>"
          and F = "\<lambda>x s. \<lparr>A1_ImageName = M1_ImageName x, A1_PullPolicy = M1_PullPolicy x, A1_PullSecrets = s\<rparr>"])
    (simp_all add: A1_RunnerImage_DeepCopyInto_def A1_RunnerImage_ok_def A1_RunnerImage_value_def)

definition A1_RunnerPlacement_DeepCopyInto :: "'l kube \<Rightarrow> ('l, mem_a1_runner_placement) copier" where
  "A1_RunnerPlacement_DeepCopyInto K inn h =
     (let (selector, h1) = copy_strings (range_order K) (M1_NodeSelector inn) h;
          (tolerations, h2) = copy_slice lib_arrays (lib_copy (Toleration K)) (M1_Tolerations inn) h1;
          (affinity, h3) = copy_pointer lib_pointers (lib_copy (AffinityStruct K)) (M1_Affinity inn) h2
      in (inn\<lparr>M1_NodeSelector := selector, M1_Tolerations := tolerations, M1_Affinity := affinity\<rparr>, h3))"

definition A1_RunnerPlacement_ok :: "'l kube \<Rightarrow> 'l store \<Rightarrow> mem_a1_runner_placement \<Rightarrow> bool" where
  "A1_RunnerPlacement_ok K h x \<longleftrightarrow>
     strings_ok h (M1_NodeSelector x) \<and>
     slice_ok lib_arrays (lib_ok (Toleration K)) h (M1_Tolerations x) \<and>
     pointer_ok lib_pointers (lib_ok (AffinityStruct K)) h (M1_Affinity x)"

definition A1_RunnerPlacement_value :: "'l kube \<Rightarrow> 'l store \<Rightarrow> mem_a1_runner_placement \<Rightarrow> a1_runner_placement" where
  "A1_RunnerPlacement_value K h x =
     \<lparr>A1_NodeSelector = strings_value h (M1_NodeSelector x),
      A1_Tolerations = slice_value lib_arrays (lib_value (Toleration K)) h (M1_Tolerations x),
      A1_Affinity = pointer_value lib_pointers (lib_value (AffinityStruct K)) h (M1_Affinity x)\<rparr>"

lemma A1_RunnerPlacement_deep:
  assumes "kube_copies K"
  shows "deep_copier (A1_RunnerPlacement_ok K) (A1_RunnerPlacement_value K) (A1_RunnerPlacement_DeepCopyInto K)"
  by (rule struct_deep [OF pair_deep [OF strings_deep pair_deep [OF lib_slice_deep lib_pointer_deep]],
        where get = "\<lambda>x. (M1_NodeSelector x, M1_Tolerations x, M1_Affinity x)"
          and upd = "\<lambda>(s, t, a) x. x\<lparr>M1_NodeSelector := s, M1_Tolerations := t, M1_Affinity := a\<rparr>"
          and F = "\<lambda>x (s, t, a). \<lparr>A1_NodeSelector = s, A1_Tolerations = t, A1_Affinity = a\<rparr>",
        OF kube_copiesD(1,6,7) [OF assms]])
    (auto simp: A1_RunnerPlacement_DeepCopyInto_def A1_RunnerPlacement_ok_def A1_RunnerPlacement_value_def
       pair_defs split: prod.splits)

definition A1_RunnerSpec_DeepCopyInto :: "'l kube \<Rightarrow> ('l, 'l mem_a1_runner_spec) copier" where
  "A1_RunnerSpec_DeepCopyInto K inn h =
     (let (id, h1) = copy_pointer int64s assign (M1_ID inn) h;
          (image, h2) = A1_RunnerImage_DeepCopyInto (M1_Image inn) h1;
          (placement, h3) = A1_RunnerPlacement_DeepCopyInto K (M1_Placement inn) h2;
          (resources, h4) = lib_copy (ResourceRequirements K) (M1_Resources inn) h3;
          (security, h5) = copy_pointer lib_pointers (lib_copy (SecurityContextStruct K)) (M1_SecurityContext inn) h4;
          (runtime_class, h6) = copy_pointer strings assign (M1_RuntimeClassName inn) h5;
          (vols, h7) = copy_slice lib_arrays (lib_copy (Volume K)) (M1_Volumes inn) h6;
          (mounts, h8) = copy_slice lib_arrays (lib_copy (VolumeMount K)) (M1_VolumeMounts inn) h7
      in (inn\<lparr>M1_ID := id, M1_Image := image, M1_Placement := placement, M1_Resources := resources,
            M1_SecurityContext := security, M1_RuntimeClassName := runtime_class, M1_Volumes := vols,
            M1_VolumeMounts := mounts\<rparr>, h8))"

definition A1_RunnerSpec_ok :: "'l kube \<Rightarrow> 'l store \<Rightarrow> 'l mem_a1_runner_spec \<Rightarrow> bool" where
  "A1_RunnerSpec_ok K h x \<longleftrightarrow>
     pointer_ok int64s plain_ok h (M1_ID x) \<and>
     A1_RunnerImage_ok h (M1_Image x) \<and>
     A1_RunnerPlacement_ok K h (M1_Placement x) \<and>
     lib_ok (ResourceRequirements K) h (M1_Resources x) \<and>
     pointer_ok lib_pointers (lib_ok (SecurityContextStruct K)) h (M1_SecurityContext x) \<and>
     pointer_ok strings plain_ok h (M1_RuntimeClassName x) \<and>
     slice_ok lib_arrays (lib_ok (Volume K)) h (M1_Volumes x) \<and>
     slice_ok lib_arrays (lib_ok (VolumeMount K)) h (M1_VolumeMounts x)"

definition A1_RunnerSpec_value :: "'l kube \<Rightarrow> 'l store \<Rightarrow> 'l mem_a1_runner_spec \<Rightarrow> a1_runner_spec" where
  "A1_RunnerSpec_value K h x =
     \<lparr>A1_URL = M1_URL x, A1_ID = pointer_value int64s plain_value h (M1_ID x), A1_OS = M1_OS x,
      A1_Group = M1_Group x, A1_Workdir = M1_Workdir x, A1_Image = A1_RunnerImage_value h (M1_Image x),
      A1_Placement = A1_RunnerPlacement_value K h (M1_Placement x),
      A1_Resources = lib_value (ResourceRequirements K) h (M1_Resources x),
      A1_ServiceAccountName = M1_ServiceAccountName x,
      A1_SecurityContext = pointer_value lib_pointers (lib_value (SecurityContextStruct K)) h (M1_SecurityContext x),
      A1_RuntimeClassName = pointer_value strings plain_value h (M1_RuntimeClassName x),
      A1_Volumes = slice_value lib_arrays (lib_value (Volume K)) h (M1_Volumes x),
      A1_VolumeMounts = slice_value lib_arrays (lib_value (VolumeMount K)) h (M1_VolumeMounts x)\<rparr>"

lemma A1_RunnerSpec_deep:
  assumes "kube_copies K"
  shows "deep_copier (A1_RunnerSpec_ok K) (A1_RunnerSpec_value K) (A1_RunnerSpec_DeepCopyInto K)"
proof -
  note K = kube_copiesD [OF assms]
  note fields = pair_deep [OF int64_pointer_deep pair_deep [OF A1_RunnerImage_deep
    pair_deep [OF A1_RunnerPlacement_deep [OF assms] pair_deep [OF K(5)
    pair_deep [OF lib_pointer_deep [OF K(8)] pair_deep [OF string_pointer_deep
    pair_deep [OF lib_slice_deep [OF K(9)] lib_slice_deep [OF K(10)]]]]]]]]
  show ?thesis
    by (rule struct_deep [OF fields, where get = "\<lambda>x. (M1_ID x, M1_Image x, M1_Placement x,
            M1_Resources x, M1_SecurityContext x, M1_RuntimeClassName x, M1_Volumes x, M1_VolumeMounts x)"
          and upd = "\<lambda>(i, m, p, r, s, c, v, w) x. x\<lparr>M1_ID := i, M1_Image := m, M1_Placement := p,
            M1_Resources := r, M1_SecurityContext := s, M1_RuntimeClassName := c, M1_Volumes := v,
            M1_VolumeMounts := w\<rparr>"
          and F = "\<lambda>x (i, m, p, r, s, c, v, w). \<lparr>A1_URL = M1_URL x, A1_ID = i, A1_OS = M1_OS x,
            A1_Group = M1_Group x, A1_Workdir = M1_Workdir x, A1_Image = m,
            A1_Placement = p, A1_Resources = r, A1_ServiceAccountName = M1_ServiceAccountName x,
            A1_SecurityContext = s, A1_RuntimeClassName = c, A1_Volumes = v, A1_VolumeMounts = w\<rparr>"])
      (auto simp: A1_RunnerSpec_DeepCopyInto_def A1_RunnerSpec_ok_def A1_RunnerSpec_value_def pair_defs
         split: prod.splits)
qed

definition A1_RunnerStatus_DeepCopyInto :: "'l kube \<Rightarrow> ('l, mem_a1_runner_status) copier" where
  "A1_RunnerStatus_DeepCopyInto K inn h =
     (let (conditions, h1) = copy_slice lib_arrays (lib_copy (Condition K)) (M1_Conditions inn) h
      in (inn\<lparr>M1_Conditions := conditions\<rparr>, h1))"

definition A1_RunnerStatus_ok :: "'l kube \<Rightarrow> 'l store \<Rightarrow> mem_a1_runner_status \<Rightarrow> bool" where
  "A1_RunnerStatus_ok K h x \<longleftrightarrow> slice_ok lib_arrays (lib_ok (Condition K)) h (M1_Conditions x)"

definition A1_RunnerStatus_value :: "'l kube \<Rightarrow> 'l store \<Rightarrow> mem_a1_runner_status \<Rightarrow> a1_runner_status" where
  "A1_RunnerStatus_value K h x =
     \<lparr>A1_Phase = M1_Phase x, A1_Conditions = slice_value lib_arrays (lib_value (Condition K)) h (M1_Conditions x)\<rparr>"

lemma A1_RunnerStatus_deep:
  assumes "kube_copies K"
  shows "deep_copier (A1_RunnerStatus_ok K) (A1_RunnerStatus_value K) (A1_RunnerStatus_DeepCopyInto K)"
  by (rule struct_deep [OF lib_slice_deep [OF kube_copiesD(11) [OF assms]],
        where get = M1_Conditions and upd = "\<lambda>c x. x\<lparr>M1_Conditions := c\<rparr>"
          and F = "\<lambda>x c. \<lparr>A1_Phase = M1_Phase x, A1_Conditions = c\<rparr>"])
    (simp_all add: A1_RunnerStatus_DeepCopyInto_def A1_RunnerStatus_ok_def A1_RunnerStatus_value_def)

definition A1_Runner_DeepCopyInto :: "'l kube \<Rightarrow> ('l, 'l mem_a1_runner) copier" where
  "A1_Runner_DeepCopyInto K inn h =
     (let (meta, h1) = lib_copy (ObjectMeta K) (M1_R_Meta inn) h;
          (spec, h2) = A1_RunnerSpec_DeepCopyInto K (M1_R_Spec inn) h1;
          (status, h3) = A1_RunnerStatus_DeepCopyInto K (M1_R_Status inn) h2
      in (inn\<lparr>M1_R_Type := M1_R_Type inn, M1_R_Meta := meta, M1_R_Spec := spec, M1_R_Status := status\<rparr>, h3))"

definition A1_Runner_ok :: "'l kube \<Rightarrow> 'l store \<Rightarrow> 'l mem_a1_runner \<Rightarrow> bool" where
  "A1_Runner_ok K h x \<longleftrightarrow>
     lib_ok (ObjectMeta K) h (M1_R_Meta x) \<and> A1_RunnerSpec_ok K h (M1_R_Spec x) \<and>
     A1_RunnerStatus_ok K h (M1_R_Status x)"

definition A1_Runner_value :: "'l kube \<Rightarrow> 'l store \<Rightarrow> 'l mem_a1_runner \<Rightarrow> a1_runner" where
  "A1_Runner_value K h x =
     \<lparr>A1_R_Type = M1_R_Type x, A1_R_Meta = lib_value (ObjectMeta K) h (M1_R_Meta x),
      A1_R_Spec = A1_RunnerSpec_value K h (M1_R_Spec x), A1_R_Status = A1_RunnerStatus_value K h (M1_R_Status x)\<rparr>"

lemma A1_Runner_deep:
  assumes "kube_copies K"
  shows "deep_copier (A1_Runner_ok K) (A1_Runner_value K) (A1_Runner_DeepCopyInto K)"
  by (rule struct_deep [OF pair_deep [OF kube_copiesD(2) [OF assms]
          pair_deep [OF A1_RunnerSpec_deep [OF assms] A1_RunnerStatus_deep [OF assms]]],
        where get = "\<lambda>x. (M1_R_Meta x, M1_R_Spec x, M1_R_Status x)"
          and upd = "\<lambda>(m, s, t) x. x\<lparr>M1_R_Meta := m, M1_R_Spec := s, M1_R_Status := t\<rparr>"
          and F = "\<lambda>x (m, s, t). \<lparr>A1_R_Type = M1_R_Type x, A1_R_Meta = m, A1_R_Spec = s, A1_R_Status = t\<rparr>"])
    (auto simp: A1_Runner_DeepCopyInto_def A1_Runner_ok_def A1_Runner_value_def pair_defs split: prod.splits)

definition A1_RunnerList_DeepCopyInto :: "'l kube \<Rightarrow> ('l, 'l mem_a1_runner_list) copier" where
  "A1_RunnerList_DeepCopyInto K inn h =
     (let (meta, h1) = lib_copy (ListMeta K) (M1_RL_Meta inn) h;
          (items, h2) = copy_slice a1_runner_arrays (A1_Runner_DeepCopyInto K) (M1_RL_Items inn) h1
      in (inn\<lparr>M1_RL_Type := M1_RL_Type inn, M1_RL_Meta := meta, M1_RL_Items := items\<rparr>, h2))"

definition A1_RunnerList_ok :: "'l kube \<Rightarrow> 'l store \<Rightarrow> 'l mem_a1_runner_list \<Rightarrow> bool" where
  "A1_RunnerList_ok K h x \<longleftrightarrow>
     lib_ok (ListMeta K) h (M1_RL_Meta x) \<and> slice_ok a1_runner_arrays (A1_Runner_ok K) h (M1_RL_Items x)"

definition A1_RunnerList_value :: "'l kube \<Rightarrow> 'l store \<Rightarrow> 'l mem_a1_runner_list \<Rightarrow> a1_runner_list" where
  "A1_RunnerList_value K h x =
     \<lparr>A1_RL_Type = M1_RL_Type x, A1_RL_Meta = lib_value (ListMeta K) h (M1_RL_Meta x),
      A1_RL_Items = slice_value a1_runner_arrays (A1_Runner_value K) h (M1_RL_Items x)\<rparr>"

lemma A1_RunnerList_deep:
  assumes "kube_copies K"
  shows "deep_copier (A1_RunnerList_ok K) (A1_RunnerList_value K) (A1_RunnerList_DeepCopyInto K)"
  by (rule struct_deep [OF pair_deep [OF kube_copiesD(3) [OF assms]
          slice_deep [OF lawful_a1_cells(6) A1_Runner_deep [OF assms]]],
        where get = "\<lambda>x. (M1_RL_Meta x, M1_RL_Items x)"
          and upd = "\<lambda>(m, i) x. x\<lparr>M1_RL_Meta := m, M1_RL_Items := i\<rparr>"
          and F = "\<lambda>x (m, i). \<lparr>A1_RL_Type = M1_RL_Type x, A1_RL_Meta = m, A1_RL_Items = i\<rparr>"])
    (auto simp: A1_RunnerList_DeepCopyInto_def A1_RunnerList_ok_def A1_RunnerList_value_def pair_defs
       split: prod.splits)

section \<open>RunnerSet\<close>

definition A1_RunnerTemplateSpec_DeepCopyInto :: "'l kube \<Rightarrow> ('l, 'l mem_a1_runner_template_spec) copier" where
  "A1_RunnerTemplateSpec_DeepCopyInto K inn h =
     (let (meta, h1) = lib_copy (ObjectMeta K) (M1_T_Meta inn) h;
          (spec, h2) = A1_RunnerSpec_DeepCopyInto K (M1_T_Spec inn) h1
      in (inn\<lparr>M1_T_Meta := meta, M1_T_Spec := spec\<rparr>, h2))"

definition A1_RunnerTemplateSpec_ok :: "'l kube \<Rightarrow> 'l store \<Rightarrow> 'l mem_a1_runner_template_spec \<Rightarrow> bool" where
  "A1_RunnerTemplateSpec_ok K h x \<longleftrightarrow>
     lib_ok (ObjectMeta K) h (M1_T_Meta x) \<and> A1_RunnerSpec_ok K h (M1_T_Spec x)"

definition A1_RunnerTemplateSpec_value ::
    "'l kube \<Rightarrow> 'l store \<Rightarrow> 'l mem_a1_runner_template_spec \<Rightarrow> a1_runner_template_spec" where
  "A1_RunnerTemplateSpec_value K h x =
     \<lparr>A1_T_Meta = lib_value (ObjectMeta K) h (M1_T_Meta x), A1_T_Spec = A1_RunnerSpec_value K h (M1_T_Spec x)\<rparr>"

lemma A1_RunnerTemplateSpec_deep:
  assumes "kube_copies K"
  shows "deep_copier (A1_RunnerTemplateSpec_ok K) (A1_RunnerTemplateSpec_value K)
           (A1_RunnerTemplateSpec_DeepCopyInto K)"
  by (rule struct_deep [OF pair_deep [OF kube_copiesD(2) [OF assms] A1_RunnerSpec_deep [OF assms]],
        where get = "\<lambda>x. (M1_T_Meta x, M1_T_Spec x)"
          and upd = "\<lambda>(m, s) x. x\<lparr>M1_T_Meta := m, M1_T_Spec := s\<rparr>"
          and F = "\<lambda>x (m, s). \<lparr>A1_T_Meta = m, A1_T_Spec = s\<rparr>"])
    (auto simp: A1_RunnerTemplateSpec_DeepCopyInto_def A1_RunnerTemplateSpec_ok_def
       A1_RunnerTemplateSpec_value_def pair_defs split: prod.splits)

definition A1_RunnerSetSpec_DeepCopyInto :: "'l kube \<Rightarrow> ('l, 'l mem_a1_runnerset_spec) copier" where
  "A1_RunnerSetSpec_DeepCopyInto K inn h =
     (let (runners, h1) = copy_pointer int32s assign (M1_Runners inn) h;
          (selector, h2) = lib_copy (LabelSelector K) (M1_Selector inn) h1;
          (template, h3) = A1_RunnerTemplateSpec_DeepCopyInto K (M1_Template inn) h2
      in (inn\<lparr>M1_Runners := runners, M1_Selector := selector, M1_Template := template\<rparr>, h3))"

definition A1_RunnerSetSpec_ok :: "'l kube \<Rightarrow> 'l store \<Rightarrow> 'l mem_a1_runnerset_spec \<Rightarrow> bool" where
  "A1_RunnerSetSpec_ok K h x \<longleftrightarrow>
     pointer_ok int32s plain_ok h (M1_Runners x) \<and>
     lib_ok (LabelSelector K) h (M1_Selector x) \<and>
     A1_RunnerTemplateSpec_ok K h (M1_Template x)"

definition A1_RunnerSetSpec_value :: "'l kube \<Rightarrow> 'l store \<Rightarrow> 'l mem_a1_runnerset_spec \<Rightarrow> a1_runnerset_spec" where
  "A1_RunnerSetSpec_value K h x =
     \<lparr>A1_Runners = pointer_value int32s plain_value h (M1_Runners x),
      A1_Selector = lib_value (LabelSelector K) h (M1_Selector x),
      A1_Template = A1_RunnerTemplateSpec_value K h (M1_Template x)\<rparr>"

lemma A1_RunnerSetSpec_deep:
  assumes "kube_copies K"
  shows "deep_copier (A1_RunnerSetSpec_ok K) (A1_RunnerSetSpec_value K) (A1_RunnerSetSpec_DeepCopyInto K)"
  by (rule struct_deep [OF pair_deep [OF int32_pointer_deep pair_deep [OF kube_copiesD(4) [OF assms]
          A1_RunnerTemplateSpec_deep [OF assms]]],
        where get = "\<lambda>x. (M1_Runners x, M1_Selector x, M1_Template x)"
          and upd = "\<lambda>(r, s, t) x. x\<lparr>M1_Runners := r, M1_Selector := s, M1_Template := t\<rparr>"
          and F = "\<lambda>x (r, s, t). \<lparr>A1_Runners = r, A1_Selector = s, A1_Template = t\<rparr>"])
    (auto simp: A1_RunnerSetSpec_DeepCopyInto_def A1_RunnerSetSpec_ok_def A1_RunnerSetSpec_value_def pair_defs
       split: prod.splits)

definition A1_RunnerSetStatus_DeepCopyInto :: "'l kube \<Rightarrow> ('l, mem_a1_runnerset_status) copier" where
  "A1_RunnerSetStatus_DeepCopyInto K inn h =
     (let (conditions, h1) = copy_slice lib_arrays (lib_copy (Condition K)) (M1_S_Conditions inn) h
      in (inn\<lparr>M1_S_Conditions := conditions\<rparr>, h1))"

definition A1_RunnerSetStatus_ok :: "'l kube \<Rightarrow> 'l store \<Rightarrow> mem_a1_runnerset_status \<Rightarrow> bool" where
  "A1_RunnerSetStatus_ok K h x \<longleftrightarrow>
     slice_ok lib_arrays (lib_ok (Condition K)) h (M1_S_Conditions x)"

definition A1_RunnerSetStatus_value :: "'l kube \<Rightarrow> 'l store \<Rightarrow> mem_a1_runnerset_status \<Rightarrow> a1_runnerset_status" where
  "A1_RunnerSetStatus_value K h x =
     \<lparr>A1_StatusRunners = M1_StatusRunners x, A1_IdleRunners = M1_IdleRunners x,
      A1_ActiveRunners = M1_ActiveRunners x,
      A1_S_Conditions = slice_value lib_arrays (lib_value (Condition K)) h (M1_S_Conditions x),
      A1_StatusSelector = M1_StatusSelector x\<rparr>"

lemma A1_RunnerSetStatus_deep:
  assumes "kube_copies K"
  shows "deep_copier (A1_RunnerSetStatus_ok K) (A1_RunnerSetStatus_value K) (A1_RunnerSetStatus_DeepCopyInto K)"
  by (rule struct_deep [OF lib_slice_deep [OF kube_copiesD(11) [OF assms]],
        where get = "\<lambda>x. M1_S_Conditions x" and upd = "\<lambda>c x. x\<lparr>M1_S_Conditions := c\<rparr>"
          and F = "\<lambda>x c. \<lparr>A1_StatusRunners = M1_StatusRunners x, A1_IdleRunners = M1_IdleRunners x,
            A1_ActiveRunners = M1_ActiveRunners x, A1_S_Conditions = c,
            A1_StatusSelector = M1_StatusSelector x\<rparr>"])
    (auto simp: A1_RunnerSetStatus_DeepCopyInto_def A1_RunnerSetStatus_ok_def A1_RunnerSetStatus_value_def
       pair_defs split: prod.splits)

definition A1_RunnerSet_DeepCopyInto :: "'l kube \<Rightarrow> ('l, 'l mem_a1_runnerset) copier" where
  "A1_RunnerSet_DeepCopyInto K inn h =
     (let (meta, h1) = lib_copy (ObjectMeta K) (M1_S_Meta inn) h;
          (spec, h2) = A1_RunnerSetSpec_DeepCopyInto K (M1_S_Spec inn) h1;
          (status, h3) = A1_RunnerSetStatus_DeepCopyInto K (M1_S_Status inn) h2
      in (inn\<lparr>M1_S_Type := M1_S_Type inn, M1_S_Meta := meta, M1_S_Spec := spec, M1_S_Status := status\<rparr>, h3))"

definition A1_RunnerSet_ok :: "'l kube \<Rightarrow> 'l store \<Rightarrow> 'l mem_a1_runnerset \<Rightarrow> bool" where
  "A1_RunnerSet_ok K h x \<longleftrightarrow>
     lib_ok (ObjectMeta K) h (M1_S_Meta x) \<and> A1_RunnerSetSpec_ok K h (M1_S_Spec x) \<and>
     A1_RunnerSetStatus_ok K h (M1_S_Status x)"

definition A1_RunnerSet_value :: "'l kube \<Rightarrow> 'l store \<Rightarrow> 'l mem_a1_runnerset \<Rightarrow> a1_runnerset" where
  "A1_RunnerSet_value K h x =
     \<lparr>A1_S_Type = M1_S_Type x, A1_S_Meta = lib_value (ObjectMeta K) h (M1_S_Meta x),
      A1_S_Spec = A1_RunnerSetSpec_value K h (M1_S_Spec x), A1_S_Status = A1_RunnerSetStatus_value K h (M1_S_Status x)\<rparr>"

lemma A1_RunnerSet_deep:
  assumes "kube_copies K"
  shows "deep_copier (A1_RunnerSet_ok K) (A1_RunnerSet_value K) (A1_RunnerSet_DeepCopyInto K)"
  by (rule struct_deep [OF pair_deep [OF kube_copiesD(2) [OF assms]
          pair_deep [OF A1_RunnerSetSpec_deep [OF assms] A1_RunnerSetStatus_deep [OF assms]]],
        where get = "\<lambda>x. (M1_S_Meta x, M1_S_Spec x, M1_S_Status x)"
          and upd = "\<lambda>(m, s, t) x. x\<lparr>M1_S_Meta := m, M1_S_Spec := s, M1_S_Status := t\<rparr>"
          and F = "\<lambda>x (m, s, t). \<lparr>A1_S_Type = M1_S_Type x, A1_S_Meta = m, A1_S_Spec = s, A1_S_Status = t\<rparr>"])
    (auto simp: A1_RunnerSet_DeepCopyInto_def A1_RunnerSet_ok_def A1_RunnerSet_value_def pair_defs
       split: prod.splits)

definition A1_RunnerSetList_DeepCopyInto :: "'l kube \<Rightarrow> ('l, 'l mem_a1_runnerset_list) copier" where
  "A1_RunnerSetList_DeepCopyInto K inn h =
     (let (meta, h1) = lib_copy (ListMeta K) (M1_SL_Meta inn) h;
          (items, h2) = copy_slice a1_set_arrays (A1_RunnerSet_DeepCopyInto K) (M1_SL_Items inn) h1
      in (inn\<lparr>M1_SL_Type := M1_SL_Type inn, M1_SL_Meta := meta, M1_SL_Items := items\<rparr>, h2))"

definition A1_RunnerSetList_ok :: "'l kube \<Rightarrow> 'l store \<Rightarrow> 'l mem_a1_runnerset_list \<Rightarrow> bool" where
  "A1_RunnerSetList_ok K h x \<longleftrightarrow>
     lib_ok (ListMeta K) h (M1_SL_Meta x) \<and> slice_ok a1_set_arrays (A1_RunnerSet_ok K) h (M1_SL_Items x)"

definition A1_RunnerSetList_value :: "'l kube \<Rightarrow> 'l store \<Rightarrow> 'l mem_a1_runnerset_list \<Rightarrow> a1_runnerset_list" where
  "A1_RunnerSetList_value K h x =
     \<lparr>A1_SL_Type = M1_SL_Type x, A1_SL_Meta = lib_value (ListMeta K) h (M1_SL_Meta x),
      A1_SL_Items = slice_value a1_set_arrays (A1_RunnerSet_value K) h (M1_SL_Items x)\<rparr>"

lemma A1_RunnerSetList_deep:
  assumes "kube_copies K"
  shows "deep_copier (A1_RunnerSetList_ok K) (A1_RunnerSetList_value K) (A1_RunnerSetList_DeepCopyInto K)"
  by (rule struct_deep [OF pair_deep [OF kube_copiesD(3) [OF assms]
          slice_deep [OF lawful_a1_cells(12) A1_RunnerSet_deep [OF assms]]],
        where get = "\<lambda>x. (M1_SL_Meta x, M1_SL_Items x)"
          and upd = "\<lambda>(m, i) x. x\<lparr>M1_SL_Meta := m, M1_SL_Items := i\<rparr>"
          and F = "\<lambda>x (m, i). \<lparr>A1_SL_Type = M1_SL_Type x, A1_SL_Meta = m, A1_SL_Items = i\<rparr>"])
    (auto simp: A1_RunnerSetList_DeepCopyInto_def A1_RunnerSetList_ok_def A1_RunnerSetList_value_def pair_defs
       split: prod.splits)

section \<open>Copies behind a pointer\<close>

text \<open>\<open>DeepCopy\<close>: \<open>nil\<close> for \<open>nil\<close>, and otherwise a new object that \<open>DeepCopyInto\<close> fills.\<close>

definition A1_RunnerImage_DeepCopy :: "('l, addr option) copier" where
  "A1_RunnerImage_DeepCopy = copy_pointer a1_images A1_RunnerImage_DeepCopyInto"

definition A1_RunnerPlacement_DeepCopy :: "'l kube \<Rightarrow> ('l, addr option) copier" where
  "A1_RunnerPlacement_DeepCopy K = copy_pointer a1_placements (A1_RunnerPlacement_DeepCopyInto K)"

definition A1_RunnerSpec_DeepCopy :: "'l kube \<Rightarrow> ('l, addr option) copier" where
  "A1_RunnerSpec_DeepCopy K = copy_pointer a1_specs (A1_RunnerSpec_DeepCopyInto K)"

definition A1_RunnerStatus_DeepCopy :: "'l kube \<Rightarrow> ('l, addr option) copier" where
  "A1_RunnerStatus_DeepCopy K = copy_pointer a1_statuses (A1_RunnerStatus_DeepCopyInto K)"

definition A1_Runner_DeepCopy :: "'l kube \<Rightarrow> ('l, addr option) copier" where
  "A1_Runner_DeepCopy K = copy_pointer a1_runner_cells (A1_Runner_DeepCopyInto K)"

definition A1_RunnerList_DeepCopy :: "'l kube \<Rightarrow> ('l, addr option) copier" where
  "A1_RunnerList_DeepCopy K = copy_pointer a1_runner_lists (A1_RunnerList_DeepCopyInto K)"

definition A1_RunnerTemplateSpec_DeepCopy :: "'l kube \<Rightarrow> ('l, addr option) copier" where
  "A1_RunnerTemplateSpec_DeepCopy K = copy_pointer a1_templates (A1_RunnerTemplateSpec_DeepCopyInto K)"

definition A1_RunnerSetSpec_DeepCopy :: "'l kube \<Rightarrow> ('l, addr option) copier" where
  "A1_RunnerSetSpec_DeepCopy K = copy_pointer a1_set_specs (A1_RunnerSetSpec_DeepCopyInto K)"

definition A1_RunnerSetStatus_DeepCopy :: "'l kube \<Rightarrow> ('l, addr option) copier" where
  "A1_RunnerSetStatus_DeepCopy K = copy_pointer a1_set_statuses (A1_RunnerSetStatus_DeepCopyInto K)"

definition A1_RunnerSet_DeepCopy :: "'l kube \<Rightarrow> ('l, addr option) copier" where
  "A1_RunnerSet_DeepCopy K = copy_pointer a1_set_cells (A1_RunnerSet_DeepCopyInto K)"

definition A1_RunnerSetList_DeepCopy :: "'l kube \<Rightarrow> ('l, addr option) copier" where
  "A1_RunnerSetList_DeepCopy K = copy_pointer a1_set_lists (A1_RunnerSetList_DeepCopyInto K)"

definition A1_Runner_DeepCopyObject :: "'l kube \<Rightarrow> addr option \<Rightarrow> 'l store \<Rightarrow> runtime_object \<times> 'l store" where
  "A1_Runner_DeepCopyObject K inn h = as_object TRunner (A1_Runner_DeepCopy K inn h)"

definition A1_RunnerList_DeepCopyObject :: "'l kube \<Rightarrow> addr option \<Rightarrow> 'l store \<Rightarrow> runtime_object \<times> 'l store" where
  "A1_RunnerList_DeepCopyObject K inn h = as_object TRunnerList (A1_RunnerList_DeepCopy K inn h)"

definition A1_RunnerSet_DeepCopyObject :: "'l kube \<Rightarrow> addr option \<Rightarrow> 'l store \<Rightarrow> runtime_object \<times> 'l store" where
  "A1_RunnerSet_DeepCopyObject K inn h = as_object TRunnerSet (A1_RunnerSet_DeepCopy K inn h)"

definition A1_RunnerSetList_DeepCopyObject :: "'l kube \<Rightarrow> addr option \<Rightarrow> 'l store \<Rightarrow> runtime_object \<times> 'l store" where
  "A1_RunnerSetList_DeepCopyObject K inn h = as_object TRunnerSetList (A1_RunnerSetList_DeepCopy K inn h)"

lemmas A1_Runner_DeepCopy_deep = pointer_deep [OF lawful_a1_cells(5) A1_Runner_deep]
lemmas A1_RunnerList_DeepCopy_deep = pointer_deep [OF lawful_a1_cells(7) A1_RunnerList_deep]
lemmas A1_RunnerSet_DeepCopy_deep = pointer_deep [OF lawful_a1_cells(11) A1_RunnerSet_deep]
lemmas A1_RunnerSetList_DeepCopy_deep = pointer_deep [OF lawful_a1_cells(13) A1_RunnerSetList_deep]

text \<open>The types of which the repository has everything: their copiers satisfy the contract outright.\<close>

interpretation a1_image_copies: deep_copier "pointer_ok a1_images A1_RunnerImage_ok"
  "pointer_value a1_images A1_RunnerImage_value" A1_RunnerImage_DeepCopy
  unfolding A1_RunnerImage_DeepCopy_def by (rule pointer_deep [OF lawful_a1_cells(1) A1_RunnerImage_deep])


end
