(* ===== verification/DeepCopy_Properties.thy ===== *)
theory DeepCopy_Properties
  imports DeepCopy_v1alpha1
begin

text \<open>
  What the generated deep copies are for: the handlers mutate an object that they got from the cache or
  keep as the base of a patch (\<open>MergeFrom(runner.DeepCopy())\<close> in \<open>adoptRunner\<close>, \<open>NewPatcher\<close>), and
  rely on the copy to share nothing with it.  This is also why the rest of the development can treat an
  API object as a value.
\<close>

section \<open>A concrete library\<close>

text \<open>A Kubernetes struct that holds one pointer to a string: the simplest one that a shallow copy would
  share.\<close>

definition boxed :: "(string \<Rightarrow> 'v) \<Rightarrow> (addr, 'v) lib_struct" where
  "boxed f =
     \<lparr>lib_ok = (\<lambda>h a. a < Limit h \<and> is_CString (cells h a)),
      lib_value = (\<lambda>h a. f (the_string (cells h a))),
      lib_copy = (\<lambda>a h. (let (b, h1) = reserve h in (b, put_cell b (cells h1 a) h1)))\<rparr>"

lemma boxed_copies: "copies_deeply (boxed f)"
  unfolding copies_deeply_def
proof (rule deep_copier.intro)
  fix h h' :: "addr store" and a
  assume "lib_ok (boxed f) h a" "extends h h'"
  then show "lib_ok (boxed f) h' a \<and> lib_value (boxed f) h' a = lib_value (boxed f) h a"
    by (auto simp: boxed_def extends_def agree_def)
next
  fix h h' :: "addr store" and a b
  assume c: "lib_copy (boxed f) a h = (b, h')"
  show "extends h h'"
    using c by (auto simp: boxed_def split: prod.splits intro: extends_reserve_put)
  assume "lib_ok (boxed f) h a"
  with c show "copied (\<lambda>h. lib_ok (boxed f) h b) (\<lambda>h. lib_value (boxed f) h b)
      (lib_value (boxed f) h a) h h'"
    by (auto simp: boxed_def reserve_def copied_def agree_def)
qed

definition sample_kube :: "addr kube" where
  "sample_kube =
     \<lparr>range_order = (\<lambda>m. case m of None \<Rightarrow> [] | Some f \<Rightarrow> sorted_list_of_fset (fmdom f)),
      ObjectMeta = boxed (\<lambda>s. empty_meta\<lparr>Name := s\<rparr>), ListMeta = boxed Opaque,
      LabelSelector = boxed (\<lambda>s. \<lparr>MatchLabels = Some (fmap_of_list [(s, s)]), MatchExpressions = []\<rparr>),
      ResourceRequirements = boxed Opaque, Toleration = boxed Opaque, AffinityStruct = boxed Opaque,
      SecurityContextStruct = boxed Opaque, Volume = boxed (\<lambda>s. OtherVolume (Opaque s)),
      VolumeMount = boxed (\<lambda>s. OtherMount (Opaque s)),
      Condition = boxed (\<lambda>s. \<lparr>Cond_Type = s, Cond_Status = [], Cond_Reason = [], Cond_Message = [],
        Cond_LastTransitionTime = 0\<rparr>)\<rparr>"

lemma sample_kube_copies: "kube_copies sample_kube"
  by (auto simp: kube_copies_def sample_kube_def boxed_copies map_order_def map_lookup_def
      sorted_list_of_fset.rep_eq fmlookup_dom_iff split: option.split)

text \<open>A store with a runner (at 9) and a runner set (at 12) that uses the same template.\<close>

definition stored_spec :: "addr mem_runner_spec" where
  "stored_spec =
     \<lparr>M_URL = ''https://github.com/o'', M_ID = Some 0, M_OS = [], M_Group = [], M_Workdir = [],
      M_Image = \<lparr>M_ImageName = ''runner'', M_PullPolicy = [], M_PullSecrets = Slice 1 1 1\<rparr>,
      M_EvictionPolicy = [],
      M_Placement = \<lparr>M_NodeSelector = Some 2, M_Tolerations = Slice 3 0 1, M_Affinity = None\<rparr>,
      M_Resources = 4, M_ServiceAccountName = [], M_SecurityContext = Some 5,
      M_RuntimeClassName = Some 6, M_Volumes = Slice 3 0 1, M_VolumeMounts = NilSlice\<rparr>"

definition stored_runner :: "addr cell" where
  "stored_runner = CRunner
     \<lparr>M_R_Type = \<lparr>APIVersion = [], Kind = ''Runner''\<rparr>, M_R_Meta = 6, M_R_Spec = stored_spec,
      M_R_Status = \<lparr>M_Phase = ''Idle'', M_Conditions = Slice 3 0 1\<rparr>\<rparr>"

definition stored_set :: "addr cell" where
  "stored_set = CSet
     \<lparr>M_S_Type = \<lparr>APIVersion = [], Kind = ''RunnerSet''\<rparr>, M_S_Meta = 6,
      M_S_Spec = \<lparr>M_Runners = Some 7, M_Selector = 6, M_UpdateStrategy = \<lparr>StrategyType = []\<rparr>,
        M_RevisionHistoryLimit = Some 8,
        M_Template = \<lparr>M_T_Meta = 6, M_T_Spec = stored_spec\<rparr>\<rparr>,
      M_S_Status = \<lparr>M_StatusRunners = 0, M_IdleRunners = 0, M_ActiveRunners = 0, M_CurrentRevision = [],
        M_NextRevision = [], M_CollisionCount = None, M_S_Conditions = NilSlice, M_StatusSelector = []\<rparr>\<rparr>"

definition stored_a1_spec :: "addr mem_a1_runner_spec" where
  "stored_a1_spec =
     \<lparr>M1_URL = ''https://github.com/o'', M1_ID = Some 0, M1_OS = [], M1_Group = [], M1_Workdir = [],
      M1_Image = \<lparr>M1_ImageName = ''runner'', M1_PullPolicy = [], M1_PullSecrets = Slice 1 1 1\<rparr>,
      M1_Placement = \<lparr>M1_NodeSelector = Some 2, M1_Tolerations = Slice 3 0 1, M1_Affinity = None\<rparr>,
      M1_Resources = 4, M1_ServiceAccountName = [], M1_SecurityContext = Some 5,
      M1_RuntimeClassName = Some 6, M1_Volumes = Slice 3 0 1, M1_VolumeMounts = NilSlice\<rparr>"

definition stored_a1_set :: "addr cell" where
  "stored_a1_set = C1Set
     \<lparr>M1_S_Type = \<lparr>APIVersion = [], Kind = ''RunnerSet''\<rparr>, M1_S_Meta = 6,
      M1_S_Spec = \<lparr>M1_Runners = Some 7, M1_Selector = 6,
        M1_Template = \<lparr>M1_T_Meta = 6, M1_T_Spec = stored_a1_spec\<rparr>\<rparr>,
      M1_S_Status = \<lparr>M1_StatusRunners = 0, M1_IdleRunners = 0, M1_ActiveRunners = 0,
        M1_S_Conditions = Slice 3 0 1, M1_StatusSelector = []\<rparr>\<rparr>"

definition sample_store :: "addr store" where
  "sample_store =
     \<lparr>Limit = 14,
      cells = (\<lambda>_. CInt32 0)
        (0 := CInt64 7, 1 := CReferences [Opaque ''a'', Opaque ''b''],
         2 := CStrings (fmap_of_list [(''zone'', ''a''), (''os'', ''linux'')]), 3 := CStructs [4],
         4 := CString ''x'', 5 := CStruct 4, 6 := CString ''runner-1'', 7 := CInt32 3, 8 := CInt32 10,
         9 := stored_runner,
         10 := CRunners [the_runner stored_runner],
         11 := CRunnerList \<lparr>M_RL_Type = \<lparr>APIVersion = [], Kind = []\<rparr>, M_RL_Meta = 4, M_RL_Items = Slice 10 0 1\<rparr>,
         12 := stored_set, 13 := stored_a1_set)\<rparr>"

lemmas sample_store_defs =
  sample_store_def stored_runner_def stored_set_def stored_a1_set_def stored_spec_def
  stored_a1_spec_def sample_kube_def boxed_def cell_type_defs a1_cell_type_defs

lemmas ok_defs =
  pointer_ok_def slice_ok_def elements_def strings_ok_def plain_ok_def Runner_ok_def RunnerSpec_ok_def
  RunnerImage_ok_def RunnerPlacement_ok_def RunnerStatus_ok_def RunnerList_ok_def RunnerSet_ok_def
  RunnerSetSpec_ok_def RunnerSetStatus_ok_def RunnerTemplateSpec_ok_def

lemmas a1_ok_defs =
  A1_Runner_ok_def A1_RunnerSpec_ok_def A1_RunnerImage_ok_def A1_RunnerPlacement_ok_def
  A1_RunnerStatus_ok_def A1_RunnerSet_ok_def A1_RunnerSetSpec_ok_def A1_RunnerSetStatus_ok_def
  A1_RunnerTemplateSpec_ok_def

lemma stored_runner_ok: "pointer_ok runner_cells (Runner_ok sample_kube) sample_store (Some 9)"
  by (simp add: sample_store_defs ok_defs)

lemma stored_list_ok: "pointer_ok runner_lists (RunnerList_ok sample_kube) sample_store (Some 11)"
  by (simp add: sample_store_defs ok_defs)

lemma stored_set_ok: "pointer_ok set_cells (RunnerSet_ok sample_kube) sample_store (Some 12)"
  by (simp add: sample_store_defs ok_defs)

lemma stored_a1_set_ok: "pointer_ok a1_set_cells (A1_RunnerSet_ok sample_kube) sample_store (Some 13)"
  by (simp add: sample_store_defs ok_defs a1_ok_defs)

section \<open>Copies share nothing\<close>

lemma copied_pointer_nil:
  "copy_pointer T copy p h = (q, h') \<Longrightarrow> q = None \<longleftrightarrow> p = None"
  by (auto simp: copy_pointer_def split: option.splits prod.splits)

lemma pointer_copy_independent:
  assumes D: "deep_copier ok val copy" and T: "lawful T"
    and ok: "pointer_ok T ok h p" and c: "copy_pointer T copy p h = (q, h')"
    and elsewhere: "\<forall>(a, c)\<in>set elsewhere. a \<notin> {Limit h..<Limit h'}"
    and new: "\<forall>(a, c)\<in>set new. Limit h \<le> a"
  shows "(q = None \<longleftrightarrow> p = None) \<and>
    pointer_ok T ok (mutate elsewhere h') q \<and>
    pointer_value T val (mutate elsewhere h') q = pointer_value T val h p \<and>
    pointer_value T val (mutate new h') p = pointer_value T val h p"
  using copied_pointer_nil [OF c] deep_copier.copy_survives [OF pointer_deep [OF T D] ok c elsewhere]
    deep_copier.original_survives [OF pointer_deep [OF T D] ok c new]
  by simp

text \<open>C18. A deep copy of a runner is nil exactly when the runner is.  It is a well-formed runner with the
  value of the original, however the store is changed afterwards outside of the cells that the copy
  allocated; and the original keeps its value whatever is then done to the copy.\<close>

theorem runner_copy_is_independent:
  assumes "kube_copies K" and "pointer_ok runner_cells (Runner_ok K) h p"
    and "Runner_DeepCopy K p h = (q, h')"
    and "\<forall>(a, c)\<in>set elsewhere. a \<notin> {Limit h..<Limit h'}" and "\<forall>(a, c)\<in>set new. Limit h \<le> a"
  shows "(q = None \<longleftrightarrow> p = None) \<and>
    pointer_ok runner_cells (Runner_ok K) (mutate elsewhere h') q \<and>
    pointer_value runner_cells (Runner_value K) (mutate elsewhere h') q =
      pointer_value runner_cells (Runner_value K) h p \<and>
    pointer_value runner_cells (Runner_value K) (mutate new h') p =
      pointer_value runner_cells (Runner_value K) h p"
  by (rule pointer_copy_independent [OF Runner_deep [OF assms(1)] lawful_cells(11) assms(2)
        assms(3) [unfolded Runner_DeepCopy_def] assms(4,5)])

text \<open>In the sample store the runner shares the id with the template of the runner set.  After a write to
  that id the original runner has the new one and its copy the old one.\<close>

lemma runner_copy_is_independent_witness:
  "(case Runner_DeepCopy sample_kube (Some 9) sample_store of (q, h') \<Rightarrow>
      pointer_value runner_cells (Runner_value sample_kube) (mutate [(0, CInt64 8)] h') q =
        pointer_value runner_cells (Runner_value sample_kube) sample_store (Some 9)) \<and>
   map_option (\<lambda>r. ID (R_Spec r))
     (pointer_value runner_cells (Runner_value sample_kube) sample_store (Some 9)) = Some (Some 7) \<and>
   map_option (\<lambda>r. ID (R_Spec r))
     (pointer_value runner_cells (Runner_value sample_kube) (mutate [(0, CInt64 8)] sample_store) (Some 9)) =
     Some (Some 8)"
proof (intro conjI)
  obtain q h' where c: "Runner_DeepCopy sample_kube (Some 9) sample_store = (q, h')"
    by (cases "Runner_DeepCopy sample_kube (Some 9) sample_store")
  show "case Runner_DeepCopy sample_kube (Some 9) sample_store of (q, h') \<Rightarrow>
      pointer_value runner_cells (Runner_value sample_kube) (mutate [(0, CInt64 8)] h') q =
        pointer_value runner_cells (Runner_value sample_kube) sample_store (Some 9)"
    using runner_copy_is_independent [OF sample_kube_copies stored_runner_ok c,
        where elsewhere = "[(0, CInt64 8)]" and new = "[]"] c
    by (simp add: sample_store_def)
qed (simp_all add: sample_store_defs pointer_value_def plain_value_def Runner_value_def RunnerSpec_value_def)

text \<open>The same holds of the deep copy of a runner set with its template, its limits and its
  conditions.\<close>

theorem runnerset_copy_is_independent:
  assumes "kube_copies K" and "pointer_ok set_cells (RunnerSet_ok K) h p"
    and "RunnerSet_DeepCopy K p h = (q, h')"
    and "\<forall>(a, c)\<in>set elsewhere. a \<notin> {Limit h..<Limit h'}" and "\<forall>(a, c)\<in>set new. Limit h \<le> a"
  shows "(q = None \<longleftrightarrow> p = None) \<and>
    pointer_ok set_cells (RunnerSet_ok K) (mutate elsewhere h') q \<and>
    pointer_value set_cells (RunnerSet_value K) (mutate elsewhere h') q =
      pointer_value set_cells (RunnerSet_value K) h p \<and>
    pointer_value set_cells (RunnerSet_value K) (mutate new h') p =
      pointer_value set_cells (RunnerSet_value K) h p"
  by (rule pointer_copy_independent [OF RunnerSet_deep [OF assms(1)] lawful_cells(18) assms(2)
        assms(3) [unfolded RunnerSet_DeepCopy_def] assms(4,5)])

lemma runnerset_copy_is_independent_witness:
  "case RunnerSet_DeepCopy sample_kube (Some 12) sample_store of (q, h') \<Rightarrow>
     pointer_value set_cells (RunnerSet_value sample_kube) (mutate [(7, CInt32 0), (8, CInt32 1)] h') q =
       pointer_value set_cells (RunnerSet_value sample_kube) sample_store (Some 12) \<and>
     map_option (\<lambda>s. (Runners (S_Spec s), RevisionHistoryLimit (S_Spec s)))
       (pointer_value set_cells (RunnerSet_value sample_kube) sample_store (Some 12)) =
       Some (Some 3, Some 10)"
proof -
  obtain q h' where c: "RunnerSet_DeepCopy sample_kube (Some 12) sample_store = (q, h')"
    by (cases "RunnerSet_DeepCopy sample_kube (Some 12) sample_store")
  have "map_option (\<lambda>s. (Runners (S_Spec s), RevisionHistoryLimit (S_Spec s)))
      (pointer_value set_cells (RunnerSet_value sample_kube) sample_store (Some 12)) =
      Some (Some 3, Some 10)"
    by (simp add: sample_store_defs pointer_value_def plain_value_def RunnerSet_value_def RunnerSetSpec_value_def)
  then show ?thesis
    using runnerset_copy_is_independent [OF sample_kube_copies stored_set_ok c,
        where elsewhere = "[(7, CInt32 0), (8, CInt32 1)]" and new = "[]"] c
    by (simp add: sample_store_def)
qed

text \<open>C30. Typing: what \<open>DeepCopyObject\<close> gives for a list of runners is the nil interface for nil (never a
  typed nil pointer, which would not be the nil interface), and otherwise a list of runners whose
  pointers, slices and maps all lead to allocated cells of their types.\<close>

theorem list_copy_is_well_typed:
  assumes "kube_copies K" and "pointer_ok runner_lists (RunnerList_ok K) h p"
    and "RunnerList_DeepCopyObject K p h = (obj, h')"
  shows "case obj of
      None \<Rightarrow> p = None
    | Some (t, q) \<Rightarrow> p \<noteq> None \<and> t = TRunnerList \<and> q \<noteq> None \<and>
        pointer_ok runner_lists (RunnerList_ok K) h' q"
proof -
  note D = RunnerList_DeepCopy_deep [OF assms(1)]
  obtain q where c: "RunnerList_DeepCopy K p h = (q, h')"
    using assms(3) by (auto simp: RunnerList_DeepCopyObject_def as_object_def split: prod.splits option.splits)
  from deep_copier.copy_survives [OF D assms(2), where ws = "[]"]
  show ?thesis
    using assms(3) c copied_pointer_nil [OF c [unfolded RunnerList_DeepCopy_def]]
    by (auto simp: RunnerList_DeepCopyObject_def RunnerList_DeepCopy_def as_object_def split: option.splits)
qed

lemma list_copy_is_well_typed_witness:
  "\<exists>h' q. RunnerList_DeepCopyObject sample_kube (Some 11) sample_store = (Some (TRunnerList, q), h') \<and>
     pointer_ok runner_lists (RunnerList_ok sample_kube) h' q"
proof -
  obtain obj h' where c: "RunnerList_DeepCopyObject sample_kube (Some 11) sample_store = (obj, h')"
    by (cases "RunnerList_DeepCopyObject sample_kube (Some 11) sample_store")
  show ?thesis
    using list_copy_is_well_typed [OF sample_kube_copies stored_list_ok c] c
    by (cases obj) auto
qed

text \<open>The copies of version v1alpha1 are independent, too; here of a runner set.\<close>

theorem v1alpha1_copy_is_independent:
  assumes "kube_copies K" and "pointer_ok a1_set_cells (A1_RunnerSet_ok K) h p"
    and "A1_RunnerSet_DeepCopy K p h = (q, h')"
    and "\<forall>(a, c)\<in>set elsewhere. a \<notin> {Limit h..<Limit h'}" and "\<forall>(a, c)\<in>set new. Limit h \<le> a"
  shows "(q = None \<longleftrightarrow> p = None) \<and>
    pointer_ok a1_set_cells (A1_RunnerSet_ok K) (mutate elsewhere h') q \<and>
    pointer_value a1_set_cells (A1_RunnerSet_value K) (mutate elsewhere h') q =
      pointer_value a1_set_cells (A1_RunnerSet_value K) h p \<and>
    pointer_value a1_set_cells (A1_RunnerSet_value K) (mutate new h') p =
      pointer_value a1_set_cells (A1_RunnerSet_value K) h p"
  by (rule pointer_copy_independent [OF A1_RunnerSet_deep [OF assms(1)] lawful_a1_cells(11) assms(2)
        assms(3) [unfolded A1_RunnerSet_DeepCopy_def] assms(4,5)])

lemma v1alpha1_copy_is_independent_witness:
  "case A1_RunnerSet_DeepCopy sample_kube (Some 13) sample_store of (q, h') \<Rightarrow>
     q \<noteq> None \<and>
     pointer_value a1_set_cells (A1_RunnerSet_value sample_kube) (mutate [(7, CInt32 0), (4, CString [])] h') q =
       pointer_value a1_set_cells (A1_RunnerSet_value sample_kube) sample_store (Some 13)"
proof -
  obtain q h' where c: "A1_RunnerSet_DeepCopy sample_kube (Some 13) sample_store = (q, h')"
    by (cases "A1_RunnerSet_DeepCopy sample_kube (Some 13) sample_store")
  show ?thesis
    using v1alpha1_copy_is_independent [OF sample_kube_copies stored_a1_set_ok c,
        where elsewhere = "[(7, CInt32 0), (4, CString [])]" and new = "[]"] c
    by (simp add: sample_store_def)
qed

end
