(* ===== verification/Conversion_Scheme.thy ===== *)
theory Conversion_Scheme
  imports Conversion
begin

text \<open>
  How the conversion functions of \<open>api/v1alpha1\<close> get into a scheme: the wrappers and the order in which
  \<open>RegisterConversions\<close> of \<open>zz_generated.conversion.go\<close> adds them, the scheme builders of both versions
  (\<open>groupversion_info.go\<close> and the \<open>init\<close> functions of the packages), and the \<open>init\<close> of \<open>main.go\<close>.
  The scheme belongs to apimachinery; what the program does with it is an argument.
\<close>

section \<open>Untyped values\<close>

text \<open>A conversion function of a scheme gets two \<open>interface{}\<close> values, pointers to structs of either version.\<close>

datatype api_version = V1alpha1 | V1alpha2

datatype api_kind =
  TRunnerImage | TRunnerPlacement | TRunnerSpec | TRunnerStatus | TRunner
| TRunnerList | TRunnerTemplateSpec | TRunnerSetSpec | TRunnerSetStatus | TRunnerSet | TRunnerSetList

type_synonym api_type = "api_version \<times> api_kind"

datatype api_value =
  OldRunnerImage (old_RunnerImage: a1_runner_image)
| NewRunnerImage (new_RunnerImage: runner_image)
| OldRunnerPlacement (old_RunnerPlacement: a1_runner_placement)
| NewRunnerPlacement (new_RunnerPlacement: runner_placement)
| OldRunnerSpec (old_RunnerSpec: a1_runner_spec)
| NewRunnerSpec (new_RunnerSpec: runner_spec)
| OldRunnerStatus (old_RunnerStatus: a1_runner_status)
| NewRunnerStatus (new_RunnerStatus: runner_status)
| OldRunner (old_Runner: a1_runner)
| NewRunner (new_Runner: runner)
| OldRunnerList (old_RunnerList: a1_runner_list)
| NewRunnerList (new_RunnerList: runner_list)
| OldRunnerTemplateSpec (old_RunnerTemplateSpec: a1_runner_template_spec)
| NewRunnerTemplateSpec (new_RunnerTemplateSpec: runner_template_spec)
| OldRunnerSetSpec (old_RunnerSetSpec: a1_runnerset_spec)
| NewRunnerSetSpec (new_RunnerSetSpec: runnerset_spec)
| OldRunnerSetStatus (old_RunnerSetStatus: a1_runnerset_status)
| NewRunnerSetStatus (new_RunnerSetStatus: runnerset_status)
| OldRunnerSet (old_RunnerSet: a1_runnerset)
| NewRunnerSet (new_RunnerSet: runnerset)
| OldRunnerSetList (old_RunnerSetList: a1_runnerset_list)
| NewRunnerSetList (new_RunnerSetList: runnerset_list)

fun type_of :: "api_value \<Rightarrow> api_type" where
  "type_of (OldRunnerImage x) = (V1alpha1, TRunnerImage)"
| "type_of (NewRunnerImage x) = (V1alpha2, TRunnerImage)"
| "type_of (OldRunnerPlacement x) = (V1alpha1, TRunnerPlacement)"
| "type_of (NewRunnerPlacement x) = (V1alpha2, TRunnerPlacement)"
| "type_of (OldRunnerSpec x) = (V1alpha1, TRunnerSpec)"
| "type_of (NewRunnerSpec x) = (V1alpha2, TRunnerSpec)"
| "type_of (OldRunnerStatus x) = (V1alpha1, TRunnerStatus)"
| "type_of (NewRunnerStatus x) = (V1alpha2, TRunnerStatus)"
| "type_of (OldRunner x) = (V1alpha1, TRunner)"
| "type_of (NewRunner x) = (V1alpha2, TRunner)"
| "type_of (OldRunnerList x) = (V1alpha1, TRunnerList)"
| "type_of (NewRunnerList x) = (V1alpha2, TRunnerList)"
| "type_of (OldRunnerTemplateSpec x) = (V1alpha1, TRunnerTemplateSpec)"
| "type_of (NewRunnerTemplateSpec x) = (V1alpha2, TRunnerTemplateSpec)"
| "type_of (OldRunnerSetSpec x) = (V1alpha1, TRunnerSetSpec)"
| "type_of (NewRunnerSetSpec x) = (V1alpha2, TRunnerSetSpec)"
| "type_of (OldRunnerSetStatus x) = (V1alpha1, TRunnerSetStatus)"
| "type_of (NewRunnerSetStatus x) = (V1alpha2, TRunnerSetStatus)"
| "type_of (OldRunnerSet x) = (V1alpha1, TRunnerSet)"
| "type_of (NewRunnerSet x) = (V1alpha2, TRunnerSet)"
| "type_of (OldRunnerSetList x) = (V1alpha1, TRunnerSetList)"
| "type_of (NewRunnerSetList x) = (V1alpha2, TRunnerSetList)"

text \<open>The wrapper of a conversion: two type assertions, which panic on other types, and the call.\<close>

type_synonym 's conversion_func = "api_value \<Rightarrow> api_value \<Rightarrow> ('s, go_error + api_value) prog"

definition untyped :: "(api_value \<Rightarrow> bool) \<Rightarrow> (api_value \<Rightarrow> 'a) \<Rightarrow> (api_value \<Rightarrow> bool) \<Rightarrow> (api_value \<Rightarrow> 'b) \<Rightarrow>
    ('b \<Rightarrow> api_value) \<Rightarrow> ('a \<Rightarrow> 'b \<Rightarrow> go_error + 'b) \<Rightarrow> 's conversion_func" where
  "untyped is_in the_in is_out the_out wrap conv a b =
     (if \<not> is_in a then panics BadTypeAssertion
      else if \<not> is_out b then panics BadTypeAssertion
      else ret (case conv (the_in a) (the_out b) of Inl e \<Rightarrow> Inl e | Inr y \<Rightarrow> Inr (wrap y)))"

record 's registration =
  Generated :: bool
  From :: api_type
  Into :: api_type
  Func :: "'s conversion_func"

definition up :: "api_kind \<Rightarrow> 's conversion_func \<Rightarrow> 's registration" where
  "up k f = \<lparr>Generated = True, From = (V1alpha1, k), Into = (V1alpha2, k), Func = f\<rparr>"

definition down :: "bool \<Rightarrow> api_kind \<Rightarrow> 's conversion_func \<Rightarrow> 's registration" where
  "down generated k f = \<lparr>Generated = generated, From = (V1alpha2, k), Into = (V1alpha1, k), Func = f\<rparr>"

text \<open>The registrations in the order of \<open>RegisterConversions\<close>; the last three are the hand-written ones.\<close>

definition conversion_table :: "'s registration list" where
  "conversion_table =
     [up TRunner (untyped is_OldRunner old_Runner is_NewRunner new_Runner NewRunner
         Convert_v1alpha1_Runner_To_v1alpha2_Runner),
      down True TRunner (untyped is_NewRunner new_Runner is_OldRunner old_Runner OldRunner
         Convert_v1alpha2_Runner_To_v1alpha1_Runner),
      up TRunnerImage (untyped is_OldRunnerImage old_RunnerImage is_NewRunnerImage new_RunnerImage NewRunnerImage
         Convert_v1alpha1_RunnerImage_To_v1alpha2_RunnerImage),
      down True TRunnerImage (untyped is_NewRunnerImage new_RunnerImage is_OldRunnerImage old_RunnerImage OldRunnerImage
         Convert_v1alpha2_RunnerImage_To_v1alpha1_RunnerImage),
      up TRunnerList (untyped is_OldRunnerList old_RunnerList is_NewRunnerList new_RunnerList NewRunnerList
         Convert_v1alpha1_RunnerList_To_v1alpha2_RunnerList),
      down True TRunnerList (untyped is_NewRunnerList new_RunnerList is_OldRunnerList old_RunnerList OldRunnerList
         Convert_v1alpha2_RunnerList_To_v1alpha1_RunnerList),
      up TRunnerPlacement (untyped is_OldRunnerPlacement old_RunnerPlacement is_NewRunnerPlacement new_RunnerPlacement NewRunnerPlacement
         Convert_v1alpha1_RunnerPlacement_To_v1alpha2_RunnerPlacement),
      down True TRunnerPlacement (untyped is_NewRunnerPlacement new_RunnerPlacement is_OldRunnerPlacement old_RunnerPlacement OldRunnerPlacement
         Convert_v1alpha2_RunnerPlacement_To_v1alpha1_RunnerPlacement),
      up TRunnerSet (untyped is_OldRunnerSet old_RunnerSet is_NewRunnerSet new_RunnerSet NewRunnerSet
         Convert_v1alpha1_RunnerSet_To_v1alpha2_RunnerSet),
      down True TRunnerSet (untyped is_NewRunnerSet new_RunnerSet is_OldRunnerSet old_RunnerSet OldRunnerSet
         Convert_v1alpha2_RunnerSet_To_v1alpha1_RunnerSet),
      up TRunnerSetList (untyped is_OldRunnerSetList old_RunnerSetList is_NewRunnerSetList new_RunnerSetList NewRunnerSetList
         Convert_v1alpha1_RunnerSetList_To_v1alpha2_RunnerSetList),
      down True TRunnerSetList (untyped is_NewRunnerSetList new_RunnerSetList is_OldRunnerSetList old_RunnerSetList OldRunnerSetList
         Convert_v1alpha2_RunnerSetList_To_v1alpha1_RunnerSetList),
      up TRunnerSetSpec (untyped is_OldRunnerSetSpec old_RunnerSetSpec is_NewRunnerSetSpec new_RunnerSetSpec NewRunnerSetSpec
         Convert_v1alpha1_RunnerSetSpec_To_v1alpha2_RunnerSetSpec),
      up TRunnerSetStatus (untyped is_OldRunnerSetStatus old_RunnerSetStatus is_NewRunnerSetStatus new_RunnerSetStatus NewRunnerSetStatus
         Convert_v1alpha1_RunnerSetStatus_To_v1alpha2_RunnerSetStatus),
      up TRunnerSpec (untyped is_OldRunnerSpec old_RunnerSpec is_NewRunnerSpec new_RunnerSpec NewRunnerSpec
         Convert_v1alpha1_RunnerSpec_To_v1alpha2_RunnerSpec),
      up TRunnerStatus (untyped is_OldRunnerStatus old_RunnerStatus is_NewRunnerStatus new_RunnerStatus NewRunnerStatus
         Convert_v1alpha1_RunnerStatus_To_v1alpha2_RunnerStatus),
      down True TRunnerStatus (untyped is_NewRunnerStatus new_RunnerStatus is_OldRunnerStatus old_RunnerStatus OldRunnerStatus
         Convert_v1alpha2_RunnerStatus_To_v1alpha1_RunnerStatus),
      up TRunnerTemplateSpec (untyped is_OldRunnerTemplateSpec old_RunnerTemplateSpec is_NewRunnerTemplateSpec new_RunnerTemplateSpec NewRunnerTemplateSpec
         Convert_v1alpha1_RunnerTemplateSpec_To_v1alpha2_RunnerTemplateSpec),
      down True TRunnerTemplateSpec (untyped is_NewRunnerTemplateSpec new_RunnerTemplateSpec is_OldRunnerTemplateSpec old_RunnerTemplateSpec OldRunnerTemplateSpec
         Convert_v1alpha2_RunnerTemplateSpec_To_v1alpha1_RunnerTemplateSpec),
      down False TRunnerSetSpec (untyped is_NewRunnerSetSpec new_RunnerSetSpec is_OldRunnerSetSpec old_RunnerSetSpec OldRunnerSetSpec
         Convert_v1alpha2_RunnerSetSpec_To_v1alpha1_RunnerSetSpec),
      down False TRunnerSetStatus (untyped is_NewRunnerSetStatus new_RunnerSetStatus is_OldRunnerSetStatus old_RunnerSetStatus OldRunnerSetStatus
         Convert_v1alpha2_RunnerSetStatus_To_v1alpha1_RunnerSetStatus),
      down False TRunnerSpec (untyped is_NewRunnerSpec new_RunnerSpec is_OldRunnerSpec old_RunnerSpec OldRunnerSpec
         Convert_v1alpha2_RunnerSpec_To_v1alpha1_RunnerSpec)]"

text \<open>What apimachinery does with a scheme \<open>'c\<close>.\<close>

record ('c, 's) scheme_lib =
  AddGeneratedConversionFunc :: "api_type \<Rightarrow> api_type \<Rightarrow> 's conversion_func \<Rightarrow> 'c \<Rightarrow> go_error option \<times> 'c"
  AddConversionFunc :: "api_type \<Rightarrow> api_type \<Rightarrow> 's conversion_func \<Rightarrow> 'c \<Rightarrow> go_error option \<times> 'c"
  AddKnownTypes :: "string \<times> string \<Rightarrow> string list \<Rightarrow> 'c \<Rightarrow> 'c"
  clientgo_AddToScheme :: "'c \<Rightarrow> go_error option \<times> 'c"

definition register :: "('c, 's) scheme_lib \<Rightarrow> 's registration \<Rightarrow> 'c \<Rightarrow> go_error option \<times> 'c" where
  "register L r =
     (if Generated r then AddGeneratedConversionFunc L (From r) (Into r) (Func r)
      else AddConversionFunc L (From r) (Into r) (Func r))"

text \<open>One after the other; the first error ends the function.\<close>

fun in_turn :: "('c \<Rightarrow> go_error option \<times> 'c) list \<Rightarrow> 'c \<Rightarrow> go_error option \<times> 'c" where
  "in_turn [] s = (None, s)"
| "in_turn (f # fs) s = (case f s of (Some e, s') \<Rightarrow> (Some e, s') | (None, s') \<Rightarrow> in_turn fs s')"

definition RegisterConversions :: "('c, 's) scheme_lib \<Rightarrow> 'c \<Rightarrow> go_error option \<times> 'c" where
  "RegisterConversions L = in_turn (List.map (register L) conversion_table)"

section \<open>The builders\<close>

definition GroupVersion_v1alpha1 :: "string \<times> string" where
  "GroupVersion_v1alpha1 = (''octorun.github.io'', ''v1alpha1'')"

definition GroupVersion_v1alpha2 :: "string \<times> string" where
  "GroupVersion_v1alpha2 = (''octorun.github.io'', ''v1alpha2'')"

text \<open>A \<open>runtime.SchemeBuilder\<close> is a slice of functions on a scheme, and the builder of
  controller-runtime holds one by value.\<close>

type_synonym 'c scheme_builder = "('c \<Rightarrow> go_error option \<times> 'c) list"

definition AddToScheme :: "'c scheme_builder \<Rightarrow> 'c \<Rightarrow> go_error option \<times> 'c" where
  "AddToScheme b = in_turn b"

definition Register :: "('c, 's) scheme_lib \<Rightarrow> string \<times> string \<Rightarrow> string list \<Rightarrow> 'c scheme_builder \<Rightarrow> 'c scheme_builder" where
  "Register L gv kinds b = b @ [\<lambda>s. (None, AddKnownTypes L gv kinds s)]"

text \<open>The variables of the package, and its \<open>init\<close> functions in the order of the files.
  \<open>localSchemeBuilder = SchemeBuilder.SchemeBuilder\<close> copies the slice, so that the two grow apart.\<close>

record 'c package_vars =
  SchemeBuilder :: "'c scheme_builder"
  localSchemeBuilder :: "'c scheme_builder"

definition v1alpha1_vars :: "'c package_vars" where
  "v1alpha1_vars = (let builder = [] in \<lparr>SchemeBuilder = builder, localSchemeBuilder = builder\<rparr>)"

definition init_runner_types :: "('c, 's) scheme_lib \<Rightarrow> 'c package_vars \<Rightarrow> 'c package_vars" where
  "init_runner_types L v =
     v\<lparr>SchemeBuilder := Register L GroupVersion_v1alpha1 [''Runner'', ''RunnerList''] (SchemeBuilder v)\<rparr>"

definition init_runnerset_types :: "('c, 's) scheme_lib \<Rightarrow> 'c package_vars \<Rightarrow> 'c package_vars" where
  "init_runnerset_types L v =
     v\<lparr>SchemeBuilder := Register L GroupVersion_v1alpha1 [''RunnerSet'', ''RunnerSetList''] (SchemeBuilder v)\<rparr>"

definition init_conversion :: "('c, 's) scheme_lib \<Rightarrow> 'c package_vars \<Rightarrow> 'c package_vars" where
  "init_conversion L v = v\<lparr>localSchemeBuilder := localSchemeBuilder v @ [RegisterConversions L]\<rparr>"

definition init_v1alpha1 :: "('c, 's) scheme_lib \<Rightarrow> 'c package_vars" where
  "init_v1alpha1 L = init_conversion L (init_runnerset_types L (init_runner_types L v1alpha1_vars))"

definition v1alpha2_builder :: "('c, 's) scheme_lib \<Rightarrow> 'c scheme_builder" where
  "v1alpha2_builder L =
     Register L GroupVersion_v1alpha2 [''RunnerSet'', ''RunnerSetList'']
       (Register L GroupVersion_v1alpha2 [''Runner'', ''RunnerList''] [])"

text \<open>\<open>utilruntime.Must\<close> panics on an error.\<close>

definition Must :: "('c \<Rightarrow> go_error option \<times> 'c) \<Rightarrow> ('c, unit) prog" where
  "Must f s = (case f s of (None, s') \<Rightarrow> (Done (), s') | (Some e, s') \<Rightarrow> (Panicked MustError, s'))"

definition main_init :: "('c, 's) scheme_lib \<Rightarrow> ('c, unit) prog" where
  "main_init L =
     andthen (Must (clientgo_AddToScheme L)) (\<lambda>_.
     andthen (Must (AddToScheme (v1alpha2_builder L))) (\<lambda>_.
     Must (AddToScheme (SchemeBuilder (init_v1alpha1 L)))))"

section \<open>The table\<close>

lemma in_turn_append:
  "in_turn (fs @ gs) s = (case in_turn fs s of (Some e, s') \<Rightarrow> (Some e, s') | (None, s') \<Rightarrow> in_turn gs s')"
  by (induction fs arbitrary: s) (auto split: prod.split option.split)

definition well_typed :: "'s registration \<Rightarrow> bool" where
  "well_typed r \<longleftrightarrow>
     (\<forall>a b s. type_of a = From r \<and> type_of b = Into r \<longrightarrow>
        (case Func r a b s of
           (Done (Inr y), s') \<Rightarrow> type_of y = Into r \<and> s' = s
         | (Done (Inl e), s') \<Rightarrow> s' = s
         | (Panicked p, s') \<Rightarrow> False))"

lemma type_of_is:
  "type_of v = (V1alpha1, TRunnerImage) \<Longrightarrow> is_OldRunnerImage v" "type_of v = (V1alpha2, TRunnerImage) \<Longrightarrow> is_NewRunnerImage v"
  "type_of v = (V1alpha1, TRunnerPlacement) \<Longrightarrow> is_OldRunnerPlacement v" "type_of v = (V1alpha2, TRunnerPlacement) \<Longrightarrow> is_NewRunnerPlacement v"
  "type_of v = (V1alpha1, TRunnerSpec) \<Longrightarrow> is_OldRunnerSpec v" "type_of v = (V1alpha2, TRunnerSpec) \<Longrightarrow> is_NewRunnerSpec v"
  "type_of v = (V1alpha1, TRunnerStatus) \<Longrightarrow> is_OldRunnerStatus v" "type_of v = (V1alpha2, TRunnerStatus) \<Longrightarrow> is_NewRunnerStatus v"
  "type_of v = (V1alpha1, TRunner) \<Longrightarrow> is_OldRunner v" "type_of v = (V1alpha2, TRunner) \<Longrightarrow> is_NewRunner v"
  "type_of v = (V1alpha1, TRunnerList) \<Longrightarrow> is_OldRunnerList v" "type_of v = (V1alpha2, TRunnerList) \<Longrightarrow> is_NewRunnerList v"
  "type_of v = (V1alpha1, TRunnerTemplateSpec) \<Longrightarrow> is_OldRunnerTemplateSpec v" "type_of v = (V1alpha2, TRunnerTemplateSpec) \<Longrightarrow> is_NewRunnerTemplateSpec v"
  "type_of v = (V1alpha1, TRunnerSetSpec) \<Longrightarrow> is_OldRunnerSetSpec v" "type_of v = (V1alpha2, TRunnerSetSpec) \<Longrightarrow> is_NewRunnerSetSpec v"
  "type_of v = (V1alpha1, TRunnerSetStatus) \<Longrightarrow> is_OldRunnerSetStatus v" "type_of v = (V1alpha2, TRunnerSetStatus) \<Longrightarrow> is_NewRunnerSetStatus v"
  "type_of v = (V1alpha1, TRunnerSet) \<Longrightarrow> is_OldRunnerSet v" "type_of v = (V1alpha2, TRunnerSet) \<Longrightarrow> is_NewRunnerSet v"
  "type_of v = (V1alpha1, TRunnerSetList) \<Longrightarrow> is_OldRunnerSetList v" "type_of v = (V1alpha2, TRunnerSetList) \<Longrightarrow> is_NewRunnerSetList v"
  by (cases v; simp)+

lemma well_typed_untyped:
  assumes "\<And>v. type_of v = t \<Longrightarrow> is_in v" "\<And>v. type_of v = u \<Longrightarrow> is_out v" "\<And>y. type_of (wrap y) = u"
  shows "well_typed \<lparr>Generated = g, From = t, Into = u, Func = untyped is_in the_in is_out the_out wrap conv\<rparr>"
  using assms by (auto simp: well_typed_def untyped_def split: sum.split)

lemma conversion_table_well_typed: "r \<in> set conversion_table \<Longrightarrow> well_typed r"
  unfolding conversion_table_def up_def down_def list.set insert_iff empty_iff
  by (elim disjE FalseE; hypsubst) (rule well_typed_untyped; (erule type_of_is | rule type_of.simps))+

text \<open>C29. The table of conversions is well typed and complete.  Every function in it, given values of the two
  types under which it is registered, ends without a panic and gives a value of the second one; and each
  of the eleven types of the API is registered exactly once in each direction.\<close>

theorem conversion_table_is_typed:
  "(\<forall>r\<in>set (conversion_table :: 's registration list). \<forall>a b s.
      type_of a = From r \<and> type_of b = Into r \<longrightarrow>
      (case Func r a b s of
         (Done (Inr y), s') \<Rightarrow> type_of y = Into r \<and> s' = s
       | (Done (Inl e), s') \<Rightarrow> s' = s
       | (Panicked p, s') \<Rightarrow> False)) \<and>
   distinct (List.map (\<lambda>r. (From r, Into r)) (conversion_table :: 's registration list)) \<and>
   (\<forall>k. ((V1alpha1, k), (V1alpha2, k)) \<in> (\<lambda>r. (From r, Into r)) ` set (conversion_table :: 's registration list) \<and>
        ((V1alpha2, k), (V1alpha1, k)) \<in> (\<lambda>r. (From r, Into r)) ` set (conversion_table :: 's registration list))"
proof (intro conjI allI)
  show "\<forall>r\<in>set (conversion_table :: 's registration list). \<forall>a b s.
      type_of a = From r \<and> type_of b = Into r \<longrightarrow>
      (case Func r a b s of
         (Done (Inr y), s') \<Rightarrow> type_of y = Into r \<and> s' = s
       | (Done (Inl e), s') \<Rightarrow> s' = s
       | (Panicked p, s') \<Rightarrow> False)"
    by (rule ballI) (rule conversion_table_well_typed [unfolded well_typed_def])
  show "distinct (List.map (\<lambda>r. (From r, Into r)) (conversion_table :: 's registration list))"
    by (simp add: conversion_table_def up_def down_def)
  fix k
  show "((V1alpha1, k), (V1alpha2, k)) \<in> (\<lambda>r. (From r, Into r)) ` set (conversion_table :: 's registration list)"
    and "((V1alpha2, k), (V1alpha1, k)) \<in> (\<lambda>r. (From r, Into r)) ` set (conversion_table :: 's registration list)"
    by (cases k; simp add: conversion_table_def up_def down_def)+
qed

lemma conversion_table_is_typed_witness:
  "let r = hd (conversion_table :: unit registration list)
   in case Func r (OldRunner zero_a1_runner) (NewRunner zero_runner) () of
        (Done (Inr y), s') \<Rightarrow> type_of y = (V1alpha2, TRunner) | (Done (Inl e), s') \<Rightarrow> s' = () | (Panicked p, s') \<Rightarrow> False"
proof -
  have r: "hd (conversion_table :: unit registration list) \<in> set conversion_table"
    "From (hd (conversion_table :: unit registration list)) = (V1alpha1, TRunner)"
    "Into (hd (conversion_table :: unit registration list)) = (V1alpha2, TRunner)"
    by (simp_all add: conversion_table_def up_def)
  show ?thesis
    using bspec [OF conjunct1 [OF conversion_table_is_typed [where 's = unit]] r(1), rule_format,
        of "OldRunner zero_a1_runner" "NewRunner zero_runner" "()"] r(2,3)
    by (simp add: Let_def split: prod.splits outcome.splits sum.splits)
qed

text \<open>The copy of the slice is taken before anything is in it, so that no scheme ever gets the conversions:
  adding v1alpha1 to a scheme only makes its four types known.  (The program does not notice, because
  \<open>ConvertTo\<close> and \<open>ConvertFrom\<close> call the functions directly.)\<close>

lemma conversions_stay_unregistered:
  "AddToScheme (SchemeBuilder (init_v1alpha1 L)) s =
     (None, AddKnownTypes L GroupVersion_v1alpha1 [''RunnerSet'', ''RunnerSetList'']
        (AddKnownTypes L GroupVersion_v1alpha1 [''Runner'', ''RunnerList''] s))"
  by (simp add: init_v1alpha1_def init_conversion_def init_runnerset_types_def init_runner_types_def
      v1alpha1_vars_def AddToScheme_def Register_def Let_def)

lemma v1alpha2_types:
  "AddToScheme (v1alpha2_builder L) s =
     (None, AddKnownTypes L GroupVersion_v1alpha2 [''RunnerSet'', ''RunnerSetList'']
        (AddKnownTypes L GroupVersion_v1alpha2 [''Runner'', ''RunnerList''] s))"
  by (simp add: v1alpha2_builder_def AddToScheme_def Register_def)

lemma init_makes_types_known:
  assumes "clientgo_AddToScheme L s = (None, s')"
  shows "main_init L s =
    (Done (), AddKnownTypes L GroupVersion_v1alpha1 [''RunnerSet'', ''RunnerSetList'']
      (AddKnownTypes L GroupVersion_v1alpha1 [''Runner'', ''RunnerList'']
        (AddKnownTypes L GroupVersion_v1alpha2 [''RunnerSet'', ''RunnerSetList'']
          (AddKnownTypes L GroupVersion_v1alpha2 [''Runner'', ''RunnerList''] s'))))"
  by (simp add: main_init_def run_andthen Must_def assms conversions_stay_unregistered v1alpha2_types)

end
