(* ===== verification/Go_Url.thy ===== *)
theory Go_Url
  imports Go_Strings
begin

text \<open>
  \<open>net/url\<close>: \<open>Parse\<close> of the standard library, as far as the program looks at its result (whether it is an
  error, the scheme, the host and the path).
\<close>

section \<open>Characters\<close>

definition between :: "char \<Rightarrow> char \<Rightarrow> char \<Rightarrow> bool" where
  "between a b c \<longleftrightarrow> (of_char a :: nat) \<le> of_char c \<and> (of_char c :: nat) \<le> of_char b"

definition is_letter :: "char \<Rightarrow> bool" where
  "is_letter c \<longleftrightarrow> between (CHR ''a'') (CHR ''z'') c \<or> between (CHR ''A'') (CHR ''Z'') c"

definition is_decimal :: "char \<Rightarrow> bool" where
  "is_decimal c \<longleftrightarrow> between (CHR ''0'') (CHR ''9'') c"

definition is_hex :: "char \<Rightarrow> bool" where
  "is_hex c \<longleftrightarrow> is_decimal c \<or> between (CHR ''a'') (CHR ''f'') c \<or> between (CHR ''A'') (CHR ''F'') c"

definition unhex :: "char \<Rightarrow> nat" where
  "unhex c =
     (if is_decimal c then of_char c - 48
      else if between (CHR ''a'') (CHR ''f'') c then of_char c - 87
      else if between (CHR ''A'') (CHR ''F'') c then of_char c - 55 else 0)"

definition is_control :: "char \<Rightarrow> bool" where
  "is_control c \<longleftrightarrow> (of_char c :: nat) < 32 \<or> (of_char c :: nat) = 127"

text \<open>\<open>strings.Cut\<close> at a byte: what stands before it and after it, and whether it occurs.\<close>

fun Cut :: "char \<Rightarrow> string \<Rightarrow> string \<times> string \<times> bool" where
  "Cut c [] = ([], [], False)"
| "Cut c (x # xs) = (if x = c then ([], xs, True) else (case Cut c xs of (a, b, f) \<Rightarrow> (x # a, b, f)))"

text \<open>The text split at the last occurrence of a byte, for \<open>strings.LastIndex\<close>.\<close>

definition last_cut :: "char \<Rightarrow> string \<Rightarrow> (string \<times> string) option" where
  "last_cut c s =
     (case Cut c (rev s) of (a, b, f) \<Rightarrow> if f then Some (rev b, rev a) else None)"

section \<open>Unescaping\<close>

datatype encoding = encodePath | encodeHost | encodeZone | encodeUserPassword | encodeFragment

text \<open>\<open>shouldEscape\<close> for the bytes of a host or a zone.\<close>

definition host_should_escape :: "char \<Rightarrow> bool" where
  "host_should_escape c \<longleftrightarrow>
     \<not> (is_letter c \<or> is_decimal c \<or> c \<in> set ''!$&()*+,;=:[]<>-_.~'' \<or> c = CHR 0x27 \<or> c = CHR 0x22)"

definition host_mode :: "encoding \<Rightarrow> bool" where
  "host_mode mode \<longleftrightarrow> mode = encodeHost \<or> mode = encodeZone"

text \<open>An escape in a host may only be a percent sign or a byte that is not ASCII; in a zone also a space
  or a byte that a host may hold.\<close>

definition escape_allowed :: "encoding \<Rightarrow> char \<Rightarrow> char \<Rightarrow> bool" where
  "escape_allowed mode a b \<longleftrightarrow>
     (mode = encodeHost \<longrightarrow> \<not> (unhex a < 8 \<and> \<not> (a = CHR ''2'' \<and> b = CHR ''5''))) \<and>
     (mode = encodeZone \<longrightarrow>
        (let v = char_of (unhex a * 16 + unhex b)
         in (a = CHR ''2'' \<and> b = CHR ''5'') \<or> v = CHR '' '' \<or> \<not> host_should_escape v))"

fun unescape :: "encoding \<Rightarrow> string \<Rightarrow> string option" where
  "unescape mode [] = Some []"
| "unescape mode (c # s) =
     (if c = CHR ''%''
      then (case s of
              a # b # t \<Rightarrow>
                if is_hex a \<and> is_hex b \<and> escape_allowed mode a b
                then map_option (Cons (char_of (unhex a * 16 + unhex b))) (unescape mode t) else None
            | _ \<Rightarrow> None)
      else if host_mode mode \<and> (of_char c :: nat) < 128 \<and> host_should_escape c then None
      else map_option (Cons c) (unescape mode s))"

section \<open>Parse\<close>

record go_url =
  Scheme :: string
  Host :: string
  Path :: string

text \<open>The scheme and the rest; a text that starts with a colon is an error.\<close>

fun scheme_end :: "string \<Rightarrow> string \<Rightarrow> (string \<times> string) option" where
  "scheme_end seen [] = None"
| "scheme_end seen (c # s) =
     (if is_letter c then scheme_end (seen @ [c]) s
      else if is_decimal c \<or> c \<in> set ''+-.'' then (if seen = [] then None else scheme_end (seen @ [c]) s)
      else if c = CHR '':'' then Some (seen, s)
      else None)"

definition getScheme :: "string \<Rightarrow> (string \<times> string) option" where
  "getScheme rawURL =
     (case scheme_end [] rawURL of
        None \<Rightarrow> Some ([], rawURL)
      | Some (scheme, rest) \<Rightarrow> if scheme = [] then None else Some (scheme, rest))"

definition lower_char :: "char \<Rightarrow> char" where
  "lower_char c = (if between (CHR ''A'') (CHR ''Z'') c then char_of ((of_char c :: nat) + 32) else c)"

definition validOptionalPort :: "string \<Rightarrow> bool" where
  "validOptionalPort port = (case port of [] \<Rightarrow> True | c # ds \<Rightarrow> c = CHR '':'' \<and> list_all is_decimal ds)"

text \<open>The part before the zone of an IP literal, if it has one.\<close>

fun zone_cut :: "string \<Rightarrow> (string \<times> string) option" where
  "zone_cut [] = None"
| "zone_cut (c # s) =
     (if HasPrefix (c # s) ''%25'' then Some ([], c # s)
      else map_option (map_prod (Cons c) id) (zone_cut s))"

definition parseHost :: "string \<Rightarrow> string option" where
  "parseHost host =
     (if HasPrefix host ''[''
      then (case last_cut (CHR '']'') host of
              None \<Rightarrow> None
            | Some (inner, colonPort) \<Rightarrow>
                if \<not> validOptionalPort colonPort then None
                else (case zone_cut inner of
                        Some (host1, zone) \<Rightarrow>
                          (case (unescape encodeHost host1, unescape encodeZone zone,
                                 unescape encodeHost (CHR '']'' # colonPort)) of
                             (Some a, Some b, Some c) \<Rightarrow> Some (a @ b @ c)
                           | _ \<Rightarrow> None)
                      | None \<Rightarrow> unescape encodeHost host))
      else (case last_cut (CHR '':'') host of
              Some (_, port) \<Rightarrow>
                if \<not> validOptionalPort (CHR '':'' # port) then None else unescape encodeHost host
            | None \<Rightarrow> unescape encodeHost host))"

definition validUserinfo :: "string \<Rightarrow> bool" where
  "validUserinfo s \<longleftrightarrow>
     list_all (\<lambda>c. is_letter c \<or> is_decimal c \<or> c \<in> set ''-._:~!$&()*+,;=%@'' \<or> c = CHR 0x27) s"

text \<open>The host of an authority; the user information before it is only checked.\<close>

definition parseAuthority :: "string \<Rightarrow> string option" where
  "parseAuthority authority =
     (case last_cut (CHR ''@'') authority of
        None \<Rightarrow> parseHost authority
      | Some (userinfo, h) \<Rightarrow>
          (case parseHost h of
             None \<Rightarrow> None
           | Some host \<Rightarrow>
               (case Cut (CHR '':'') userinfo of
                  (username, password, _) \<Rightarrow>
                    if \<not> validUserinfo userinfo \<or> unescape encodeUserPassword username = None \<or>
                       unescape encodeUserPassword password = None
                    then None else Some host)))"

text \<open>A query is cut off; a single question mark at the end is, too.\<close>

definition cut_query :: "string \<Rightarrow> string" where
  "cut_query rest = fst (Cut (CHR ''?'') rest)"

definition parse_rest :: "string \<Rightarrow> string \<Rightarrow> go_url option" where
  "parse_rest scheme rest =
     (if \<not> HasPrefix rest ''/'' \<and> scheme \<noteq> [] then Some \<lparr>Scheme = scheme, Host = [], Path = []\<rparr>
      else if \<not> HasPrefix rest ''/'' \<and> CHR '':'' \<in> set (fst (Cut (CHR ''/'') rest)) then None
      else if (scheme \<noteq> [] \<or> \<not> HasPrefix rest ''///'') \<and> HasPrefix rest ''//''
      then (case Cut (CHR ''/'') (drop 2 rest) of
              (authority, after, slash) \<Rightarrow>
                (case parseAuthority authority of
                   None \<Rightarrow> None
                 | Some host \<Rightarrow>
                     map_option (\<lambda>p. \<lparr>Scheme = scheme, Host = host, Path = p\<rparr>)
                       (unescape encodePath (if slash then CHR ''/'' # after else []))))
      else map_option (\<lambda>p. \<lparr>Scheme = scheme, Host = [], Path = p\<rparr>) (unescape encodePath rest))"

definition url_Parse :: "string \<Rightarrow> go_url option" where
  "url_Parse rawURL =
     (case Cut (CHR ''#'') rawURL of
        (u, frag, _) \<Rightarrow>
          (let parsed =
             (if \<not> list_all (\<lambda>c. \<not> is_control c) u then None
              else if u = ''*'' then Some \<lparr>Scheme = [], Host = [], Path = ''*''\<rparr>
              else (case getScheme u of
                      None \<Rightarrow> None
                    | Some (scheme, rest) \<Rightarrow> parse_rest (map lower_char scheme) (cut_query rest)))
           in if unescape encodeFragment frag = None then None else parsed))"

section \<open>Texts without special bytes\<close>

definition plain :: "string \<Rightarrow> bool" where
  "plain s \<longleftrightarrow> list_all (\<lambda>c. \<not> is_control c \<and> c \<notin> set ''/%?#'') s"

lemma Cut_absent: "c \<notin> set s \<Longrightarrow> Cut c s = (s, [], False)"
  by (induction s) auto

lemma Cut_append: "c \<notin> set a \<Longrightarrow> Cut c (a @ c # b) = (a, b, True)"
  by (induction a) auto

lemma unescape_plain: "CHR ''%'' \<notin> set s \<Longrightarrow> \<not> host_mode mode \<Longrightarrow> unescape mode s = Some s"
  by (induction s) auto

lemma Split_absent: "c \<notin> set s \<Longrightarrow> Split s c = [s]"
  by (induction s) auto

lemma Split_append: "c \<notin> set a \<Longrightarrow> Split (a @ c # b) c = a # Split b c"
  by (induction a) auto

end
