(* ===== verification/Github_Client.thy ===== *)
theory Github_Client
  imports Util Go_Url
begin

text \<open>
  \<open>pkg/github/client/action_client.go\<close>: the client that implements the interface of the controllers on
  top of go-github.  go-github's calls of the Actions API are parameters.
\<close>

record runner_key =
  Owner :: string
  Repository :: string

definition empty_runner_key :: runner_key where
  "empty_runner_key = \<lparr>Owner = [], Repository = []\<rparr>"

text \<open>Splitting never gives an empty slice; the case is in the code all the same.\<close>

definition parseRunnerURL :: "string \<Rightarrow> runner_key" where
  "parseRunnerURL u =
     (case url_Parse u of
        None \<Rightarrow> empty_runner_key
      | Some parsedURL \<Rightarrow>
          (case Split (TrimPrefix (Path parsedURL) ''/'') (CHR ''/'') of
             [] \<Rightarrow> empty_runner_key
           | [p0] \<Rightarrow> empty_runner_key\<lparr>Owner := p0\<rparr>
           | p0 # p1 # _ \<Rightarrow> \<lparr>Owner = p0, Repository = p1\<rparr>))"

record 'w gh_actions =
  Actions_GetRunner :: "string \<Rightarrow> string \<Rightarrow> int64 \<Rightarrow> 'w \<Rightarrow> (gh_runner \<times> go_error option) \<times> 'w"
  Actions_GetOrganizationRunner :: "string \<Rightarrow> int64 \<Rightarrow> 'w \<Rightarrow> (gh_runner \<times> go_error option) \<times> 'w"
  Actions_CreateRegistrationToken :: "string \<Rightarrow> string \<Rightarrow> 'w \<Rightarrow> (runner_token \<times> go_error option) \<times> 'w"
  Actions_CreateOrganizationRegistrationToken :: "string \<Rightarrow> 'w \<Rightarrow> (runner_token \<times> go_error option) \<times> 'w"

definition Client_GetRunner :: "'w gh_actions \<Rightarrow> string \<Rightarrow> int64 \<Rightarrow> 'w \<Rightarrow>
    (gh_runner \<times> go_error option) \<times> 'w" where
  "Client_GetRunner gh runnerURL runnerID =
     (let runnerKey = parseRunnerURL runnerURL
      in if Repository runnerKey \<noteq> []
         then Actions_GetRunner gh (Owner runnerKey) (Repository runnerKey) runnerID
         else Actions_GetOrganizationRunner gh (Owner runnerKey) runnerID)"

definition Client_CreateRunnerToken :: "'w gh_actions \<Rightarrow> string \<Rightarrow> 'w \<Rightarrow>
    (runner_token \<times> go_error option) \<times> 'w" where
  "Client_CreateRunnerToken gh runnerURL =
     (let runnerKey = parseRunnerURL runnerURL
      in if Repository runnerKey \<noteq> []
         then Actions_CreateRegistrationToken gh (Owner runnerKey) (Repository runnerKey)
         else Actions_CreateOrganizationRegistrationToken gh (Owner runnerKey))"

text \<open>The client as the controllers see it.\<close>

definition Client :: "'w gh_actions \<Rightarrow> 'w action_client" where
  "Client gh = \<lparr>GetRunner = Client_GetRunner gh, CreateRunnerToken = Client_CreateRunnerToken gh\<rparr>"

section \<open>Which owner a URL names\<close>

lemma plainD:
  assumes "plain s"
  shows "CHR ''/'' \<notin> set s" "CHR ''%'' \<notin> set s" "CHR ''?'' \<notin> set s" "CHR ''#'' \<notin> set s"
    "list_all (\<lambda>c. \<not> is_control c) s"
  using assms by (auto simp: plain_def list_all_iff)

lemma getScheme_http: "getScheme (''http://'' @ s) = Some (''http'', ''//'' @ s)"
  by (simp add: getScheme_def is_letter_def is_decimal_def between_def)

lemma getScheme_https: "getScheme (''https://'' @ s) = Some (''https'', ''//'' @ s)"
  by (simp add: getScheme_def is_letter_def is_decimal_def between_def)

lemma parseAuthority_github: "parseAuthority ''github.com'' = Some ''github.com''"
  by code_simp

lemma parse_rest_github:
  assumes "scheme \<noteq> []" and "CHR ''%'' \<notin> set p"
  shows "parse_rest scheme (''//github.com/'' @ p) =
    Some \<lparr>Scheme = scheme, Host = ''github.com'', Path = CHR ''/'' # p\<rparr>"
  using assms(1) unescape_plain [of "CHR ''/'' # p" encodePath] assms(2)
  by (simp add: parse_rest_def HasPrefix_def parseAuthority_github host_mode_def)

lemma url_Parse_github:
  assumes "scheme \<in> {''http'', ''https''}"
    and "CHR ''%'' \<notin> set p" "CHR ''?'' \<notin> set p" "CHR ''#'' \<notin> set p" "list_all (\<lambda>c. \<not> is_control c) p"
  shows "url_Parse (scheme @ ''://github.com/'' @ p) =
    Some \<lparr>Scheme = scheme, Host = ''github.com'', Path = CHR ''/'' # p\<rparr>"
proof -
  have scheme: "getScheme (scheme @ ''://github.com/'' @ p) = Some (scheme, ''//github.com/'' @ p)"
    "map lower_char scheme = scheme" "scheme \<noteq> []"
    using assms(1) getScheme_http [of "''github.com/'' @ p"] getScheme_https [of "''github.com/'' @ p"]
    by (auto simp: lower_char_def between_def)
  have "list_all (\<lambda>c. \<not> is_control c) (scheme @ ''://github.com/'')"
    "CHR ''#'' \<notin> set (scheme @ ''://github.com/'')" "scheme @ ''://github.com/'' @ p \<noteq> ''*''"
    using assms(1) by (auto simp: is_control_def)
  moreover have "cut_query (''//github.com/'' @ p) = ''//github.com/'' @ p"
    using assms(3) by (simp add: cut_query_def Cut_absent)
  ultimately show ?thesis
    using assms(2-5) scheme parse_rest_github [OF scheme(3) assms(2)]
    by (simp add: url_Parse_def Cut_absent Let_def)
qed

lemma parseRunnerURL_github:
  assumes "scheme \<in> {''http'', ''https''}" and "plain owner" and "plain repo"
  shows "parseRunnerURL (scheme @ ''://github.com/'' @ owner @ CHR ''/'' # repo) =
      \<lparr>Owner = owner, Repository = repo\<rparr>"
    and "parseRunnerURL (scheme @ ''://github.com/'' @ owner) = \<lparr>Owner = owner, Repository = []\<rparr>"
proof -
  note o = plainD [OF assms(2)] and r = plainD [OF assms(3)]
  have "list_all (\<lambda>c. \<not> is_control c) (owner @ CHR ''/'' # repo)" using o r by (simp add: is_control_def)
  with url_Parse_github [OF assms(1), of "owner @ CHR ''/'' # repo"] o r
  show "parseRunnerURL (scheme @ ''://github.com/'' @ owner @ CHR ''/'' # repo) =
      \<lparr>Owner = owner, Repository = repo\<rparr>"
    by (simp add: parseRunnerURL_def TrimPrefix_def HasPrefix_def Split_append Split_absent)
  from url_Parse_github [OF assms(1), of owner] o
  show "parseRunnerURL (scheme @ ''://github.com/'' @ owner) = \<lparr>Owner = owner, Repository = []\<rparr>"
    by (simp add: parseRunnerURL_def TrimPrefix_def HasPrefix_def Split_absent empty_runner_key_def)
qed

end
