(* ===== verification/Go_Base64.thy ===== *)
theory Go_Base64
  imports Prelude
begin

text \<open>
  \<open>encoding/base64\<close>: \<open>StdEncoding.EncodeToString\<close> with its padding, and the decoder that shows that the
  encoding loses nothing.
\<close>

definition alphabet :: string where
  "alphabet = ''ABCDEFGHIJKLMNOPQRSTUVWXYZabcdefghijklmnopqrstuvwxyz0123456789+/''"

definition encode_sextet :: "nat \<Rightarrow> char" where
  "encode_sextet n = alphabet ! n"

fun EncodeToString :: "string \<Rightarrow> string" where
  "EncodeToString [] = []"
| "EncodeToString [a] =
     (let v = of_char a in [encode_sextet (v div 4), encode_sextet (v mod 4 * 16), CHR ''='', CHR ''=''])"
| "EncodeToString [a, b] =
     (let v = of_char a; w = of_char b
      in [encode_sextet (v div 4), encode_sextet (v mod 4 * 16 + w div 16),
          encode_sextet (w mod 16 * 4), CHR ''=''])"
| "EncodeToString (a # b # c # s) =
     (let v = of_char a; w = of_char b; x = of_char c
      in [encode_sextet (v div 4), encode_sextet (v mod 4 * 16 + w div 16),
          encode_sextet (w mod 16 * 4 + x div 64), encode_sextet (x mod 64)] @ EncodeToString s)"

section \<open>Decoding\<close>

fun index_of :: "'a \<Rightarrow> 'a list \<Rightarrow> nat" where
  "index_of x [] = 0"
| "index_of x (y # ys) = (if x = y then 0 else Suc (index_of x ys))"

definition decode_sextet :: "char \<Rightarrow> nat" where
  "decode_sextet c = index_of c alphabet"

text \<open>A group of four; a padding byte stands for a byte that is not there.\<close>

fun decode :: "string \<Rightarrow> string" where
  "decode (p # q # r # t # s) =
     (let a = decode_sextet p * 4 + decode_sextet q div 16;
          b = decode_sextet q mod 16 * 16 + decode_sextet r div 4;
          c = decode_sextet r mod 4 * 64 + decode_sextet t
      in if r = CHR ''='' then [char_of a]
         else if t = CHR ''='' then [char_of a, char_of b]
         else char_of a # char_of b # char_of c # decode s)"
| "decode s = []"

lemma sextets: "list_all (\<lambda>n. decode_sextet (encode_sextet n) = n \<and> encode_sextet n \<noteq> CHR ''='') [0..<64]"
  by code_simp

lemma sextet_decodes [simp]:
  assumes "n < 64"
  shows "decode_sextet (encode_sextet n) = n" and "encode_sextet n \<noteq> CHR ''=''"
  using sextets assms by (auto simp: list_all_iff)

lemma sextet_bounds:
  fixes v w :: nat
  assumes "w < 256"
  shows "w div 4 < 64" and "v mod 4 * 16 + w div 16 < 64" and "v mod 16 * 4 + w div 64 < 64" and "v mod 64 < 64"
    and "v mod 4 * 16 < 64" and "v mod 16 * 4 < 64"
proof -
  have "v mod 4 \<le> 3" "v mod 16 \<le> 15" using mod_less_divisor [of 4 v] mod_less_divisor [of 16 v] by simp_all
  moreover have "w div 4 < 64" "w div 16 < 16" "w div 64 < 4" using assms by simp_all
  ultimately show "w div 4 < 64" "v mod 4 * 16 + w div 16 < 64" "v mod 16 * 4 + w div 64 < 64" "v mod 64 < 64"
    "v mod 4 * 16 < 64" "v mod 16 * 4 < 64" by simp_all
qed

text \<open>The upper bits of a byte fit into what is left of a sextet.\<close>

lemma upper_bits:
  fixes w :: nat
  assumes "w < 256"
  shows "w div 16 div 16 = 0" "w div 16 mod 16 = w div 16" "w div 64 div 4 = 0" "w div 64 mod 4 = w div 64"
proof -
  have "w div 16 < 16" "w div 64 < 4" using assms by simp_all
  then show "w div 16 div 16 = 0" "w div 16 mod 16 = w div 16" "w div 64 div 4 = 0" "w div 64 mod 4 = w div 64"
    by (simp_all only: div_less mod_less)
qed

lemma byte_parts:
  fixes v :: nat
  shows "v div 4 * 4 + v mod 4 = v" "v div 16 * 16 + v mod 16 = v" "v div 64 * 64 + v mod 64 = v"
  by (rule div_mult_mod_eq)+

theorem decode_EncodeToString: "decode (EncodeToString s) = s"
  by (induction s rule: EncodeToString.induct)
    (simp_all add: Let_def sextet_bounds upper_bits byte_parts)

lemma EncodeToString_inj: "EncodeToString s = EncodeToString t \<longleftrightarrow> s = t"
  by (metis decode_EncodeToString)

end
