(* ===== verification/Github_Hook.thy ===== *)
theory Github_Hook
  imports Runner_Controller Go_Base64
begin

text \<open>
  \<open>hooks/github_hook.go\<close> and \<open>pkg/github/webhook\<close>: the HTTP handler that GitHub calls, the server that
  registers it, and the hook that finds the runner of a job and wakes its controller by an annotation.
  Payload validation and parsing belong to go-github and are parameters.
\<close>

section \<open>Events\<close>

text \<open>The parts of a \<open>github.WorkflowJobEvent\<close> that the hook reads.  go-github's accessors give zero values
  for nil pointers, so the job and the owner are what their accessors return; the repository is a
  pointer whose fields the hook reads directly.\<close>

record workflow_job =
  GetRunnerID :: int64
  GetRunnerName :: string
  GetRunnerGroupName :: string

record gh_repository =
  Owner_GetType :: string
  Owner_GetHTMLURL :: string
  Repo_GetHTMLURL :: string

record workflow_job_event =
  GetAction :: string
  WorkflowJob :: workflow_job
  Repo :: "gh_repository option"

datatype gh_event = WorkflowJobEvent workflow_job_event | OtherEvent opaque

section \<open>The composite index\<close>

definition runnerCompositeIndexField :: string where
  "runnerCompositeIndexField = ''composite_idx''"

definition composite_text :: "string \<Rightarrow> string \<Rightarrow> string \<Rightarrow> string \<Rightarrow> string" where
  "composite_text runnerName runnerID runnerGroup runnerURL =
     ''name:'' @ runnerName @ '';id:'' @ runnerID @ '';group:'' @ runnerGroup @ '';url:'' @ runnerURL"

definition runnerCompositeIndex :: "string \<Rightarrow> string \<Rightarrow> string \<Rightarrow> string \<Rightarrow> string" where
  "runnerCompositeIndex runnerName runnerID runnerGroup runnerURL =
     EncodeToString (composite_text runnerName runnerID runnerGroup runnerURL)"

definition runnerCompositeIndexer :: "kobject \<Rightarrow> string list" where
  "runnerCompositeIndexer o' =
     (case o' of
        ORunner runner \<Rightarrow>
          (let runnerID = Int64Deref (ID (R_Spec runner)) (- 1)
           in if runnerID = - 1 then []
              else [runnerCompositeIndex (Name (R_Meta runner)) (itoa (sint runnerID))
                      (Group (R_Spec runner)) (URL (R_Spec runner))])
      | _ \<Rightarrow> [])"

section \<open>The hook\<close>

text \<open>\<open>GH_Offset\<close> is the offset of the local time zone, in seconds east of UTC, at the time the clock shows.\<close>

record 'w github_hook =
  GH_Client :: "'w cluster"
  GH_Library :: "'w library"
  GH_Offset :: "instant \<Rightarrow> int"

text \<open>\<open>Format(time.RFC3339)\<close> of a local time: the fields are those of the clock on the wall, the zone is
  written as \<open>Z\<close> or as a signed offset.\<close>

definition FormatRFC3339_zone :: "int \<Rightarrow> instant \<Rightarrow> string" where
  "FormatRFC3339_zone offset t =
     (let utc = FormatRFC3339 (t + offset * Second); zone = \<bar>offset\<bar> div 60
      in if offset = 0 then utc
         else butlast utc @ [if offset div 60 < 0 \<and> 0 < zone then CHR ''-'' else CHR ''+''] @
              appendInt (zone div 60) 2 @ '':'' @ appendInt (zone mod 60) 2)"

text \<open>The patch is deferred as soon as the runner has been read; its error is the result.\<close>

definition triggerRunnerReconciliation :: "'w github_hook \<Rightarrow> object_key \<Rightarrow>
    (('w, 'v) st, go_error option) prog" where
  "triggerRunnerReconciliation gh runnerKey =
     andthen (client_Get KRunner (RunnersOf (GH_Client gh)) runnerKey) (\<lambda>got.
       case got of
         Inl err \<Rightarrow> ret (client_IgnoreNotFound (GH_Library gh) (Some err))
       | Inr runnerBase \<Rightarrow>
           let annotation = (if Annotations (R_Meta runnerBase) = None then make_map
                             else Annotations (R_Meta runnerBase))
           in andthen (quiet (time_Now (GH_Library gh))) (\<lambda>now.
              andthen (map_store annotation AnnotationRunnerAssignedJobAt
                  (FormatRFC3339_zone (GH_Offset gh now) now)) (\<lambda>annotation.
              andthen (client_Patch ORunner (RunnersOf (GH_Client gh)) runnerBase
                  (runnerBase\<lparr>R_Meta := (R_Meta runnerBase)\<lparr>Annotations := annotation\<rparr>\<rparr>)) (\<lambda>(err, _).
              ret err))))"

definition list_by_index :: "'w github_hook \<Rightarrow> string \<Rightarrow>
    (('w, 'v) st, go_error + runner list) prog" where
  "list_by_index gh idx =
     client_List KRunner (RunnersOf (GH_Client gh)) (MatchingFields runnerCompositeIndexField idx)"

definition wake :: "'w github_hook \<Rightarrow> runner list \<Rightarrow> (('w, 'v) st, unit) prog" where
  "wake gh items =
     (case items of
        [runner] \<Rightarrow>
          andthen (triggerRunnerReconciliation gh (ObjectKeyFromObject (R_Meta runner))) (\<lambda>err. ret ())
      | _ \<Rightarrow> ret ())"

definition processWorkflowJobEvent :: "'w github_hook \<Rightarrow> workflow_job_event \<Rightarrow>
    (('w, 'v) st, unit) prog" where
  "processWorkflowJobEvent gh ev =
     (if GetAction ev = ''in_progress''
      then
        (let runnerID = itoa (sint (GetRunnerID (WorkflowJob ev)));
             runnerName = GetRunnerName (WorkflowJob ev);
             runnerGroup = GetRunnerGroupName (WorkflowJob ev)
         in case Repo ev of
              None \<Rightarrow> panics NilDereference
            | Some repo \<Rightarrow>
                andthen
                  (if Owner_GetType repo = ''Organization''
                   then list_by_index gh (runnerCompositeIndex runnerName runnerID runnerGroup (Owner_GetHTMLURL repo))
                   else ret (Inr [])) (\<lambda>listed.
                  case listed of
                    Inl err \<Rightarrow> ret ()
                  | Inr items \<Rightarrow>
                      if length items = 0
                      then andthen (list_by_index gh
                             (runnerCompositeIndex runnerName runnerID runnerGroup (Repo_GetHTMLURL repo))) (\<lambda>listed.
                             case listed of Inl err \<Rightarrow> ret () | Inr items \<Rightarrow> wake gh items)
                      else wake gh items))
      else ret ())"

definition GithubHook_Handle :: "'w github_hook \<Rightarrow> gh_event \<Rightarrow> (('w, 'v) st, unit) prog" where
  "GithubHook_Handle gh req =
     (case req of
        WorkflowJobEvent ev \<Rightarrow> processWorkflowJobEvent gh ev
      | OtherEvent _ \<Rightarrow> ret ())"

section \<open>The HTTP handler\<close>

record 'r github_lib =
  ValidatePayload :: "'r \<Rightarrow> string \<Rightarrow> go_error + string"
  WebHookType :: "'r \<Rightarrow> string"
  ParseWebHook :: "string \<Rightarrow> string \<Rightarrow> go_error + gh_event"

record 's webhook =
  Handler :: "gh_event \<Rightarrow> ('s, unit) prog"
  GetSecretFn :: "go_error + string"

text \<open>The answer is the status code of the response.\<close>

definition ServeHTTP :: "'r github_lib \<Rightarrow> 's webhook \<Rightarrow> 'r \<Rightarrow> ('s, nat) prog" where
  "ServeHTTP G wh r =
     (case GetSecretFn wh of
        Inl err \<Rightarrow> ret 500
      | Inr secret \<Rightarrow>
          (case ValidatePayload G r secret of
             Inl err \<Rightarrow> ret 400
           | Inr payload \<Rightarrow>
               (case ParseWebHook G (WebHookType G r) payload of
                  Inl err \<Rightarrow> ret 400
                | Inr ev \<Rightarrow> andthen (Handler wh ev) (\<lambda>_. ret 200))))"

section \<open>The server\<close>

text \<open>\<open>mux\<close> is the pattern table of \<open>http.ServeMux\<close>, nil before the defaults are set.  \<open>Handle\<close> panics on an
  empty pattern and on one that is registered already.\<close>

record 's server =
  Addr :: string
  WebhookPath :: string
  WebhookSecret :: string
  mux :: "(string \<times> 's webhook) list option"

definition setDefaults :: "'s server \<Rightarrow> 's server" where
  "setDefaults srv = (if mux srv = None then srv\<lparr>mux := Some []\<rparr> else srv)"

definition mux_Handle :: "string \<Rightarrow> 's webhook \<Rightarrow> (string \<times> 's webhook) list \<Rightarrow>
    ('t, (string \<times> 's webhook) list) prog" where
  "mux_Handle pattern wh m =
     (if pattern = [] \<or> map_of m pattern \<noteq> None then panics BadPattern else ret ((pattern, wh) # m))"

definition WithHandler :: "(gh_event \<Rightarrow> ('s, unit) prog) \<Rightarrow> 's server \<Rightarrow> ('t, 's server) prog" where
  "WithHandler h srv =
     (let srv = setDefaults srv
      in case mux srv of
           None \<Rightarrow> panics NilDereference
         | Some m \<Rightarrow>
             andthen (mux_Handle (WebhookPath srv) \<lparr>Handler = h, GetSecretFn = Inr (WebhookSecret srv)\<rparr> m) (\<lambda>m.
             ret (srv\<lparr>mux := Some m\<rparr>)))"

end
