(* ===== verification/Github_Auth.thy ===== *)
theory Github_Auth
  imports Github_Client Github_Hook
begin

text \<open>
  \<open>pkg/github/client/client.go\<close>, \<open>token.go\<close>, \<open>pkg/github/github.go\<close> and \<open>options.go\<close>: how the client of the
  GitHub API is authenticated and put together with the webhook server.  Files, signatures, HTTP and the
  decoding of JSON are parameters.
\<close>

section \<open>The outside\<close>

record jwt_claims =
  IssuedAt :: instant
  ExpiresAt :: instant
  Issuer :: string

record installation_token =
  IT_Token :: string
  IT_ExpiresAt :: instant

text \<open>\<open>url_String\<close> is the text that \<open>String()\<close> gives for the URL parsed from an endpoint; a POST carries a bearer
  token and gives a status and a body.\<close>

record 'w auth_env =
  auth_Now :: "'w \<Rightarrow> instant \<times> 'w"
  os_ReadFile :: "string \<Rightarrow> 'w \<Rightarrow> (go_error + string) \<times> 'w"
  filepath_Clean :: "string \<Rightarrow> string"
  jwt_ParseRSAPrivateKeyFromPEM :: "string \<Rightarrow> go_error + opaque"
  jwt_SignedString :: "jwt_claims \<Rightarrow> opaque \<Rightarrow> go_error + string"
  http_Post :: "string \<Rightarrow> string \<Rightarrow> 'w \<Rightarrow> (go_error + nat \<times> string) \<times> 'w"
  json_Decode :: "string \<Rightarrow> go_error + installation_token"
  url_String :: "string \<Rightarrow> string"

definition outside :: "('w \<Rightarrow> 'a \<times> 'w) \<Rightarrow> ('w, 'a) prog" where
  "outside f w = (case f w of (a, w') \<Rightarrow> (Done a, w'))"

text \<open>\<open>fmt.Errorf\<close>: the text of the cause is left out.\<close>

definition Errorf :: "string \<Rightarrow> go_error \<Rightarrow> go_error" where
  "Errorf msg cause = ErrorString msg"

section \<open>Token sources\<close>

record oauth2_token =
  AccessToken :: string
  TokenType :: string
  Expiry :: instant

record installation_token_source =
  TS_appID :: int64
  TS_appPrivateKey :: opaque
  TS_installationID :: string
  TS_BaseURL :: string

text \<open>The sources of the oauth2 package by how they are made.\<close>

datatype token_source =
  StaticTokenSource string
| InstallationTokenSource installation_token_source
| ReuseTokenSource "oauth2_token option" token_source

definition newPersonalTokenSource :: "string \<Rightarrow> token_source" where
  "newPersonalTokenSource token = ReuseTokenSource None (StaticTokenSource token)"

definition Truncate :: "instant \<Rightarrow> int \<Rightarrow> instant" where
  "Truncate t d = t - t mod d"

definition TrimRight :: "string \<Rightarrow> char \<Rightarrow> string" where
  "TrimRight s c = rev (dropWhile (\<lambda>x. x = c) (rev s))"

definition app_claims :: "int64 \<Rightarrow> instant \<Rightarrow> jwt_claims" where
  "app_claims appID now =
     (let iss = Truncate (now + - (30 * Second)) Second; exp = iss + 2 * Minute
      in \<lparr>IssuedAt = iss, ExpiresAt = exp, Issuer = itoa (sint appID)\<rparr>)"

definition access_tokens_url :: "installation_token_source \<Rightarrow> string" where
  "access_tokens_url ts =
     TrimRight (TS_BaseURL ts) (CHR ''/'') @ ''/app/installations/'' @ TS_installationID ts @ ''/access_tokens''"

definition installation_Token :: "'w auth_env \<Rightarrow> installation_token_source \<Rightarrow> ('w, go_error + oauth2_token) prog" where
  "installation_Token E ts =
     andthen (outside (auth_Now E)) (\<lambda>now.
       case jwt_SignedString E (app_claims (TS_appID ts) now) (TS_appPrivateKey ts) of
         Inl err \<Rightarrow> ret (Inl (Errorf ''could not sign jwt'' err))
       | Inr tokenJWT \<Rightarrow>
           andthen (outside (http_Post E tokenJWT (access_tokens_url ts))) (\<lambda>res.
             case res of
               Inl err \<Rightarrow> ret (Inl (Errorf ''unable create app installations access_tokens'' err))
             | Inr (status, body) \<Rightarrow>
                 if status \<noteq> 201
                 then ret (Inl (ErrorString ''unable create app installations access_tokens. got non 2xx HTTP response code''))
                 else
                   (case json_Decode E body of
                      Inl err \<Rightarrow> ret (Inl (Errorf ''unable to decode app installations access_tokens response'' err))
                    | Inr it \<Rightarrow> ret (Inr \<lparr>AccessToken = IT_Token it, TokenType = ''bearer'', Expiry = IT_ExpiresAt it\<rparr>))))"

definition newInstallationTokenSource :: "'w auth_env \<Rightarrow> string \<Rightarrow> int64 \<Rightarrow> string \<Rightarrow> string \<Rightarrow>
    ('w, go_error + token_source) prog" where
  "newInstallationTokenSource E baseURL appID appKey installationID =
     andthen (outside (os_ReadFile E (filepath_Clean E appKey))) (\<lambda>f.
       case f of
         Inl err \<Rightarrow> ret (Inl (Errorf ''invalid app private key file'' err))
       | Inr f \<Rightarrow>
           (case jwt_ParseRSAPrivateKeyFromPEM E f of
              Inl err \<Rightarrow> ret (Inl (Errorf ''unable to parse app private key'' err))
            | Inr privateKey \<Rightarrow>
                let ts = \<lparr>TS_appID = appID, TS_appPrivateKey = privateKey, TS_installationID = installationID,
                          TS_BaseURL = baseURL\<rparr>
                in andthen (installation_Token E ts) (\<lambda>tok.
                     case tok of
                       Inl err \<Rightarrow> ret (Inl err)
                     | Inr tok \<Rightarrow> ret (Inr (ReuseTokenSource (Some tok) (InstallationTokenSource ts))))))"

section \<open>The client\<close>

record client_opts =
  endpoint :: string
  personalToken :: string
  appID :: int64
  appKey :: string
  installationID :: string

definition zero_opts :: client_opts where
  "zero_opts = \<lparr>endpoint = [], personalToken = [], appID = 0, appKey = [], installationID = []\<rparr>"

definition WithEndpoint :: "string \<Rightarrow> client_opts \<Rightarrow> client_opts" where
  "WithEndpoint e o' = o'\<lparr>endpoint := e\<rparr>"

definition WithAppID :: "int64 \<Rightarrow> client_opts \<Rightarrow> client_opts" where
  "WithAppID i o' = o'\<lparr>appID := i\<rparr>"

definition WithAppPrivateKey :: "string \<Rightarrow> client_opts \<Rightarrow> client_opts" where
  "WithAppPrivateKey key o' = o'\<lparr>appKey := key\<rparr>"

definition WithInstallationID :: "string \<Rightarrow> client_opts \<Rightarrow> client_opts" where
  "WithInstallationID i o' = o'\<lparr>installationID := i\<rparr>"

definition WithPersonalAccessToken :: "string \<Rightarrow> client_opts \<Rightarrow> client_opts" where
  "WithPersonalAccessToken token o' = o'\<lparr>personalToken := token\<rparr>"

record gh_client =
  BaseURL :: go_url
  TokenSource :: token_source

definition client_New :: "'w auth_env \<Rightarrow> (client_opts \<Rightarrow> client_opts) list \<Rightarrow> ('w, go_error + gh_client) prog" where
  "client_New E opts =
     (let option = fold (\<lambda>o' option. o' option) opts zero_opts
      in case url_Parse (endpoint option) of
           None \<Rightarrow> ret (Inl (LibError ''parse''))
         | Some baseURL \<Rightarrow>
             if personalToken option \<noteq> []
             then ret (Inr \<lparr>BaseURL = baseURL, TokenSource = newPersonalTokenSource (personalToken option)\<rparr>)
             else if appID option \<noteq> 0 \<and> appKey option \<noteq> [] \<and> installationID option \<noteq> []
             then andthen (newInstallationTokenSource E (url_String E (endpoint option)) (appID option)
                    (appKey option) (installationID option)) (\<lambda>ts.
                  case ts of
                    Inl err \<Rightarrow> ret (Inl err)
                  | Inr ts \<Rightarrow> ret (Inr \<lparr>BaseURL = baseURL, TokenSource = ts\<rparr>))
             else ret (Inl (ErrorString ''unable to authenticate Github Client.'')))"

section \<open>The client and the server\<close>

record github_options =
  Opt_AccessToken :: string
  Opt_APIEndpoint :: string
  Opt_AppID :: int64
  Opt_AppPrivateKey :: string
  Opt_AppInstallationID :: string
  Opt_WebhookAddress :: string
  Opt_WebhookPath :: string
  Opt_WebhookSecret :: string

text \<open>The values of the flags that are not given.\<close>

definition BindFlags :: github_options where
  "BindFlags =
     \<lparr>Opt_AccessToken = [], Opt_APIEndpoint = ''https://api.github.com/'', Opt_AppID = 0,
      Opt_AppPrivateKey = [], Opt_AppInstallationID = [], Opt_WebhookAddress = '':9090'',
      Opt_WebhookPath = ''/'', Opt_WebhookSecret = []\<rparr>"

record 's github =
  GH_client :: gh_client
  GH_webhookServer :: "'s server"

definition github_New :: "'w auth_env \<Rightarrow> github_options \<Rightarrow> ('w, go_error + 's github) prog" where
  "github_New E opts =
     andthen (client_New E
       [WithEndpoint (Opt_APIEndpoint opts), WithAppID (Opt_AppID opts),
        WithAppPrivateKey (Opt_AppPrivateKey opts), WithInstallationID (Opt_AppInstallationID opts),
        WithPersonalAccessToken (Opt_AccessToken opts)]) (\<lambda>c.
       case c of
         Inl err \<Rightarrow> ret (Inl err)
       | Inr c \<Rightarrow>
           ret (Inr \<lparr>GH_client = c,
                     GH_webhookServer = \<lparr>Addr = Opt_WebhookAddress opts, WebhookPath = Opt_WebhookPath opts,
                                         WebhookSecret = Opt_WebhookSecret opts, mux = None\<rparr>\<rparr>))"

section \<open>Which credentials are used\<close>

lemmas option_defs = WithEndpoint_def WithAppID_def WithAppPrivateKey_def WithInstallationID_def
  WithPersonalAccessToken_def zero_opts_def

lemma TrimRight_slashes:
  assumes "base = [] \<or> last base \<noteq> c"
  shows "TrimRight (base @ replicate n c) c = base"
proof -
  have "dropWhile (\<lambda>x. x = c) (rev base) = rev base"
    using assms by (cases "rev base") (auto simp: last_rev hd_rev dest: arg_cong [where f = rev])
  then show ?thesis by (simp add: TrimRight_def dropWhile_append3 dropWhile_append)
qed

text \<open>GitHub's documented check of the token of the app \<open>i\<close> at its own time \<open>g\<close>: it is issued by that app and not in
  the future, and it expires, in ten minutes at most.\<close>

definition jwt_accepted :: "int64 \<Rightarrow> instant \<Rightarrow> jwt_claims \<Rightarrow> bool" where
  "jwt_accepted i g c \<longleftrightarrow>
     Issuer c = itoa (sint i) \<and> IssuedAt c \<le> g \<and> g < ExpiresAt c \<and> ExpiresAt c \<le> g + 10 * Minute"

lemma app_claims_accepted:
  assumes "now - 30 * Second \<le> g" "g \<le> now + 89 * Second"
  shows "jwt_accepted i g (app_claims i now)"
proof -
  have "(now - 30 * Second) mod Second < Second" "0 \<le> (now - 30 * Second) mod Second"
    by (simp_all add: Second_def)
  then show ?thesis
    using assms by (simp add: jwt_accepted_def app_claims_def Truncate_def Minute_def Let_def)
qed

text \<open>C35. GitHub, which grants an installation token to a JWT that the app itself has issued and that is valid by
  its own clock, is asked with such a JWT although that clock differs: up to thirty seconds behind and up
  to 89 seconds ahead of the clock of the program.  The request goes to one address however many slashes
  end the base URL, and the token that comes back is the one that is used.\<close>

theorem app_token_is_granted:
  assumes "auth_Now E w = (now, w1)" and "now - 30 * Second \<le> g" "g \<le> now + 89 * Second"
    and "\<And>c. jwt_SignedString E c key = Inr (sign c)"
    and "\<And>c. jwt_accepted i g c \<Longrightarrow>
      http_Post E (sign c) (base @ ''/app/installations/'' @ inst @ ''/access_tokens'') w1 = (Inr (201, body), w2)"
    and "json_Decode E body = Inr it"
    and "base = [] \<or> last base \<noteq> CHR ''/''"
  shows "installation_Token E \<lparr>TS_appID = i, TS_appPrivateKey = key, TS_installationID = inst,
      TS_BaseURL = base @ replicate n (CHR ''/'')\<rparr> w =
    (Done (Inr \<lparr>AccessToken = IT_Token it, TokenType = ''bearer'', Expiry = IT_ExpiresAt it\<rparr>), w2)"
  using assms(1,4,6) assms(5) [OF app_claims_accepted [OF assms(2,3)]] TrimRight_slashes [OF assms(7)]
  by (simp add: installation_Token_def run_andthen outside_def access_tokens_url_def)

text \<open>An environment whose server is thirty seconds behind.\<close>

definition sample_auth :: "unit auth_env" where
  "sample_auth =
     \<lparr>auth_Now = (\<lambda>w. (63800000000 * Second, w)), os_ReadFile = (\<lambda>f w. (Inr ''pem'', w)), filepath_Clean = (\<lambda>f. f),
      jwt_ParseRSAPrivateKeyFromPEM = (\<lambda>s. Inr (Opaque s)),
      jwt_SignedString = (\<lambda>c k. Inr (if jwt_accepted 7 (63799999970 * Second) c then ''good'' else ''bad'')),
      http_Post = (\<lambda>t u w. (Inr (if t = ''good'' then 201 else 401, ''{}''), w)),
      json_Decode = (\<lambda>b. Inr \<lparr>IT_Token = ''v1'', IT_ExpiresAt = 63800003600 * Second\<rparr>),
      url_String = (\<lambda>s. s)\<rparr>"

lemma app_token_is_granted_witness:
  "installation_Token sample_auth \<lparr>TS_appID = 7, TS_appPrivateKey = Opaque ''pem'', TS_installationID = ''1'',
      TS_BaseURL = ''https://api.github.com//''\<rparr> () =
    (Done (Inr \<lparr>AccessToken = ''v1'', TokenType = ''bearer'', Expiry = 63800003600 * Second\<rparr>), ())"
proof -
  have two: "''https://api.github.com//'' = ''https://api.github.com'' @ replicate 2 (CHR ''/'')"
    by (simp add: numeral_2_eq_2)
  show ?thesis
    unfolding two
    by (rule app_token_is_granted [where now = "63800000000 * Second" and g = "63799999970 * Second" and ?w1.0 = "()"
          and body = "''{}''" and sign = "\<lambda>c. if jwt_accepted 7 (63799999970 * Second) c then ''good'' else ''bad''"
          and it = "\<lparr>IT_Token = ''v1'', IT_ExpiresAt = 63800003600 * Second\<rparr>", simplified installation_token.simps])
      (simp_all add: sample_auth_def Second_def)
qed

lemma installation_Token_ends: "\<exists>r w'. installation_Token E ts w = (Done r, w')"
  by (auto simp: installation_Token_def run_andthen outside_def split: prod.splits sum.splits)

definition app_source :: "string \<Rightarrow> int64 \<Rightarrow> opaque \<Rightarrow> string \<Rightarrow> installation_token_source" where
  "app_source baseURL i key inst =
     \<lparr>TS_appID = i, TS_appPrivateKey = key, TS_installationID = inst, TS_BaseURL = baseURL\<rparr>"

text \<open>The source of an app: the key of the file, and a token that this key has got.\<close>

definition granted :: "'w auth_env \<Rightarrow> string \<Rightarrow> int64 \<Rightarrow> string \<Rightarrow> string \<Rightarrow> 'w \<Rightarrow> token_source \<Rightarrow> 'w \<Rightarrow> bool" where
  "granted E b i file inst w src w' \<longleftrightarrow>
     (\<exists>pem key w1 tok. os_ReadFile E (filepath_Clean E file) w = (Inr pem, w1) \<and>
        jwt_ParseRSAPrivateKeyFromPEM E pem = Inr key \<and>
        installation_Token E (app_source b i key inst) w1 = (Done (Inr tok), w') \<and>
        src = ReuseTokenSource (Some tok) (InstallationTokenSource (app_source b i key inst)))"

lemma newInstallationTokenSource_cases:
  obtains e w' where "newInstallationTokenSource E b i file inst w = (Done (Inl e), w')"
    "\<nexists>src w''. granted E b i file inst w src w''"
  | src w' where "newInstallationTokenSource E b i file inst w = (Done (Inr src), w')" "granted E b i file inst w src w'"
proof -
  obtain f w1 where f: "os_ReadFile E (filepath_Clean E file) w = (f, w1)" by fastforce
  show ?thesis
  proof (cases "\<exists>pem key. f = Inr pem \<and> jwt_ParseRSAPrivateKeyFromPEM E pem = Inr key")
    case False
    then have "\<exists>e. newInstallationTokenSource E b i file inst w = (Done (Inl e), w1)"
      using f by (auto simp: newInstallationTokenSource_def run_andthen outside_def split: sum.split)
    moreover have "\<nexists>src w''. granted E b i file inst w src w''"
      using False f by (auto simp: granted_def)
    ultimately show ?thesis using that(1) by blast
  next
    case True
    then obtain pem key where k: "f = Inr pem" "jwt_ParseRSAPrivateKeyFromPEM E pem = Inr key" by blast
    obtain r w2 where t: "installation_Token E (app_source b i key inst) w1 = (Done r, w2)"
      using installation_Token_ends [of E "app_source b i key inst" w1] by blast
    have "newInstallationTokenSource E b i file inst w =
        (Done (case r of Inl e \<Rightarrow> Inl e
           | Inr tok \<Rightarrow> Inr (ReuseTokenSource (Some tok) (InstallationTokenSource (app_source b i key inst)))), w2)"
      using t by (auto simp: newInstallationTokenSource_def run_andthen outside_def f k app_source_def Let_def split: sum.split)
    moreover have "\<nexists>src w''. granted E b i file inst w src w''" if "r = Inl e" for e
      using t f k that by (auto simp: granted_def)
    ultimately show ?thesis using that t f k by (cases r) (auto simp: granted_def)
  qed
qed

text \<open>C36. The credentials and the secret that the flags give are the ones that are used.  An access token wins over
  an app, without a call to the outside.  Without one an app needs all three of its flags: if one is
  missing, there is no call and the error says that the client cannot be authenticated.  An app's client
  uses the token that GitHub granted to the key in the file, and there is an error exactly when none was
  granted.  The webhook server of every client that is made has the address, the path and the secret of
  the flags.\<close>

theorem github_uses_given_credentials:
  assumes "url_Parse (Opt_APIEndpoint o') = Some u"
  shows "case (github_New E o' :: ('w, go_error + 's github) prog) w of (out, w') \<Rightarrow>
    (let made = (\<lambda>src. \<lparr>GH_client = \<lparr>BaseURL = u, TokenSource = src\<rparr>,
           GH_webhookServer = \<lparr>Addr = Opt_WebhookAddress o', WebhookPath = Opt_WebhookPath o',
             WebhookSecret = Opt_WebhookSecret o', mux = None\<rparr>\<rparr>);
         grants = granted E (url_String E (Opt_APIEndpoint o')) (Opt_AppID o') (Opt_AppPrivateKey o')
           (Opt_AppInstallationID o') w
     in if Opt_AccessToken o' \<noteq> []
        then w' = w \<and> out = Done (Inr (made (ReuseTokenSource None (StaticTokenSource (Opt_AccessToken o')))))
        else if Opt_AppID o' = 0 \<or> Opt_AppPrivateKey o' = [] \<or> Opt_AppInstallationID o' = []
        then w' = w \<and> out = Done (Inl (ErrorString ''unable to authenticate Github Client.''))
        else (\<exists>src. out = Done (Inr (made src)) \<and> grants src w') \<or>
             (\<exists>err. out = Done (Inl err) \<and> (\<nexists>src w''. grants src w'')))"
proof -
  note defs = github_New_def client_New_def Let_def option_defs
  show ?thesis
  proof (cases "Opt_AccessToken o' = [] \<and> Opt_AppID o' \<noteq> 0 \<and> Opt_AppPrivateKey o' \<noteq> [] \<and> Opt_AppInstallationID o' \<noteq> []")
    case True
    show ?thesis
      by (rule newInstallationTokenSource_cases [of E "url_String E (Opt_APIEndpoint o')" "Opt_AppID o'"
            "Opt_AppPrivateKey o'" "Opt_AppInstallationID o'" w])
        (use True assms in \<open>auto simp: defs run_andthen\<close>)
  next
    case False
    then show ?thesis
      using assms by (auto simp: defs run_andthen newPersonalTokenSource_def)
  qed
qed

lemma github_uses_given_credentials_witness:
  "(\<exists>g. fst (github_New sample_auth (BindFlags\<lparr>Opt_AccessToken := ''t'', Opt_AppID := 7\<rparr>) ()) = Done (Inr g) \<and>
     TokenSource (GH_client (g :: unit github)) = ReuseTokenSource None (StaticTokenSource ''t'')) \<and>
   fst (github_New sample_auth (BindFlags\<lparr>Opt_AppID := 7, Opt_AppPrivateKey := ''f''\<rparr>) ()) =
     Done (Inl (ErrorString ''unable to authenticate Github Client.'') :: go_error + unit github)"
proof -
  have url: "url_Parse (Opt_APIEndpoint (BindFlags\<lparr>Opt_AccessToken := t, Opt_AppID := 7, Opt_AppPrivateKey := f\<rparr>)) =
      Some \<lparr>Scheme = ''https'', Host = ''api.github.com'', Path = ''/''\<rparr>" for t f
    unfolding BindFlags_def by code_simp
  note uses = github_uses_given_credentials [where E = sample_auth and w = "()" and 's = unit, OF url]
  have "\<exists>g. fst (github_New sample_auth (BindFlags\<lparr>Opt_AccessToken := ''t'', Opt_AppID := 7\<rparr>) ()) = Done (Inr g) \<and>
     TokenSource (GH_client (g :: unit github)) = ReuseTokenSource None (StaticTokenSource ''t'')"
    using uses [of "[]" "''t''"] by (auto simp: BindFlags_def split: prod.splits)
  moreover have "fst (github_New sample_auth (BindFlags\<lparr>Opt_AppID := 7, Opt_AppPrivateKey := ''f''\<rparr>) ()) =
     Done (Inl (ErrorString ''unable to authenticate Github Client.'') :: go_error + unit github)"
    using uses [of "''f''" "[]"] by (auto simp: BindFlags_def split: prod.splits)
  ultimately show ?thesis by blast
qed

end
