(* ===== verification/Go_Float.thy ===== *)
theory Go_Float
  imports Complex_Main "HOL-Library.Log_Nat" Prelude
begin

text \<open>
  The part of Go's \<open>float64\<close> that the program uses: conversion from and to integers, division and
  multiplication, rounded to the nearest number with 53 bits, to the even one of two that are equally
  near.  A finite float is its value, a rational.  The numbers of the program lie between \<open>2 ^ - 40\<close>
  and \<open>2 ^ 64\<close>, so underflow and overflow of the exponent are left out.
\<close>

datatype float64 = Finite rat | Infinite bool | NotANumber

definition pow2 :: "int \<Rightarrow> rat" where
  "pow2 e = (if 0 \<le> e then 2 ^ nat e else 1 / 2 ^ nat (- e))"

text \<open>The exponent of a positive number: \<open>pow2 e \<le> x < pow2 (e + 1)\<close>.\<close>

definition exponent :: "rat \<Rightarrow> int" where
  "exponent x =
     (case quotient_of x of
        (n, d) \<Rightarrow> (let k = bitlen n - bitlen d in if pow2 k \<le> x then k else k - 1))"

definition round_even :: "rat \<Rightarrow> int" where
  "round_even q =
     (let f = \<lfloor>q\<rfloor>; r = q - of_int f
      in if r < 1 / 2 then f else if 1 / 2 < r then f + 1 else if even f then f else f + 1)"

definition round_positive :: "rat \<Rightarrow> rat" where
  "round_positive x = (let ulp = pow2 (exponent x - 52) in of_int (round_even (x / ulp)) * ulp)"

definition f64_round :: "rat \<Rightarrow> rat" where
  "f64_round x = (if x = 0 then 0 else if x < 0 then - round_positive (- x) else round_positive x)"

definition f64_of_int :: "int \<Rightarrow> float64" where
  "f64_of_int i = Finite (f64_round (of_int i))"

text \<open>The sign of a zero is lost here; no operation of the program can tell.\<close>

fun f64_div :: "float64 \<Rightarrow> float64 \<Rightarrow> float64" where
  "f64_div (Finite a) (Finite b) =
     (if b \<noteq> 0 then Finite (f64_round (a / b)) else if a = 0 then NotANumber else Infinite (a < 0))"
| "f64_div (Infinite s) (Finite b) = Infinite (s \<noteq> (b < 0))"
| "f64_div (Finite a) (Infinite s) = Finite 0"
| "f64_div _ _ = NotANumber"

fun f64_mult :: "float64 \<Rightarrow> float64 \<Rightarrow> float64" where
  "f64_mult (Finite a) (Finite b) = Finite (f64_round (a * b))"
| "f64_mult (Infinite s) (Finite b) = (if b = 0 then NotANumber else Infinite (s \<noteq> (b < 0)))"
| "f64_mult (Finite a) (Infinite s) = (if a = 0 then NotANumber else Infinite (s \<noteq> (a < 0)))"
| "f64_mult (Infinite s) (Infinite s') = Infinite (s \<noteq> s')"
| "f64_mult _ _ = NotANumber"

text \<open>Conversion to \<open>int\<close> cuts the fraction off.  Beyond the range of 64 bits the result depends on the
  implementation: \<open>beyond\<close> is what it gives.\<close>

definition f64_truncate :: "rat \<Rightarrow> int" where
  "f64_truncate x = (if x < 0 then - \<lfloor>- x\<rfloor> else \<lfloor>x\<rfloor>)"

definition int_of_f64 :: "(float64 \<Rightarrow> int64) \<Rightarrow> float64 \<Rightarrow> int64" where
  "int_of_f64 beyond x =
     (case x of
        Finite r \<Rightarrow>
          (let i = f64_truncate r in if - (2 ^ 63) \<le> i \<and> i < 2 ^ 63 then word_of_int i else beyond x)
      | _ \<Rightarrow> beyond x)"

section \<open>The error of rounding\<close>

lemma pow2_pos [simp]: "0 < pow2 e"
  by (simp add: pow2_def)

lemma pow2_diff: "pow2 (int a - int b) = 2 ^ a / 2 ^ b"
proof (cases "b \<le> a")
  case True
  then show ?thesis by (simp add: pow2_def power_diff nat_diff_distrib)
next
  case False
  then have "nat (- (int a - int b)) = b - a" by simp
  with False show ?thesis by (simp add: pow2_def power_diff)
qed

lemma pow2_minus_nat: "pow2 (e - int k) = pow2 e / 2 ^ k"
proof -
  obtain a b where e: "e = int a - int b" by (metis int_diff_cases)
  then have "e - int k = int a - int (b + k)" by simp
  then show ?thesis unfolding e pow2_diff [symmetric] by (simp only: pow2_diff power_add) simp
qed

lemma exponent_bounds:
  assumes "0 < x"
  shows "pow2 (exponent x) \<le> x" and "x < pow2 (exponent x + 1)"
proof -
  obtain n d where q: "quotient_of x = (n, d)" by (cases "quotient_of x")
  from quotient_of_div [OF q] quotient_of_denom_pos [OF q] have x: "x = of_int n / of_int d" and d: "0 < d" by auto
  with assms have n: "0 < n" by (simp add: zero_less_divide_iff)
  have len: "bitlen i = int (Suc (nat (bitlen i - 1)))" if "0 < i" for i
    using that bitlen_nonneg [of i] bitlen_eq_zero_iff [of i] by linarith
  obtain a b where ab: "bitlen n = int (Suc a)" "bitlen d = int (Suc b)" using len n d by blast
  have na: "2 ^ a \<le> n" "n < 2 * 2 ^ a" using bitlen_bounds [OF n] unfolding ab by (simp_all add: nat_add_distrib)
  have db: "2 ^ b \<le> d" "d < 2 * 2 ^ b" using bitlen_bounds [OF d] unfolding ab by (simp_all add: nat_add_distrib)
  have na': "2 ^ a \<le> (of_int n :: rat)" "of_int n < 2 * (2 :: rat) ^ a"
    using na by (metis of_int_le_iff of_int_numeral of_int_power,
        metis of_int_less_iff of_int_mult of_int_numeral of_int_power)
  have db': "2 ^ b \<le> (of_int d :: rat)" "of_int d < 2 * (2 :: rat) ^ b"
    using db by (metis of_int_le_iff of_int_numeral of_int_power,
        metis of_int_less_iff of_int_mult of_int_numeral of_int_power)
  define p where "p = pow2 (int a - int b)"
  have p: "p * 2 ^ b = 2 ^ a" "0 < p" by (simp_all add: p_def pow2_diff)
  have dpos: "(0 :: rat) < of_int d" using d by simp
  have xd: "x * of_int d = of_int n" using x dpos by simp
  have "p * of_int d < 2 * of_int n"
    using mult_strict_left_mono [OF db'(2) p(2)] na'(1) p(1) by linarith
  then have low: "p / 2 < x" using xd dpos by (simp add: x field_simps)
  have "of_int n < 2 * p * of_int d"
    using mult_left_mono [OF db'(1), of p] na'(2) p by linarith
  then have high: "x < 2 * p" using xd dpos by (simp add: x field_simps)
  have up: "pow2 (e + 1) = 2 * pow2 e" for e using pow2_minus_nat [of "e + 1" 1] by simp
  have down: "pow2 (e - 1) = pow2 e / 2" for e using pow2_minus_nat [of e 1] by simp
  have e: "exponent x = (if p \<le> x then int a - int b else int a - int b - 1)"
    using ab by (simp add: exponent_def q p_def)
  show "pow2 (exponent x) \<le> x" "x < pow2 (exponent x + 1)"
    using low high unfolding e by (auto simp: up down p_def [symmetric])
qed

lemma round_even_error: "\<bar>of_int (round_even q) - q\<bar> \<le> 1 / 2"
proof -
  define r where "r = q - of_int \<lfloor>q\<rfloor>"
  have r: "0 \<le> r" "r < 1" "q = of_int \<lfloor>q\<rfloor> + r" unfolding r_def by linarith+
  then have "round_even q = \<lfloor>q\<rfloor> \<and> r \<le> 1 / 2 \<or> round_even q = \<lfloor>q\<rfloor> + 1 \<and> 1 / 2 \<le> r"
    unfolding round_even_def Let_def r_def [symmetric] by auto
  moreover have "\<bar>of_int f - (of_int f + r)\<bar> \<le> 1 / 2" if "r \<le> 1 / 2" for f using r that by simp
  moreover have "\<bar>of_int (f + 1) - (of_int f + r)\<bar> \<le> 1 / 2" if "1 / 2 \<le> r" for f using r that by simp
  ultimately show ?thesis using r(3) by metis
qed

lemma round_positive_error:
  assumes "0 < x"
  shows "\<bar>round_positive x - x\<bar> \<le> x / 2 ^ 53"
proof -
  define ulp where "ulp = pow2 (exponent x - 52)"
  have ulp: "0 < ulp" "ulp \<le> x / 2 ^ 52"
    using exponent_bounds(1) [OF assms] pow2_minus_nat [of "exponent x" 52]
    by (simp_all add: ulp_def divide_right_mono)
  have "round_positive x - x = (of_int (round_even (x / ulp)) - x / ulp) * ulp"
    using ulp(1) by (simp add: round_positive_def ulp_def [symmetric] algebra_simps)
  also have "\<bar>\<dots>\<bar> \<le> 1 / 2 * ulp"
    using round_even_error [of "x / ulp"] ulp(1) by (simp add: abs_mult mult_right_mono)
  also have "\<dots> \<le> x / 2 ^ 53" using ulp(2) by simp
  finally show ?thesis .
qed

lemma f64_round_error: "\<bar>f64_round x - x\<bar> \<le> \<bar>x\<bar> / 2 ^ 53"
proof (cases x "0 :: rat" rule: linorder_cases)
  case less
  have "f64_round x - x = - (round_positive (- x) - - x)" using less by (simp add: f64_round_def)
  then have "\<bar>f64_round x - x\<bar> = \<bar>round_positive (- x) - - x\<bar>" by (simp only: abs_minus_cancel)
  with round_positive_error [of "- x"] less show ?thesis by simp
next
  case equal
  then show ?thesis by (simp add: f64_round_def)
next
  case greater
  with round_positive_error [of x] show ?thesis by (simp add: f64_round_def)
qed

end
