(* ===== verification/Metrics.thy ===== *)
theory Metrics
  imports Cluster Go_Url Go_Float
begin

text \<open>
  \<open>metrics/\<close> and \<open>pkg/statemetrics\<close>: the time series that are derived from the runners and the runner sets
  in the cache whenever Prometheus scrapes the manager.  The Prometheus client library is a parameter;
  a value that it refuses makes it panic.
\<close>

section \<open>Series\<close>

record metric =
  LabelKeys :: "string list"
  LabelValues :: "string list"
  Value :: float64

record metric_family =
  FamilyName :: string
  FamilyHelp :: string
  FamilyType :: string
  MetricsFunc :: "kobject \<Rightarrow> metric list outcome"

definition GaugeValue :: string where
  "GaugeValue = ''gauge''"

definition BoolFloat64 :: "bool \<Rightarrow> float64" where
  "BoolFloat64 b = (if b then f64_of_int 1 else f64_of_int 0)"

text \<open>\<open>strings.ToLower\<close>, where it is used on texts of ASCII characters.\<close>

definition ToLower :: "string \<Rightarrow> string" where
  "ToLower s = map lower_char s"

definition conditionStatuses :: "string list" where
  "conditionStatuses = [ConditionTrue, ConditionFalse, ConditionUnknown]"

definition MetaConditionsMetrics :: "condition list \<Rightarrow> metric list" where
  "MetaConditionsMetrics conditions =
     concat (map (\<lambda>c. map (\<lambda>status.
       \<lparr>LabelKeys = [''condition'', ''status''], LabelValues = [Cond_Type c, ToLower status],
        Value = BoolFloat64 (Cond_Status c = status)\<rparr>) conditionStatuses) conditions)"

section \<open>Label names\<close>

text \<open>The number of bytes of the first character of a UTF-8 text; \<open>None\<close> where the bytes encode none
  (Go then takes one byte for the replacement character).\<close>

definition byte :: "char \<Rightarrow> nat" where
  "byte c = of_char c"

definition continues :: "nat \<Rightarrow> nat \<Rightarrow> string \<Rightarrow> bool" where
  "continues lo hi s = (case s of [] \<Rightarrow> False | c # _ \<Rightarrow> lo \<le> byte c \<and> byte c \<le> hi)"

definition rune_bytes :: "string \<Rightarrow> nat option" where
  "rune_bytes s =
     (case s of
        [] \<Rightarrow> None
      | c # cs \<Rightarrow>
          let b = byte c; next = continues 128 191
          in if b < 128 then Some 1
             else if 194 \<le> b \<and> b \<le> 223 then (if next cs then Some 2 else None)
             else if 224 \<le> b \<and> b \<le> 239
             then (if continues (if b = 224 then 160 else 128) (if b = 237 then 159 else 191) cs \<and>
                      next (drop 1 cs) then Some 3 else None)
             else if 240 \<le> b \<and> b \<le> 244
             then (if continues (if b = 240 then 144 else 128) (if b = 244 then 143 else 191) cs \<and>
                      next (drop 1 cs) \<and> next (drop 2 cs) then Some 4 else None)
             else None)"

definition rune_size :: "string \<Rightarrow> nat" where
  "rune_size s = (case rune_bytes s of None \<Rightarrow> 1 | Some n \<Rightarrow> n)"

fun utf8_ValidString :: "string \<Rightarrow> bool" where
  "utf8_ValidString [] = True"
| "utf8_ValidString (c # cs) =
     (case rune_bytes (c # cs) of None \<Rightarrow> False | Some n \<Rightarrow> utf8_ValidString (drop (n - 1) cs))"

definition label_char :: "char \<Rightarrow> bool" where
  "label_char c \<longleftrightarrow> is_letter c \<or> is_decimal c \<or> c = CHR ''_''"

text \<open>\<open>[^a-zA-Z0-9_]\<close> replaced by an underscore, character by character.\<close>

fun sanitizeLabelName :: "string \<Rightarrow> string" where
  "sanitizeLabelName [] = []"
| "sanitizeLabelName (c # cs) =
     (if label_char c then c else CHR ''_'') # sanitizeLabelName (drop (rune_size (c # cs) - 1) cs)"

text \<open>\<open>([a-z0-9])([A-Z])\<close> replaced by the two with an underscore between; a match takes both characters.\<close>

fun snake :: "string \<Rightarrow> string" where
  "snake (a # b # s) =
     (if (between (CHR ''a'') (CHR ''z'') a \<or> is_decimal a) \<and> between (CHR ''A'') (CHR ''Z'') b
      then a # CHR ''_'' # b # snake s
      else a # snake (b # s))"
| "snake s = s"

definition normalizeLabelName :: "string \<Rightarrow> string \<Rightarrow> string" where
  "normalizeLabelName prefix s = prefix @ ''_'' @ ToLower (snake (sanitizeLabelName s))"

definition map_keys :: "'v gomap \<Rightarrow> string list" where
  "map_keys m = (case m of None \<Rightarrow> [] | Some f \<Rightarrow> sorted_list_of_fset (fmdom f))"

definition MapToPrometheusLabels :: "string \<Rightarrow> string gomap \<Rightarrow> string list \<times> string list" where
  "MapToPrometheusLabels prefix m =
     (map (normalizeLabelName prefix) (map_keys m), map (map_index m) (map_keys m))"

section \<open>The series of runners\<close>

text \<open>\<open>Unix()\<close>: seconds since 1970.\<close>

definition time_Unix :: "instant \<Rightarrow> int" where
  "time_Unix t = t div Second - 62135596800"

definition labels_metrics :: "object_meta \<Rightarrow> metric list" where
  "labels_metrics m =
     (case MapToPrometheusLabels ''label'' (Labels m) of
        (k, v) \<Rightarrow> [\<lparr>LabelKeys = k, LabelValues = v, Value = f64_of_int 1\<rparr>])"

definition created_metrics :: "object_meta \<Rightarrow> metric list" where
  "created_metrics m =
     (if \<not> time_IsZero (CreationTimestamp m)
      then [\<lparr>LabelKeys = [], LabelValues = [], Value = f64_of_int (time_Unix (CreationTimestamp m))\<rparr>]
      else [])"

definition phase_metrics :: "runner \<Rightarrow> metric list" where
  "phase_metrics r =
     (let phase = Phase (R_Status r)
      in if phase = [] then []
         else map (\<lambda>strphase. \<lparr>LabelKeys = [''phase''], LabelValues = [strphase],
                Value = BoolFloat64 (phase = strphase)\<rparr>)
              [RunnerPendingPhase, RunnerIdlePhase, RunnerActivePhase, RunnerCompletePhase])"

definition add_labels :: "string list \<Rightarrow> string list \<Rightarrow> metric \<Rightarrow> metric" where
  "add_labels ks vs m = m\<lparr>LabelKeys := ks @ LabelKeys m, LabelValues := vs @ LabelValues m\<rparr>"

definition RunnerProvider_WrapMetricsFunc :: "(runner \<Rightarrow> metric list) \<Rightarrow> kobject \<Rightarrow> metric list outcome" where
  "RunnerProvider_WrapMetricsFunc fn obj =
     (case obj of
        ORunner runner \<Rightarrow>
          Done (map (add_labels [''namespace'', ''runner''] [Namespace (R_Meta runner), Name (R_Meta runner)])
                 (fn runner))
      | _ \<Rightarrow> Panicked BadTypeAssertion)"

definition RunnerProvider_ProvideMetricFamily :: "metric_family list" where
  "RunnerProvider_ProvideMetricFamily =
     [\<lparr>FamilyName = ''labels'', FamilyHelp = ''Kubernetes labels converted to Prometheus labels.'',
       FamilyType = GaugeValue,
       MetricsFunc = RunnerProvider_WrapMetricsFunc (\<lambda>r. labels_metrics (R_Meta r))\<rparr>,
      \<lparr>FamilyName = ''created'', FamilyHelp = ''Unix creation timestamp'', FamilyType = GaugeValue,
       MetricsFunc = RunnerProvider_WrapMetricsFunc (\<lambda>r. created_metrics (R_Meta r))\<rparr>,
      \<lparr>FamilyName = ''status_phase'', FamilyHelp = ''Current status phase.'', FamilyType = GaugeValue,
       MetricsFunc = RunnerProvider_WrapMetricsFunc phase_metrics\<rparr>,
      \<lparr>FamilyName = ''status_conditions'', FamilyHelp = ''Current status conditions.'', FamilyType = GaugeValue,
       MetricsFunc = RunnerProvider_WrapMetricsFunc (\<lambda>r. MetaConditionsMetrics (Conditions (R_Status r)))\<rparr>]"

section \<open>The series of runner sets\<close>

definition unlabelled :: "float64 \<Rightarrow> metric" where
  "unlabelled v = \<lparr>LabelKeys = [], LabelValues = [], Value = v\<rparr>"

definition spec_runners_metrics :: "runnerset \<Rightarrow> metric list" where
  "spec_runners_metrics rs =
     (case Runners (S_Spec rs) of None \<Rightarrow> [] | Some n \<Rightarrow> [unlabelled (f64_of_int (sint n))])"

definition status_count_metrics :: "(runnerset_status \<Rightarrow> int32) \<Rightarrow> runnerset \<Rightarrow> metric list" where
  "status_count_metrics count rs =
     (if Runners (S_Spec rs) \<noteq> None then [unlabelled (f64_of_int (sint (count (S_Status rs))))] else [])"

text \<open>\<open>beyond\<close> is the conversion of a float without integer value, as the implementation defines it.\<close>

definition active_ratio_metrics :: "(float64 \<Rightarrow> int64) \<Rightarrow> runnerset \<Rightarrow> metric list" where
  "active_ratio_metrics beyond rs =
     (let x = f64_div (f64_of_int (sint (ActiveRunners (S_Status rs))))
                      (f64_of_int (sint (StatusRunners (S_Status rs))));
          v = int_of_f64 beyond (f64_mult x (f64_of_int 100))
      in if Runners (S_Spec rs) \<noteq> None
         then [unlabelled (f64_div (f64_of_int (sint v)) (f64_of_int 100))] else [])"

definition RunnerSetProvider_WrapMetricsFunc :: "(runnerset \<Rightarrow> metric list) \<Rightarrow> kobject \<Rightarrow> metric list outcome" where
  "RunnerSetProvider_WrapMetricsFunc fn obj =
     (case obj of
        ORunnerSet runnerset \<Rightarrow>
          Done (map (add_labels [''namespace'', ''runnerset'']
                       [Namespace (S_Meta runnerset), Name (S_Meta runnerset)])
                 (fn runnerset))
      | _ \<Rightarrow> Panicked BadTypeAssertion)"

definition RunnerSetProvider_ProvideMetricFamily :: "(float64 \<Rightarrow> int64) \<Rightarrow> metric_family list" where
  "RunnerSetProvider_ProvideMetricFamily beyond =
     [\<lparr>FamilyName = ''labels'', FamilyHelp = ''Kubernetes labels converted to Prometheus labels.'',
       FamilyType = GaugeValue,
       MetricsFunc = RunnerSetProvider_WrapMetricsFunc (\<lambda>rs. labels_metrics (S_Meta rs))\<rparr>,
      \<lparr>FamilyName = ''created'', FamilyHelp = ''Unix creation timestamp'', FamilyType = GaugeValue,
       MetricsFunc = RunnerSetProvider_WrapMetricsFunc (\<lambda>rs. created_metrics (S_Meta rs))\<rparr>,
      \<lparr>FamilyName = ''spec_runners'', FamilyHelp = ''Number of desired runners.'', FamilyType = GaugeValue,
       MetricsFunc = RunnerSetProvider_WrapMetricsFunc spec_runners_metrics\<rparr>,
      \<lparr>FamilyName = ''status_runners'', FamilyHelp = ''Most recently observed number of runners.'',
       FamilyType = GaugeValue,
       MetricsFunc = RunnerSetProvider_WrapMetricsFunc (status_count_metrics StatusRunners)\<rparr>,
      \<lparr>FamilyName = ''status_idle_runners'', FamilyHelp = ''Most recently observed number of idle runners.'',
       FamilyType = GaugeValue,
       MetricsFunc = RunnerSetProvider_WrapMetricsFunc (status_count_metrics IdleRunners)\<rparr>,
      \<lparr>FamilyName = ''status_active_runners'', FamilyHelp = ''Most recently observed number of active runners.'',
       FamilyType = GaugeValue,
       MetricsFunc = RunnerSetProvider_WrapMetricsFunc (status_count_metrics ActiveRunners)\<rparr>,
      \<lparr>FamilyName = ''status_conditions'', FamilyHelp = ''Current status conditions.'', FamilyType = GaugeValue,
       MetricsFunc = RunnerSetProvider_WrapMetricsFunc (\<lambda>rs. MetaConditionsMetrics (S_Conditions (S_Status rs)))\<rparr>,
      \<lparr>FamilyName = ''runner_active_ratio'', FamilyHelp = ''Ratio of active runners per total runners.'',
       FamilyType = GaugeValue,
       MetricsFunc = RunnerSetProvider_WrapMetricsFunc (active_ratio_metrics beyond)\<rparr>]"

section \<open>The collector\<close>

text \<open>What the scrape uses of other libraries: \<open>MustNewConstMetric\<close> on the description made of the first
  three arguments is \<open>None\<close> where it panics.\<close>

record 'm prometheus =
  BuildFQName :: "string \<Rightarrow> string \<Rightarrow> string \<Rightarrow> string"
  MustNewConstMetric :: "string \<Rightarrow> string \<Rightarrow> string list \<Rightarrow> string \<Rightarrow> float64 \<Rightarrow> string list \<Rightarrow> 'm option"
  meta_ExtractList :: "kobject list \<Rightarrow> go_error + kobject list"

record ('w, 'v) provider =
  ProviderNamespace :: string
  ProviderSubsystem :: string
  ProvideMetricFamily :: "metric_family list"
  Lister :: "'w cluster \<Rightarrow> (('w, 'v) st, go_error + kobject list) prog"

definition list_as :: "('o \<Rightarrow> kobject) \<Rightarrow> go_error + 'o list \<Rightarrow> go_error + kobject list" where
  "list_as k listed = (case listed of Inl err \<Rightarrow> Inl err | Inr xs \<Rightarrow> Inr (map k xs))"

definition RunnerProvider_Lister :: "'w cluster \<Rightarrow> (('w, 'v) st, go_error + kobject list) prog" where
  "RunnerProvider_Lister r =
     andthen (client_List KRunner (RunnersOf r) Everything) (\<lambda>listed. ret (list_as ORunner listed))"

definition RunnerSetProvider_Lister :: "'w cluster \<Rightarrow> (('w, 'v) st, go_error + kobject list) prog" where
  "RunnerSetProvider_Lister r =
     andthen (client_List KRunnerSet (RunnerSetsOf r) Everything) (\<lambda>listed. ret (list_as ORunnerSet listed))"

definition RunnerProvider :: "('w, 'v) provider" where
  "RunnerProvider =
     \<lparr>ProviderNamespace = ''octorun'', ProviderSubsystem = ''runner'',
      ProvideMetricFamily = RunnerProvider_ProvideMetricFamily, Lister = RunnerProvider_Lister\<rparr>"

definition RunnerSetProvider :: "(float64 \<Rightarrow> int64) \<Rightarrow> ('w, 'v) provider" where
  "RunnerSetProvider beyond =
     \<lparr>ProviderNamespace = ''octorun'', ProviderSubsystem = ''runnerset'',
      ProvideMetricFamily = RunnerSetProvider_ProvideMetricFamily beyond, Lister = RunnerSetProvider_Lister\<rparr>"

record ('w, 'v) collector =
  APIReader :: "'w cluster"
  CacheReader :: "'w cluster"
  providers :: "('w, 'v) provider list"

definition NewCollector :: "'w cluster \<Rightarrow> 'w cluster \<Rightarrow> ('w, 'v) provider list \<Rightarrow> ('w, 'v) collector" where
  "NewCollector api cache ps = \<lparr>APIReader = api, CacheReader = cache, providers = ps\<rparr>"

definition outcome_prog :: "'a outcome \<Rightarrow> ('s, 'a) prog" where
  "outcome_prog o' = (case o' of Done a \<Rightarrow> ret a | Panicked p \<Rightarrow> panics p)"

text \<open>The three loops of a scrape, from the inside out.\<close>

definition scrape_metric :: "'m prometheus \<Rightarrow> string \<Rightarrow> metric_family \<Rightarrow> metric \<Rightarrow> 'm list \<Rightarrow>
    ('s, 'm list) prog" where
  "scrape_metric P metricName p m metrics =
     (case MustNewConstMetric P metricName (FamilyHelp p) (LabelKeys m) (FamilyType p) (Value m) (LabelValues m) of
        None \<Rightarrow> panics BadMetric
      | Some x \<Rightarrow> ret (metrics @ [x]))"

definition scrape_object :: "'m prometheus \<Rightarrow> string \<Rightarrow> metric_family \<Rightarrow> kobject \<Rightarrow> 'm list \<Rightarrow>
    ('s, 'm list) prog" where
  "scrape_object P metricName p obj metrics =
     andthen (outcome_prog (MetricsFunc p obj)) (\<lambda>ms. for_each ms (scrape_metric P metricName p) metrics)"

definition scrape_family :: "'m prometheus \<Rightarrow> ('w, 'v) provider \<Rightarrow> kobject list \<Rightarrow> metric_family \<Rightarrow> 'm list \<Rightarrow>
    (('w, 'v) st, 'm list) prog" where
  "scrape_family P provider objs p metrics =
     for_each objs
       (scrape_object P (BuildFQName P (ProviderNamespace provider) (ProviderSubsystem provider) (FamilyName p)) p)
       metrics"

definition Scrape :: "'m prometheus \<Rightarrow> 'w cluster \<Rightarrow> ('w, 'v) provider \<Rightarrow> (('w, 'v) st, 'm list) prog" where
  "Scrape P reader provider =
     andthen (Lister provider reader) (\<lambda>listed.
       case listed of
         Inl err \<Rightarrow> ret []
       | Inr objList \<Rightarrow>
           (case meta_ExtractList P objList of
              Inl err \<Rightarrow> ret []
            | Inr objs \<Rightarrow> for_each (ProvideMetricFamily provider) (scrape_family P provider objs) []))"

text \<open>What is sent to the channel, in order.\<close>

definition Collect :: "'m prometheus \<Rightarrow> ('w, 'v) collector \<Rightarrow> (('w, 'v) st, 'm list) prog" where
  "Collect P c =
     for_each (providers c) (\<lambda>provider sent.
       andthen (Scrape P (CacheReader c) provider) (\<lambda>metrics. ret (sent @ metrics))) []"

end
