(* ===== verification/Remote_Exec.thy ===== *)
theory Remote_Exec
  imports Util
begin

text \<open>
  \<open>util/remoteexec/pod_remoteexec.go\<close> and \<open>util/pod/exec.go\<close>: the executor that runs a command in a
  container of a pod through the \<open>exec\<close> subresource of the API server.  The discovery of the kind, the
  REST client and the SPDY stream are client-go's and parameters.
\<close>

record pod_exec_options =
  ExecContainer :: string
  ExecCommand :: "string list"
  ExecStdin :: bool
  ExecStdout :: bool
  ExecStderr :: bool

record exec_request =
  Req_Verb :: string
  Req_Name :: string
  Req_Namespace :: string
  Req_Resource :: string
  Req_SubResource :: string
  Req_Params :: pod_exec_options

record stream_options =
  StreamStdin :: "string option"
  StreamStdout :: bool
  StreamStderr :: bool
  StreamTty :: bool

text \<open>\<open>SPDYStream\<close> is \<open>NewSPDYExecutor\<close> on the URL of the request, or its error, followed by \<open>Stream\<close>: what
  arrives for the two outputs, and the error.\<close>

record 'w exec_lib =
  GVKForObject :: "pod \<Rightarrow> go_error + opaque"
  RESTClientForGVK :: "opaque \<Rightarrow> go_error + opaque"
  NewSPDYExecutor :: "opaque \<Rightarrow> string \<Rightarrow> exec_request \<Rightarrow> go_error + opaque"
  Stream :: "opaque \<Rightarrow> stream_options \<Rightarrow> 'w \<Rightarrow> (string \<times> string \<times> go_error option) \<times> 'w"

text \<open>\<open>inn\<close> is the reader for the standard input, if there is one; \<open>out\<close> and \<open>errout\<close> say whether there are
  writers.\<close>

definition exec_request_for :: "pod \<Rightarrow> string \<Rightarrow> string option \<Rightarrow> bool \<Rightarrow> bool \<Rightarrow> string list \<Rightarrow> exec_request" where
  "exec_request_for obj containerName inn out errout command =
     \<lparr>Req_Verb = ''POST'', Req_Name = Name (P_Meta obj), Req_Namespace = Namespace (P_Meta obj),
      Req_Resource = ''pods'', Req_SubResource = ''exec'',
      Req_Params = \<lparr>ExecContainer = containerName, ExecCommand = command, ExecStdin = inn \<noteq> None,
        ExecStdout = out, ExecStderr = errout\<rparr>\<rparr>"

definition PodRemoteExecutor_Exec :: "'w exec_lib \<Rightarrow> pod \<Rightarrow> string \<Rightarrow> string option \<Rightarrow> bool \<Rightarrow> bool \<Rightarrow>
    string list \<Rightarrow> 'w \<Rightarrow> (string \<times> string \<times> go_error option) \<times> 'w" where
  "PodRemoteExecutor_Exec L obj containerName inn out errout command w =
     (case GVKForObject L obj of
        Inl err \<Rightarrow> (([], [], Some err), w)
      | Inr gvk \<Rightarrow>
          (case RESTClientForGVK L gvk of
             Inl err \<Rightarrow> (([], [], Some err), w)
           | Inr rest \<Rightarrow>
               (case NewSPDYExecutor L rest ''POST''
                    (exec_request_for obj containerName inn out errout command) of
                  Inl err \<Rightarrow> (([], [], Some err), w)
                | Inr exec \<Rightarrow>
                    Stream L exec \<lparr>StreamStdin = inn, StreamStdout = out, StreamStderr = errout,
                      StreamTty = False\<rparr> w)))"

text \<open>The executor of the manager, as the interface that the controllers use: no input, two buffers.\<close>

definition ExecutorManagedBy :: "'w exec_lib \<Rightarrow> 'w remote_executor" where
  "ExecutorManagedBy L =
     \<lparr>Exec = (\<lambda>obj containerName command. PodRemoteExecutor_Exec L obj containerName None True True command)\<rparr>"

text \<open>Either nothing reached the outside and there is an error, or one stream was opened, on the pod and the
  container that were asked for.\<close>

lemma Exec_streams:
  assumes "Exec (ExecutorManagedBy L) obj c cmd w = ((stdout, stderr, err), w')"
  obtains "err \<noteq> None" "stdout = []" "stderr = []" "w' = w"
  | rest exec where
      "NewSPDYExecutor L rest ''POST'' (exec_request_for obj c None True True cmd) = Inr exec"
      "Stream L exec \<lparr>StreamStdin = None, StreamStdout = True, StreamStderr = True, StreamTty = False\<rparr> w =
         ((stdout, stderr, err), w')"
  using assms
  by (auto simp: ExecutorManagedBy_def PodRemoteExecutor_Exec_def split: sum.splits)

text \<open>The id of a runner comes from one stream: the output, trimmed, is the decimal number.\<close>

theorem runner_id_over_stream:
  assumes "GVKForObject L p = Inr gvk" and "RESTClientForGVK L gvk = Inr rest"
    and "NewSPDYExecutor L rest ''POST'' (exec_request_for p ''runner'' None True True runner_id_command) = Inr exec"
    and "Stream L exec \<lparr>StreamStdin = None, StreamStdout = True, StreamStderr = True, StreamTty = False\<rparr> (world s) =
      ((stdout, stderr, None), w')"
    and "TrimSpace stderr = []" and "TrimSpace stdout = itoa (sint (i :: int64))"
  shows "FindRunnerIDFromPod (ExecutorManagedBy L) p s =
    (Done (i, None), s\<lparr>world := w', trace := trace s @ [ExecC (ObjectKeyFromObject (P_Meta p)) ''runner'' runner_id_command]\<rparr>)"
proof -
  have "ParseInt10 0 (itoa (sint i)) = Inr (sint i)"
    using sint_greater_eq [of i] sint_less [of i] by (intro ParseInt10_itoa) simp_all
  then show ?thesis
    using assms
    by (simp add: FindRunnerIDFromPod_def ExecutorManagedBy_def PodRemoteExecutor_Exec_def run_andthen ext_def)
qed

end
