(* ===== verification/Go_Flag.thy ===== *)
theory Go_Flag
  imports Go_Strings
begin

text \<open>
  The command line, as the standard packages \<open>flag\<close> and \<open>strconv\<close> read it: flag sets, the loop of
  \<open>FlagSet.Parse\<close> over the arguments, and \<open>ParseBool\<close> and \<open>ParseInt\<close> with base 0 for the values.
\<close>

section \<open>Values\<close>

definition ParseBool :: "string \<Rightarrow> go_error + bool" where
  "ParseBool s =
     (if s \<in> {''1'', ''t'', ''T'', ''true'', ''TRUE'', ''True''} then Inr True
      else if s \<in> {''0'', ''f'', ''F'', ''false'', ''FALSE'', ''False''} then Inr False
      else Inl (NumError ''invalid syntax''))"

text \<open>\<open>lower\<close> sets the bit that tells a small letter from a capital.\<close>

definition lower_code :: "char \<Rightarrow> nat" where
  "lower_code c = (let v = of_char c in if v div 32 mod 2 = 0 then v + 32 else v)"

definition base_digit :: "char \<Rightarrow> nat option" where
  "base_digit c =
     (let v = of_char c
      in if 48 \<le> v \<and> v \<le> 57 then Some (v - 48)
         else if 97 \<le> lower_code c \<and> lower_code c \<le> 122 then Some (lower_code c - 97 + 10)
         else None)"

fun parse_base :: "int \<Rightarrow> nat \<Rightarrow> int \<Rightarrow> string \<Rightarrow> go_error + int" where
  "parse_base maxVal base n [] = Inr n"
| "parse_base maxVal base n (c # cs) =
     (if c = CHR ''_'' then parse_base maxVal base n cs
      else
        (case base_digit c of
           None \<Rightarrow> Inl (NumError ''invalid syntax'')
         | Some d \<Rightarrow>
             if base \<le> d then Inl (NumError ''invalid syntax'')
             else if maxVal < int base * n + int d then Inl (NumError ''value out of range'')
             else parse_base maxVal base (int base * n + int d) cs))"

text \<open>The base of a number and the text after its prefix.\<close>

definition base_prefix :: "string \<Rightarrow> nat \<times> string" where
  "base_prefix s =
     (case s of
        CHR ''0'' # cs \<Rightarrow>
          if 3 \<le> length s \<and> lower_code (hd cs) = 98 then (2, tl cs)
          else if 3 \<le> length s \<and> lower_code (hd cs) = 111 then (8, tl cs)
          else if 3 \<le> length s \<and> lower_code (hd cs) = 120 then (16, tl cs)
          else (8, cs)
      | _ \<Rightarrow> (10, s))"

text \<open>An underscore stands between digits, or between a prefix and a digit.  \<open>saw\<close> is what came before.\<close>

datatype saw = Begin | Digit | Underscore | Other

fun underscores :: "bool \<Rightarrow> saw \<Rightarrow> string \<Rightarrow> bool" where
  "underscores hex saw [] \<longleftrightarrow> saw \<noteq> Underscore"
| "underscores hex saw (c # cs) \<longleftrightarrow>
     (if digit_value c \<noteq> None \<or> (hex \<and> 97 \<le> lower_code c \<and> lower_code c \<le> 102)
      then underscores hex Digit cs
      else if c = CHR ''_'' then saw = Digit \<and> underscores hex Underscore cs
      else saw \<noteq> Underscore \<and> underscores hex Other cs)"

definition underscoreOK :: "string \<Rightarrow> bool" where
  "underscoreOK s =
     (if 2 \<le> length s \<and> s ! 0 = CHR ''0'' \<and> lower_code (s ! 1) \<in> {98, 111, 120}
      then underscores (lower_code (s ! 1) = 120) Digit (drop 2 s)
      else underscores False Begin s)"

definition ParseUint0 :: "string \<Rightarrow> go_error + int" where
  "ParseUint0 s =
     (if s = [] then Inl (NumError ''invalid syntax'')
      else
        (case base_prefix s of (base, digits) \<Rightarrow>
           (case parse_base (2 ^ 64 - 1) base 0 digits of
              Inl e \<Rightarrow> Inl e
            | Inr n \<Rightarrow>
                if CHR ''_'' \<in> set digits \<and> \<not> underscoreOK s then Inl (NumError ''invalid syntax'')
                else Inr n)))"

text \<open>\<open>strconv.ParseInt(s, 0, 64)\<close>.\<close>

definition ParseInt0 :: "string \<Rightarrow> go_error + int64" where
  "ParseInt0 s =
     (let neg = (case s of c # _ \<Rightarrow> c = CHR ''-'' | [] \<Rightarrow> False);
          t = (case s of c # cs \<Rightarrow> if c = CHR ''+'' \<or> c = CHR ''-'' then cs else s | [] \<Rightarrow> [])
      in case ParseUint0 t of
           Inl e \<Rightarrow> Inl e
         | Inr un \<Rightarrow>
             if \<not> neg \<and> 2 ^ 63 \<le> un then Inl (NumError ''value out of range'')
             else if neg \<and> 2 ^ 63 < un then Inl (NumError ''value out of range'')
             else Inr (word_of_int (if neg then - un else un)))"

lemma base_digit_digit: "digit_value c = Some d \<Longrightarrow> base_digit c = Some d \<and> d < 10 \<and> c \<noteq> CHR ''_''"
  by (auto simp: digit_value_def base_digit_def Let_def split: if_splits)

lemma parse_base_10:
  "\<forall>c\<in>set cs. digit_value c \<noteq> None \<Longrightarrow> parse_base m 10 n cs = parse_digits m n cs"
proof (induction cs arbitrary: n)
  case (Cons c cs)
  then obtain d where d: "digit_value c = Some d" by auto
  with base_digit_digit [OF this] Cons show ?case by simp
qed simp

lemma utoa_leading_zero: "0 < n \<Longrightarrow> hd (utoa n) \<noteq> CHR ''0''"
proof (induction n rule: utoa.induct)
  case (1 n)
  show ?case
  proof (cases "n < 10")
    case True
    then have "digit_value (digit n) = Some n" by simp
    moreover have "digit_value CHR ''0'' = Some 0" by (simp add: digit_value_def)
    ultimately have "digit n \<noteq> CHR ''0''" using "1.prems" by auto
    with True show ?thesis by (simp add: utoa.simps [of n])
  next
    case False
    with "1.IH" show ?thesis by (simp add: utoa.simps [of n])
  qed
qed

lemma ParseUint0_utoa:
  assumes "n < 2 ^ 64"
  shows "ParseUint0 (utoa n) = Inr (int n)"
proof (cases "n = 0")
  case True
  have "utoa 0 = ''0''" by code_simp
  with True show ?thesis by (simp add: ParseUint0_def base_prefix_def)
next
  case False
  obtain c cs where c: "utoa n = c # cs" by (cases "utoa n") auto
  have all: "\<forall>c\<in>set (utoa n). digit_value c \<noteq> None" using utoa_digits [of _ n] by fastforce
  then have no: "CHR ''_'' \<notin> set (utoa n)" using base_digit_digit by fastforce
  have "c \<noteq> CHR ''0''" using utoa_leading_zero [of n] False c by simp
  then have "base_prefix (utoa n) = (10, utoa n)"
    unfolding base_prefix_def c
    by (simp split: list.split char.split bool.split)
  moreover have "int n \<le> 2 ^ 64 - 1" using assms by simp
  ultimately show ?thesis
    using no parse_base_10 [OF all] parse_digits_utoa [of n "2 ^ 64 - 1"]
    by (simp add: ParseUint0_def)
qed

lemma ParseInt0_itoa: "ParseInt0 (itoa (sint (i :: int64))) = Inr i"
proof -
  have b: "- (2 ^ 63) \<le> sint i" "sint i < 2 ^ 63"
    using sint_greater_eq [of i] sint_less [of i] by simp_all
  then have p: "ParseUint0 (utoa (nat \<bar>sint i\<bar>)) = Inr \<bar>sint i\<bar>"
    using ParseUint0_utoa [of "nat \<bar>sint i\<bar>"] by simp
  have hd: "hd (utoa n) \<noteq> CHR ''-''" "hd (utoa n) \<noteq> CHR ''+''" for n
    using utoa_digits [of "hd (utoa n)" n] digit_not_sign by (metis hd_in_set utoa_not_Nil)+
  show ?thesis
  proof (cases "sint i < 0")
    case True
    with p b show ?thesis by (simp add: ParseInt0_def itoa_def Let_def)
  next
    case False
    obtain c cs where cs: "utoa (nat (sint i)) = c # cs"
      by (cases "utoa (nat (sint i))") auto
    with hd [of "nat (sint i)"] have "c \<noteq> CHR ''-''" "c \<noteq> CHR ''+''" by auto
    with cs p b False show ?thesis
      by (simp add: ParseInt0_def itoa_def Let_def not_le)
  qed
qed

section \<open>Flag sets\<close>

text \<open>What is done with the value of a flag: it is stored in a field of the options \<open>'o\<close>, or handed to a
  value of another package (which may be a flag without argument).\<close>

datatype 'o flag =
  StringVar "string \<Rightarrow> 'o \<Rightarrow> 'o"
| BoolVar "bool \<Rightarrow> 'o \<Rightarrow> 'o"
| Int64Var "int64 \<Rightarrow> 'o \<Rightarrow> 'o"
| OtherVar bool "string \<Rightarrow> 'o \<Rightarrow> go_error + 'o"

type_synonym 'o flag_set = "(string \<times> 'o flag) list"

text \<open>\<open>FlagSet.Var\<close> panics on a name that it has already, and on one that could not be given.\<close>

definition define_flag :: "string \<Rightarrow> 'o flag \<Rightarrow> 'o flag_set \<Rightarrow> ('s, 'o flag_set) prog" where
  "define_flag name f fs =
     (if take 1 name = ''-'' \<or> CHR ''='' \<in> set name \<or> map_of fs name \<noteq> None then panics FlagRedefined
      else ret (fs @ [(name, f)]))"

fun define_flags :: "'o flag_set \<Rightarrow> 'o flag_set \<Rightarrow> ('s, 'o flag_set) prog" where
  "define_flags [] fs = ret fs"
| "define_flags ((name, f) # others) fs = andthen (define_flag name f fs) (define_flags others)"

definition set_flag :: "'o flag \<Rightarrow> string \<Rightarrow> 'o \<Rightarrow> go_error + 'o" where
  "set_flag f s o' =
     (case f of
        StringVar g \<Rightarrow> Inr (g s o')
      | BoolVar g \<Rightarrow> (case ParseBool s of Inl e \<Rightarrow> Inl e | Inr b \<Rightarrow> Inr (g b o'))
      | Int64Var g \<Rightarrow> (case ParseInt0 s of Inl e \<Rightarrow> Inl e | Inr i \<Rightarrow> Inr (g i o'))
      | OtherVar _ g \<Rightarrow> g s o')"

definition IsBoolFlag :: "'o flag \<Rightarrow> bool" where
  "IsBoolFlag f = (case f of BoolVar _ \<Rightarrow> True | OtherVar b _ \<Rightarrow> b | _ \<Rightarrow> False)"

section \<open>Parsing\<close>

datatype 'o parse_step =
  MoreFlags "string list" 'o
| NoMoreFlags "string list" 'o
| BadFlag
| HelpWanted

text \<open>The name of a flag up to the first \<open>=\<close> that is not its first character, and the value after it.\<close>

definition split_flag :: "string \<Rightarrow> string \<times> string option" where
  "split_flag s =
     (case s of
        [] \<Rightarrow> ([], None)
      | c # cs \<Rightarrow>
          (c # takeWhile (\<lambda>x. x \<noteq> CHR ''='') cs,
           if CHR ''='' \<in> set cs then Some (tl (dropWhile (\<lambda>x. x \<noteq> CHR ''='') cs)) else None))"

definition apply_flag :: "'o flag \<Rightarrow> string \<Rightarrow> string list \<Rightarrow> 'o \<Rightarrow> 'o parse_step" where
  "apply_flag f value args o' =
     (case set_flag f value o' of Inl e \<Rightarrow> BadFlag | Inr o'' \<Rightarrow> MoreFlags args o'')"

definition parseOne :: "'o flag_set \<Rightarrow> string list \<Rightarrow> 'o \<Rightarrow> 'o parse_step" where
  "parseOne fs args o' =
     (case args of
        [] \<Rightarrow> NoMoreFlags [] o'
      | s # rest \<Rightarrow>
          if length s < 2 \<or> s ! 0 \<noteq> CHR ''-'' then NoMoreFlags args o'
          else if s = ''--'' then NoMoreFlags rest o'
          else
            (let name = drop (if s ! 1 = CHR ''-'' then 2 else 1) s
             in if name = [] \<or> name ! 0 = CHR ''-'' \<or> name ! 0 = CHR ''='' then BadFlag
                else
                  (case split_flag name of (name, given) \<Rightarrow>
                     (case map_of fs name of
                        None \<Rightarrow> if name = ''help'' \<or> name = ''h'' then HelpWanted else BadFlag
                      | Some f \<Rightarrow>
                          if IsBoolFlag f
                          then apply_flag f (case given of Some v \<Rightarrow> v | None \<Rightarrow> ''true'') rest o'
                          else
                            (case given of
                               Some v \<Rightarrow> apply_flag f v rest o'
                             | None \<Rightarrow> (case rest of [] \<Rightarrow> BadFlag | v # rest \<Rightarrow> apply_flag f v rest o'))))))"

text \<open>\<open>flag.CommandLine\<close> exits on an error: with 0 when help was asked for, else with 2.\<close>

datatype 'o command_line = Parsed 'o "string list" | ExitsWith nat

lemma apply_flag_MoreFlags: "apply_flag f v args o' = MoreFlags args' o'' \<Longrightarrow> args' = args"
  by (simp add: apply_flag_def split: sum.splits)

lemma parseOne_shorter: "parseOne fs args o' = MoreFlags args' o'' \<Longrightarrow> length args' < length args"
  by (auto simp: parseOne_def Let_def split: list.splits if_splits prod.splits option.splits
      dest!: apply_flag_MoreFlags)

function flag_Parse :: "'o flag_set \<Rightarrow> string list \<Rightarrow> 'o \<Rightarrow> 'o command_line" where
  "flag_Parse fs args o' =
     (case parseOne fs args o' of
        MoreFlags args' o'' \<Rightarrow> flag_Parse fs args' o''
      | NoMoreFlags args' o'' \<Rightarrow> Parsed o'' args'
      | BadFlag \<Rightarrow> ExitsWith 2
      | HelpWanted \<Rightarrow> ExitsWith 0)"
  by pat_completeness auto
termination
  by (relation "measure (\<lambda>(fs, args, o'). length args)") (auto dest: parseOne_shorter)

declare flag_Parse.simps [simp del]

text \<open>The argument that gives a flag its value.\<close>

definition flag_argument :: "string \<Rightarrow> string \<Rightarrow> string" where
  "flag_argument name value = ''--'' @ name @ ''='' @ value"

definition plain_name :: "string \<Rightarrow> bool" where
  "plain_name name \<longleftrightarrow> name \<noteq> [] \<and> CHR ''='' \<notin> set name \<and> hd name \<noteq> CHR ''-''"

lemma until_separator:
  assumes "c \<notin> set xs"
  shows "takeWhile (\<lambda>x. x \<noteq> c) (xs @ c # ys) = xs" "dropWhile (\<lambda>x. x \<noteq> c) (xs @ c # ys) = c # ys"
  using assms by (induction xs) auto

lemma split_flag_argument:
  "plain_name name \<Longrightarrow> split_flag (name @ CHR ''='' # s) = (name, Some s)"
  by (cases name) (auto simp: plain_name_def split_flag_def until_separator)

lemma parseOne_argument:
  assumes name: "plain_name name" and f: "map_of fs name = Some f" and v: "set_flag f s o' = Inr o''"
  shows "parseOne fs (flag_argument name s # args) o' = MoreFlags args o''"
proof -
  obtain c cs where c: "name = c # cs" "c \<noteq> CHR ''-''" "c \<noteq> CHR ''=''"
    using name by (cases name) (auto simp: plain_name_def)
  have "flag_argument name s = CHR ''-'' # CHR ''-'' # name @ CHR ''='' # s"
    by (simp add: flag_argument_def)
  then show ?thesis
    using c f v split_flag_argument [OF name, of s]
    by (simp add: parseOne_def apply_flag_def)
qed

lemma parse_argument:
  assumes "plain_name name" "map_of fs name = Some f" "set_flag f s o' = Inr o''"
  shows "flag_Parse fs (flag_argument name s # args) o' = flag_Parse fs args o''"
  by (subst flag_Parse.simps) (simp add: parseOne_argument [OF assms])

lemma parse_nothing: "flag_Parse fs [] o' = Parsed o' []"
  by (subst flag_Parse.simps) (simp add: parseOne_def)

end
