(* ===== verification/Main_Program.thy ===== *)
theory Main_Program
  imports Github_Auth Metrics Webhooks RunnerSet_Controller Remote_Exec Go_Flag
begin

text \<open>
  \<open>main.go\<close>: the command line, and the manager that is put together from the controllers, the webhooks,
  the hook of GitHub with its server, the health checks and the collector of metrics; with the
  \<open>SetupWithManager\<close> functions of those parts.  The manager belongs to controller-runtime: what it
  answers to a registration is an argument, and the registrations are recorded in their order.
\<close>

section \<open>The command line\<close>

text \<open>\<open>'z\<close> is what flags of other packages set: the options of the zap logger, and with them the variables
  behind the flags that imported packages have defined on \<open>flag.CommandLine\<close> before \<open>main\<close> runs, such as
  the \<open>kubeconfig\<close> of controller-runtime, which \<open>GetConfigOrDie\<close> reads.\<close>

record 'z options =
  probeAddr :: string
  metricsAddr :: string
  enableLeaderElection :: bool
  Logger :: 'z
  Github :: github_options

record 'z zap_lib =
  zap_Options :: 'z
  zap_SetDevelopment :: "bool \<Rightarrow> 'z \<Rightarrow> 'z"
  zap_flags :: "(string \<times> bool \<times> (string \<Rightarrow> 'z \<Rightarrow> go_error + 'z)) list"

definition zap_flag :: "bool \<Rightarrow> (string \<Rightarrow> 'z \<Rightarrow> go_error + 'z) \<Rightarrow> 'z options flag" where
  "zap_flag is_bool setter = OtherVar is_bool (\<lambda>s o'.
     case setter s (Logger o') of Inl e \<Rightarrow> Inl e | Inr z \<Rightarrow> Inr (o'\<lparr>Logger := z\<rparr>))"

text \<open>\<open>BindFlags\<close> of \<open>pkg/github/options.go\<close>: the names and the fields; the defaults are in \<open>Github_Auth\<close>.\<close>

definition github_flags :: "'z options flag_set" where
  "github_flags =
     [(''github-access-token'', StringVar (\<lambda>s o'. o'\<lparr>Github := (Github o')\<lparr>Opt_AccessToken := s\<rparr>\<rparr>)),
      (''github-api-endpoint'', StringVar (\<lambda>s o'. o'\<lparr>Github := (Github o')\<lparr>Opt_APIEndpoint := s\<rparr>\<rparr>)),
      (''github-app-id'', Int64Var (\<lambda>i o'. o'\<lparr>Github := (Github o')\<lparr>Opt_AppID := i\<rparr>\<rparr>)),
      (''github-app-private-key'', StringVar (\<lambda>s o'. o'\<lparr>Github := (Github o')\<lparr>Opt_AppPrivateKey := s\<rparr>\<rparr>)),
      (''github-app-installation-id'', StringVar (\<lambda>s o'. o'\<lparr>Github := (Github o')\<lparr>Opt_AppInstallationID := s\<rparr>\<rparr>)),
      (''github-webook-address'', StringVar (\<lambda>s o'. o'\<lparr>Github := (Github o')\<lparr>Opt_WebhookAddress := s\<rparr>\<rparr>)),
      (''github-webhook-path'', StringVar (\<lambda>s o'. o'\<lparr>Github := (Github o')\<lparr>Opt_WebhookPath := s\<rparr>\<rparr>)),
      (''github-webhook-secret'', StringVar (\<lambda>s o'. o'\<lparr>Github := (Github o')\<lparr>Opt_WebhookSecret := s\<rparr>\<rparr>))]"

definition main_flags :: "'z options flag_set" where
  "main_flags =
     [(''health-probe-bind-address'', StringVar (\<lambda>s o'. o'\<lparr>probeAddr := s\<rparr>)),
      (''metrics-bind-address'', StringVar (\<lambda>s o'. o'\<lparr>metricsAddr := s\<rparr>)),
      (''leader-elect'', BoolVar (\<lambda>b o'. o'\<lparr>enableLeaderElection := b\<rparr>))]"

text \<open>\<open>bindFlags\<close> sets the defaults and defines the flags, on top of those that are there.\<close>

definition bindFlags :: "'z zap_lib \<Rightarrow> 'z options flag_set \<Rightarrow> ('s, 'z options flag_set \<times> 'z options) prog" where
  "bindFlags Z fs =
     andthen (define_flags main_flags fs) (\<lambda>fs.
     andthen (define_flags (List.map (\<lambda>(n, b, setter). (n, zap_flag b setter)) (zap_flags Z)) fs) (\<lambda>fs.
     andthen (define_flags github_flags fs) (\<lambda>fs.
     ret (fs, \<lparr>probeAddr = '':8081'', metricsAddr = '':8080'', enableLeaderElection = False,
               Logger = zap_SetDevelopment Z True (zap_Options Z), Github = BindFlags\<rparr>))))"

section \<open>The manager\<close>

record manager_options =
  HealthProbeBindAddress :: string
  MetricsBindAddress :: string
  Port :: int
  LeaderElection :: bool
  LeaderElectionID :: string

text \<open>What the program takes from its manager.\<close>

record 'w manager =
  GetClient :: "'w cluster"
  GetAPIReader :: "'w cluster"
  GetCache :: "'w cluster"
  GetExecLib :: "'w exec_lib"

text \<open>What is registered with it.  A controller has the kind it reconciles and the kinds of the objects it
  owns; a webhook its four functions.\<close>

record 'w admission_webhook =
  WH_Default :: "kobject \<Rightarrow> ('w, admission_error option \<times> kobject) prog"
  WH_ValidateCreate :: "kobject \<Rightarrow> ('w, admission_error option) prog"
  WH_ValidateUpdate :: "kobject \<Rightarrow> kobject \<Rightarrow> ('w, admission_error option) prog"
  WH_ValidateDelete :: "kobject \<Rightarrow> ('w, admission_error option) prog"

datatype 'w setup_step =
  RunnerControllerS kind "kind list" "'w runner_reconciler"
| RunnerSetControllerS kind "kind list" "'w runnerset_reconciler"
| WebhookS kind "'w admission_webhook"
| IndexFieldS kind string "kobject \<Rightarrow> string list"
| RunnableS "('w, unit) st server"
| HealthzCheckS string
| ReadyzCheckS string
| CollectorS "('w, unit) collector"
| StartS

text \<open>The libraries around the program: the fields of the reconcilers and of the hook that are none in the
  code, but functions of its libraries, are given with \<open>runner_libs\<close>, \<open>runnerset_libs\<close> and \<open>hook_libs\<close>.\<close>

record ('w, 'z) surroundings =
  Zap :: "'z zap_lib"
  CommandLine :: "'z options flag_set"
  GetConfig :: "'z \<Rightarrow> 'w \<Rightarrow> bool \<times> 'w"
  NewManager :: "manager_options \<Rightarrow> 'w \<Rightarrow> (go_error + 'w manager) \<times> 'w"
  Setup :: "'w setup_step \<Rightarrow> 'w \<Rightarrow> go_error option \<times> 'w"
  Auth :: "'w auth_env"
  go_github :: "gh_client \<Rightarrow> 'w gh_actions"
  runner_libs :: "'w runner_reconciler"
  runnerset_libs :: "'w runnerset_reconciler"
  revisioner_libs :: "'w revisioner_env"
  hook_libs :: "'w github_hook"
  webhook_lib :: "'w library"
  webhook_converter :: "kobject converter"
  beyond_int64 :: "float64 \<Rightarrow> int64"

record 'w boot =
  boot_world :: 'w
  setups :: "'w setup_step list"

definition on_world :: "('w, 'a) prog \<Rightarrow> ('w boot, 'a) prog" where
  "on_world m b = (case m (boot_world b) of (r, w') \<Rightarrow> (r, b\<lparr>boot_world := w'\<rparr>))"

definition setup_call :: "('w, 'z) surroundings \<Rightarrow> 'w setup_step \<Rightarrow> ('w boot, go_error option) prog" where
  "setup_call E c b =
     (case Setup E c (boot_world b) of
        (err, w') \<Rightarrow> (Done err, b\<lparr>boot_world := w', setups := setups b @ [c]\<rparr>))"

definition RunnerReconciler_SetupWithManager :: "('w, 'z) surroundings \<Rightarrow> 'w runner_reconciler \<Rightarrow>
    ('w boot, go_error option) prog" where
  "RunnerReconciler_SetupWithManager E r = setup_call E (RunnerControllerS KRunner [KPod] r)"

definition RunnerSetReconciler_SetupWithManager :: "('w, 'z) surroundings \<Rightarrow> 'w runnerset_reconciler \<Rightarrow>
    ('w boot, go_error option) prog" where
  "RunnerSetReconciler_SetupWithManager E r = setup_call E (RunnerSetControllerS KRunnerSet [KRunner] r)"

definition RunnerWebhook :: "('w, 'z) surroundings \<Rightarrow> 'w admission_webhook" where
  "RunnerWebhook E =
     \<lparr>WH_Default = RunnerWebhook_Default, WH_ValidateCreate = RunnerWebhook_ValidateCreate,
      WH_ValidateUpdate = RunnerWebhook_ValidateUpdate (webhook_converter E),
      WH_ValidateDelete = RunnerWebhook_ValidateDelete\<rparr>"

definition RunnerWebhook_SetupWithManager :: "('w, 'z) surroundings \<Rightarrow> ('w boot, go_error option) prog" where
  "RunnerWebhook_SetupWithManager E = setup_call E (WebhookS KRunner (RunnerWebhook E))"

definition RunnerSetWebhook :: "('w, 'z) surroundings \<Rightarrow> 'w admission_webhook" where
  "RunnerSetWebhook E =
     \<lparr>WH_Default = RunnerSetWebhook_Default,
      WH_ValidateCreate = RunnerSetWebhook_ValidateCreate (webhook_lib E),
      WH_ValidateUpdate = RunnerSetWebhook_ValidateUpdate,
      WH_ValidateDelete = RunnerSetWebhook_ValidateDelete\<rparr>"

definition RunnerSetWebhook_SetupWithManager :: "('w, 'z) surroundings \<Rightarrow> ('w boot, go_error option) prog" where
  "RunnerSetWebhook_SetupWithManager E = setup_call E (WebhookS KRunnerSet (RunnerSetWebhook E))"

text \<open>The hook: the index of the cache, the handler of the server, and the server as a runnable.  The server
  is a \<open>HandlerRegistrar\<close>, so that the type assertion succeeds.\<close>

definition GithubHook_SetupWithManager :: "('w, 'z) surroundings \<Rightarrow> 'w github_hook \<Rightarrow>
    ('w, unit) st server \<Rightarrow> ('w boot, go_error option) prog" where
  "GithubHook_SetupWithManager E gh r =
     andthen (setup_call E (IndexFieldS KRunner runnerCompositeIndexField runnerCompositeIndexer)) (\<lambda>err.
       case err of
         Some e \<Rightarrow> ret (Some e)
       | None \<Rightarrow> andthen (WithHandler (GithubHook_Handle gh) r) (\<lambda>r. setup_call E (RunnableS r)))"

section \<open>The program\<close>

text \<open>\<open>if err != nil { ...; os.Exit(1) }\<close>.\<close>

definition or_exit :: "('s, go_error option) prog \<Rightarrow> ('s, nat) prog \<Rightarrow> ('s, nat) prog" where
  "or_exit m k = andthen m (\<lambda>err. case err of Some e \<Rightarrow> ret 1 | None \<Rightarrow> k)"

definition manager_options_of :: "'z options \<Rightarrow> manager_options" where
  "manager_options_of opts =
     \<lparr>HealthProbeBindAddress = probeAddr opts, MetricsBindAddress = metricsAddr opts, Port = 9443,
      LeaderElection = enableLeaderElection opts, LeaderElectionID = ''octorun.github.io''\<rparr>"

definition the_runner_reconciler :: "('w, 'z) surroundings \<Rightarrow> 'w manager \<Rightarrow> ('w, unit) st github \<Rightarrow>
    'w runner_reconciler" where
  "the_runner_reconciler E mgr gh =
     (runner_libs E)\<lparr>RR_Client := GetClient mgr, RR_Github := Client (go_github E (GH_client gh)),
       RR_Executor := ExecutorManagedBy (GetExecLib mgr)\<rparr>"

definition the_runnerset_reconciler :: "('w, 'z) surroundings \<Rightarrow> 'w manager \<Rightarrow> 'w runnerset_reconciler" where
  "the_runnerset_reconciler E mgr =
     (runnerset_libs E)\<lparr>SR_Client := GetClient mgr, SR_Revisioner := RunnerSetRevisioner ((revisioner_libs E)\<lparr>RE_Client := GetClient mgr\<rparr>)\<rparr>"

definition the_hook :: "('w, 'z) surroundings \<Rightarrow> 'w manager \<Rightarrow> 'w github_hook" where
  "the_hook E mgr = (hook_libs E)\<lparr>GH_Client := GetClient mgr\<rparr>"

definition the_collector :: "('w, 'z) surroundings \<Rightarrow> 'w manager \<Rightarrow> ('w, unit) collector" where
  "the_collector E mgr =
     NewCollector (GetAPIReader mgr) (GetCache mgr) [RunnerProvider, RunnerSetProvider (beyond_int64 E)]"

text \<open>From the manager on.  The value is the exit code.\<close>

definition set_up_and_start :: "('w, 'z) surroundings \<Rightarrow> 'w manager \<Rightarrow> ('w, unit) st github \<Rightarrow>
    ('w boot, nat) prog" where
  "set_up_and_start E mgr gh =
     or_exit (RunnerReconciler_SetupWithManager E (the_runner_reconciler E mgr gh))
    (or_exit (RunnerSetReconciler_SetupWithManager E (the_runnerset_reconciler E mgr))
    (or_exit (RunnerWebhook_SetupWithManager E)
    (or_exit (RunnerSetWebhook_SetupWithManager E)
    (or_exit (GithubHook_SetupWithManager E (the_hook E mgr) (GH_webhookServer gh))
    (or_exit (setup_call E (HealthzCheckS ''healthz''))
    (or_exit (setup_call E (ReadyzCheckS ''readyz''))
    (or_exit (setup_call E (CollectorS (the_collector E mgr)))
    (or_exit (setup_call E StartS)
    (ret 0)))))))))"

definition main :: "('w, 'z) surroundings \<Rightarrow> string list \<Rightarrow> ('w boot, nat) prog" where
  "main E args =
     andthen (bindFlags (Zap E) (CommandLine E)) (\<lambda>(fs, opts).
       case flag_Parse fs args opts of
         ExitsWith code \<Rightarrow> ret code
       | Parsed opts _ \<Rightarrow>
           andthen (on_world (outside (GetConfig E (Logger opts)))) (\<lambda>found.
             if \<not> found then ret 1
             else andthen (on_world (outside (NewManager E (manager_options_of opts)))) (\<lambda>made.
               case made of
                 Inl err \<Rightarrow> ret 1
               | Inr mgr \<Rightarrow>
                   andthen (on_world (github_New (Auth E) (Github opts))) (\<lambda>made.
                     case made of
                       Inl err \<Rightarrow> ret 1
                     | Inr gh \<Rightarrow> set_up_and_start E mgr gh))))"

end
