(* ===== verification/Main_Properties.thy ===== *)
theory Main_Properties
  imports Main_Program RunnerSet_Samples
begin

text \<open>
  What the program does before it runs: how the command line determines its options, and that the
  manager is started only when everything is in place.
\<close>

section \<open>The command line\<close>

lemma define_flag_simp:
  "define_flag name f fs s =
     (if take 1 name = ''-'' \<or> CHR ''='' \<in> set name \<or> map_of fs name \<noteq> None then (Panicked FlagRedefined, s)
      else (Done (fs @ [(name, f)]), s))"
  by (simp add: define_flag_def)

lemma define_flags_Done:
  "define_flags xs fs s = (Done ys, s') \<Longrightarrow>
     ys = fs @ xs \<and> distinct (List.map fst xs) \<and> fst ` set fs \<inter> fst ` set xs = {} \<and> s' = s"
proof (induction xs arbitrary: fs)
  case (Cons x xs)
  obtain n f where x: "x = (n, f)" by (cases x)
  have step: "define_flags xs (fs @ [(n, f)]) s = (Done ys, s')" "n \<notin> fst ` set fs"
    using Cons.prems by (auto simp: x run_andthen define_flag_simp map_of_eq_None_iff split: if_splits)
  from Cons.IH [OF step(1)] step(2) show ?case by (auto simp: x)
qed simp

lemma define_three:
  assumes "define_flags xs fs s = (Done a, s1)" "define_flags ys a s1 = (Done b, s2)" "define_flags zs b s2 = (Done c, s3)"
  shows "c = fs @ xs @ ys @ zs \<and> distinct (List.map fst (xs @ ys @ zs)) \<and>
    fst ` set fs \<inter> fst ` set (xs @ ys @ zs) = {} \<and> s3 = s"
proof -
  note A = define_flags_Done [OF assms(1)] and B = define_flags_Done [OF assms(2)] and C = define_flags_Done [OF assms(3)]
  have "a = fs @ xs" "b = fs @ xs @ ys" using A B by simp_all
  with A B C show ?thesis by (simp add: image_Un Int_Un_distrib Int_Un_distrib2)
qed

lemma own_flag:
  assumes "map_of (xs @ zs) n = Some f" and "distinct (List.map fst (xs @ ys @ zs))"
    and "fst ` set fs \<inter> fst ` set (xs @ ys @ zs) = {}"
  shows "map_of (fs @ xs @ ys @ zs) n = Some f"
proof -
  have own: "(n, f) \<in> set (xs @ ys @ zs)" using map_of_SomeD [OF assms(1)] by auto
  then have "n \<in> fst ` set (xs @ ys @ zs)" by (force simp del: set_append)
  with assms(3) have "map_of fs n = None" unfolding map_of_eq_None_iff by blast
  moreover have "map_of (xs @ ys @ zs) n = Some f" by (rule map_of_is_SomeI [OF assms(2) own])
  ultimately show ?thesis by (simp add: map_add_def)
qed

lemma andthen_DoneE:
  assumes "andthen m f s = (Done b, s')"
  obtains a s1 where "m s = (Done a, s1)" "f a s1 = (Done b, s')"
  using assms by (auto simp: run_andthen split: prod.splits outcome.splits)

abbreviation (input) lifted_zap_flags :: "'z zap_lib \<Rightarrow> 'z options flag_set" where
  "lifted_zap_flags Z \<equiv> List.map (\<lambda>(n, b, setter). (n, zap_flag b setter)) (zap_flags Z)"

lemma bindFlags_Done:
  assumes "bindFlags Z fs0 s = (Done (fs, opts), s')"
  shows "fs = fs0 @ main_flags @ lifted_zap_flags Z @ github_flags"
    "distinct (List.map fst (main_flags @ lifted_zap_flags Z @ github_flags))"
    "fst ` set fs0 \<inter> fst ` set (main_flags @ lifted_zap_flags Z @ github_flags) = {}"
    "opts = \<lparr>probeAddr = '':8081'', metricsAddr = '':8080'', enableLeaderElection = False,
       Logger = zap_SetDevelopment Z True (zap_Options Z), Github = BindFlags\<rparr>" "s' = s"
proof -
  obtain a s1 where a: "define_flags main_flags fs0 s = (Done a, s1)"
    and rest: "andthen (define_flags (lifted_zap_flags Z) a) (\<lambda>fs. andthen (define_flags github_flags fs) (\<lambda>fs.
      ret (fs, \<lparr>probeAddr = '':8081'', metricsAddr = '':8080'', enableLeaderElection = False,
               Logger = zap_SetDevelopment Z True (zap_Options Z), Github = BindFlags\<rparr>))) s1 = (Done (fs, opts), s')"
    using assms unfolding bindFlags_def by (rule andthen_DoneE)
  obtain b s2 where b: "define_flags (lifted_zap_flags Z) a s1 = (Done b, s2)"
    and rest: "andthen (define_flags github_flags b) (\<lambda>fs.
      ret (fs, \<lparr>probeAddr = '':8081'', metricsAddr = '':8080'', enableLeaderElection = False,
               Logger = zap_SetDevelopment Z True (zap_Options Z), Github = BindFlags\<rparr>)) s2 = (Done (fs, opts), s')"
    using rest by (rule andthen_DoneE)
  obtain c s3 where c: "define_flags github_flags b s2 = (Done c, s3)"
    and fin: "ret (c, \<lparr>probeAddr = '':8081'', metricsAddr = '':8080'', enableLeaderElection = False,
       Logger = zap_SetDevelopment Z True (zap_Options Z), Github = BindFlags\<rparr>) s3 = (Done (fs, opts), s')"
    using rest by (rule andthen_DoneE)
  note all = define_three [OF a b c]
  have "c = fs" "s3 = s'" using fin by simp_all
  with all show "fs = fs0 @ main_flags @ lifted_zap_flags Z @ github_flags"
    "distinct (List.map fst (main_flags @ lifted_zap_flags Z @ github_flags))"
    "fst ` set fs0 \<inter> fst ` set (main_flags @ lifted_zap_flags Z @ github_flags) = {}" "s' = s"
    by metis+
  show "opts = \<lparr>probeAddr = '':8081'', metricsAddr = '':8080'', enableLeaderElection = False,
       Logger = zap_SetDevelopment Z True (zap_Options Z), Github = BindFlags\<rparr>" using fin by simp
qed

text \<open>The arguments that say all of the options, but those of the logger.\<close>

definition bool_text :: "bool \<Rightarrow> string" where
  "bool_text b = (if b then ''true'' else ''false'')"

definition option_arguments :: "'z options \<Rightarrow> string list" where
  "option_arguments opts =
     [flag_argument ''health-probe-bind-address'' (probeAddr opts),
      flag_argument ''metrics-bind-address'' (metricsAddr opts),
      flag_argument ''leader-elect'' (bool_text (enableLeaderElection opts)),
      flag_argument ''github-access-token'' (Opt_AccessToken (Github opts)),
      flag_argument ''github-api-endpoint'' (Opt_APIEndpoint (Github opts)),
      flag_argument ''github-app-id'' (itoa (sint (Opt_AppID (Github opts)))),
      flag_argument ''github-app-private-key'' (Opt_AppPrivateKey (Github opts)),
      flag_argument ''github-app-installation-id'' (Opt_AppInstallationID (Github opts)),
      flag_argument ''github-webook-address'' (Opt_WebhookAddress (Github opts)),
      flag_argument ''github-webhook-path'' (Opt_WebhookPath (Github opts)),
      flag_argument ''github-webhook-secret'' (Opt_WebhookSecret (Github opts))]"

lemma ParseBool_text [simp]: "ParseBool (bool_text b) = Inr b"
  by (simp add: ParseBool_def bool_text_def)

lemma plain_flag_names:
  "plain_name ''health-probe-bind-address''" "plain_name ''metrics-bind-address''" "plain_name ''leader-elect''"
  "plain_name ''github-access-token''" "plain_name ''github-api-endpoint''" "plain_name ''github-app-id''"
  "plain_name ''github-app-private-key''" "plain_name ''github-app-installation-id''"
  "plain_name ''github-webook-address''" "plain_name ''github-webhook-path''" "plain_name ''github-webhook-secret''"
  by (simp_all add: plain_name_def)

text \<open>One argument for one of the program's own flags.\<close>

lemma parse_flag:
  assumes b: "bindFlags Z fs0 s = (Done (fs, o0), s')"
    and n: "map_of (main_flags @ github_flags) n = Some f" "plain_name n" and v: "set_flag f v o' = Inr o''"
  shows "flag_Parse fs (flag_argument n v # args) o' = flag_Parse fs args o''"
proof -
  have "map_of fs n = Some f"
    unfolding bindFlags_Done(1) [OF b] by (rule own_flag [OF n(1) bindFlags_Done(2,3) [OF b]])
  from parse_argument [OF n(2) this v] show ?thesis .
qed

text \<open>C31. Every setting can be given on the command line, whatever flags other packages have defined before: the arguments written for any options are parsed to
  these options, whatever the strings are (empty ones, and such that hold spaces, dashes or equal signs) and for
  every application id of 64 bits; none of them is left over.\<close>

theorem command_line_roundtrip:
  assumes "bindFlags Z fs0 s = (Done (fs, o0), s')"
  shows "flag_Parse fs (option_arguments opts) o0 = Parsed (opts\<lparr>Logger := Logger o0\<rparr>) []"
  unfolding option_arguments_def
  by (rule trans [OF parse_flag [OF assms]],
      simp add: main_flags_def github_flags_def, rule plain_flag_names,
      simp add: set_flag_def ParseInt0_itoa)+
    (cases opts; cases "Github opts"; simp add: parse_nothing)

definition sample_zap :: "bool zap_lib" where
  "sample_zap =
     \<lparr>zap_Options = False, zap_SetDevelopment = (\<lambda>b z. b),
      zap_flags = [(''zap-devel'', True, \<lambda>s z. ParseBool s)]\<rparr>"

definition sample_options :: "bool options" where
  "sample_options =
     \<lparr>probeAddr = [], metricsAddr = ''=:8080'', enableLeaderElection = True, Logger = False,
      Github = BindFlags\<lparr>Opt_AppID := - 7, Opt_AccessToken := ''--'', Opt_WebhookSecret := ''a b''\<rparr>\<rparr>"

lemma sample_flags:
  "bindFlags sample_zap [] () =
     (Done (main_flags @ [(''zap-devel'', zap_flag True (\<lambda>s z. ParseBool s))] @ github_flags,
        \<lparr>probeAddr = '':8081'', metricsAddr = '':8080'', enableLeaderElection = False, Logger = True,
         Github = BindFlags\<rparr>), ())"
  by (simp add: bindFlags_def run_andthen define_flag_simp main_flags_def github_flags_def sample_zap_def)

lemma command_line_roundtrip_witness:
  "flag_Parse (main_flags @ [(''zap-devel'', zap_flag True (\<lambda>s z. ParseBool s))] @ github_flags)
     (option_arguments sample_options)
     \<lparr>probeAddr = '':8081'', metricsAddr = '':8080'', enableLeaderElection = False, Logger = True,
      Github = BindFlags\<rparr> = Parsed (sample_options\<lparr>Logger := True\<rparr>) []"
  using command_line_roundtrip [OF sample_flags, of sample_options] by simp

text \<open>The flag for the address of the webhook server is misspelt: under the name that goes with those of the
  path and the secret it is refused.\<close>

lemma webhook_address_flag_refused:
  "flag_Parse (main_flags @ github_flags) [flag_argument ''github-webhook-address'' a] o' = ExitsWith 2"
proof -
  have name: "split_flag (''github-webhook-address'' @ CHR ''='' # a) = (''github-webhook-address'', Some a)"
    by (rule split_flag_argument) (simp add: plain_name_def)
  show ?thesis
    by (subst flag_Parse.simps)
      (use name in \<open>simp add: parseOne_def flag_argument_def main_flags_def github_flags_def\<close>)
qed

section \<open>The start\<close>

text \<open>The server after \<open>WithHandler\<close>: one handler, under the path and with the secret of the flags.\<close>

definition hooked_server :: "('w, 'z) surroundings \<Rightarrow> 'z options \<Rightarrow> 'w manager \<Rightarrow> ('w, unit) st server" where
  "hooked_server E opts mgr =
     \<lparr>Addr = Opt_WebhookAddress (Github opts), WebhookPath = Opt_WebhookPath (Github opts),
      WebhookSecret = Opt_WebhookSecret (Github opts),
      mux = Some [(Opt_WebhookPath (Github opts),
        \<lparr>Handler = GithubHook_Handle (the_hook E mgr), GetSecretFn = Inr (Opt_WebhookSecret (Github opts))\<rparr>)]\<rparr>"

text \<open>What has to be done, in this order.\<close>

definition setup_plan :: "('w, 'z) surroundings \<Rightarrow> 'z options \<Rightarrow> 'w manager \<Rightarrow> ('w, unit) st github \<Rightarrow>
    'w setup_step list" where
  "setup_plan E opts mgr gh =
     [RunnerControllerS KRunner [KPod] (the_runner_reconciler E mgr gh),
      RunnerSetControllerS KRunnerSet [KRunner] (the_runnerset_reconciler E mgr),
      WebhookS KRunner (RunnerWebhook E), WebhookS KRunnerSet (RunnerSetWebhook E),
      IndexFieldS KRunner runnerCompositeIndexField runnerCompositeIndexer,
      RunnableS (hooked_server E opts mgr), HealthzCheckS ''healthz'', ReadyzCheckS ''readyz'',
      CollectorS (the_collector E mgr), StartS]"

text \<open>The specification: the steps are done in turn, and the first that fails ends it with 1.\<close>

fun follow :: "('w, 'z) surroundings \<Rightarrow> 'w setup_step list \<Rightarrow> 'w boot \<Rightarrow> nat \<times> 'w boot" where
  "follow E [] b = (0, b)"
| "follow E (c # cs) b =
     (case Setup E c (boot_world b) of
        (err, w') \<Rightarrow>
          let b' = b\<lparr>boot_world := w', setups := setups b @ [c]\<rparr>
          in (case err of Some e \<Rightarrow> (1, b') | None \<Rightarrow> follow E cs b'))"

definition does :: "('w, 'z) surroundings \<Rightarrow> ('w boot, nat) prog \<Rightarrow> 'w setup_step list \<Rightarrow> bool" where
  "does E m cs \<longleftrightarrow> (\<forall>b. m b = (Done (fst (follow E cs b)), snd (follow E cs b)))"

lemma does_nothing: "does E (ret 0) []"
  by (simp add: does_def)

lemma does_call: "does E k cs \<Longrightarrow> does E (or_exit (setup_call E c) k) (c # cs)"
  by (auto simp: does_def or_exit_def run_andthen setup_call_def Let_def split: prod.split option.split)

lemma does_hook:
  assumes "does E k cs" and "mux r = None" and "WebhookPath r \<noteq> []"
  shows "does E (or_exit (GithubHook_SetupWithManager E gh r) k)
    (IndexFieldS KRunner runnerCompositeIndexField runnerCompositeIndexer #
     RunnableS (r\<lparr>mux := Some [(WebhookPath r, \<lparr>Handler = GithubHook_Handle gh, GetSecretFn = Inr (WebhookSecret r)\<rparr>)]\<rparr>) # cs)"
  using assms
  by (auto simp: does_def or_exit_def run_andthen setup_call_def GithubHook_SetupWithManager_def Let_def
      WithHandler_def setDefaults_def mux_Handle_def split: prod.split option.split)

lemmas setup_defs = RunnerReconciler_SetupWithManager_def RunnerSetReconciler_SetupWithManager_def
  RunnerWebhook_SetupWithManager_def RunnerSetWebhook_SetupWithManager_def

lemma github_New_server:
  assumes "github_New A opts w = (Done (Inr gh), w')"
  shows "GH_webhookServer gh = \<lparr>Addr = Opt_WebhookAddress opts, WebhookPath = Opt_WebhookPath opts,
    WebhookSecret = Opt_WebhookSecret opts, mux = None\<rparr>"
  using assms by (auto simp: github_New_def run_andthen split: prod.splits outcome.splits sum.splits)

lemma set_up_and_start_follows:
  assumes "github_New A (Github opts) w = (Done (Inr gh), w')" and "Opt_WebhookPath (Github opts) \<noteq> []"
  shows "does E (set_up_and_start E mgr gh) (setup_plan E opts mgr gh)"
proof -
  have "does E (or_exit (GithubHook_SetupWithManager E (the_hook E mgr) (GH_webhookServer gh)) k)
      (IndexFieldS KRunner runnerCompositeIndexField runnerCompositeIndexer #
       RunnableS (hooked_server E opts mgr) # cs)" if "does E k cs" for k cs
    using does_hook [OF that, of "GH_webhookServer gh" "the_hook E mgr"] assms(2)
    by (simp add: github_New_server [OF assms(1)] hooked_server_def)
  note hook = this
  show ?thesis
    unfolding set_up_and_start_def setup_plan_def setup_defs
    by (intro does_call hook does_nothing)
qed

lemma follow_prefix:
  "\<exists>n\<le>length cs. setups (snd (follow E cs b)) = setups b @ take n cs \<and> (fst (follow E cs b) = 0 \<longrightarrow> n = length cs) \<and>
     fst (follow E cs b) \<le> 1"
proof (induction cs arbitrary: b)
  case (Cons c cs)
  obtain err w' where s: "Setup E c (boot_world b) = (err, w')" by (cases "Setup E c (boot_world b)")
  let ?b = "b\<lparr>boot_world := w', setups := setups b @ [c]\<rparr>"
  show ?case
  proof (cases err)
    case None
    obtain n where "n \<le> length cs" "setups (snd (follow E cs ?b)) = setups ?b @ take n cs"
      "fst (follow E cs ?b) = 0 \<longrightarrow> n = length cs" "fst (follow E cs ?b) \<le> 1"
      using Cons.IH by blast
    with None s show ?thesis by (intro exI [of _ "Suc n"]) simp
  next
    case (Some e)
    with s show ?thesis by (intro exI [of _ 1]) simp
  qed
qed simp

text \<open>With an empty path the registration of the handler panics.\<close>

definition stops :: "('w boot, nat) prog \<Rightarrow> 'w setup_step list \<Rightarrow> bool" where
  "stops m cs \<longleftrightarrow> (\<forall>b r b'. m b = (r, b') \<longrightarrow>
     r \<in> {Done 1, Panicked BadPattern} \<and> (\<exists>n. setups b' = setups b @ take n cs))"

lemma stops_call:
  assumes "stops k cs"
  shows "stops (or_exit (setup_call E c) k) (c # cs)"
  unfolding stops_def
proof (intro allI impI)
  fix b r b' assume run: "or_exit (setup_call E c) k b = (r, b')"
  obtain err w' where s: "Setup E c (boot_world b) = (err, w')" by (cases "Setup E c (boot_world b)")
  let ?b = "b\<lparr>boot_world := w', setups := setups b @ [c]\<rparr>"
  show "r \<in> {Done 1, Panicked BadPattern} \<and> (\<exists>n. setups b' = setups b @ take n (c # cs))"
  proof (cases err)
    case None
    then have "k ?b = (r, b')" using run s by (simp add: or_exit_def run_andthen setup_call_def)
    then obtain n where "r \<in> {Done 1, Panicked BadPattern}" "setups b' = setups ?b @ take n cs"
      using assms unfolding stops_def by blast
    then show ?thesis by (intro conjI exI [of _ "Suc n"]) simp_all
  next
    case (Some e)
    then show ?thesis using run s
      by (intro conjI exI [of _ 1]) (auto simp: or_exit_def run_andthen setup_call_def)
  qed
qed

lemma stops_hook:
  assumes "mux r = None" and "WebhookPath r = []"
  shows "stops (or_exit (GithubHook_SetupWithManager E gh r) k)
    [IndexFieldS KRunner runnerCompositeIndexField runnerCompositeIndexer]"
proof -
  have "\<exists>n. [c] = take n [c]" for c :: "'a setup_step" by (rule exI [of _ 1]) simp
  then show ?thesis
    using assms
    by (auto simp: stops_def or_exit_def run_andthen setup_call_def GithubHook_SetupWithManager_def Let_def
        WithHandler_def setDefaults_def mux_Handle_def split: prod.splits option.splits)
qed

lemma set_up_and_start_stops:
  assumes "github_New A (Github opts) w = (Done (Inr gh), w')" and "Opt_WebhookPath (Github opts) = []"
  shows "stops (set_up_and_start E mgr gh) (take 5 (setup_plan E opts mgr gh))"
proof -
  have "stops (or_exit (GithubHook_SetupWithManager E (the_hook E mgr) (GH_webhookServer gh)) k)
      [IndexFieldS KRunner runnerCompositeIndexField runnerCompositeIndexer]" for k
    by (rule stops_hook) (simp_all add: github_New_server [OF assms(1)] assms(2))
  note hook = this
  show ?thesis
    unfolding set_up_and_start_def setup_plan_def setup_defs
    by (simp, intro stops_call hook)
qed

lemma start_is_last:
  "StartS \<in> set (take n (setup_plan E opts mgr gh)) \<Longrightarrow> take n (setup_plan E opts mgr gh) = setup_plan E opts mgr gh"
  by (cases "n < 10") (auto simp: setup_plan_def take_Cons' split: if_splits)

text \<open>What the command line says.\<close>

definition command_line :: "'z zap_lib \<Rightarrow> 'z options flag_set \<Rightarrow> string list \<Rightarrow> 'z options command_line option" where
  "command_line Z fs args =
     (case fst (bindFlags Z fs ()) of Done (fs, opts) \<Rightarrow> Some (flag_Parse fs args opts) | Panicked p \<Rightarrow> None)"

lemma define_flags_state: "define_flags xs fs s = (fst (define_flags xs fs ()), s)"
proof (induction xs arbitrary: fs)
  case (Cons x xs)
  then show ?case
    by (cases x) (auto simp: run_andthen define_flag_simp)
qed simp

lemma bindFlags_state: "bindFlags Z fs s = (fst (bindFlags Z fs ()), s)"
  by (simp add: bindFlags_def run_andthen define_flags_state [of _ _ s] split: prod.split outcome.split)

text \<open>C17. The manager is started only when everything is in place.  If \<open>Start\<close> is called, then before it, in
  this order, both controllers (with the clients of the manager and of GitHub), both webhooks, the index
  that the hook needs, the server with the hook under the path and the secret of the flags, both health
  checks and the collector were registered, one after the other, each after the success of the one before; the
  path was not empty.  And the program ends with code 0 only after a start, or when help was asked for.\<close>

theorem manager_starts_complete:
  assumes run: "main E args \<lparr>boot_world = w, setups = []\<rparr> = (r, b)"
  shows "(StartS \<in> set (setups b) \<longrightarrow>
      (\<exists>opts rest mgr gh w1 w2 w3 code.
         command_line (Zap E) (CommandLine E) args = Some (Parsed opts rest) \<and>
         GetConfig E (Logger opts) w = (True, w1) \<and> NewManager E (manager_options_of opts) w1 = (Inr mgr, w2) \<and>
         github_New (Auth E) (Github opts) w2 = (Done (Inr gh), w3) \<and>
         Opt_WebhookPath (Github opts) \<noteq> [] \<and>
         r = Done code \<and> follow E (setup_plan E opts mgr gh) \<lparr>boot_world = w3, setups = []\<rparr> = (code, b) \<and>
         setups b = setup_plan E opts mgr gh)) \<and>
    (r = Done 0 \<longrightarrow> StartS \<in> set (setups b) \<or> command_line (Zap E) (CommandLine E) args = Some (ExitsWith 0))"
proof (cases "\<exists>opts rest mgr gh w1 w2 w3. command_line (Zap E) (CommandLine E) args = Some (Parsed opts rest) \<and>
    GetConfig E (Logger opts) w = (True, w1) \<and> NewManager E (manager_options_of opts) w1 = (Inr mgr, w2) \<and>
    github_New (Auth E) (Github opts) w2 = (Done (Inr (gh :: ('a, unit) st github)), w3)")
  case True
  then obtain opts rest mgr w1 w2 w3 and gh :: "('a, unit) st github"
    where c: "command_line (Zap E) (CommandLine E) args = Some (Parsed opts rest)" "GetConfig E (Logger opts) w = (True, w1)"
      "NewManager E (manager_options_of opts) w1 = (Inr mgr, w2)"
      and gh: "github_New (Auth E) (Github opts) w2 = (Done (Inr gh), w3)" by blast
  have main: "set_up_and_start E mgr gh \<lparr>boot_world = w3, setups = []\<rparr> = (r, b)"
    using run c gh
    by (auto simp: main_def run_andthen command_line_def bindFlags_state [of _ _ "\<lparr>boot_world = _, setups = _\<rparr>"]
        on_world_def outside_def split: outcome.splits)
  show ?thesis
  proof (cases "Opt_WebhookPath (Github opts) = []")
    case empty: True
    obtain n where "r \<in> {Done 1, Panicked BadPattern}" "setups b = take n (take 5 (setup_plan E opts mgr gh))"
      using set_up_and_start_stops [OF gh empty, of E mgr] main unfolding stops_def by fastforce
    moreover from this(2) have "StartS \<notin> set (setups b)"
      by (auto simp: setup_plan_def take_Cons' split: if_splits)
    ultimately show ?thesis by auto
  next
    case False
    let ?start = "\<lparr>boot_world = w3, setups = []\<rparr>" and ?plan = "setup_plan E opts mgr gh"
    have f: "r = Done (fst (follow E ?plan ?start))" "b = snd (follow E ?plan ?start)"
      using set_up_and_start_follows [OF gh False, of E mgr] main by (simp_all add: does_def)
    obtain n where n: "setups b = take n ?plan" "fst (follow E ?plan ?start) = 0 \<longrightarrow> n = length ?plan"
      using follow_prefix [of ?plan E ?start] f(2) by auto
    have "StartS \<in> set ?plan" by (simp add: setup_plan_def)
    with n f(1) have "r = Done 0 \<longrightarrow> StartS \<in> set (setups b)" by auto
    moreover have "setups b = ?plan" if "StartS \<in> set (setups b)"
      using start_is_last that n(1) by metis
    ultimately show ?thesis using c gh False f by (metis prod.collapse)
  qed
next
  case False
  have "setups b = [] \<and> (r = Done 0 \<longrightarrow> command_line (Zap E) (CommandLine E) args = Some (ExitsWith 0))"
    using run False
    by (auto simp: main_def run_andthen command_line_def bindFlags_state [of _ _ "\<lparr>boot_world = _, setups = _\<rparr>"]
        on_world_def outside_def split: outcome.splits prod.splits command_line.splits if_splits sum.splits)
  then show ?thesis by simp
qed

text \<open>A manager that admits everything.\<close>

definition sample_manager :: "unit manager" where
  "sample_manager =
     (let c = sample_cluster (sample_runner None [] []) (sample_secret None None) sample_ready_pod
      in \<lparr>GetClient = c, GetAPIReader = c, GetCache = c,
          GetExecLib = \<lparr>GVKForObject = (\<lambda>p. Inr (Opaque ''Pod'')), RESTClientForGVK = Inr,
            NewSPDYExecutor = (\<lambda>r v q. Inr r), Stream = (\<lambda>e o' w. ((''7'', [], None), w))\<rparr>\<rparr>)"

definition sample_surroundings :: "(unit, bool) surroundings" where
  "sample_surroundings =
     \<lparr>Zap = sample_zap, CommandLine = [], GetConfig = (\<lambda>z w. (True, w)), NewManager = (\<lambda>o' w. (Inr sample_manager, w)),
      Setup = (\<lambda>c w. (None, w)), Auth = sample_auth,
      go_github = (\<lambda>c. \<lparr>Actions_GetRunner = (\<lambda>o' r i w. ((sample_gh_runner False, None), w)),
        Actions_GetOrganizationRunner = (\<lambda>o' i w. ((sample_gh_runner False, None), w)),
        Actions_CreateRegistrationToken = (\<lambda>o' r w. ((sample_token, None), w)),
        Actions_CreateOrganizationRegistrationToken = (\<lambda>o' w. ((sample_token, None), w))\<rparr>),
      runner_libs = \<lparr>RR_Client = GetClient sample_manager,
        RR_Github = sample_github (sample_gh_runner False, None) (sample_token, None),
        RR_Executor = sample_executor ''7'', RR_Library = sample_library 0,
        RR_Unstructured = sample_unstructured, RR_Converter = sample_runner_json, RR_MapOrder = sample_order\<rparr>,
      runnerset_libs = sample_set_reconciler [],
      revisioner_libs = sample_revisioner_env (RevisionsOf (GetClient sample_manager)),
      hook_libs = \<lparr>GH_Client = GetClient sample_manager, GH_Library = sample_library 0, GH_Offset = (\<lambda>t. 0)\<rparr>,
      webhook_lib = sample_library 0,
      webhook_converter = \<lparr>ToUnstructured = (\<lambda>o'. Inr fmempty), FromUnstructured = (\<lambda>m o'. Inr o')\<rparr>,
      beyond_int64 = (\<lambda>f. 0)\<rparr>"

definition sample_args :: "string list" where
  "sample_args = [flag_argument ''github-access-token'' ''t'']"

lemma sample_main:
  "fst (main sample_surroundings sample_args \<lparr>boot_world = (), setups = []\<rparr>) = Done 0 \<and>
   command_line sample_zap [] sample_args \<noteq> Some (ExitsWith 0)"
proof -
  let ?opts = "\<lparr>probeAddr = '':8081'', metricsAddr = '':8080'', enableLeaderElection = False, Logger = True,
      Github = BindFlags\<lparr>Opt_AccessToken := ''t''\<rparr>\<rparr>"
  have parsed: "flag_Parse (main_flags @ [(''zap-devel'', zap_flag True (\<lambda>s z. ParseBool s))] @ github_flags) sample_args
      \<lparr>probeAddr = '':8081'', metricsAddr = '':8080'', enableLeaderElection = False, Logger = True,
       Github = BindFlags\<rparr> = Parsed ?opts []"
    unfolding sample_args_def
    by (rule trans [OF parse_flag [OF sample_flags]], simp add: main_flags_def github_flags_def,
        rule plain_flag_names, simp add: set_flag_def) (simp add: parse_nothing)
  have "url_Parse (Opt_APIEndpoint (Github ?opts)) = Some \<lparr>Scheme = ''https'', Host = ''api.github.com'', Path = ''/''\<rparr>"
    by code_simp
  then obtain gh :: "(unit, unit) st github"
    where gh: "github_New sample_auth (Github ?opts) () = (Done (Inr gh), ())"
    by (simp add: github_New_def client_New_def run_andthen Let_def option_defs)
  have path: "Opt_WebhookPath (Github ?opts) \<noteq> []" by (simp add: BindFlags_def)
  have all: "fst (follow sample_surroundings cs b) = 0" for cs b
    by (induction cs arbitrary: b) (simp_all add: sample_surroundings_def)
  have "main sample_surroundings sample_args \<lparr>boot_world = (), setups = []\<rparr> =
      set_up_and_start sample_surroundings sample_manager gh \<lparr>boot_world = (), setups = []\<rparr>"
    using gh parsed
    by (simp add: main_def run_andthen sample_surroundings_def on_world_def outside_def sample_flags
        bindFlags_state [of _ _ "\<lparr>boot_world = _, setups = _\<rparr>"])
  then show ?thesis
    using set_up_and_start_follows [OF gh path, of sample_surroundings sample_manager] parsed
    by (simp add: does_def all command_line_def sample_flags)
qed

lemma manager_starts_complete_witness:
  "case main sample_surroundings sample_args \<lparr>boot_world = (), setups = []\<rparr> of (r, b) \<Rightarrow>
     r = Done 0 \<and> (\<exists>opts mgr gh. setups b = setup_plan sample_surroundings opts mgr gh)"
proof -
  obtain r b where run: "main sample_surroundings sample_args \<lparr>boot_world = (), setups = []\<rparr> = (r, b)"
    by (cases "main sample_surroundings sample_args \<lparr>boot_world = (), setups = []\<rparr>")
  have zap: "Zap sample_surroundings = sample_zap" "CommandLine sample_surroundings = []" by (simp_all add: sample_surroundings_def)
  from manager_starts_complete [OF run] run sample_main show ?thesis by (auto simp: zap)
qed

end
