(* ===== verification/Conversion_Properties.thy ===== *)
theory Conversion_Properties
  imports Conversion RunnerSet_Properties
begin

text \<open>
  The round trips of the conversion between the two versions of the API, and what they mean for the
  controllers, which work on the hub version.
\<close>

text \<open>The items of a list lose their type, which the list has already.\<close>

definition untyped_runner :: "a1_runner \<Rightarrow> a1_runner" where
  "untyped_runner r = r\<lparr>A1_R_Type := \<lparr>APIVersion = [], Kind = []\<rparr>\<rparr>"

definition untyped_runnerset :: "a1_runnerset \<Rightarrow> a1_runnerset" where
  "untyped_runnerset r = r\<lparr>A1_S_Type := \<lparr>APIVersion = [], Kind = []\<rparr>\<rparr>"

lemma convert_items_map:
  "(\<And>x. f x z = Inr (g x)) \<Longrightarrow> convert_items f z xs = Inr (map g xs)"
  by (induction xs) simp_all

lemma items_there_and_back:
  assumes "\<And>x. \<exists>h. f x z = Inr h \<and> b h d = Inr (g x)"
  shows "\<exists>hs. convert_items f z xs = Inr hs \<and> convert_items b d hs = Inr (map g xs)"
proof -
  from assms obtain h where "\<And>x. f x z = Inr (h x)" "\<And>x. b (h x) d = Inr (g x)" by metis
  moreover from this(2) have "convert_items b d (map h xs) = Inr (map g xs)"
    by (induction xs) simp_all
  ultimately show ?thesis by (metis convert_items_map)
qed

text \<open>C28. No conversion of a v1alpha1 object to the hub version and back loses anything: the object comes back
  as it was, with the type that the target brings, whatever the target held before; and so do lists,
  whose items come back without a type of their own.  None of the conversions fails or panics.\<close>

theorem v1alpha1_roundtrip:
  "\<exists>h hs hl hsl.
     Runner_ConvertTo r (HubRunner h0) t = (Done (Inr (HubRunner h)), t) \<and>
     Runner_ConvertFrom r0 (HubRunner h) t = (Done (Inr (r\<lparr>A1_R_Type := A1_R_Type r0\<rparr>)), t) \<and>
     RunnerSet_ConvertTo s (HubRunnerSet hs0) t = (Done (Inr (HubRunnerSet hs)), t) \<and>
     RunnerSet_ConvertFrom s0 (HubRunnerSet hs) t = (Done (Inr (s\<lparr>A1_S_Type := A1_S_Type s0\<rparr>)), t) \<and>
     RunnerList_ConvertTo l (HubRunnerList hl0) t = (Done (Inr (HubRunnerList hl)), t) \<and>
     RunnerList_ConvertFrom l0 (HubRunnerList hl) t =
       (Done (Inr (l0\<lparr>A1_RL_Meta := A1_RL_Meta l, A1_RL_Items := map untyped_runner (A1_RL_Items l)\<rparr>)), t) \<and>
     RunnerSetList_ConvertTo sl (HubRunnerSetList hsl0) t = (Done (Inr (HubRunnerSetList hsl)), t) \<and>
     RunnerSetList_ConvertFrom sl0 (HubRunnerSetList hsl) t =
       (Done (Inr (sl0\<lparr>A1_SL_Meta := A1_SL_Meta sl,
          A1_SL_Items := map untyped_runnerset (A1_SL_Items sl)\<rparr>)), t)"
proof -
  obtain h where h: "Convert_v1alpha1_Runner_To_v1alpha2_Runner r h0 = Inr h"
    "Convert_v1alpha2_Runner_To_v1alpha1_Runner h r0 = Inr (r\<lparr>A1_R_Type := A1_R_Type r0\<rparr>)"
    using runner_there_and_back by blast
  obtain hs where hs: "Convert_v1alpha1_RunnerSet_To_v1alpha2_RunnerSet s hs0 = Inr hs"
    "Convert_v1alpha2_RunnerSet_To_v1alpha1_RunnerSet hs s0 = Inr (s\<lparr>A1_S_Type := A1_S_Type s0\<rparr>)"
    using runnerset_there_and_back by blast
  obtain xs where xs: "convert_items Convert_v1alpha1_Runner_To_v1alpha2_Runner zero_runner (A1_RL_Items l) = Inr xs"
    "convert_items Convert_v1alpha2_Runner_To_v1alpha1_Runner zero_a1_runner xs =
      Inr (map untyped_runner (A1_RL_Items l))"
    using items_there_and_back [of Convert_v1alpha1_Runner_To_v1alpha2_Runner zero_runner
        Convert_v1alpha2_Runner_To_v1alpha1_Runner zero_a1_runner untyped_runner "A1_RL_Items l"]
      runner_there_and_back [of _ zero_runner zero_a1_runner]
    by (auto simp: untyped_runner_def zero_a1_runner_def)
  obtain ys where ys: "convert_items Convert_v1alpha1_RunnerSet_To_v1alpha2_RunnerSet zero_runnerset (A1_SL_Items sl) = Inr ys"
    "convert_items Convert_v1alpha2_RunnerSet_To_v1alpha1_RunnerSet zero_a1_runnerset ys =
      Inr (map untyped_runnerset (A1_SL_Items sl))"
    using items_there_and_back [of Convert_v1alpha1_RunnerSet_To_v1alpha2_RunnerSet zero_runnerset
        Convert_v1alpha2_RunnerSet_To_v1alpha1_RunnerSet zero_a1_runnerset untyped_runnerset "A1_SL_Items sl"]
      runnerset_there_and_back [of _ zero_runnerset zero_a1_runnerset]
    by (auto simp: untyped_runnerset_def zero_a1_runnerset_def)
  show ?thesis
    by (intro exI [of _ h] exI [of _ hs]
        exI [of _ "hl0\<lparr>RL_Meta := A1_RL_Meta l, RL_Items := xs\<rparr>"]
        exI [of _ "hsl0\<lparr>SL_Meta := A1_SL_Meta sl, SL_Items := ys\<rparr>"])
      (simp add: Runner_ConvertTo_def Runner_ConvertFrom_def RunnerSet_ConvertTo_def RunnerSet_ConvertFrom_def
        RunnerList_ConvertTo_def RunnerList_ConvertFrom_def RunnerSetList_ConvertTo_def
        RunnerSetList_ConvertFrom_def Convert_v1alpha1_RunnerList_To_v1alpha2_RunnerList_def
        Convert_v1alpha2_RunnerList_To_v1alpha1_RunnerList_def
        Convert_v1alpha1_RunnerSetList_To_v1alpha2_RunnerSetList_def
        Convert_v1alpha2_RunnerSetList_To_v1alpha1_RunnerSetList_def h hs xs ys)
qed

text \<open>What the older version cannot hold of a runner set; \<open>h0\<close> is the target of the way back.\<close>

definition without_v1alpha2_fields :: "runnerset \<Rightarrow> runnerset \<Rightarrow> runnerset" where
  "without_v1alpha2_fields h0 h = h
     \<lparr>S_Type := S_Type h0,
      S_Spec := (S_Spec h)
        \<lparr>UpdateStrategy := UpdateStrategy (S_Spec h0), RevisionHistoryLimit := RevisionHistoryLimit (S_Spec h0),
         Template := (Template (S_Spec h))\<lparr>T_Spec := (T_Spec (Template (S_Spec h)))
           \<lparr>EvictionPolicy := EvictionPolicy (T_Spec (Template (S_Spec h0)))\<rparr>\<rparr>\<rparr>,
      S_Status := (S_Status h)
        \<lparr>CurrentRevision := CurrentRevision (S_Status h0), NextRevision := NextRevision (S_Status h0),
         CollisionCount := CollisionCount (S_Status h0)\<rparr>\<rparr>"

text \<open>A runner set that is written through v1alpha1 loses what that version cannot hold, and nothing else:
  the update strategy, the history limit, the eviction policy of its template, and the revisions in its
  status take the values of the object that is filled.  Into a fresh object the update strategy is
  none, so that no runner of such a set counts as outdated any more: rolling updates stop.\<close>

theorem hub_roundtrip_loses_strategy:
  "\<exists>a. RunnerSet_ConvertFrom d (HubRunnerSet h) t = (Done (Inr a), t) \<and>
     RunnerSet_ConvertTo a (HubRunnerSet h0) t = (Done (Inr (HubRunnerSet (without_v1alpha2_fields h0 h))), t) \<and>
     \<not> outdated R (without_v1alpha2_fields zero_runnerset h) cr x"
proof -
  have "\<exists>a. Convert_v1alpha2_RunnerSet_To_v1alpha1_RunnerSet h d = Inr a \<and>
      Convert_v1alpha1_RunnerSet_To_v1alpha2_RunnerSet a h0 = Inr (without_v1alpha2_fields h0 h)"
    by (simp add: to_hub_defs from_hub_defs without_v1alpha2_fields_def)
  moreover have "\<not> outdated R (without_v1alpha2_fields zero_runnerset h) cr x"
    by (simp add: outdated_def without_v1alpha2_fields_def zero_runnerset_def
        RollingUpdateRunnerSetStrategyType_def)
  ultimately show ?thesis by (auto simp: RunnerSet_ConvertFrom_def RunnerSet_ConvertTo_def)
qed

end
