(* ===== verification/Client_Properties.thy ===== *)
theory Client_Properties
  imports Github_Client Webhook_Properties
begin

text \<open>
  The GitHub client and the admission webhook: what an admitted URL makes the client ask for.
\<close>

text \<open>C34. A URL \<open>http(s)://github.com/owner\<close> or \<open>http(s)://github.com/owner/repo\<close>, with names without control
  characters, percent signs, question marks and hash signs, is admitted, and the client asks GitHub about
  just that owner or repository: for a repository it uses the calls for repositories, for an
  organisation those for organisations, with the names as they stand in the URL, for the runner as well
  as for the token.  Other URLs are admitted, too, and some of them make the client ask about something else
  (\<open>prefixed_url\<close> below).\<close>

theorem client_addresses_the_owner:
  assumes "scheme \<in> {''http'', ''https''}" and "plain owner" and "owner \<noteq> []" and "plain repo"
  shows "RunnerWebhook_ValidateCreate (ORunner (r\<lparr>R_Spec := (R_Spec r)\<lparr>URL := github_url scheme owner repo\<rparr>\<rparr>)) t =
      (Done None, t) \<and>
    GetRunner (Client gh) (github_url scheme owner repo) i =
      (if repo = [] then Actions_GetOrganizationRunner gh owner i else Actions_GetRunner gh owner repo i) \<and>
    CreateRunnerToken (Client gh) (github_url scheme owner repo) =
      (if repo = [] then Actions_CreateOrganizationRegistrationToken gh owner
       else Actions_CreateRegistrationToken gh owner repo)"
proof -
  have "name_part owner" "repo = [] \<or> name_part repo"
    using assms(2-4) plainD(1) by (auto simp: name_part_def)
  with assms(1) have "MatchString matchOrgOrRepoURLRegexp ([] @ github_url scheme owner repo)"
    unfolding url_pattern_iff by blast
  moreover have "parseRunnerURL (github_url scheme owner repo) = \<lparr>Owner = owner, Repository = repo\<rparr>"
    using parseRunnerURL_github [OF assms(1,2,4)] by (auto simp: github_url_def)
  ultimately show ?thesis
    by (simp add: RunnerWebhook_ValidateCreate_def admission_def Client_def Client_GetRunner_def
        Client_CreateRunnerToken_def)
qed

text \<open>Behind another host the same URL is admitted, too, and the client then asks about an owner that is
  no owner at all.\<close>

lemma prefixed_url:
  "MatchString matchOrgOrRepoURLRegexp ''https://x.io/https://github.com/o''"
  "parseRunnerURL ''https://x.io/https://github.com/o'' = \<lparr>Owner = ''https:'', Repository = []\<rparr>"
  by code_simp+

definition sample_actions :: "unit gh_actions" where
  "sample_actions =
     \<lparr>Actions_GetRunner = (\<lambda>owner repo i w. ((sample_gh_runner True, None), w)),
      Actions_GetOrganizationRunner = (\<lambda>owner i w. ((sample_gh_runner False, None), w)),
      Actions_CreateRegistrationToken = (\<lambda>owner repo w. ((sample_token, None), w)),
      Actions_CreateOrganizationRegistrationToken = (\<lambda>owner w. ((sample_token, None), w))\<rparr>"

lemma client_addresses_the_owner_witness:
  "GetRunner (Client sample_actions) (github_url ''https'' ''octo'' ''repo'') 7 () = ((sample_gh_runner True, None), ())"
proof -
  have p: "plain ''octo''" "plain ''repo''" by code_simp+
  have "''https'' \<in> {''http'', ''https''}" "''octo'' \<noteq> []" by simp_all
  from client_addresses_the_owner [OF this(1) p(1) this(2) p(2), of _ "()" sample_actions 7] show ?thesis
    by (simp add: sample_actions_def)
qed

end
