(* ===== verification/Hook_Properties.thy ===== *)
theory Hook_Properties
  imports Github_Hook Webhook_Properties
begin

text \<open>
  The properties of the GitHub hook: its index identifies a runner, it wakes the runner of the job and
  no other, and the handler behind the HTTP server sees validated payloads only.
\<close>

section \<open>The composite index\<close>

lemma cut_unique:
  "c \<notin> set a \<Longrightarrow> c \<notin> set a' \<Longrightarrow> a @ c # b = a' @ c # b' \<longleftrightarrow> a = a' \<and> b = b'"
proof (induction a arbitrary: a')
  case Nil
  then show ?case by (cases a') auto
next
  case (Cons x a)
  then show ?case by (cases a') auto
qed

lemma itoa_no_semicolon: "CHR '';'' \<notin> set (itoa i)"
proof -
  have none: "digit_value (CHR '';'') = None" by (simp add: digit_value_def)
  have "CHR '';'' \<notin> set (utoa n)" for n
  proof
    assume "CHR '';'' \<in> set (utoa n)"
    then obtain d where "d < 10" "CHR '';'' = digit d" using utoa_digits by blast
    with none show False using digit_value_digit [of d] by simp
  qed
  then show ?thesis by (simp add: itoa_def)
qed

lemma itoa_inj: "itoa (sint (i :: int64)) = itoa (sint j) \<longleftrightarrow> i = j"
proof
  assume same: "itoa (sint i) = itoa (sint j)"
  have "ParseInt10 0 (itoa (sint k)) = Inr (sint k)" for k :: int64
    using sint_greater_eq [of k] sint_less [of k] by (intro ParseInt10_itoa) simp_all
  with same have "sint i = sint j" by (metis sum.inject(2))
  then show "i = j" by (rule signed_word_eqI)
qed simp

lemma composite_text_inj:
  assumes "CHR '';'' \<notin> set n" "CHR '';'' \<notin> set n'" "CHR '';'' \<notin> set i" "CHR '';'' \<notin> set i'"
    "CHR '';'' \<notin> set g" "CHR '';'' \<notin> set g'"
  shows "composite_text n i g u = composite_text n' i' g' u' \<longleftrightarrow> n = n' \<and> i = i' \<and> g = g' \<and> u = u'"
proof -
  have form: "composite_text n i g u = ''name:'' @ n @ CHR '';'' # ''id:'' @ i @ CHR '';'' # ''group:'' @ g @
      CHR '';'' # ''url:'' @ u" for n i g u
    by (simp add: composite_text_def)
  show ?thesis
    unfolding form using assms by (simp add: cut_unique)
qed

text \<open>The index identifies a runner: as long as the names and the groups hold no semicolon, two runners
  (or a runner and a job) have the same index exactly when their names, ids, groups and URLs are the
  same.\<close>

theorem composite_index_identifies:
  assumes "CHR '';'' \<notin> set n" "CHR '';'' \<notin> set n'" "CHR '';'' \<notin> set g" "CHR '';'' \<notin> set g'"
  shows "runnerCompositeIndex n (itoa (sint (i :: int64))) g u = runnerCompositeIndex n' (itoa (sint j)) g' u' \<longleftrightarrow>
    n = n' \<and> i = j \<and> g = g' \<and> u = u'"
  using assms
  by (simp add: runnerCompositeIndex_def EncodeToString_inj itoa_inj itoa_no_semicolon composite_text_inj)

lemma composite_index_identifies_witness:
  "runnerCompositeIndex ''r'' (itoa (sint (7 :: int64))) ''Default'' ''u'' \<noteq>
     runnerCompositeIndex ''r'' (itoa (sint (8 :: int64))) ''Default'' ''u''"
  by (subst composite_index_identifies) simp_all

text \<open>With a semicolon in a group the index is ambiguous.\<close>

lemma ambiguous_group:
  "runnerCompositeIndex n i ''a;url:b'' ''c'' = runnerCompositeIndex n i ''a'' ''b;url:c''"
  by (simp add: runnerCompositeIndex_def composite_text_def)

section \<open>The runner of the job\<close>

text \<open>Documented behaviour of the cache: a list request for a value of an index field gives objects that
  have the value in their index.\<close>

definition index_works :: "('w, runner) resource \<Rightarrow> bool" where
  "index_works c \<longleftrightarrow> (\<forall>idx w xs w'. ListAll c (MatchingFields runnerCompositeIndexField idx) w = (Inr xs, w') \<longrightarrow>
     (\<forall>x\<in>set xs. idx \<in> set (runnerCompositeIndexer (ORunner x))))"

text \<open>The runners of the cluster have no semicolon in their names (the API server admits none) or groups.\<close>

definition plain_runner :: "runner \<Rightarrow> bool" where
  "plain_runner x \<longleftrightarrow> CHR '';'' \<notin> set (Name (R_Meta x)) \<and> CHR '';'' \<notin> set (Group (R_Spec x))"

definition plain_runners :: "('w, runner) resource \<Rightarrow> bool" where
  "plain_runners c \<longleftrightarrow> (\<forall>sel w xs w'. ListAll c sel w = (Inr xs, w') \<longrightarrow> (\<forall>x\<in>set xs. plain_runner x))"

definition plain_job :: "workflow_job \<Rightarrow> bool" where
  "plain_job j \<longleftrightarrow> CHR '';'' \<notin> set (GetRunnerName j) \<and> CHR '';'' \<notin> set (GetRunnerGroupName j)"

definition runner_of_job :: "workflow_job_event \<Rightarrow> runner \<Rightarrow> bool" where
  "runner_of_job e x \<longleftrightarrow> Name (R_Meta x) = GetRunnerName (WorkflowJob e) \<and>
     ID (R_Spec x) = Some (GetRunnerID (WorkflowJob e)) \<and> Group (R_Spec x) = GetRunnerGroupName (WorkflowJob e) \<and>
     (\<exists>repo. Repo e = Some repo \<and> (URL (R_Spec x) = Repo_GetHTMLURL repo \<or>
        Owner_GetType repo = ''Organization'' \<and> URL (R_Spec x) = Owner_GetHTMLURL repo))"

definition lookup_call :: "call \<Rightarrow> bool" where
  "lookup_call c \<longleftrightarrow> (\<exists>idx. c = ListC KRunner (MatchingFields runnerCompositeIndexField idx))"

text \<open>What follows the look-ups: nothing, or a read of a runner of the job, and when it succeeds a patch of
  what was read that writes the time into one annotation.\<close>

definition stamped :: "'w github_hook \<Rightarrow> runner \<Rightarrow> runner \<Rightarrow> bool" where
  "stamped gh b n \<longleftrightarrow> (\<exists>a now. n = b\<lparr>R_Meta := (R_Meta b)\<lparr>Annotations := a\<rparr>\<rparr> \<and>
     map_lookup a AnnotationRunnerAssignedJobAt = Some (FormatRFC3339_zone (GH_Offset gh now) now) \<and>
     (\<forall>k. k \<noteq> AnnotationRunnerAssignedJobAt \<longrightarrow> map_lookup a k = map_lookup (Annotations (R_Meta b)) k))"

definition wakes :: "'w github_hook \<Rightarrow> object_key \<Rightarrow> call list \<Rightarrow> bool" where
  "wakes gh key cs \<longleftrightarrow> cs = [GetC KRunner key] \<or>
     (\<exists>b n w w'. cs = [GetC KRunner key, PatchC (ORunner b) (ORunner n)] \<and>
        Get (RunnersOf (GH_Client gh)) key w = (Inr b, w') \<and> stamped gh b n)"

definition wakes_job :: "'w github_hook \<Rightarrow> workflow_job_event \<Rightarrow> call list \<Rightarrow> bool" where
  "wakes_job gh e cs \<longleftrightarrow> cs = [] \<or> (\<exists>x. runner_of_job e x \<and> wakes gh (ObjectKeyFromObject (R_Meta x)) cs)"

lemma indexed_runner:
  assumes "runnerCompositeIndex n (itoa (sint i)) g u \<in> set (runnerCompositeIndexer (ORunner x))"
    and "CHR '';'' \<notin> set n" "CHR '';'' \<notin> set g" "plain_runner x"
  shows "Name (R_Meta x) = n \<and> ID (R_Spec x) = Some i \<and> Group (R_Spec x) = g \<and> URL (R_Spec x) = u"
  using assms
  by (auto simp: runnerCompositeIndexer_def Let_def Int64Deref_def runnerCompositeIndex_def EncodeToString_inj
      itoa_inj itoa_no_semicolon composite_text_inj plain_runner_def split: if_splits option.splits)

lemma stamped_store:
  "m = (if Annotations (R_Meta b) = None then make_map else Annotations (R_Meta b)) \<Longrightarrow> m = Some f \<Longrightarrow>
    stamped gh b (b\<lparr>R_Meta := (R_Meta b)\<lparr>Annotations :=
      Some (fmupd AnnotationRunnerAssignedJobAt (FormatRFC3339_zone (GH_Offset gh now) now) f)\<rparr>\<rparr>)"
  unfolding stamped_def
  by (intro exI conjI, rule refl) (auto simp: make_map_def split: if_splits)

lemma trigger_calls:
  "wp (triggerRunnerReconciliation gh key) (\<lambda>r s'. (\<exists>err. r = Done err) \<and>
    (\<exists>cs. trace s' = trace s @ cs \<and> wakes gh key cs)) s"
proof -
  define got where "got = Get (RunnersOf (GH_Client gh)) key (world s)"
  obtain r w where got: "got = (r, w)" by (cases got)
  show ?thesis
  proof (cases r)
    case (Inl e)
    with got show ?thesis
      by (simp add: triggerRunnerReconciliation_def wp_simps client_defs got_def wakes_def)
  next
    case (Inr b)
    define m where "m = (if Annotations (R_Meta b) = None then make_map else Annotations (R_Meta b))"
    then obtain f where f: "m = Some f" by (auto simp: make_map_def split: if_splits)
    show ?thesis
      using got Inr stamped_store [OF m_def f, of gh]
      unfolding triggerRunnerReconciliation_def
      by (auto simp: wp_simps client_defs got_def wakes_def f m_def [symmetric] Let_def split: prod.split)
  qed
qed

lemma wake_calls:
  assumes "\<And>x. x \<in> set items \<Longrightarrow> runner_of_job e x"
  shows "wp (wake gh items) (\<lambda>r s'. r = Done () \<and> (\<exists>cs. trace s' = trace s @ cs \<and> wakes_job gh e cs)) s"
proof (cases "\<exists>x. items = [x]")
  case True
  then obtain x where x: "items = [x]" by blast
  with assms have "runner_of_job e x" by simp
  then show ?thesis
    unfolding wake_def x
    by (auto simp: wp_simps wakes_job_def intro!: wp_mono [OF trigger_calls])
next
  case False
  then show ?thesis by (auto simp: wake_def wp_simps wakes_job_def split: list.split)
qed

lemma listed_runners:
  assumes "index_works (RunnersOf (GH_Client gh))" "plain_runners (RunnersOf (GH_Client gh))" "plain_job (WorkflowJob e)"
    and "ListAll (RunnersOf (GH_Client gh)) (MatchingFields runnerCompositeIndexField
      (runnerCompositeIndex (GetRunnerName (WorkflowJob e)) (itoa (sint (GetRunnerID (WorkflowJob e))))
        (GetRunnerGroupName (WorkflowJob e)) u)) w = (Inr xs, w')"
    and "Repo e = Some repo" and "u = Repo_GetHTMLURL repo \<or> Owner_GetType repo = ''Organization'' \<and> u = Owner_GetHTMLURL repo"
    and "x \<in> set xs"
  shows "runner_of_job e x"
proof -
  have "runnerCompositeIndex (GetRunnerName (WorkflowJob e)) (itoa (sint (GetRunnerID (WorkflowJob e))))
      (GetRunnerGroupName (WorkflowJob e)) u \<in> set (runnerCompositeIndexer (ORunner x))"
    using assms(1,4,7) unfolding index_works_def by blast
  moreover have "plain_runner x" using assms(2,4,7) unfolding plain_runners_def by blast
  ultimately show ?thesis
    using indexed_runner assms(3,5,6) unfolding plain_job_def runner_of_job_def by blast
qed

definition hook_trace :: "'w github_hook \<Rightarrow> workflow_job_event \<Rightarrow> nat \<Rightarrow> call list \<Rightarrow> bool" where
  "hook_trace gh e n cs \<longleftrightarrow> (\<exists>ls rest. cs = ls @ rest \<and> length ls \<le> n \<and> (\<forall>c\<in>set ls. lookup_call c) \<and> wakes_job gh e rest)"

lemma hook_trace_Nil: "hook_trace gh e n []"
  by (auto simp: hook_trace_def wakes_job_def)

lemma hook_trace_lookup: "lookup_call c \<Longrightarrow> hook_trace gh e n cs \<Longrightarrow> hook_trace gh e (Suc n) (c # cs)"
  unfolding hook_trace_def by (metis append_Cons insert_iff length_Cons list.simps(15) Suc_le_mono)

lemma hook_trace_wakes: "wakes_job gh e cs \<Longrightarrow> hook_trace gh e n cs"
  unfolding hook_trace_def by (metis append_Nil empty_iff empty_set le0 list.size(3))

lemma list_then:
  assumes "\<And>xs w w'. ListAll (RunnersOf (GH_Client gh)) (MatchingFields runnerCompositeIndexField idx) w = (Inr xs, w') \<Longrightarrow>
      \<forall>x\<in>set xs. runner_of_job e x"
    and "\<And>xs s. (\<forall>x\<in>set xs. runner_of_job e x) \<Longrightarrow> wp (k xs) (\<lambda>r s'. r = Done () \<and> (\<exists>cs. trace s' = trace s @ cs \<and> hook_trace gh e n cs)) s"
  shows "wp (andthen (list_by_index gh idx) (\<lambda>listed. case listed of Inl err \<Rightarrow> ret () | Inr items \<Rightarrow> k items))
    (\<lambda>r s'. r = Done () \<and> (\<exists>cs. trace s' = trace s @ cs \<and> hook_trace gh e (Suc n) cs)) s"
proof -
  obtain l w where l: "ListAll (RunnersOf (GH_Client gh)) (MatchingFields runnerCompositeIndexField idx) (world s) = (l, w)"
    by fastforce
  define c where "c = ListC KRunner (MatchingFields runnerCompositeIndexField idx)"
  have c: "lookup_call c" by (auto simp: lookup_call_def c_def)
  show ?thesis
  proof (cases l)
    case (Inl err)
    with l show ?thesis
      by (auto simp: list_by_index_def wp_simps client_defs c_def [symmetric] intro!: hook_trace_lookup c hook_trace_Nil)
  next
    case (Inr xs)
    with l assms(1) have "\<forall>x\<in>set xs. runner_of_job e x" by blast
    from assms(2) [OF this, of "s\<lparr>world := w, trace := trace s @ [c]\<rparr>"]
    have "wp (k xs) (\<lambda>r s'. r = Done () \<and> (\<exists>cs. trace s' = trace s @ cs \<and> hook_trace gh e (Suc n) cs))
        (s\<lparr>world := w, trace := trace s @ [c]\<rparr>)"
      by (rule wp_mono) (auto intro: hook_trace_lookup c)
    with l Inr show ?thesis by (simp add: list_by_index_def wp_simps client_defs c_def [symmetric])
  qed
qed

text \<open>Whatever the cluster answers, the hook ends.\<close>

lemma wake_outcome: "wp (wake gh items) (\<lambda>r s'. r = Done ()) s"
  by (auto simp: wake_def wp_simps intro!: wp_mono [OF trigger_calls] split: list.split)

lemma hook_outcome:
  "wp (processWorkflowJobEvent gh e) (\<lambda>r s'. (r = Done () \<or> r = Panicked NilDereference \<and> Repo e = None) \<and>
     (GetAction e \<noteq> ''in_progress'' \<longrightarrow> s' = s)) s"
  by (auto simp: processWorkflowJobEvent_def Let_def wp_simps list_by_index_def client_defs
      intro!: wp_mono [OF wake_outcome] split: option.split sum.split prod.split)

text \<open>C15. The hook acts on the runner of the job and on nothing else: a started job makes it look up the
  runners at most twice, and then read at most one runner, which has the name, the id and the group of
  the job's runner and the URL of the owner or the repository, and patch what it read in one annotation.
  Other actions make no call, and only a payload without repository makes it panic.  This holds where
  neither the name and the group in the event nor those of the runners that the index gives contain a
  semicolon; with one, a runner of another group and URL can have the same index (\<open>ambiguous_group\<close>).\<close>

theorem hook_wakes_the_runner_of_the_job:
  assumes "index_works (RunnersOf (GH_Client gh))" "plain_runners (RunnersOf (GH_Client gh))" "plain_job (WorkflowJob e)"
  shows "wp (GithubHook_Handle gh (WorkflowJobEvent e)) (\<lambda>r s'.
    (r = Done () \<or> r = Panicked NilDereference \<and> Repo e = None \<and> s' = s) \<and>
    (\<exists>cs. trace s' = trace s @ cs \<and> hook_trace gh e 2 cs \<and> (GetAction e \<noteq> ''in_progress'' \<longrightarrow> cs = []))) s"
proof (cases "GetAction e = ''in_progress''")
  case False
  then show ?thesis by (simp add: GithubHook_Handle_def processWorkflowJobEvent_def wp_simps hook_trace_Nil)
next
  case True
  note same = listed_runners [OF assms]
  let ?j = "WorkflowJob e"
  let ?idx = "runnerCompositeIndex (GetRunnerName ?j) (itoa (sint (GetRunnerID ?j))) (GetRunnerGroupName ?j)"
  show ?thesis
  proof (cases "Repo e")
    case None
    with True show ?thesis
      by (simp add: GithubHook_Handle_def processWorkflowJobEvent_def wp_simps hook_trace_Nil)
  next
    case (Some repo)
    let ?second = "andthen (list_by_index gh (?idx (Repo_GetHTMLURL repo)))
        (\<lambda>listed. case listed of Inl err \<Rightarrow> ret () | Inr items \<Rightarrow> wake gh items)"
    have wake: "wp (wake gh xs) (\<lambda>r s'. r = Done () \<and> (\<exists>cs. trace s' = trace s @ cs \<and> hook_trace gh e n cs)) s"
      if "\<forall>x\<in>set xs. runner_of_job e x" for xs n and s :: "('a, 'b) st"
      by (rule wp_mono [OF wake_calls]) (use that in \<open>auto intro: hook_trace_wakes\<close>)
    have second: "wp ?second (\<lambda>r s'. r = Done () \<and> (\<exists>cs. trace s' = trace s @ cs \<and> hook_trace gh e (Suc 0) cs)) s"
      for s :: "('a, 'b) st"
      by (rule list_then) (use same [OF _ Some] wake in auto)
    have step: "wp (if length xs = 0 then ?second else wake gh xs)
        (\<lambda>r s'. r = Done () \<and> (\<exists>cs. trace s' = trace s @ cs \<and> hook_trace gh e (Suc 0) cs)) s"
      if "\<forall>x\<in>set xs. runner_of_job e x" for xs and s :: "('a, 'b) st"
      using second wake [OF that] by simp
    have "wp (processWorkflowJobEvent gh e)
        (\<lambda>r s'. r = Done () \<and> (\<exists>cs. trace s' = trace s @ cs \<and> hook_trace gh e (Suc (Suc 0)) cs)) s"
    proof (cases "Owner_GetType repo = ''Organization''")
      case org: True
      show ?thesis
        unfolding processWorkflowJobEvent_def Let_def using True Some org
        apply simp
        apply (rule list_then)
        using same [OF _ Some] org step by auto
    next
      case False
      have "wp ?second (\<lambda>r s'. r = Done () \<and> (\<exists>cs. trace s' = trace s @ cs \<and> hook_trace gh e (Suc (Suc 0)) cs)) s"
        by (rule list_then) (use same [OF _ Some] wake in auto)
      then show ?thesis
        unfolding processWorkflowJobEvent_def Let_def using True Some False by (simp add: wp_simps)
    qed
    then show ?thesis
      using True by (auto simp: GithubHook_Handle_def numeral_2_eq_2 elim: wp_mono)
  qed
qed

text \<open>A cluster with one runner, whose job has started.\<close>

definition hooked_runner :: runner where
  "hooked_runner = sample_runner None [] RunnerIdlePhase"

definition hooked_runners :: "(unit, runner) resource" where
  "hooked_runners = (sample_resource hooked_runner [hooked_runner])\<lparr>
     ListAll := \<lambda>sel w. (Inr (case sel of
        MatchingFields fld idx \<Rightarrow> filter (\<lambda>x. idx \<in> set (runnerCompositeIndexer (ORunner x))) [hooked_runner]
      | _ \<Rightarrow> []), w)\<rparr>"

definition sample_hook :: "unit github_hook" where
  "sample_hook = \<lparr>GH_Client = (sample_cluster hooked_runner (sample_secret None None) sample_ready_pod)\<lparr>RunnersOf := hooked_runners\<rparr>, GH_Library = sample_library 1,
     GH_Offset = (\<lambda>t. 7200)\<rparr>"

definition sample_job_event :: workflow_job_event where
  "sample_job_event = \<lparr>GetAction = ''in_progress'',
     WorkflowJob = \<lparr>GetRunnerID = 7, GetRunnerName = ''r1'', GetRunnerGroupName = []\<rparr>,
     Repo = Some \<lparr>Owner_GetType = ''Organization'', Owner_GetHTMLURL = ''https://github.com/octo'',
       Repo_GetHTMLURL = ''https://github.com/octo/repo''\<rparr>\<rparr>"

lemma sample_hook_works:
  "index_works (RunnersOf (GH_Client sample_hook))" "plain_runners (RunnersOf (GH_Client sample_hook))"
  "plain_job (WorkflowJob sample_job_event)"
proof -
  show "index_works (RunnersOf (GH_Client sample_hook))"
    by (auto simp: sample_hook_def hooked_runners_def index_works_def)
  show "plain_runners (RunnersOf (GH_Client sample_hook))"
    by (auto simp: sample_hook_def hooked_runners_def plain_runners_def plain_runner_def hooked_runner_def
      sample_runner_def sample_meta_def sample_spec_def split: list_selection.splits if_splits)
  show "plain_job (WorkflowJob sample_job_event)"
    by (simp add: sample_job_event_def plain_job_def)
qed

lemma hook_wakes_the_runner_of_the_job_witness:
  "wp (GithubHook_Handle sample_hook (WorkflowJobEvent sample_job_event)) (\<lambda>r s'. r = Done () \<and>
     (\<exists>cs. trace s' = cs \<and> hook_trace sample_hook sample_job_event 2 cs)) (start () ())"
  by (rule wp_mono [OF hook_wakes_the_runner_of_the_job [OF sample_hook_works]])
    (auto simp: sample_job_event_def start_def)

section \<open>The request\<close>

text \<open>C16. The handler that the server registers for the hook answers 400 and does nothing for a payload that
  is not valid under the server's secret or that does not parse; it ignores events of other types, and
  it answers 200 for a workflow job, calling the API server only for a started one.\<close>

theorem served_request_is_validated:
  assumes "WithHandler (GithubHook_Handle gh) srv t = (Done srv', t')"
    and "mux srv' = Some m" and "map_of m (WebhookPath srv) = Some wh"
  shows "wp (ServeHTTP G wh r) (\<lambda>answer s'.
    case ValidatePayload G r (WebhookSecret srv) of
      Inl _ \<Rightarrow> answer = Done 400 \<and> s' = s
    | Inr payload \<Rightarrow>
        (case ParseWebHook G (WebHookType G r) payload of
           Inl _ \<Rightarrow> answer = Done 400 \<and> s' = s
         | Inr (OtherEvent _) \<Rightarrow> answer = Done 200 \<and> s' = s
         | Inr (WorkflowJobEvent e) \<Rightarrow>
             (answer = Done 200 \<or> answer = Panicked NilDereference \<and> Repo e = None) \<and>
             (trace s' \<noteq> trace s \<longrightarrow> GetAction e = ''in_progress''))) s"
proof -
  have wh: "wh = \<lparr>Handler = GithubHook_Handle gh, GetSecretFn = Inr (WebhookSecret srv)\<rparr>"
    using assms by (auto simp: WithHandler_def setDefaults_def mux_Handle_def run_andthen Let_def
        split: if_splits option.splits)
  show ?thesis
    unfolding ServeHTTP_def wh
    by (auto simp: wp_simps GithubHook_Handle_def intro!: wp_mono [OF hook_outcome] split: sum.split gh_event.split)
qed

lemma served_request_is_validated_witness:
  "wp (ServeHTTP \<lparr>ValidatePayload = \<lambda>r secret. if r = secret then Inr r else Inl (LibError ''signature''),
       WebHookType = \<lambda>r. ''workflow_job'', ParseWebHook = \<lambda>ty payload. Inr (WorkflowJobEvent sample_job_event)\<rparr>
      \<lparr>Handler = GithubHook_Handle sample_hook, GetSecretFn = Inr ''key''\<rparr> ''other'')
     (\<lambda>answer s'. answer = Done 400 \<and> s' = start () ()) (start () ())"
proof -
  let ?G = "\<lparr>ValidatePayload = \<lambda>r secret. if r = secret then Inr r else Inl (LibError ''signature''),
       WebHookType = \<lambda>r. ''workflow_job'', ParseWebHook = \<lambda>ty payload. Inr (WorkflowJobEvent sample_job_event)\<rparr>"
  let ?wh = "\<lparr>Handler = GithubHook_Handle sample_hook, GetSecretFn = Inr ''key''\<rparr>"
  let ?srv = "\<lparr>Addr = '':8090'', WebhookPath = ''/webhook'', WebhookSecret = ''key'', mux = None\<rparr>"
  have "WithHandler (GithubHook_Handle sample_hook) ?srv () = (Done (?srv\<lparr>mux := Some [(''/webhook'', ?wh)]\<rparr>), ())"
    by (simp add: WithHandler_def setDefaults_def mux_Handle_def run_andthen)
  from served_request_is_validated [OF this, where m = "[(''/webhook'', ?wh)]" and wh = ?wh and G = ?G
      and r = "''other''" and s = "start () ()"]
  show ?thesis by simp
qed

end
