(* ===== verification/Server_Lifecycle.thy ===== *)
theory Server_Lifecycle
  imports Api_Types
begin

text \<open>
  \<open>Start\<close> of \<open>pkg/github/webhook/server.go\<close> as a state machine: the goroutine of the manager that listens
  and serves, the helper goroutine that waits for the context and shuts the server down, and what
  \<open>net/http\<close> documents of \<open>Serve\<close> and \<open>Shutdown\<close>: \<open>Serve\<close> returns \<open>ErrServerClosed\<close> as soon as the shutdown
  has begun, or another error when accepting fails; \<open>Shutdown\<close> returns when no request is open.
\<close>

section \<open>The machine\<close>

datatype start_pc =
  Listening | Serving | AwaitingIdle | ReturnedError go_error | ReturnedNil

datatype helper_pc = NotStarted | AwaitingContext | ShuttingDown | ChannelClosed

record server_run =
  start_at :: start_pc
  helper_at :: helper_pc
  ctx_done :: bool
  in_shutdown :: bool
  open_requests :: nat

definition initial_run :: "bool \<Rightarrow> server_run" where
  "initial_run cancelled =
     \<lparr>start_at = Listening, helper_at = NotStarted, ctx_done = cancelled, in_shutdown = False, open_requests = 0\<rparr>"

text \<open>The steps of the code.\<close>

inductive start_step :: "server_run \<Rightarrow> server_run \<Rightarrow> bool" where
  listen_fails: "start_at s = Listening \<Longrightarrow> start_step s (s\<lparr>start_at := ReturnedError err\<rparr>)"
| listens: "start_at s = Listening \<Longrightarrow> start_step s (s\<lparr>start_at := Serving, helper_at := AwaitingContext\<rparr>)"
| serve_fails: "start_at s = Serving \<Longrightarrow> \<not> in_shutdown s \<Longrightarrow> start_step s (s\<lparr>start_at := ReturnedError err\<rparr>)"
| serve_closed: "start_at s = Serving \<Longrightarrow> in_shutdown s \<Longrightarrow> start_step s (s\<lparr>start_at := AwaitingIdle\<rparr>)"
| returns: "start_at s = AwaitingIdle \<Longrightarrow> helper_at s = ChannelClosed \<Longrightarrow> start_step s (s\<lparr>start_at := ReturnedNil\<rparr>)"
| shuts_down: "helper_at s = AwaitingContext \<Longrightarrow> ctx_done s \<Longrightarrow>
    start_step s (s\<lparr>helper_at := ShuttingDown, in_shutdown := True\<rparr>)"
| closes_channel: "helper_at s = ShuttingDown \<Longrightarrow> open_requests s = 0 \<Longrightarrow>
    start_step s (s\<lparr>helper_at := ChannelClosed\<rparr>)"

text \<open>The steps of the surroundings: the end of the context, and requests.\<close>

inductive environment_step :: "server_run \<Rightarrow> server_run \<Rightarrow> bool" where
  cancelled: "environment_step s (s\<lparr>ctx_done := True\<rparr>)"
| request: "start_at s = Serving \<Longrightarrow> \<not> in_shutdown s \<Longrightarrow>
    environment_step s (s\<lparr>open_requests := Suc (open_requests s)\<rparr>)"
| answered: "open_requests s = Suc n \<Longrightarrow> environment_step s (s\<lparr>open_requests := n\<rparr>)"

inductive reachable_run :: "server_run \<Rightarrow> bool" where
  initially: "reachable_run (initial_run c)"
| code_step: "reachable_run s \<Longrightarrow> start_step s s' \<Longrightarrow> reachable_run s'"
| other_step: "reachable_run s \<Longrightarrow> environment_step s s' \<Longrightarrow> reachable_run s'"

inductive_cases start_stepE: "start_step s s'"
inductive_cases environment_stepE: "environment_step s s'"

section \<open>The invariant\<close>

definition server_inv :: "server_run \<Rightarrow> bool" where
  "server_inv s \<longleftrightarrow>
     (in_shutdown s \<longleftrightarrow> helper_at s \<in> {ShuttingDown, ChannelClosed}) \<and>
     (in_shutdown s \<longrightarrow> ctx_done s) \<and>
     (helper_at s = ChannelClosed \<longrightarrow> open_requests s = 0) \<and>
     (start_at s \<in> {Serving, AwaitingIdle, ReturnedNil} \<longrightarrow> helper_at s \<noteq> NotStarted) \<and>
     (start_at s = Listening \<longrightarrow> helper_at s = NotStarted) \<and>
     (start_at s = AwaitingIdle \<longrightarrow> in_shutdown s) \<and>
     (start_at s = ReturnedNil \<longrightarrow> helper_at s = ChannelClosed)"

lemma reachable_inv: "reachable_run s \<Longrightarrow> server_inv s"
proof (induction rule: reachable_run.induct)
  case (initially c)
  then show ?case by (simp add: server_inv_def initial_run_def)
next
  case (code_step s s')
  from code_step(2,3) show ?case by (elim start_stepE) (auto simp: server_inv_def)
next
  case (other_step s s')
  from other_step(2,3) show ?case by (elim environment_stepE) (auto simp: server_inv_def)
qed

section \<open>The end\<close>

definition drains_run :: "server_run \<Rightarrow> server_run \<Rightarrow> bool" where
  "drains_run s s' \<longleftrightarrow> start_step s s' \<or> (\<exists>n. open_requests s = Suc n \<and> s' = s\<lparr>open_requests := n\<rparr>)"

lemma drains_code: "start_step s s' \<Longrightarrow> drains_run\<^sup>*\<^sup>* s' t \<Longrightarrow> drains_run\<^sup>*\<^sup>* s t"
  by (rule converse_rtranclp_into_rtranclp) (simp_all add: drains_run_def)

lemma drain_requests: "drains_run\<^sup>*\<^sup>* s (s\<lparr>open_requests := 0\<rparr>)"
proof (induction "open_requests s" arbitrary: s)
  case 0
  then have "s\<lparr>open_requests := 0\<rparr> = s" by simp
  then show ?case by simp
next
  case (Suc n)
  from Suc.hyps(1) [of "s\<lparr>open_requests := n\<rparr>"]
  have "drains_run\<^sup>*\<^sup>* (s\<lparr>open_requests := n\<rparr>) (s\<lparr>open_requests := 0\<rparr>)" by simp
  moreover have "drains_run s (s\<lparr>open_requests := n\<rparr>)" using Suc.hyps(2) [symmetric] by (auto simp: drains_run_def)
  ultimately show ?case by (rule converse_rtranclp_into_rtranclp [rotated])
qed

definition returned :: "server_run \<Rightarrow> bool" where
  "returned s \<longleftrightarrow> start_at s = ReturnedNil \<or> (\<exists>err. start_at s = ReturnedError err)"

lemma ends_from_awaiting:
  assumes "start_at s = AwaitingIdle" "helper_at s = ShuttingDown"
  shows "\<exists>t. drains_run\<^sup>*\<^sup>* s t \<and> start_at t = ReturnedNil"
proof -
  let ?idle = "s\<lparr>open_requests := 0\<rparr>"
  let ?closed = "?idle\<lparr>helper_at := ChannelClosed\<rparr>"
  have "start_step ?idle ?closed" "start_step ?closed (?closed\<lparr>start_at := ReturnedNil\<rparr>)"
    using assms by (auto intro: closes_channel returns)
  from drains_code [OF this(1) drains_code [OF this(2) rtranclp.rtrancl_refl]]
  have "drains_run\<^sup>*\<^sup>* s (?closed\<lparr>start_at := ReturnedNil\<rparr>)" by (rule rtranclp_trans [OF drain_requests])
  then show ?thesis by (intro exI conjI) (assumption, simp)
qed

lemma run_ends:
  assumes "server_inv s" "ctx_done s"
  shows "\<exists>t. drains_run\<^sup>*\<^sup>* s t \<and> returned t"
proof -
  have nil: "returned t" if "start_at t = ReturnedNil" for t using that by (simp add: returned_def)
  have awaiting: "\<exists>t. drains_run\<^sup>*\<^sup>* u t \<and> returned t" if "start_at u = AwaitingIdle" "server_inv u" for u
  proof (cases "helper_at u = ChannelClosed")
    case True
    with that(1) have "start_step u (u\<lparr>start_at := ReturnedNil\<rparr>)" by (rule returns)
    then show ?thesis using drains_code [OF _ rtranclp.rtrancl_refl] nil by fastforce
  next
    case False
    with that have "helper_at u = ShuttingDown" by (auto simp: server_inv_def)
    with that(1) show ?thesis using ends_from_awaiting nil by blast
  qed
  have serving: "\<exists>t. drains_run\<^sup>*\<^sup>* u t \<and> returned t"
    if u: "start_at u = Serving" "server_inv u" "ctx_done u" for u
  proof -
    have shut: "\<exists>t. drains_run\<^sup>*\<^sup>* v t \<and> returned t" if "start_at v = Serving" "server_inv v" "in_shutdown v" for v
    proof -
      have "start_step v (v\<lparr>start_at := AwaitingIdle\<rparr>)" using that by (intro serve_closed)
      moreover have "server_inv (v\<lparr>start_at := AwaitingIdle\<rparr>)" using that by (auto simp: server_inv_def)
      ultimately show ?thesis using awaiting [of "v\<lparr>start_at := AwaitingIdle\<rparr>"] drains_code by fastforce
    qed
    show ?thesis
    proof (cases "in_shutdown u")
      case True
      with shut u show ?thesis by blast
    next
      case False
      let ?v = "u\<lparr>helper_at := ShuttingDown, in_shutdown := True\<rparr>"
      have "helper_at u = AwaitingContext" using False u by (cases "helper_at u") (auto simp: server_inv_def)
      then have "start_step u ?v" using u(3) by (rule shuts_down)
      moreover have "server_inv ?v" using u False by (auto simp: server_inv_def)
      ultimately show ?thesis using shut [of ?v] u(1) drains_code by fastforce
    qed
  qed
  show ?thesis
  proof (cases "start_at s")
    case Listening
    let ?v = "s\<lparr>start_at := Serving, helper_at := AwaitingContext\<rparr>"
    have "start_step s ?v" using Listening by (rule listens)
    moreover have "server_inv ?v" using assms(1) Listening by (auto simp: server_inv_def)
    ultimately show ?thesis using serving [of ?v] assms(2) drains_code by fastforce
  next
    case Serving
    with serving assms show ?thesis by blast
  next
    case AwaitingIdle
    with awaiting assms show ?thesis by blast
  qed (auto simp: returned_def)
qed

text \<open>C20. \<open>Start\<close> returns nil only after the context has ended, the shutdown is complete and no request is open
  any more, so no handler is cut off.  And once the context has ended, whatever has happened before,
  the code can run to its return as soon as the open requests are answered: it waits for nothing else.\<close>

theorem server_ends_gracefully:
  assumes "reachable_run s"
  shows "(start_at s = ReturnedNil \<longrightarrow> ctx_done s \<and> open_requests s = 0 \<and> helper_at s = ChannelClosed) \<and>
    (ctx_done s \<longrightarrow> (\<exists>t. drains_run\<^sup>*\<^sup>* s t \<and> returned t)) \<and>
    (ctx_done s \<and> \<not> returned s \<and> (\<forall>t. \<not> start_step s t) \<longrightarrow> 0 < open_requests s \<and> helper_at s = ShuttingDown)"
proof (intro conjI impI)
  have inv: "server_inv s" using assms by (rule reachable_inv)
  then show "ctx_done s" "open_requests s = 0" "helper_at s = ChannelClosed" if "start_at s = ReturnedNil"
    using that by (auto simp: server_inv_def)
  show "\<exists>t. drains_run\<^sup>*\<^sup>* s t \<and> returned t" if "ctx_done s" using run_ends [OF inv that] .
  assume stuck: "ctx_done s \<and> \<not> returned s \<and> (\<forall>t. \<not> start_step s t)"
  then have no: "\<not> start_step s t" for t by blast
  have "start_at s = AwaitingIdle"
    using stuck no listens [of s] serve_closed [of s] serve_fails [of s] by (cases "start_at s") (auto simp: returned_def)
  moreover from this have "helper_at s = ShuttingDown"
    using inv no returns [of s] by (cases "helper_at s") (auto simp: server_inv_def)
  moreover from this have "open_requests s \<noteq> 0" using no closes_channel [of s] by blast
  ultimately show "0 < open_requests s" "helper_at s = ShuttingDown" by simp_all
qed

text \<open>A server whose context ended while a request was open.\<close>

definition sample_draining :: server_run where
  "sample_draining =
     \<lparr>start_at = AwaitingIdle, helper_at = ShuttingDown, ctx_done = True, in_shutdown = True, open_requests = 1\<rparr>"

lemma sample_draining_reachable: "reachable_run sample_draining"
proof -
  let ?s = "\<lparr>start_at = Serving, helper_at = AwaitingContext, ctx_done = False, in_shutdown = False, open_requests = 0\<rparr>"
  have "start_step (initial_run False) ?s" using listens [of "initial_run False"] by (simp add: initial_run_def)
  then have "reachable_run ?s" by (rule code_step [OF initially])
  moreover have "environment_step ?s (?s\<lparr>open_requests := 1\<rparr>)" using request [of ?s] by simp
  ultimately have "reachable_run (?s\<lparr>open_requests := 1\<rparr>)" by (rule other_step)
  then have "reachable_run (?s\<lparr>open_requests := 1, ctx_done := True\<rparr>)" using other_step cancelled by fastforce
  then have "reachable_run (?s\<lparr>open_requests := 1, ctx_done := True, helper_at := ShuttingDown, in_shutdown := True\<rparr>)"
    using code_step [OF _ shuts_down [of "?s\<lparr>open_requests := 1, ctx_done := True\<rparr>"]] by simp
  then show ?thesis
    using code_step [OF _ serve_closed [of "?s\<lparr>open_requests := 1, ctx_done := True, helper_at := ShuttingDown, in_shutdown := True\<rparr>"]]
    by (simp add: sample_draining_def)
qed

lemma server_ends_gracefully_witness: "\<exists>t. drains_run\<^sup>*\<^sup>* sample_draining t \<and> returned t"
  using server_ends_gracefully [OF sample_draining_reachable] by (simp add: sample_draining_def)

end
