(* ===== verification/Metric_Properties.thy ===== *)
theory Metric_Properties
  imports Metrics Samples
begin

text \<open>
  The properties of the metrics: when a scrape panics, and how exact the gauges of a runner set are.
\<close>

section \<open>What Prometheus accepts\<close>

definition valid_label :: "string \<Rightarrow> bool" where
  "valid_label s \<longleftrightarrow> (case s of [] \<Rightarrow> False | c # cs \<Rightarrow> (is_letter c \<or> c = CHR ''_'') \<and> list_all label_char cs) \<and>
     \<not> HasPrefix s ''__''"

definition valid_metric_name :: "string \<Rightarrow> bool" where
  "valid_metric_name s \<longleftrightarrow> (case s of [] \<Rightarrow> False | c # cs \<Rightarrow>
     (is_letter c \<or> c \<in> set ''_:'') \<and> list_all (\<lambda>c. label_char c \<or> c = CHR '':'') cs)"

definition acceptable :: "string list \<Rightarrow> string list \<Rightarrow> bool" where
  "acceptable ks vs \<longleftrightarrow> distinct ks \<and> list_all valid_label ks \<and> length ks = length vs \<and>
     list_all utf8_ValidString vs"

text \<open>The documented behaviour of the client library and of \<open>meta.ExtractList\<close>: a constant metric with a valid
  name is refused exactly when its labels are not acceptable.\<close>

definition documented :: "'m prometheus \<Rightarrow> bool" where
  "documented P \<longleftrightarrow>
     (\<forall>a b c. a \<noteq> [] \<and> b \<noteq> [] \<and> c \<noteq> [] \<longrightarrow> BuildFQName P a b c = a @ ''_'' @ b @ ''_'' @ c) \<and>
     (\<forall>name help ks ty v vs. valid_metric_name name \<and> utf8_ValidString help \<longrightarrow>
        (MustNewConstMetric P name help ks ty v vs = None \<longleftrightarrow> \<not> acceptable ks vs)) \<and>
     (\<forall>objs. meta_ExtractList P objs = Inr objs)"

section \<open>Loops that only panic or go on\<close>

lemma for_each_panics:
  assumes "\<And>x a s. x \<in> set xs \<Longrightarrow> if bad x then body x a s = (Panicked p, s) else \<exists>b. body x a s = (Done b, s)"
  shows "if \<exists>x\<in>set xs. bad x then for_each xs body a s = (Panicked p, s)
    else \<exists>b. for_each xs body a s = (Done b, s)"
  using assms
proof (induction xs arbitrary: a)
  case (Cons x xs)
  show ?case
  proof (cases "bad x")
    case True
    with Cons.prems [of x a s] show ?thesis by (simp add: run_andthen)
  next
    case False
    with Cons.prems [of x a s] obtain b where b: "body x a s = (Done b, s)" by auto
    have "if \<exists>x\<in>set xs. bad x then for_each xs body b s = (Panicked p, s)
        else \<exists>b'. for_each xs body b s = (Done b', s)"
      by (rule Cons.IH) (use Cons.prems in simp)
    with False b show ?thesis by (auto simp: run_andthen split: if_splits)
  qed
qed simp

section \<open>The contract of a provider\<close>

text \<open>For the objects it lists a provider gives its series; they are acceptable unless the object collides.\<close>

definition refuses :: "metric_family \<Rightarrow> kobject \<Rightarrow> bool" where
  "refuses fam obj \<longleftrightarrow> (\<exists>ms. MetricsFunc fam obj = Done ms \<and> (\<exists>m\<in>set ms. \<not> acceptable (LabelKeys m) (LabelValues m)))"

locale metrics_provider =
  fixes namespace subsystem :: string
    and families :: "metric_family list"
    and item collides :: "kobject \<Rightarrow> bool"
  assumes names: "fam \<in> set families \<Longrightarrow> FamilyName fam \<noteq> [] \<and> utf8_ValidString (FamilyHelp fam) \<and>
      valid_metric_name (namespace @ ''_'' @ subsystem @ ''_'' @ FamilyName fam)"
    and subsystem: "namespace \<noteq> [] \<and> subsystem \<noteq> []"
    and series: "item obj \<Longrightarrow> fam \<in> set families \<Longrightarrow> \<exists>ms. MetricsFunc fam obj = Done ms"
    and refused: "item obj \<Longrightarrow> (\<exists>fam\<in>set families. refuses fam obj) \<longleftrightarrow> collides obj"
begin

lemma scrape_object:
  assumes "documented P" "item obj" "fam \<in> set families"
  shows "if refuses fam obj
    then scrape_object P (BuildFQName P namespace subsystem (FamilyName fam)) fam obj a s = (Panicked BadMetric, s)
    else \<exists>b. scrape_object P (BuildFQName P namespace subsystem (FamilyName fam)) fam obj a s = (Done b, s :: 's)"
proof -
  define name where "name = namespace @ ''_'' @ subsystem @ ''_'' @ FamilyName fam"
  obtain ms where ms: "MetricsFunc fam obj = Done ms" using series assms(2,3) by blast
  have fq: "BuildFQName P namespace subsystem (FamilyName fam) = name"
    using assms(1) names [OF assms(3)] subsystem unfolding documented_def name_def by blast
  have new: "MustNewConstMetric P name (FamilyHelp fam) ks ty v vs = None \<longleftrightarrow> \<not> acceptable ks vs" for ks ty v vs
    using assms(1) names [OF assms(3)] unfolding documented_def name_def by blast
  have "if \<not> acceptable (LabelKeys m) (LabelValues m)
      then scrape_metric P name fam m a t = (Panicked BadMetric, t)
      else \<exists>b. scrape_metric P name fam m a t = (Done b, t)" for m a and t :: 's
    using new [of "LabelKeys m" "FamilyType fam" "Value m" "LabelValues m"]
    by (auto simp: scrape_metric_def split: option.split)
  then have "if \<exists>m\<in>set ms. \<not> acceptable (LabelKeys m) (LabelValues m)
      then for_each ms (scrape_metric P name fam) a s = (Panicked BadMetric, s)
      else \<exists>b. for_each ms (scrape_metric P name fam) a s = (Done b, s)"
    by (rule for_each_panics)
  then show ?thesis
    by (simp add: scrape_object_def ms fq outcome_prog_def run_andthen refuses_def)
qed

lemma scrape_families:
  assumes "documented P" "ProviderNamespace p = namespace" "ProviderSubsystem p = subsystem"
    "\<And>obj. obj \<in> set objs \<Longrightarrow> item obj"
  shows "if \<exists>obj\<in>set objs. collides obj
    then for_each families (scrape_family P p objs) [] s = (Panicked BadMetric, s)
    else \<exists>ms. for_each families (scrape_family P p objs) [] s = (Done ms, s)"
proof -
  have "if \<exists>obj\<in>set objs. refuses fam obj
      then scrape_family P p objs fam a t = (Panicked BadMetric, t)
      else \<exists>b. scrape_family P p objs fam a t = (Done b, t)" if "fam \<in> set families" for fam a t
    unfolding scrape_family_def assms(2,3)
    by (rule for_each_panics) (rule scrape_object [OF assms(1) assms(4) that])
  then have "if \<exists>fam\<in>set families. \<exists>obj\<in>set objs. refuses fam obj
      then for_each families (scrape_family P p objs) [] s = (Panicked BadMetric, s)
      else \<exists>b. for_each families (scrape_family P p objs) [] s = (Done b, s)"
    by (rule for_each_panics)
  moreover have "(\<exists>fam\<in>set families. \<exists>obj\<in>set objs. refuses fam obj) \<longleftrightarrow> (\<exists>obj\<in>set objs. collides obj)"
    using refused assms(4) by blast
  ultimately show ?thesis by simp
qed

end

section \<open>Label names are valid\<close>

lemma sanitize_chars: "list_all label_char (sanitizeLabelName s)"
  by (induction s rule: sanitizeLabelName.induct) (auto simp: label_char_def)

lemma snake_chars: "list_all label_char s \<Longrightarrow> list_all label_char (snake s)"
  by (induction s rule: snake.induct) (auto simp: label_char_def)

lemma lower_label_char: "label_char c \<Longrightarrow> label_char (lower_char c)"
  by (auto simp: label_char_def lower_char_def is_letter_def is_decimal_def between_def)

lemma normalized_valid: "valid_label (normalizeLabelName ''label'' s)"
proof -
  have "list_all label_char (ToLower (snake (sanitizeLabelName s)))"
    using snake_chars [OF sanitize_chars [of s]] lower_label_char by (auto simp: ToLower_def list_all_iff)
  then show ?thesis
    by (simp add: valid_label_def normalizeLabelName_def HasPrefix_def label_char_def is_letter_def between_def)
qed

lemma normalized_not_own:
  "normalizeLabelName ''label'' s \<noteq> ''namespace''" "normalizeLabelName ''label'' s \<noteq> ''runner''"
  "normalizeLabelName ''label'' s \<noteq> ''runnerset''"
  by (simp_all add: normalizeLabelName_def)


section \<open>The two providers\<close>

definition utf8_meta :: "object_meta \<Rightarrow> bool" where
  "utf8_meta m \<longleftrightarrow> utf8_ValidString (Name m) \<and> utf8_ValidString (Namespace m) \<and>
     list_all (\<lambda>k. utf8_ValidString (map_index (Labels m) k)) (map_keys (Labels m))"

definition utf8_conditions :: "condition list \<Rightarrow> bool" where
  "utf8_conditions cs \<longleftrightarrow> list_all (\<lambda>c. utf8_ValidString (Cond_Type c)) cs"

definition utf8_runner :: "kobject \<Rightarrow> bool" where
  "utf8_runner obj \<longleftrightarrow> (case obj of ORunner r \<Rightarrow> utf8_meta (R_Meta r) \<and> utf8_conditions (Conditions (R_Status r)) | _ \<Rightarrow> False)"

definition utf8_runnerset :: "kobject \<Rightarrow> bool" where
  "utf8_runnerset obj \<longleftrightarrow> (case obj of ORunnerSet rs \<Rightarrow> utf8_meta (S_Meta rs) \<and> utf8_conditions (S_Conditions (S_Status rs)) | _ \<Rightarrow> False)"

text \<open>Two label keys that become the same label name.\<close>

definition colliding :: "object_meta \<Rightarrow> bool" where
  "colliding m \<longleftrightarrow> (\<exists>k k'. k \<noteq> k' \<and> map_lookup (Labels m) k \<noteq> None \<and> map_lookup (Labels m) k' \<noteq> None \<and>
     normalizeLabelName ''label'' k = normalizeLabelName ''label'' k')"

lemma map_keys: "distinct (map_keys m)" "k \<in> set (map_keys m) \<longleftrightarrow> map_lookup m k \<noteq> None"
  by (auto simp: map_keys_def map_lookup_def sorted_list_of_fset.rep_eq fmlookup_dom_iff split: option.split)

lemma colliding_iff: "colliding m \<longleftrightarrow> \<not> distinct (map (normalizeLabelName ''label'') (map_keys (Labels m)))"
  unfolding colliding_def distinct_map inj_on_def using map_keys by metis

definition colliding_object :: "kobject \<Rightarrow> bool" where
  "colliding_object obj \<longleftrightarrow> (case obj of ORunner r \<Rightarrow> colliding (R_Meta r) | ORunnerSet rs \<Rightarrow> colliding (S_Meta rs) | _ \<Rightarrow> False)"

lemma own_labels_valid: "valid_label ''namespace''" "valid_label ''runner''" "valid_label ''runnerset''"
  "valid_label ''phase''" "valid_label ''condition''" "valid_label ''status''"
  by (simp_all add: valid_label_def label_char_def is_letter_def between_def HasPrefix_def)

lemma constant_texts_valid:
  "utf8_ValidString RunnerPendingPhase" "utf8_ValidString RunnerIdlePhase" "utf8_ValidString RunnerActivePhase"
  "utf8_ValidString RunnerCompletePhase" "utf8_ValidString (ToLower ConditionTrue)"
  "utf8_ValidString (ToLower ConditionFalse)" "utf8_ValidString (ToLower ConditionUnknown)"
  by code_simp+

lemma labels_acceptable:
  assumes "utf8_meta m" "k \<in> {''runner'', ''runnerset''}"
  shows "acceptable ([''namespace'', k] @ map (normalizeLabelName ''label'') (map_keys (Labels m)))
      ([Namespace m, Name m] @ map (map_index (Labels m)) (map_keys (Labels m))) \<longleftrightarrow> \<not> colliding m"
  using assms
  by (auto simp: acceptable_def utf8_meta_def own_labels_valid normalized_valid normalized_not_own [symmetric] list_all_iff colliding_iff distinct_map)

lemma metrics_acceptable:
  assumes "utf8_meta m" "k \<in> {''runner'', ''runnerset''}"
  shows "acceptable [''namespace'', k] [Namespace m, Name m]"
    and "s \<in> set [RunnerPendingPhase, RunnerIdlePhase, RunnerActivePhase, RunnerCompletePhase] \<Longrightarrow>
      acceptable [''namespace'', k, ''phase''] [Namespace m, Name m, s]"
    and "utf8_ValidString t \<Longrightarrow> s \<in> set conditionStatuses \<Longrightarrow>
      acceptable [''namespace'', k, ''condition'', ''status''] [Namespace m, Name m, t, ToLower s]"
  using assms
  by (auto simp: acceptable_def utf8_meta_def own_labels_valid constant_texts_valid conditionStatuses_def)

text \<open>An unlabelled series of a family.\<close>

definition plain_metrics :: "metric list \<Rightarrow> bool" where
  "plain_metrics ms \<longleftrightarrow> (\<forall>m\<in>set ms. LabelKeys m = [] \<and> LabelValues m = [])"

lemma plain_series:
  "plain_metrics (created_metrics m)" "plain_metrics (spec_runners_metrics rs)"
  "plain_metrics (status_count_metrics f rs)" "plain_metrics (active_ratio_metrics beyond rs)"
  by (auto simp: plain_metrics_def created_metrics_def spec_runners_metrics_def status_count_metrics_def
      active_ratio_metrics_def unlabelled_def Let_def split: option.split)

lemma add_labels_fields [simp]:
  "LabelKeys (add_labels ks vs m) = ks @ LabelKeys m" "LabelValues (add_labels ks vs m) = vs @ LabelValues m"
  by (simp_all add: add_labels_def)

lemma conditions_series:
  assumes "m \<in> set (MetaConditionsMetrics cs)" "utf8_conditions cs"
  obtains t s where "LabelKeys m = [''condition'', ''status'']" "LabelValues m = [t, ToLower s]"
    "utf8_ValidString t" "s \<in> set conditionStatuses"
  using assms by (auto simp: MetaConditionsMetrics_def utf8_conditions_def list_all_iff)

lemma phase_series:
  assumes "m \<in> set (phase_metrics r)"
  obtains s where "LabelKeys m = [''phase'']" "LabelValues m = [s]"
    "s \<in> set [RunnerPendingPhase, RunnerIdlePhase, RunnerActivePhase, RunnerCompletePhase]"
  using assms by (auto simp: phase_metrics_def Let_def split: if_splits)

definition all_acceptable :: "string \<Rightarrow> object_meta \<Rightarrow> metric list \<Rightarrow> bool" where
  "all_acceptable k m ms \<longleftrightarrow>
     (\<forall>x\<in>set ms. acceptable ([''namespace'', k] @ LabelKeys x) ([Namespace m, Name m] @ LabelValues x))"

lemma all_acceptable:
  assumes "utf8_meta m" "k \<in> {''runner'', ''runnerset''}"
  shows "plain_metrics ms \<Longrightarrow> all_acceptable k m ms"
    and "utf8_conditions cs \<Longrightarrow> all_acceptable k m (MetaConditionsMetrics cs)"
    and "all_acceptable k m (phase_metrics r)"
    and "all_acceptable k m (labels_metrics m) \<longleftrightarrow> \<not> colliding m"
proof -
  note ok = metrics_acceptable [OF assms]
  show "plain_metrics ms \<Longrightarrow> all_acceptable k m ms"
    using ok(1) by (auto simp: all_acceptable_def plain_metrics_def)
  show "all_acceptable k m (MetaConditionsMetrics cs)" if cs: "utf8_conditions cs"
    unfolding all_acceptable_def
  proof
    fix x assume "x \<in> set (MetaConditionsMetrics cs)"
    from this cs obtain t s where "LabelKeys x = [''condition'', ''status'']" "LabelValues x = [t, ToLower s]"
      "utf8_ValidString t" "s \<in> set conditionStatuses" by (rule conditions_series)
    with ok(3) show "acceptable ([''namespace'', k] @ LabelKeys x) ([Namespace m, Name m] @ LabelValues x)" by simp
  qed
  show "all_acceptable k m (phase_metrics r)"
    unfolding all_acceptable_def
  proof
    fix x assume "x \<in> set (phase_metrics r)"
    from this obtain s where "LabelKeys x = [''phase'']" "LabelValues x = [s]"
      "s \<in> set [RunnerPendingPhase, RunnerIdlePhase, RunnerActivePhase, RunnerCompletePhase]" by (rule phase_series)
    with ok(2) [of s] show "acceptable ([''namespace'', k] @ LabelKeys x) ([Namespace m, Name m] @ LabelValues x)"
      by (simp only: append.simps)
  qed
  show "all_acceptable k m (labels_metrics m) \<longleftrightarrow> \<not> colliding m"
    using labels_acceptable [OF assms] by (simp add: all_acceptable_def labels_metrics_def MapToPrometheusLabels_def)
qed

lemma refuses_runner:
  "MetricsFunc fam = RunnerProvider_WrapMetricsFunc fn \<Longrightarrow>
    refuses fam (ORunner r) \<longleftrightarrow> \<not> all_acceptable ''runner'' (R_Meta r) (fn r)"
  by (auto simp: refuses_def RunnerProvider_WrapMetricsFunc_def all_acceptable_def)

lemma refuses_runnerset:
  "MetricsFunc fam = RunnerSetProvider_WrapMetricsFunc fn \<Longrightarrow>
    refuses fam (ORunnerSet rs) \<longleftrightarrow> \<not> all_acceptable ''runnerset'' (S_Meta rs) (fn rs)"
  by (auto simp: refuses_def RunnerSetProvider_WrapMetricsFunc_def all_acceptable_def)

definition family_names_ok :: "string \<Rightarrow> metric_family \<Rightarrow> bool" where
  "family_names_ok sub fam \<longleftrightarrow> FamilyName fam \<noteq> [] \<and> utf8_ValidString (FamilyHelp fam) \<and>
     valid_metric_name (''octorun'' @ ''_'' @ sub @ ''_'' @ FamilyName fam)"

lemma families_named:
  "list_all (family_names_ok ''runner'') RunnerProvider_ProvideMetricFamily"
  "list_all (family_names_ok ''runnerset'') (RunnerSetProvider_ProvideMetricFamily beyond)"
  by code_simp+

interpretation runner_metrics: metrics_provider "''octorun''" "''runner''" RunnerProvider_ProvideMetricFamily
  utf8_runner colliding_object
proof unfold_locales
  show "FamilyName fam \<noteq> [] \<and> utf8_ValidString (FamilyHelp fam) \<and>
      valid_metric_name (''octorun'' @ ''_'' @ ''runner'' @ ''_'' @ FamilyName fam)"
    if "fam \<in> set RunnerProvider_ProvideMetricFamily" for fam
    using families_named(1) that unfolding family_names_ok_def [symmetric] list_all_iff by blast
  show "(''octorun'' :: string) \<noteq> [] \<and> (''runner'' :: string) \<noteq> []" by simp
  fix obj assume obj: "utf8_runner obj"
  then obtain r where r: "obj = ORunner r" "utf8_meta (R_Meta r)" "utf8_conditions (Conditions (R_Status r))"
    by (auto simp: utf8_runner_def split: kobject.splits)
  show "\<exists>ms. MetricsFunc fam obj = Done ms" if "fam \<in> set RunnerProvider_ProvideMetricFamily" for fam
    using that unfolding r(1) by (auto simp: RunnerProvider_ProvideMetricFamily_def RunnerProvider_WrapMetricsFunc_def)
  note ok = all_acceptable [OF r(2), of "''runner''"]
  show "(\<exists>fam\<in>set RunnerProvider_ProvideMetricFamily. refuses fam obj) \<longleftrightarrow> colliding_object obj"
    unfolding r(1) by (simp add: RunnerProvider_ProvideMetricFamily_def refuses_runner ok plain_series r(3) colliding_object_def)
qed

interpretation runnerset_metrics: metrics_provider "''octorun''" "''runnerset''"
  "RunnerSetProvider_ProvideMetricFamily beyond" utf8_runnerset colliding_object
proof unfold_locales
  show "FamilyName fam \<noteq> [] \<and> utf8_ValidString (FamilyHelp fam) \<and>
      valid_metric_name (''octorun'' @ ''_'' @ ''runnerset'' @ ''_'' @ FamilyName fam)"
    if "fam \<in> set (RunnerSetProvider_ProvideMetricFamily beyond)" for fam
    using families_named(2) that unfolding family_names_ok_def [symmetric] list_all_iff by blast
  show "(''octorun'' :: string) \<noteq> [] \<and> (''runnerset'' :: string) \<noteq> []" by simp
  fix obj assume obj: "utf8_runnerset obj"
  then obtain rs where rs: "obj = ORunnerSet rs" "utf8_meta (S_Meta rs)" "utf8_conditions (S_Conditions (S_Status rs))"
    by (auto simp: utf8_runnerset_def split: kobject.splits)
  show "\<exists>ms. MetricsFunc fam obj = Done ms" if "fam \<in> set (RunnerSetProvider_ProvideMetricFamily beyond)" for fam
    using that unfolding rs(1)
    by (auto simp: RunnerSetProvider_ProvideMetricFamily_def RunnerSetProvider_WrapMetricsFunc_def)
  note ok = all_acceptable [OF rs(2), of "''runnerset''"]
  show "(\<exists>fam\<in>set (RunnerSetProvider_ProvideMetricFamily beyond). refuses fam obj) \<longleftrightarrow> colliding_object obj"
    unfolding rs(1)
    by (simp add: RunnerSetProvider_ProvideMetricFamily_def refuses_runnerset ok plain_series rs(3) colliding_object_def)
qed

section \<open>A scrape\<close>

lemma Scrape_runners:
  assumes "documented P" "ListAll (RunnersOf c) Everything (world s) = (Inr xs, w)"
    "\<And>x. x \<in> set xs \<Longrightarrow> utf8_runner (ORunner x)"
  shows "if \<exists>x\<in>set xs. colliding (R_Meta x)
    then fst (Scrape P c RunnerProvider (s :: ('w, 'v) st)) = Panicked BadMetric
    else \<exists>ms. Scrape P c RunnerProvider s = (Done ms, s\<lparr>world := w, trace := trace s @ [ListC KRunner Everything]\<rparr>)"
proof -
  have list: "meta_ExtractList P objs = Inr objs" for objs using assms(1) by (simp add: documented_def)
  have "if \<exists>obj\<in>set (map ORunner xs). colliding_object obj
      then for_each RunnerProvider_ProvideMetricFamily (scrape_family P RunnerProvider (map ORunner xs)) [] t = (Panicked BadMetric, t)
      else \<exists>ms. for_each RunnerProvider_ProvideMetricFamily (scrape_family P RunnerProvider (map ORunner xs)) [] t = (Done ms, t)"
    for t :: "('w, 'v) st"
    by (rule runner_metrics.scrape_families [OF assms(1)]) (use assms(3) in \<open>auto simp: RunnerProvider_def\<close>)
  from this [of "s\<lparr>world := w, trace := trace s @ [ListC KRunner Everything]\<rparr>"] show ?thesis
    by (auto simp: Scrape_def RunnerProvider_def RunnerProvider_Lister_def client_List_def ext_def run_andthen
        assms(2) list_as_def list colliding_object_def split: if_splits)
qed

lemma Scrape_runnersets:
  assumes "documented P" "ListAll (RunnerSetsOf c) Everything (world s) = (Inr ys, w)"
    "\<And>y. y \<in> set ys \<Longrightarrow> utf8_runnerset (ORunnerSet y)"
  shows "if \<exists>y\<in>set ys. colliding (S_Meta y)
    then fst (Scrape P c (RunnerSetProvider beyond) (s :: ('w, 'v) st)) = Panicked BadMetric
    else \<exists>ms. Scrape P c (RunnerSetProvider beyond) s =
      (Done ms, s\<lparr>world := w, trace := trace s @ [ListC KRunnerSet Everything]\<rparr>)"
proof -
  have list: "meta_ExtractList P objs = Inr objs" for objs using assms(1) by (simp add: documented_def)
  have "if \<exists>obj\<in>set (map ORunnerSet ys). colliding_object obj
      then for_each (RunnerSetProvider_ProvideMetricFamily beyond)
        (scrape_family P (RunnerSetProvider beyond) (map ORunnerSet ys)) [] t = (Panicked BadMetric, t)
      else \<exists>ms. for_each (RunnerSetProvider_ProvideMetricFamily beyond)
        (scrape_family P (RunnerSetProvider beyond) (map ORunnerSet ys)) [] t = (Done ms, t)"
    for t :: "('w, 'v) st"
    by (rule runnerset_metrics.scrape_families [OF assms(1)]) (use assms(3) in \<open>auto simp: RunnerSetProvider_def\<close>)
  from this [of "s\<lparr>world := w, trace := trace s @ [ListC KRunnerSet Everything]\<rparr>"] show ?thesis
    by (auto simp: Scrape_def RunnerSetProvider_def RunnerSetProvider_Lister_def client_List_def ext_def run_andthen
        assms(2) list_as_def list colliding_object_def split: if_splits)
qed

text \<open>C19. A scrape panics exactly when a runner or a runner set carries two labels whose keys become the same
  label name, such as \<open>a.b\<close> and \<open>a-b\<close>; nothing else that the objects hold can make it panic, whatever
  their labels, phases, conditions and counts are.\<close>

theorem scrape_panics_on_colliding_labels:
  assumes "documented P"
    and "ListAll (RunnersOf cache) Everything (world s) = (Inr xs, w)" "ListAll (RunnerSetsOf cache) Everything w = (Inr ys, w')"
    and "\<And>x. x \<in> set xs \<Longrightarrow> utf8_runner (ORunner x)" "\<And>y. y \<in> set ys \<Longrightarrow> utf8_runnerset (ORunnerSet y)"
  shows "if (\<exists>x\<in>set xs. colliding (R_Meta x)) \<or> (\<exists>y\<in>set ys. colliding (S_Meta y))
    then fst (Collect P (NewCollector api cache [RunnerProvider, RunnerSetProvider beyond]) s) = Panicked BadMetric
    else \<exists>ms. fst (Collect P (NewCollector api cache [RunnerProvider, RunnerSetProvider beyond]) s) = Done ms"
proof (cases "\<exists>x\<in>set xs. colliding (R_Meta x)")
  case True
  with Scrape_runners [OF assms(1,2,4)] have "fst (Scrape P cache RunnerProvider s) = Panicked BadMetric" by simp
  with True show ?thesis
    by (auto simp: Collect_def NewCollector_def run_andthen split: prod.splits outcome.splits)
next
  case False
  define t where "t = s\<lparr>world := w, trace := trace s @ [ListC KRunner Everything]\<rparr>"
  from False Scrape_runners [OF assms(1,2,4)] obtain ms where ms: "Scrape P cache RunnerProvider s = (Done ms, t)"
    by (auto simp: t_def)
  have "ListAll (RunnerSetsOf cache) Everything (world t) = (Inr ys, w')" using assms(3) by (simp add: t_def)
  from Scrape_runnersets [OF assms(1) this assms(5), of beyond]
  have "if \<exists>y\<in>set ys. colliding (S_Meta y)
      then fst (Scrape P cache (RunnerSetProvider beyond) t) = Panicked BadMetric
      else \<exists>ms. fst (Scrape P cache (RunnerSetProvider beyond) t) = Done ms"
    by (cases "\<exists>y\<in>set ys. colliding (S_Meta y)") auto
  with False ms show ?thesis
    by (cases "Scrape P cache (RunnerSetProvider beyond) t")
      (auto simp: Collect_def NewCollector_def run_andthen split: if_splits)
qed

definition sample_prometheus :: "string prometheus" where
  "sample_prometheus =
     \<lparr>BuildFQName = (\<lambda>a b c. a @ ''_'' @ b @ ''_'' @ c),
      MustNewConstMetric = (\<lambda>name help ks ty v vs.
        if valid_metric_name name \<and> utf8_ValidString help \<and> acceptable ks vs then Some name else None),
      meta_ExtractList = Inr\<rparr>"

definition sample_labelled :: runner where
  "sample_labelled = (sample_runner None [] RunnerIdlePhase)\<lparr>R_Meta := sample_meta\<lparr>Labels :=
     Some (fmupd ''a.b'' ''1'' (fmupd ''a-b'' ''2'' fmempty))\<rparr>\<rparr>"

lemma scrape_panics_on_colliding_labels_witness:
  "fst (Collect sample_prometheus
     (NewCollector (sample_cluster sample_labelled (sample_secret None None) sample_ready_pod)
       ((sample_cluster sample_labelled (sample_secret None None) sample_ready_pod)
          \<lparr>RunnersOf := sample_resource sample_labelled [sample_labelled], RunnerSetsOf := sample_resource (sample_runnerset 1) []\<rparr>)
       [RunnerProvider, RunnerSetProvider (\<lambda>x. 0)]) (start () ())) = Panicked BadMetric"
proof -
  have norm: "normalizeLabelName ''label'' ''a.b'' = ''label_a_b''" "normalizeLabelName ''label'' ''a-b'' = ''label_a_b''"
    by code_simp+
  have collide: "colliding (R_Meta sample_labelled)"
    unfolding colliding_def
    by (intro exI [of _ "''a.b''"] exI [of _ "''a-b''"]) (simp add: norm sample_labelled_def)
  have keys: "k \<in> {''a.b'', ''a-b''}" if "k \<in> set (map_keys (Labels (R_Meta sample_labelled)))" for k
    using that by (auto simp: map_keys sample_labelled_def split: if_splits)
  have texts: "utf8_ValidString ''1''" "utf8_ValidString ''2''" "utf8_ValidString ''r1''" "utf8_ValidString ''ns''"
    by code_simp+
  have "utf8_runner (ORunner sample_labelled)"
    using keys texts
    by (auto simp: utf8_runner_def utf8_meta_def utf8_conditions_def list_all_iff sample_labelled_def sample_meta_def
        sample_runner_def map_index_def)
  moreover have "documented sample_prometheus" by (simp add: documented_def sample_prometheus_def)
  ultimately show ?thesis
    using collide scrape_panics_on_colliding_labels [where P = sample_prometheus and xs = "[sample_labelled]" and ys = "[]"
        and s = "start () ()" and w = "()" and w' = "()"
        and cache = "(sample_cluster sample_labelled (sample_secret None None) sample_ready_pod)
          \<lparr>RunnersOf := sample_resource sample_labelled [sample_labelled], RunnerSetsOf := sample_resource (sample_runnerset 1) []\<rparr>"
        and beyond = "\<lambda>x. 0"]
    by (simp add: sample_resource_def start_def)
qed

section \<open>How exact the gauges are\<close>

lemma f64_of_int_exact:
  assumes "\<bar>i\<bar> < 2 ^ 53"
  shows "f64_of_int i = Finite (of_int i)"
proof -
  have pos: "round_positive (of_int j) = of_int j" if "0 < j" "j < 2 ^ 53" for j
  proof -
    define e where "e = exponent (of_int j)"
    have e: "pow2 e \<le> of_int j" "(of_int j :: rat) < pow2 (e + 1)"
      using exponent_bounds [of "of_int j"] that by (simp_all add: e_def)
    have "e \<le> 52"
    proof (rule ccontr)
      assume "\<not> e \<le> 52"
      then have "53 \<le> nat e" "0 \<le> e" by simp_all
      then have "(2 :: rat) ^ 53 \<le> pow2 e" using power_increasing [of 53 "nat e" "2 :: rat"] by (simp add: pow2_def)
      with e(1) have "(2 :: rat) ^ 53 \<le> of_int j" by linarith
      with that(2) show False by (metis not_le of_int_less_iff of_int_numeral of_int_power)
    qed
    then obtain k where k: "e - 52 = - int k" by (metis diff_le_0_iff_le nonpos_int_cases)
    then have ulp: "pow2 (e - 52) = 1 / 2 ^ k" by (simp add: pow2_def)
    have "(of_int j :: rat) / pow2 (e - 52) = of_int (j * 2 ^ k)" by (simp add: ulp)
    moreover have "round_even (of_int (j * 2 ^ k)) = j * 2 ^ k" unfolding round_even_def Let_def floor_of_int by simp
    ultimately show ?thesis by (simp add: round_positive_def e_def [symmetric] Let_def ulp)
  qed
  show ?thesis
    using pos [of i] pos [of "- i"] assms by (cases i "0 :: int" rule: linorder_cases) (auto simp: f64_of_int_def f64_round_def)
qed

lemma sint32_exact: "f64_of_int (sint (n :: int32)) = Finite (of_int (sint n))"
  using sint_greater_eq [of n] sint_less [of n] by (intro f64_of_int_exact) simp

lemma truncated_percentage:
  assumes "0 \<le> a" "a \<le> r" "0 < r" "r < 2 ^ 31"
  defines "y \<equiv> f64_round (f64_round (of_int a / of_int r) * 100)"
  shows "0 \<le> f64_truncate y" "f64_truncate y \<le> 100 * a div r" "100 * a div r \<le> f64_truncate y + 1"
    "\<not> r dvd 100 * a \<Longrightarrow> f64_truncate y = 100 * a div r"
proof -
  define q :: rat where "q = of_int a / of_int r"
  define N where "N = 100 * a div r"
  have rpos: "(0 :: rat) < of_int r" using assms by simp
  have q: "0 \<le> q" "q \<le> 1" using assms rpos by (auto simp: q_def)
  have N: "of_int N \<le> 100 * q" "100 * q + 1 / of_int r \<le> of_int N + 1"
    "\<not> r dvd 100 * a \<Longrightarrow> of_int N + 1 / of_int r \<le> 100 * q"
  proof -
    define m where "m = 100 * a mod r"
    have m: "100 * a = N * r + m" "0 \<le> m" "m < r" using assms(3) by (simp_all add: N_def m_def)
    then have "N * r \<le> 100 * a" "100 * a + 1 \<le> (N + 1) * r" by (simp_all add: algebra_simps)
    then have "(of_int (N * r) :: rat) \<le> of_int (100 * a)" "(of_int (100 * a + 1) :: rat) \<le> of_int ((N + 1) * r)"
      by (simp_all only: of_int_le_iff)
    then show "of_int N \<le> 100 * q" "100 * q + 1 / of_int r \<le> of_int N + 1"
      using rpos by (simp_all add: q_def field_simps)
    assume "\<not> r dvd 100 * a"
    then have "m \<noteq> 0" by (simp add: m_def dvd_eq_mod_eq_0)
    with m have "N * r + 1 \<le> 100 * a" by simp
    then have "(of_int (N * r + 1) :: rat) \<le> of_int (100 * a)" by (simp only: of_int_le_iff)
    then have "of_int (N * r + 1) / (of_int r :: rat) \<le> of_int (100 * a) / of_int r"
      using rpos by (simp only: divide_right_mono less_imp_le)
    then show "of_int N + 1 / of_int r \<le> 100 * q" using rpos by (simp add: q_def add_divide_distrib)
  qed
  define z where "z = f64_round q"
  define \<epsilon> :: rat where "\<epsilon> = 1 / 2 ^ 53"
  have z: "\<bar>z - q\<bar> \<le> q * \<epsilon>" using f64_round_error [of q] q by (simp add: z_def \<epsilon>_def)
  moreover have "q * \<epsilon> \<le> q" "q * \<epsilon> \<le> \<epsilon>" using q mult_left_mono [of \<epsilon> 1 q] mult_right_mono [of q 1 \<epsilon>] by (simp_all add: \<epsilon>_def)
  ultimately have z': "0 \<le> z" "z \<le> 2" "\<bar>z - q\<bar> \<le> \<epsilon>" using q by linarith+
  have "\<bar>y - z * 100\<bar> \<le> z * 100 * \<epsilon>"
    using f64_round_error [of "z * 100"] z'(1) by (simp add: y_def z_def q_def \<epsilon>_def)
  moreover have "z * 100 * \<epsilon> \<le> z * 100" "z * 100 * \<epsilon> \<le> 200 * \<epsilon>"
    using z' mult_right_mono [of z 2 "100 * \<epsilon>"] by (simp_all add: \<epsilon>_def mult_ac)
  ultimately have y: "0 \<le> y" "\<bar>y - 100 * z\<bar> \<le> 200 * \<epsilon>" by linarith+
  have "300 * \<epsilon> < 1 / of_int r"
  proof -
    have "(of_int r :: rat) < 2 ^ 31" using assms(4) by (metis of_int_less_iff of_int_numeral of_int_power)
    then have "1 / 2 ^ 31 < 1 / (of_int r :: rat)" using rpos by (simp add: field_simps)
    then show ?thesis by (simp add: \<epsilon>_def)
  qed
  note small = this
  with y(2) z'(3) N(1,2) have "y < of_int N + 1" "of_int N - 1 < y" unfolding \<epsilon>_def by linarith+
  then have "\<lfloor>y\<rfloor> \<le> N" "N \<le> \<lfloor>y\<rfloor> + 1" by linarith+
  moreover have trunc: "f64_truncate y = \<lfloor>y\<rfloor>" using y(1) by (simp add: f64_truncate_def)
  moreover have "f64_truncate y = N" if "\<not> r dvd 100 * a"
  proof -
    have "of_int N < y" using N(3) [OF that] y(2) z'(3) small unfolding \<epsilon>_def by linarith
    with calculation(1) show ?thesis unfolding trunc by linarith
  qed
  ultimately show "0 \<le> f64_truncate y" "f64_truncate y \<le> 100 * a div r" "100 * a div r \<le> f64_truncate y + 1"
    "\<not> r dvd 100 * a \<Longrightarrow> f64_truncate y = 100 * a div r"
    using y(1) by (simp_all add: N_def)
qed

text \<open>The series of the family of a name, and a series with one value that names its runner set.\<close>

definition family_series :: "metric_family list \<Rightarrow> string \<Rightarrow> kobject \<Rightarrow> metric list outcome option" where
  "family_series fs name obj = map_option (\<lambda>f. MetricsFunc f obj) (find (\<lambda>f. FamilyName f = name) fs)"

definition one_gauge :: "runnerset \<Rightarrow> float64 \<Rightarrow> metric list outcome option" where
  "one_gauge rs v = Some (Done [\<lparr>LabelKeys = [''namespace'', ''runnerset''],
     LabelValues = [Namespace (S_Meta rs), Name (S_Meta rs)], Value = v\<rparr>])"

lemma active_ratio:
  assumes "Runners (S_Spec rs) = Some n" and "active = sint (ActiveRunners (S_Status rs))" and "runners = sint (StatusRunners (S_Status rs))"
    and "0 \<le> active" "active \<le> runners" "0 < runners"
  shows "\<exists>v. active_ratio_metrics beyond rs = [unlabelled (Finite (f64_round (of_int v / 100)))] \<and>
    0 \<le> v \<and> v \<le> 100 \<and> (v = 100 * active div runners \<or> runners dvd 100 * active \<and> v = 100 * active div runners - 1)"
proof -
  note counts = assms(2,3) [symmetric]
  have exact: "f64_of_int active = Finite (of_int active)" "f64_of_int runners = Finite (of_int runners)"
    by (simp_all only: assms(2,3) sint32_exact)
  define y where "y = f64_round (f64_round (of_int active / of_int runners) * 100)"
  have "runners < 2 ^ 31" using sint_less [of "StatusRunners (S_Status rs)"] by (simp add: assms(3))
  note v = truncated_percentage [OF assms(4-6) this, folded y_def]
  have "100 * active div runners \<le> 100 * runners div runners" by (rule zdiv_mono1) (use assms in simp_all)
  with v(2) assms(6) have le: "f64_truncate y \<le> 100" by simp
  have "int_of_f64 beyond (Finite y) = word_of_int (f64_truncate y)"
    using v(1) le by (simp add: int_of_f64_def Let_def)
  moreover have "sint (word_of_int (f64_truncate y) :: int64) = f64_truncate y"
    using v(1) le by (simp add: signed_of_int signed_take_bit_int_eq_self)
  moreover have "f64_of_int (f64_truncate y) = Finite (of_int (f64_truncate y))" "f64_of_int 100 = Finite 100"
    using v(1) le f64_of_int_exact [of "f64_truncate y"] f64_of_int_exact [of 100] by simp_all
  ultimately have "active_ratio_metrics beyond rs = [unlabelled (Finite (f64_round (of_int (f64_truncate y) / 100)))]"
    using assms(1,6) by (simp add: active_ratio_metrics_def exact counts y_def Let_def)
  moreover have "f64_truncate y = 100 * active div runners \<or>
      runners dvd 100 * active \<and> f64_truncate y = 100 * active div runners - 1"
    using v(2-4) by linarith
  ultimately show ?thesis using v(1) le by blast
qed

text \<open>C39. The families of a runner set that wants a number of runners, each found under its name, show one series
  with the namespace and the name of the set.  Four of them give exactly the desired number, and the number
  of runners, of idle and of active ones in the status.  The ratio, when there are runners and no more
  active ones than that, is a whole number of hundredths from 0 to 1: the true ratio rounded down to
  hundredths, or, where the true ratio is a whole number of hundredths, possibly one hundredth less,
  because the division is not exact in binary.\<close>

theorem runnerset_gauges:
  assumes "Runners (S_Spec rs) = Some n" and "families = RunnerSetProvider_ProvideMetricFamily beyond"
  shows "distinct (map FamilyName families) \<and>
    family_series families ''spec_runners'' (ORunnerSet rs) = one_gauge rs (Finite (of_int (sint n))) \<and>
    family_series families ''status_runners'' (ORunnerSet rs) =
      one_gauge rs (Finite (of_int (sint (StatusRunners (S_Status rs))))) \<and>
    family_series families ''status_idle_runners'' (ORunnerSet rs) =
      one_gauge rs (Finite (of_int (sint (IdleRunners (S_Status rs))))) \<and>
    family_series families ''status_active_runners'' (ORunnerSet rs) =
      one_gauge rs (Finite (of_int (sint (ActiveRunners (S_Status rs))))) \<and>
    (\<forall>active runners. active = sint (ActiveRunners (S_Status rs)) \<and> runners = sint (StatusRunners (S_Status rs)) \<and>
       0 \<le> active \<and> active \<le> runners \<and> 0 < runners \<longrightarrow>
       (\<exists>v. family_series families ''runner_active_ratio'' (ORunnerSet rs) =
            one_gauge rs (Finite (f64_round (of_int v / 100))) \<and> 0 \<le> v \<and> v \<le> 100 \<and>
          (v = 100 * active div runners \<or> runners dvd 100 * active \<and> v = 100 * active div runners - 1)))"
proof -
  note defs = assms(2) RunnerSetProvider_ProvideMetricFamily_def family_series_def one_gauge_def
    RunnerSetProvider_WrapMetricsFunc_def add_labels_def unlabelled_def
  have ratio: "family_series families ''runner_active_ratio'' (ORunnerSet rs) = one_gauge rs v"
    if "active_ratio_metrics beyond rs = [unlabelled v]" for v
    using that by (simp add: defs)
  show ?thesis
  proof (intro conjI allI impI, goal_cases)
    case (6 active runners)
    then show ?case using active_ratio [OF assms(1), of active runners beyond] ratio by blast
  qed (simp_all add: defs assms(1) spec_runners_metrics_def status_count_metrics_def sint32_exact)
qed

text \<open>29 of 100 runners are shown as 28 hundredths.\<close>

definition sample_busy_set :: runnerset where
  "sample_busy_set = (sample_runnerset 100)\<lparr>S_Status := (S_Status (sample_runnerset 100))
     \<lparr>StatusRunners := 100, ActiveRunners := 29\<rparr>\<rparr>"

lemma ratio_29_of_100: "f64_truncate (f64_round (f64_round (29 / 100) * 100)) = 28"
  by code_simp

lemma runnerset_gauges_witness:
  "\<exists>v. family_series (RunnerSetProvider_ProvideMetricFamily (\<lambda>x. 0)) ''runner_active_ratio'' (ORunnerSet sample_busy_set) =
     one_gauge sample_busy_set (Finite (f64_round (of_int v / 100))) \<and> (v = 29 \<or> v = 28)"
proof -
  have n: "Runners (S_Spec sample_busy_set) = Some 100" by (simp add: sample_busy_set_def sample_runnerset_def)
  have counts: "29 = sint (ActiveRunners (S_Status sample_busy_set))" "100 = sint (StatusRunners (S_Status sample_busy_set))"
    by (simp_all add: sample_busy_set_def)
  from runnerset_gauges [OF n refl, of "\<lambda>x. 0"] counts show ?thesis by fastforce
qed

text \<open>Without runners the quotient is not a number, and what is shown depends on the implementation.\<close>

lemma ratio_without_runners:
  "Runners (S_Spec rs) = Some n \<Longrightarrow> StatusRunners (S_Status rs) = 0 \<Longrightarrow> ActiveRunners (S_Status rs) = 0 \<Longrightarrow>
    active_ratio_metrics beyond rs = [unlabelled (f64_div (f64_of_int (sint (beyond NotANumber))) (f64_of_int 100))]"
  by (simp add: active_ratio_metrics_def Let_def f64_of_int_def f64_round_def int_of_f64_def)

end
