(* ===== verification/Spec2Isabelle.thy ===== *)
theory Spec2Isabelle
  imports Runner_Lifecycle Joint_Samples Patch_Properties Webhook_Properties DeepCopy_Properties Conversion_Scheme Main_Properties
    Conversion_Properties Client_Properties Hook_Properties Server_Lifecycle Metric_Properties Github_Auth
begin

text \<open>
  \<^bold>\<open>Octorun\<close> runs GitHub Actions runners on Kubernetes.  A user declares a \<open>Runner\<close> or a \<open>RunnerSet\<close>; the
  manager (\<open>main.go\<close>) runs two controllers that bring the cluster into the declared state, admission
  webhooks that check and complete what is declared, an HTTP server that GitHub calls when a job starts,
  and a collector of metrics.  This development models all of them in Isabelle/HOL, from the Go sources,
  and proves what makes each of them correct, or in some places what makes it go wrong.

  \<^bold>\<open>How the program is modelled.\<close>  Go code that has effects is a program of type \<open>('s, 'a) prog\<close>
  (\<open>Prelude\<close>): a function from a state to an outcome and a state.  An outcome is a value or a panic; a Go
  \<open>error\<close> is a value, so that every early return is a branch.  A handler works on a state \<open>('w, 'v) st\<close>
  (\<open>Cluster\<close>) that holds the state \<open>'w\<close> of the world, the trace of the calls issued so far, and the object
  \<open>'v\<close> that the handler mutates through a pointer and that its deferred functions see.  The world is
  arbitrary: the API server behind controller-runtime's client, GitHub, the executor in the pods and the
  Kubernetes libraries are records of functions over it (\<open>cluster\<close>, \<open>action_client\<close>, \<open>remote_executor\<close>,
  \<open>library\<close>), so that a theorem holds whatever they answer.  Where a property needs their documented
  behaviour, that is a named hypothesis (\<open>aggregates\<close>, \<open>cooperates\<close>, \<open>only_finalizers\<close>, \<open>stores_runner\<close>,
  \<open>index_works\<close>, \<open>documented\<close>, ...), which the environments of \<open>Samples\<close> and of the sample theories satisfy in
  the witnesses.
  Structs are records, nil pointers \<open>None\<close>, maps are finite maps with nil apart from empty
  (\<open>gomap\<close>), \<open>int32\<close> and \<open>int64\<close> are words of that width, times are nanoseconds since Go's zero time.
  Fields that the code copies but never reads are \<open>opaque\<close>.

  \<^bold>\<open>The theories\<close>, in the order of their imports.
  \<^item> \<open>Prelude\<close>: Go values, outcomes, loops, \<open>defer\<close>, and the program logic \<open>wp\<close> with the collection
    \<open>wp_simps\<close>.  \<open>Api_Types\<close>: \<open>api/v1alpha2\<close> and the Kubernetes types it uses.  \<open>Cluster\<close>: calls,
    the client and \<open>CreateOrUpdate\<close>, and two structural logics: \<open>issues\<close> (which calls a program can issue)
    and \<open>keeps\<close> (what it leaves alone).
  \<^item> The standard library as far as it is used: \<open>Go_Strings\<close> (trimming, splitting, decimal numbers),
    \<open>Go_Time\<close> (RFC 3339, proved inverse for the years 1 to 9999), \<open>Go_Url\<close> (\<open>net/url\<close>), \<open>Go_Sort\<close> (the locale
    \<open>sort_interface\<close>: what \<open>sort.Sort\<close> and \<open>sort.Stable\<close> promise for a \<open>Less\<close> that is a weak order),
    \<open>Go_Base64\<close> (injective encoding), \<open>Go_Float\<close> (rounding to 53 bits and its error), \<open>Go_Flag\<close> (flag sets, the
    loop of \<open>Parse\<close> with its termination, and the numbers that \<open>ParseInt\<close> with base 0 reads).
  \<^item> \<open>Util\<close>: \<open>util/annotations\<close>, \<open>util/pod\<close>, \<open>util/sortable\<close>, \<open>util/remoteexec\<close>, \<open>util/util.go\<close> and
    \<open>pkg/github/errors\<close>.  \<open>Patch_Helper\<close>: \<open>util/patch\<close>, with its properties in \<open>Patch_Properties\<close>.
  \<^item> \<open>Runner_Controller\<close>: \<open>controllers/runner_controller.go\<close>; \<open>Reconcile\<close> reads the runner, runs the deletion
    or the normal branch (\<open>reconcile_deletion\<close>, \<open>reconcile_normal\<close>, \<open>reconcileStatus\<close>) and patches in a deferred
    function.  \<open>Runner_Lemmas\<close> holds what its proofs share; \<open>Runner_Deletion\<close>, \<open>Runner_Status\<close>,
    \<open>Runner_Secrets\<close> the properties of a single reconciliation: what is deleted when, a specification
    of the status by what was observed and the refinement to it, tokens, secrets and panics.
    An accepted deletion is a request that the server took, not an object that is gone, and so the
    properties speak of requests and their answers.  The status follows the code and not the flow in
    \<open>docs/concepts/runner.md\<close>, which ends differently for pending, not ready and offline runners.
    \<open>Runner_Lifecycle\<close> composes reconciliations: \<open>life\<close> is the reachability relation of any number of whole
    \<open>Reconcile\<close>s, each with its two patches of object and status, on a server that keeps the runner
    (\<open>stores_runner\<close>: either patch can be refused or meet a runner that has changed), with other requests that
    do not touch it (\<open>apart\<close>) and with what others write in between (\<open>others_write\<close>).  The result of one
    reconciliation is summed up by \<open>wrote\<close>; \<open>runner_life\<close> is the invariant.
  \<^item> \<open>Revision\<close>: \<open>pkg/revision\<close>; its \<open>Revisioner\<close> interface is the locale \<open>revisioner_interface\<close> of
    \<open>Revision_Properties\<close>.  \<open>RunnerSet_Controller\<close>: \<open>controllers/runnerset_controller.go\<close> with
    \<open>RunnerSetRevisioner\<close>, which \<open>RunnerSet_Properties\<close> shows to satisfy that interface; \<open>RunnerSet_Samples\<close>
    holds the witnesses.  \<open>RunnerSet_Fleet\<close> and \<open>RunnerSet_Life\<close> look at many reconciliations: the abstract
    \<open>fleet\<close> counts the live and the ending members of a set, \<open>fleet_step\<close> is one reconciliation of it, and
    \<open>RunnerSet_Reconcile\<close> refines that step on a server that stores runners (\<open>serves\<close>: list requests by
    labels, finalizers that delay a deletion, generated names); \<open>set_life\<close> is the reachability relation of
    reconciliations, departures, and whatever leaves the members as they are, under one spec of the set
    and one revision of the template.  A reconciliation may read the set in any version
    (\<open>same_set\<close>: spec, UID, namespace and deletion timestamp agree; \<open>reads_set\<close>), so that its own status patches do not
    end the life.  The number of live members stays between bounds, and the set converges.
  \<^item> \<open>Joint_Controllers\<close> puts \<open>Reconcile\<close> and \<open>RunnerSet_Reconcile\<close> on one store: what the former does to a runner that
    is being deleted, down to the patch that takes its finalizer off (\<open>serves_owner\<close>, \<open>json_form\<close>), is a
    departure of the fleet.  \<open>joint_life\<close> interleaves both, and \<open>reconcile_each\<close> is the queue of the runner
    controller.  Reconciliations of live runners are not steps of \<open>joint_life\<close>: the phases that they set
    decide which runners are members.  \<open>Joint_Samples\<close> has the witnesses.
  \<^item> \<open>Webhooks\<close>: \<open>webhooks/\<close>, with the regular expression of the URLs and a matcher; \<open>Webhook_Properties\<close>
    connects admission with the controllers: what they write themselves is admitted.  The webhook
    compares specs in their unstructured form, where \<open>omitempty\<close> drops nil and empty maps alike; \<open>spec_json\<close> is
    that form, following the tags of \<open>runner_types.go\<close>, and \<open>converts_specs\<close> says that the converter keeps it.
  \<^item> \<open>Conversion\<close>: \<open>api/v1alpha1\<close> with its constants and \<open>zz_generated.conversion.go\<close>; \<open>Conversion_Properties\<close>.
    \<open>Conversion_Scheme\<close>: \<open>RegisterConversions\<close> as a table of untyped functions, and the scheme builders.
  \<^item> \<open>Object_Store\<close>, \<open>DeepCopy\<close>, \<open>DeepCopy_v1alpha1\<close>, \<open>DeepCopy_Properties\<close>: \<open>zz_generated.deepcopy.go\<close> of both
    versions.  Here, and only here, objects lie in a store of cells and have pointers, slices and maps
    that can be shared.  A copier satisfies the locale \<open>deep_copier\<close> (it only allocates, and what it makes is well
    formed, has the value of the original, and depends on new cells alone); the rules \<open>pair_deep\<close>,
    \<open>pointer_deep\<close>, \<open>slice_deep\<close>, \<open>strings_deep\<close> and \<open>struct_deep\<close> build the copier of a struct from those of its
    fields, in the order of the generated code.  The \<open>_value\<close> functions map an object in the store to the record
    that the other theories work on, so that \<open>runner_copy_is_independent\<close> justifies treating API objects as
    values there.
  \<^item> \<open>Github_Client\<close>: \<open>pkg/github/client/action_client.go\<close>; \<open>Client_Properties\<close>.  \<open>Github_Auth\<close>: \<open>client.go\<close>,
    \<open>token.go\<close>, \<open>pkg/github/github.go\<close> and \<open>options.go\<close>.
  \<^item> \<open>Github_Hook\<close>: \<open>hooks/github_hook.go\<close> and \<open>pkg/github/webhook\<close>; \<open>Hook_Properties\<close>.  \<open>Server_Lifecycle\<close>:
    \<open>Start\<close> of the server as an inductive step relation of its two goroutines.
  \<^item> \<open>Metrics\<close>: \<open>metrics/\<close> and \<open>pkg/statemetrics\<close>; \<open>Metric_Properties\<close> states the contract of a provider as
    the locale \<open>metrics_provider\<close>, interpreted for both providers.
  \<^item> \<open>Remote_Exec\<close>: the executor of \<open>util/remoteexec/pod_remoteexec.go\<close>.  \<open>Main_Program\<close>: \<open>main.go\<close> and the
    \<open>SetupWithManager\<close> functions, as a program that parses the arguments, makes the manager and registers
    the parts with it; its flags come on top of those that other packages have put into
    \<open>flag.CommandLine\<close>, which is a parameter. \<open>Main_Properties\<close> compares it with a plan of ten steps (\<open>setup_plan\<close>, \<open>follow\<close>).

  \<^bold>\<open>How the parts interact.\<close>  The controllers share only the API server (\<open>Joint_Controllers\<close>).  A runner set creates runners, adopts
  orphans and deletes finished or surplus ones (\<open>findRunners\<close>, \<open>syncRunners\<close>); the runner controller gives each
  runner a secret and a pod, and asks GitHub through the client whether it is online and busy; the hook
  wakes the controller of one runner by writing an annotation; the webhooks see every write.  The
  properties follow these seams: \<open>own_patches_are_admitted\<close> and \<open>admitted_set_makes_admissible_runners\<close> between
  controllers and webhooks, \<open>client_addresses_the_owner\<close> between webhook and client, \<open>served_request_is_validated\<close>
  between server and hook, \<open>hub_roundtrip_loses_strategy\<close> between conversion and runner set controller, and
  \<open>manager_starts_complete\<close> between the flags, the server, the hook and the index that it queries.

  \<^bold>\<open>Loops.\<close>  Loops over slices are \<open>for_each\<close>.  The loop of \<open>MakeHistory\<close> that creates a revision is not
  bounded by the code; \<open>create_revision\<close> takes fuel (\<open>SR_Fuel\<close> in a reconciliation) and ends with the panic
  \<open>Unfinished\<close> without it.  One round is enough unless the name is taken by a revision with other data,
  and then no fuel is: \<open>name_collision_never_ends\<close>.

  \<^bold>\<open>Not modelled.\<close>  Log output, the signal handler, contexts and their cancellation other than in \<open>Start\<close>;
  the empty \<open>Hub\<close> methods; the mock client, which mockgen writes for the tests; \<open>RandomString\<close>, which only
  tests call.  In a deep copy the zero value that \<open>new\<close> and \<open>make\<close> put into a fresh cell is left out, since it is
  overwritten before anything reads it.  Outside of the store nil and empty slices are not told apart.  Texts
  are sequences of bytes.
\<close>

end
